(* ===== verification/Prelude.thy ===== *)
theory Prelude
  imports Main "HOL-Library.State_Monad" "HOL-Library.Word" "HOL-Library.Sublist"
begin

text \<open>
  What the components share: the type of effectful computations (a state monad over the world
  outside the controller), a weakest-precondition calculus for it, and the generic lemmas on
  lists, sums and options that the component proofs use. A computation of type \<open>('w, 'a) io\<close>
  takes the world the API servers live in and returns its result and the world it leaves behind.
  The collection \<open>wp_eqs\<close> holds the equations that push \<open>wp\<close> through a computation,
  so that \<open>simp add: wp_eqs\<close> computes the precondition of a whole handler.
\<close>

named_theorems wp_eqs "equations that compute the weakest precondition of a computation"

type_synonym ('w, 'a) io = "('w, 'a) state"

abbreviation return :: "'a \<Rightarrow> ('w, 'a) io" where
  "return \<equiv> State_Monad.return"

subsection \<open>Weakest preconditions\<close>

definition wp :: "('w, 'a) io \<Rightarrow> ('a \<Rightarrow> 'w \<Rightarrow> bool) \<Rightarrow> 'w \<Rightarrow> bool" where
  "wp m Q w = Q (fst (run_state m w)) (snd (run_state m w))"

lemma wp_return [wp_eqs]: "wp (return x) Q w = Q x w"
  by (simp add: wp_def)

lemma wp_bind [wp_eqs]: "wp (m \<bind> f) Q w = wp m (\<lambda>a. wp (f a) Q) w"
  by (simp add: wp_def split: prod.splits)

lemma wp_if [wp_eqs]: "wp (if b then m else n) Q w = (if b then wp m Q w else wp n Q w)"
  by simp

lemma wp_case_sum [wp_eqs]:
  "wp (case x of Inl e \<Rightarrow> f e | Inr a \<Rightarrow> g a) Q w =
     (case x of Inl e \<Rightarrow> wp (f e) Q w | Inr a \<Rightarrow> wp (g a) Q w)"
  by (cases x) simp_all

lemma wp_case_option [wp_eqs]:
  "wp (case x of None \<Rightarrow> m | Some a \<Rightarrow> g a) Q w =
     (case x of None \<Rightarrow> wp m Q w | Some a \<Rightarrow> wp (g a) Q w)"
  by (cases x) simp_all

lemma wp_case_prod [wp_eqs]:
  "wp (case x of (a, b) \<Rightarrow> g a b) Q w = (case x of (a, b) \<Rightarrow> wp (g a b) Q w)"
  by (cases x) simp_all

lemma wp_Let [wp_eqs]: "wp (Let x f) Q w = Let x (\<lambda>a. wp (f a) Q w)"
  by (simp add: Let_def)

lemma wp_mono: "wp m Q w \<Longrightarrow> (\<And>a w'. Q a w' \<Longrightarrow> R a w') \<Longrightarrow> wp m R w"
  by (simp add: wp_def)

lemma wp_conj: "wp m (\<lambda>a w. Q a w \<and> R a w) w = (wp m Q w \<and> wp m R w)"
  by (simp add: wp_def)

lemma wp_run: "wp m Q w \<Longrightarrow> run_state m w = (a, w') \<Longrightarrow> Q a w'"
  by (simp add: wp_def)

lemma wpI: "(\<And>a w'. run_state m w = (a, w') \<Longrightarrow> Q a w') \<Longrightarrow> wp m Q w"
  by (simp add: wp_def)

subsection \<open>Lists\<close>

lemma list_all_append_left: "list_all P (xs @ ys) \<Longrightarrow> list_all P xs"
  by simp

lemma take_append_le: "n \<le> length xs \<Longrightarrow> take n (xs @ ys) = take n xs"
  by simp

lemma find_None_iff_list_all: "List.find P xs = None \<longleftrightarrow> list_all (\<lambda>x. \<not> P x) xs"
  by (auto simp: find_None_iff list_all_iff)

end
