(* ===== verification/GoError.thy ===== *)
theory GoError
  imports Prelude
begin

text \<open>
  Go's error values as the controllers build and inspect them: \<open>errors.New\<close>,
  \<open>fmt.Errorf\<close> with and without \<open>%w\<close>, \<open>errors.Join\<close>, \<open>errors.Is\<close>, the
  errors the Oxide SDK returns (with the sentinel they match) and those the Kubernetes client
  returns (with the answer of \<open>apierrors.IsNotFound\<close>). A nil error is \<^term>\<open>None\<close>; a
  call that returns a value or an error is a sum with the error on the left.
\<close>

text \<open>The sentinels of the Oxide SDK that the controllers pass to \<open>errors.Is\<close>.\<close>

datatype sentinel = ErrObjectNotFound | ErrObjectAlreadyExists

datatype go_error =
    New string
  | OxideErr "sentinel option" string
  | K8sErr bool string
  | Wrapf string go_error
  | Join "go_error list"

fun errors_Is :: "go_error \<Rightarrow> sentinel \<Rightarrow> bool" where
  "errors_Is (New _) t = False"
| "errors_Is (OxideErr k _) t = (k = Some t)"
| "errors_Is (K8sErr _ _) t = False"
| "errors_Is (Wrapf _ e) t = errors_Is e t"
| "errors_Is (Join es) t = list_ex (\<lambda>e. errors_Is e t) es"

fun IsNotFound :: "go_error \<Rightarrow> bool" where
  "IsNotFound (New _) = False"
| "IsNotFound (OxideErr _ _) = False"
| "IsNotFound (K8sErr nf _) = nf"
| "IsNotFound (Wrapf _ e) = IsNotFound e"
| "IsNotFound (Join es) = list_ex IsNotFound es"

text \<open>\<open>errors.Join\<close> drops nil errors and is nil when all are.\<close>

definition errors_Join :: "go_error option list \<Rightarrow> go_error option" where
  "errors_Join es = (case List.map_filter id es of [] \<Rightarrow> None | xs \<Rightarrow> Some (Join xs))"

text \<open>The text of an error: \<open>fmt.Errorf("p: %w", err)\<close> puts the prefix before the cause,
  a joined error has one line per error.\<close>

fun join_lines :: "string list \<Rightarrow> string" where
  "join_lines [] = []"
| "join_lines [s] = s"
| "join_lines (s # t # ss) = s @ CHR 0x0A # join_lines (t # ss)"

fun Error :: "go_error \<Rightarrow> string" where
  "Error (New s) = s"
| "Error (OxideErr _ s) = s"
| "Error (K8sErr _ s) = s"
| "Error (Wrapf p e) = p @ '': '' @ Error e"
| "Error (Join es) = join_lines (map Error es)"

lemma errors_Join_simps [simp]:
  "errors_Join [] = None"
  "errors_Join [None, None] = None"
  "errors_Join [None, Some e] = Some (Join [e])"
  "errors_Join [Some e, None] = Some (Join [e])"
  "errors_Join [Some e, Some e'] = Some (Join [e, e'])"
  by (simp_all add: errors_Join_def List.map_filter_def)

text \<open>Joining keeps every cause visible to \<open>errors.Is\<close>.\<close>

lemma set_map_filter_id: "set (List.map_filter id xs) = {x. Some x \<in> set xs}"
  by (induction xs) (auto simp: List.map_filter_def)

lemma errors_Is_Join:
  assumes "errors_Join es = Some e"
  shows "errors_Is e t \<longleftrightarrow> (\<exists>e'. Some e' \<in> set es \<and> errors_Is e' t)"
proof -
  from assms have "e = Join (List.map_filter id es)"
    by (simp add: errors_Join_def split: list.splits)
  then show ?thesis by (auto simp: list_ex_iff set_map_filter_id)
qed

end
