(* ===== verification/GoStd.thy ===== *)
theory GoStd
  imports Prelude
begin

text \<open>
  The part of Go's standard library the controllers use, on Go's own data: a string is a list of
  bytes (\<^typ>\<open>char\<close>), \<open>int64\<close> and \<open>uint32\<close> are words of their width. It holds
  \<open>strings.HasPrefix\<close>, \<open>TrimPrefix\<close>, \<open>TrimSuffix\<close>, \<open>ToLower\<close> and \<open>ToUpper\<close>,
  the verbs \<open>%d\<close> and \<open>%x\<close> of \<open>fmt\<close>, the 32-bit FNV-1a hash and standard
  base64 encoding, each with the facts its callers need (lengths, character sets, inverses).
\<close>

unbundle bit_operations_syntax

type_synonym byte = "8 word"
type_synonym int64 = "64 word"
type_synonym uint32 = "32 word"

subsection \<open>Strings\<close>

definition HasPrefix :: "string \<Rightarrow> string \<Rightarrow> bool" where
  "HasPrefix s p = prefix p s"

definition TrimPrefix :: "string \<Rightarrow> string \<Rightarrow> string" where
  "TrimPrefix s p = (if HasPrefix s p then drop (length p) s else s)"

definition TrimSuffix :: "string \<Rightarrow> string \<Rightarrow> string" where
  "TrimSuffix s x = (if suffix x s then take (length s - length x) s else s)"

definition is_ascii :: "char \<Rightarrow> bool" where
  "is_ascii c = ((of_char c :: nat) < 128)"

definition lower_char :: "char \<Rightarrow> char" where
  "lower_char c =
     (if 65 \<le> (of_char c :: nat) \<and> (of_char c :: nat) \<le> 90
      then char_of ((of_char c :: nat) + 32) else c)"

definition upper_char :: "char \<Rightarrow> char" where
  "upper_char c =
     (if 97 \<le> (of_char c :: nat) \<and> (of_char c :: nat) \<le> 122
      then char_of ((of_char c :: nat) - 32) else c)"

text \<open>
  \<open>strings.ToLower\<close> works byte by byte on an all-ASCII string and applies the Unicode tables
  otherwise; that second branch is the parameter \<open>unicode_lower\<close>.
\<close>

definition ToLower :: "(string \<Rightarrow> string) \<Rightarrow> string \<Rightarrow> string" where
  "ToLower unicode_lower s =
     (if list_all is_ascii s then map lower_char s else unicode_lower s)"

text \<open>
  \<open>strings.ToUpper\<close> on a string of one byte: a byte beyond ASCII is invalid UTF-8 on its own
  and becomes the replacement character.
\<close>

definition ToUpper1 :: "char \<Rightarrow> string" where
  "ToUpper1 c =
     (if is_ascii c then [upper_char c] else [CHR 0xEF, CHR 0xBF, CHR 0xBD])"

lemma HasPrefix_append [simp]: "HasPrefix (p @ s) p"
  by (simp add: HasPrefix_def)

lemma TrimPrefix_append [simp]: "TrimPrefix (p @ s) p = s"
  by (simp add: TrimPrefix_def)

lemma HasPrefix_iff: "HasPrefix s p \<longleftrightarrow> s = p @ TrimPrefix s p"
  by (auto simp: TrimPrefix_def HasPrefix_def prefix_def)

lemma length_TrimSuffix_le: "length (TrimSuffix s x) \<le> length s"
  by (simp add: TrimSuffix_def)

lemma TrimSuffix_id: "\<not> suffix x s \<Longrightarrow> TrimSuffix s x = s"
  by (simp add: TrimSuffix_def)

lemma set_TrimSuffix: "set (TrimSuffix s x) \<subseteq> set s"
  by (auto simp: TrimSuffix_def dest: in_set_takeD)

lemma lower_char_id: "lower_char c = c" if "(of_char c :: nat) < 65 \<or> 90 < (of_char c :: nat)"
  using that by (auto simp: lower_char_def)

lemma length_ToLower: "list_all is_ascii s \<Longrightarrow> length (ToLower u s) = length s"
  by (simp add: ToLower_def)

subsection \<open>Numbers in base 10 and 16\<close>

definition digit_char :: "nat \<Rightarrow> char" where
  "digit_char d = ''0123456789abcdef'' ! d"

definition digit_val :: "char \<Rightarrow> nat" where
  "digit_val c = length (takeWhile (\<lambda>d. d \<noteq> c) ''0123456789abcdef'')"

fun fmt_base :: "nat \<Rightarrow> nat \<Rightarrow> string" where
  "fmt_base b n =
     (if b < 2 \<or> n < b then [digit_char n]
      else fmt_base b (n div b) @ [digit_char (n mod b)])"

declare fmt_base.simps [simp del]

definition fmt_d :: "nat \<Rightarrow> string" where
  "fmt_d n = fmt_base 10 n"

definition fmt_x :: "uint32 \<Rightarrow> string" where
  "fmt_x v = fmt_base 16 (unat v)"

definition parse_base :: "nat \<Rightarrow> string \<Rightarrow> nat" where
  "parse_base b s = foldl (\<lambda>a c. a * b + digit_val c) 0 s"

definition hex_digits :: "char set" where
  "hex_digits = set ''0123456789abcdef''"

lemma nth_index_distinct:
  "distinct xs \<Longrightarrow> n < length xs \<Longrightarrow> length (takeWhile (\<lambda>y. y \<noteq> xs ! n) xs) = n"
proof (induction xs arbitrary: n)
  case (Cons x xs)
  then show ?case by (cases n) auto
qed simp

lemma digit_val_char: "d < 16 \<Longrightarrow> digit_val (digit_char d) = d"
  unfolding digit_val_def digit_char_def by (rule nth_index_distinct) auto

lemma digit_char_in: "d < 16 \<Longrightarrow> digit_char d \<in> hex_digits"
  unfolding digit_char_def hex_digits_def by (rule nth_mem) simp

lemma fmt_base_nonempty: "fmt_base b n \<noteq> []"
  by (subst fmt_base.simps) simp

lemma fmt_base_chars: "1 < b \<Longrightarrow> b \<le> 16 \<Longrightarrow> set (fmt_base b n) \<subseteq> hex_digits"
proof (induction b n rule: fmt_base.induct)
  case (1 b n)
  show ?case
  proof (cases "n < b")
    case True
    with 1 show ?thesis by (auto simp: fmt_base.simps [of b n] digit_char_in)
  next
    case False
    with 1 have "n mod b < 16" by (meson le_trans less_le_trans mod_less_divisor not_less zero_less_one less_trans)
    with False 1 show ?thesis by (auto simp: fmt_base.simps [of b n] digit_char_in)
  qed
qed

lemma parse_fmt_base: "1 < b \<Longrightarrow> b \<le> 16 \<Longrightarrow> parse_base b (fmt_base b n) = n"
proof (induction b n rule: fmt_base.induct)
  case (1 b n)
  show ?case
  proof (cases "n < b")
    case True
    with 1 show ?thesis by (simp add: fmt_base.simps [of b n] parse_base_def digit_val_char)
  next
    case False
    with 1 have "n mod b < 16" by (meson less_le_trans mod_less_divisor less_trans zero_less_one)
    with False 1 show ?thesis
      by (simp add: fmt_base.simps [of b n] parse_base_def digit_val_char)
  qed
qed

lemma length_fmt_base: "1 < b \<Longrightarrow> n < b ^ k \<Longrightarrow> 0 < k \<Longrightarrow> length (fmt_base b n) \<le> k"
proof (induction k arbitrary: n)
  case (Suc k)
  show ?case
  proof (cases "n < b")
    case True
    then show ?thesis by (simp add: fmt_base.simps [of b n])
  next
    case False
    with Suc.prems have k: "0 < k" by (cases k) auto
    from Suc.prems have "n div b < b ^ k"
      by (simp add: less_mult_imp_div_less mult.commute)
    with Suc.IH k Suc.prems(1) have "length (fmt_base b (n div b)) \<le> k" by blast
    with False Suc.prems(1) show ?thesis by (simp add: fmt_base.simps [of b n])
  qed
qed simp

lemma fmt_d_inject: "fmt_d m = fmt_d n \<longleftrightarrow> m = n"
proof
  assume "fmt_d m = fmt_d n"
  then have "parse_base 10 (fmt_d m) = parse_base 10 (fmt_d n)" by simp
  then show "m = n" by (simp add: fmt_d_def parse_fmt_base)
qed simp

lemma length_fmt_x: "length (fmt_x v) \<le> 8"
proof -
  have "unat v < 16 ^ 8" using unsigned_less [of v, where ?'a = nat] by simp
  then show ?thesis unfolding fmt_x_def by (intro length_fmt_base) simp_all
qed

lemma fmt_x_chars: "set (fmt_x v) \<subseteq> hex_digits"
  unfolding fmt_x_def by (rule fmt_base_chars) simp_all

lemma fmt_d_chars: "set (fmt_d n) \<subseteq> hex_digits"
  unfolding fmt_d_def by (rule fmt_base_chars) simp_all

lemma fmt_x_nonempty: "fmt_x v \<noteq> []"
  by (simp add: fmt_x_def fmt_base_nonempty)

subsection \<open>FNV-1a, 32 bits (\<open>hash/fnv\<close>)\<close>

definition fnv32a :: "string \<Rightarrow> uint32" where
  "fnv32a s = foldl (\<lambda>h c. (h XOR of_char c) * 16777619) 2166136261 s"

lemma fnv32a_Nil [simp]: "fnv32a [] = 2166136261"
  by (simp add: fnv32a_def)

lemma fnv32a_snoc: "fnv32a (s @ [c]) = (fnv32a s XOR of_char c) * 16777619"
  by (simp add: fnv32a_def)

subsection \<open>Base 64 (\<open>base64.StdEncoding\<close>)\<close>

definition b64_alphabet :: string where
  "b64_alphabet =
     ''ABCDEFGHIJKLMNOPQRSTUVWXYZabcdefghijklmnopqrstuvwxyz0123456789+/''"

definition b64_char :: "nat \<Rightarrow> char" where
  "b64_char n = b64_alphabet ! n"

text \<open>Three bytes are 24 bits, read as four sextets; one or two trailing bytes are padded.\<close>

fun base64_encode :: "byte list \<Rightarrow> string" where
  "base64_encode [] = []"
| "base64_encode [a] =
     (let v = unat a * 65536
      in [b64_char (v div 262144 mod 64), b64_char (v div 4096 mod 64), CHR ''='', CHR ''=''])"
| "base64_encode [a, b] =
     (let v = unat a * 65536 + unat b * 256
      in [b64_char (v div 262144 mod 64), b64_char (v div 4096 mod 64),
          b64_char (v div 64 mod 64), CHR ''=''])"
| "base64_encode (a # b # c # bs) =
     (let v = unat a * 65536 + unat b * 256 + unat c
      in [b64_char (v div 262144 mod 64), b64_char (v div 4096 mod 64),
          b64_char (v div 64 mod 64), b64_char (v mod 64)] @ base64_encode bs)"

text \<open>A reference decoder, for the round trip.\<close>

definition b64_val :: "char \<Rightarrow> nat" where
  "b64_val c = length (takeWhile (\<lambda>d. d \<noteq> c) b64_alphabet)"

fun base64_decode :: "string \<Rightarrow> byte list option" where
  "base64_decode [] = Some []"
| "base64_decode (w # x # y # z # s) =
     (let v = b64_val w * 262144 + b64_val x * 4096 in
      if y = CHR ''='' then (if z = CHR ''='' \<and> s = [] then Some [of_nat (v div 65536)] else None)
      else if z = CHR ''='' then
        (if s = [] then Some [of_nat (v div 65536), of_nat ((v + b64_val y * 64) div 256 mod 256)]
         else None)
      else (case base64_decode s of None \<Rightarrow> None
            | Some bs \<Rightarrow> (let u = v + b64_val y * 64 + b64_val z in
                Some (of_nat (u div 65536) # of_nat (u div 256 mod 256) # of_nat (u mod 256) # bs))))"
| "base64_decode _ = None"

lemma distinct_b64_alphabet: "distinct b64_alphabet"
  by (simp add: b64_alphabet_def)

lemma length_b64_alphabet: "length b64_alphabet = 64"
  by (simp add: b64_alphabet_def)

lemma b64_val_char: "n < 64 \<Longrightarrow> b64_val (b64_char n) = n"
  unfolding b64_val_def b64_char_def
  by (rule nth_index_distinct) (simp_all add: distinct_b64_alphabet length_b64_alphabet)

lemma pad_not_in_alphabet: "CHR ''='' \<notin> set b64_alphabet"
  by (simp add: b64_alphabet_def)

lemma b64_char_not_pad: "n < 64 \<Longrightarrow> b64_char n \<noteq> CHR ''=''"
proof
  assume n: "n < 64" and "b64_char n = CHR ''=''"
  then have "CHR ''='' \<in> set b64_alphabet"
    using nth_mem [of n b64_alphabet] by (simp add: b64_char_def length_b64_alphabet)
  then show False using pad_not_in_alphabet by contradiction
qed

lemma unat_byte_less: "unat (a :: byte) < 256"
  using unsigned_less [of a, where ?'a = nat] by simp

lemma four_digits:
  fixes v :: nat
  assumes "p * 64 + a = v" "q * 64 + b = p" "r * 64 + c = q"
  shows "r * 262144 + c * 4096 + b * 64 + a = v"
  using assms by auto

lemma sextets:
  fixes v :: nat
  assumes "v < 16777216"
  shows "v div 262144 mod 64 * 262144 + v div 4096 mod 64 * 4096 + v div 64 mod 64 * 64 + v mod 64 = v"
proof -
  have "v div 4096 = v div 64 div 64" "v div 262144 mod 64 = v div 64 div 64 div 64"
    using assms by (simp_all add: div_mult2_eq [symmetric])
  then show ?thesis
    using four_digits [OF div_mult_mod_eq div_mult_mod_eq div_mult_mod_eq] by presburger
qed

lemma bytes_of_triple:
  fixes a b c v :: nat
  assumes "v = a * 65536 + b * 256 + c" "a < 256" "b < 256" "c < 256"
  shows "v < 16777216" "v div 65536 = a" "v div 256 mod 256 = b" "v mod 256 = c"
proof -
  show "v < 16777216" using assms by linarith
  have e: "v = (a * 256 + b) * 256 + c" using assms(1) by simp
  then have d: "v div 256 = a * 256 + b" using assms(4) by simp
  show "v mod 256 = c" unfolding e using assms(4) by (simp only: mod_mult_self3 mod_less)
  from d show "v div 256 mod 256 = b" using assms(3) by (simp only: mod_mult_self3 mod_less)
  have "v div 65536 = v div 256 div 256" by (simp add: div_mult2_eq [symmetric])
  also have "\<dots> = a" unfolding d using assms(3) by simp
  finally show "v div 65536 = a" .
qed

text \<open>Bytes that are zero leave their sextets zero.\<close>

lemma low_sextets:
  fixes a b v :: nat
  shows "v = a * 65536 \<Longrightarrow> v div 64 mod 64 = 0 \<and> v mod 64 = 0"
    and "v = a * 65536 + b * 256 \<Longrightarrow> v mod 64 = 0"
  by (auto simp: mod_eq_0_iff_dvd intro!: dvd_add dvd_mult)

text \<open>What the decoder makes of one quad, for each of the three ways a quad can end.\<close>

lemma decode_quad:
  assumes "w < 64" "x < 64" "y < 64" "z < 64"
  shows "base64_decode [b64_char w, b64_char x, CHR ''='', CHR ''=''] =
      Some [of_nat ((w * 262144 + x * 4096) div 65536)]"
    and "base64_decode [b64_char w, b64_char x, b64_char y, CHR ''=''] =
      (let v = w * 262144 + x * 4096 + y * 64
       in Some [of_nat ((w * 262144 + x * 4096) div 65536), of_nat (v div 256 mod 256)])"
    and "base64_decode ([b64_char w, b64_char x, b64_char y, b64_char z] @ s) =
      (let v = w * 262144 + x * 4096 + y * 64 + z
       in map_option (\<lambda>bs. of_nat (v div 65536) # of_nat (v div 256 mod 256) # of_nat (v mod 256) # bs)
            (base64_decode s))"
  using assms by (simp_all add: b64_val_char b64_char_not_pad Let_def split: option.split)

lemma base64_decode_encode: "base64_decode (base64_encode bs) = Some bs"
proof (induction bs rule: base64_encode.induct)
  case (2 a)
  define v where "v = unat a * 65536"
  note t = bytes_of_triple [of v "unat a" 0 0] and l = low_sextets(1) [OF v_def]
  have b: "v < 16777216" "v div 65536 = unat a" using t(1,2) unat_byte_less by (simp_all add: v_def)
  moreover have "v div 262144 mod 64 * 262144 + v div 4096 mod 64 * 4096 = v"
    using sextets [OF b(1)] l by (simp only: mult_0 add_0_right conj_absorb)
  ultimately show ?case
    unfolding base64_encode.simps Let_def v_def [symmetric]
    by (subst decode_quad(1) [where y = 0 and z = 0])
      (simp_all only: mod_less_divisor of_nat_unat ucast_id zero_less_numeral)
next
  case (3 a b)
  define v where "v = unat a * 65536 + unat b * 256"
  define w where "w = v div 262144 mod 64 * 262144 + v div 4096 mod 64 * 4096"
  note t = bytes_of_triple [of v "unat a" "unat b" 0] and l = low_sextets(2) [OF v_def]
  have v: "v < 16777216" "v div 65536 = unat a" "v div 256 mod 256 = unat b"
    using t(1-3) unat_byte_less by (simp_all add: v_def)
  with l have e: "w + v div 64 mod 64 * 64 = v"
    using sextets [OF v(1)] unfolding w_def by simp
  have "w div 65536 = v div 65536"
  proof -
    have "w mod 4096 = 0" unfolding w_def by (auto simp: mod_eq_0_iff_dvd intro!: dvd_add dvd_mult)
    moreover define r where "r = v div 64 mod 64 * 64"
    moreover have "r < 4096" unfolding r_def using mod_less_divisor [of 64 "v div 64"] by simp
    ultimately have "w div 4096 = v div 4096"
      using div_add1_eq [of w r 4096] e by simp
    then show ?thesis using div_mult2_eq [of w 4096 16] div_mult2_eq [of v 4096 16] by simp
  qed
  with v e show ?case
    unfolding base64_encode.simps Let_def v_def [symmetric]
    by (subst decode_quad(2) [where z = 0])
      (simp_all only: Let_def mod_less_divisor of_nat_unat ucast_id zero_less_numeral w_def [symmetric])
next
  case (4 a b c bs)
  define v where "v = unat a * 65536 + unat b * 256 + unat c"
  note t = bytes_of_triple [OF v_def unat_byte_less unat_byte_less unat_byte_less]
  from 4 t sextets [OF t(1)] show ?case
    unfolding base64_encode.simps Let_def v_def [symmetric]
    by (subst decode_quad(3))
      (simp_all only: Let_def mod_less_divisor of_nat_unat ucast_id zero_less_numeral option.map)
qed simp

lemma length_base64_encode: "length (base64_encode bs) = 4 * ((length bs + 2) div 3)"
proof (induction bs rule: base64_encode.induct)
  case (4 a b c bs)
  have "(length bs + 2 + 3) div 3 = (length bs + 2) div 3 + 1" by simp
  then show ?case using 4 by (simp add: Let_def add.commute)
qed (simp_all add: Let_def)

end
