(* ===== verification/ApiTypes.thy ===== *)
theory ApiTypes
  imports GoError GoStd
begin

text \<open>
  The objects the controllers read and write. First the fields the source uses of the Kubernetes
  and Cluster API types (object metadata, conditions, \<open>Machine\<close>, \<open>Cluster\<close>,
  \<open>Secret\<close>), then the provider's own API group \<open>v1alpha1\<close>: \<open>OxideCluster\<close>,
  \<open>OxideMachine\<close>, \<open>OxideMachineTemplate\<close> and the constants of
  \<open>api/v1alpha1/condition.go\<close>. A pointer field is an option, a Go map a partial function.
  The assignments the controllers make to nested fields are named setters; their \<open>[simp]\<close>
  equations say which fields an assignment leaves alone. The accessors \<open>GetConditions\<close> and
  \<open>SetConditions\<close> of the two kinds are an instance of the locale \<open>conditions_Setter\<close>, the
  interface the condition helpers of Cluster API work through.
\<close>

subsection \<open>Kubernetes and Cluster API objects\<close>

type_synonym time = int

record OwnerReference =
  OwnerAPIVersion :: string
  OwnerKind :: string
  OwnerName :: string
  OwnerUID :: string

record ObjectMeta =
  ObjName :: string
  ObjNamespace :: string
  Labels :: "string \<rightharpoonup> string"
  DeletionTimestamp :: "time option"
  Finalizers :: "string list"
  OwnerReferences :: "OwnerReference list"

text \<open>\<open>(*metav1.Time).IsZero\<close>: a nil pointer and the zero time are both zero.\<close>

definition IsZero :: "time option \<Rightarrow> bool" where
  "IsZero t = (case t of None \<Rightarrow> True | Some s \<Rightarrow> s = 0)"

lemma IsZero_simps [simp]: "IsZero None" "IsZero (Some s) \<longleftrightarrow> s = 0"
  by (simp_all add: IsZero_def)

datatype ConditionStatus = ConditionTrue | ConditionFalse | ConditionUnknown

record Condition =
  CondType :: string
  CondStatus :: ConditionStatus
  CondReason :: string

record Machine =
  MachineMeta :: ObjectMeta
  DataSecretName :: "string option"

record Cluster =
  ClusterMeta :: ObjectMeta
  ClusterPaused :: "bool option"

record Secret =
  SecretData :: "string \<rightharpoonup> byte list"

record APIEndpoint =
  Host :: string
  Port :: "32 word"

datatype MachineAddressType = MachineInternalIP | MachineExternalIP

record MachineAddress =
  AddressType :: MachineAddressType
  Address :: string

record ObjectKey =
  KeyNamespace :: string
  KeyName :: string

text \<open>A \<open>resource.Quantity\<close> in its textual form, such as \<open>8Gi\<close>.\<close>

type_synonym Quantity = string

text \<open>Constants of the Cluster API package.\<close>

definition ReadyCondition :: string where
  "ReadyCondition = ''Ready''"

definition WaitingForBootstrapDataReason :: string where
  "WaitingForBootstrapDataReason = ''WaitingForBootstrapData''"

definition ClusterNameLabel :: string where
  "ClusterNameLabel = ''cluster.x-k8s.io/cluster-name''"

definition MachineControlPlaneLabel :: string where
  "MachineControlPlaneLabel = ''cluster.x-k8s.io/control-plane''"

subsection \<open>Reasons and condition types\<close>

definition ReasonInstanceDeleted :: string where
  "ReasonInstanceDeleted = ''InstanceDeleted''"

definition ReasonInstanceUnknown :: string where
  "ReasonInstanceUnknown = ''InstanceUnknown''"

definition FloatingIPAttachedCondition :: string where
  "FloatingIPAttachedCondition = ''FloatingIPAttached''"

definition ReasonFloatingIPProvisioned :: string where
  "ReasonFloatingIPProvisioned = ''FloatingIPProvisioned''"

definition ReasonFloatingIPAttached :: string where
  "ReasonFloatingIPAttached = ''FloatingIPAttached''"

definition ReasonWaitingForControlPlaneMachine :: string where
  "ReasonWaitingForControlPlaneMachine = ''WaitingForControlPlaneMachine''"

lemma ready_not_attached [simp]:
  "ReadyCondition \<noteq> FloatingIPAttachedCondition"
  "FloatingIPAttachedCondition \<noteq> ReadyCondition"
  by (simp_all add: ReadyCondition_def FloatingIPAttachedCondition_def)

subsection \<open>OxideCluster\<close>

definition ClusterFinalizer :: string where
  "ClusterFinalizer = ''infrastructure.cluster.x-k8s.io/oxidecluster''"

record SecretReference =
  RefName :: string
  RefNamespace :: string

record OxideClusterSpec =
  Project :: string
  VPC :: string
  Subnet :: string
  CredentialsRef :: SecretReference
  ControlPlaneEndpoint :: APIEndpoint
  ClusterIPPool :: string
  IPType :: string

record OxideClusterInitializationStatus =
  ClusterProvisioned :: "bool option"

record OxideClusterStatus =
  ClusterConditions :: "Condition list"
  ClusterInitialization :: OxideClusterInitializationStatus

record OxideCluster =
  oc_Meta :: ObjectMeta
  oc_Spec :: OxideClusterSpec
  oc_Status :: OxideClusterStatus

definition oc_GetConditions :: "OxideCluster \<Rightarrow> Condition list" where
  "oc_GetConditions c = ClusterConditions (oc_Status c)"

definition oc_SetConditions :: "OxideCluster \<Rightarrow> Condition list \<Rightarrow> OxideCluster" where
  "oc_SetConditions c cs = c\<lparr>oc_Status := (oc_Status c)\<lparr>ClusterConditions := cs\<rparr>\<rparr>"

subsection \<open>OxideMachine\<close>

definition MachineFinalizer :: string where
  "MachineFinalizer = ''infrastructure.cluster.x-k8s.io/oxidemachine''"

record DataDisk =
  DataDiskSize :: Quantity
  DataDiskBlockSize :: int64

record OxideMachineSpec =
  ProviderID :: string
  NCpus :: int64
  Memory :: Quantity
  DiskSize :: Quantity
  ImageID :: string
  AntiAffinityGroups :: "string list"
  SSHPublicKeys :: "string list"
  MachineIPPool :: string
  DataDisks :: "DataDisk list"

record OxideMachineInitializationStatus =
  MachineProvisioned :: "bool option"

record OxideMachineStatus =
  MachineInitialization :: OxideMachineInitializationStatus
  MachineConditions :: "Condition list"
  Addresses :: "MachineAddress list"

record OxideMachine =
  om_Meta :: ObjectMeta
  om_Spec :: OxideMachineSpec
  om_Status :: OxideMachineStatus

definition om_GetConditions :: "OxideMachine \<Rightarrow> Condition list" where
  "om_GetConditions m = MachineConditions (om_Status m)"

definition om_SetConditions :: "OxideMachine \<Rightarrow> Condition list \<Rightarrow> OxideMachine" where
  "om_SetConditions m cs = m\<lparr>om_Status := (om_Status m)\<lparr>MachineConditions := cs\<rparr>\<rparr>"

subsection \<open>OxideMachineTemplate\<close>

record OxideMachineTemplateResource =
  TemplateLabels :: "string \<rightharpoonup> string"
  TemplateAnnotations :: "string \<rightharpoonup> string"
  TemplateMachineSpec :: OxideMachineSpec

record OxideMachineTemplateSpec =
  TemplateResource :: OxideMachineTemplateResource

record OxideMachineTemplate =
  omt_Meta :: ObjectMeta
  omt_Spec :: OxideMachineTemplateSpec

subsection \<open>Assignments to nested fields\<close>

definition set_ProviderID :: "string \<Rightarrow> OxideMachine \<Rightarrow> OxideMachine" where
  "set_ProviderID p m = m\<lparr>om_Spec := (om_Spec m)\<lparr>ProviderID := p\<rparr>\<rparr>"

definition set_om_Provisioned :: "bool option \<Rightarrow> OxideMachine \<Rightarrow> OxideMachine" where
  "set_om_Provisioned b m =
     m\<lparr>om_Status := (om_Status m)\<lparr>MachineInitialization :=
         (MachineInitialization (om_Status m))\<lparr>MachineProvisioned := b\<rparr>\<rparr>\<rparr>"

definition set_Addresses :: "MachineAddress list \<Rightarrow> OxideMachine \<Rightarrow> OxideMachine" where
  "set_Addresses as m = m\<lparr>om_Status := (om_Status m)\<lparr>Addresses := as\<rparr>\<rparr>"

definition set_oc_Provisioned :: "bool option \<Rightarrow> OxideCluster \<Rightarrow> OxideCluster" where
  "set_oc_Provisioned b c =
     c\<lparr>oc_Status := (oc_Status c)\<lparr>ClusterInitialization :=
         (ClusterInitialization (oc_Status c))\<lparr>ClusterProvisioned := b\<rparr>\<rparr>\<rparr>"

definition set_Endpoint :: "APIEndpoint \<Rightarrow> OxideCluster \<Rightarrow> OxideCluster" where
  "set_Endpoint e c = c\<lparr>oc_Spec := (oc_Spec c)\<lparr>ControlPlaneEndpoint := e\<rparr>\<rparr>"

lemma set_ProviderID_simps [simp]:
  "om_Meta (set_ProviderID p m) = om_Meta m"
  "om_Status (set_ProviderID p m) = om_Status m"
  "om_Spec (set_ProviderID p m) = (om_Spec m)\<lparr>ProviderID := p\<rparr>"
  by (simp_all add: set_ProviderID_def)

lemma set_om_Provisioned_simps [simp]:
  "om_Meta (set_om_Provisioned b m) = om_Meta m"
  "om_Spec (set_om_Provisioned b m) = om_Spec m"
  "MachineProvisioned (MachineInitialization (om_Status (set_om_Provisioned b m))) = b"
  "Addresses (om_Status (set_om_Provisioned b m)) = Addresses (om_Status m)"
  by (simp_all add: set_om_Provisioned_def)

lemma set_Addresses_simps [simp]:
  "om_Meta (set_Addresses as m) = om_Meta m"
  "om_Spec (set_Addresses as m) = om_Spec m"
  "MachineInitialization (om_Status (set_Addresses as m)) = MachineInitialization (om_Status m)"
  "Addresses (om_Status (set_Addresses as m)) = as"
  by (simp_all add: set_Addresses_def)

lemma set_oc_Provisioned_simps [simp]:
  "oc_Meta (set_oc_Provisioned b c) = oc_Meta c"
  "oc_Spec (set_oc_Provisioned b c) = oc_Spec c"
  "ClusterProvisioned (ClusterInitialization (oc_Status (set_oc_Provisioned b c))) = b"
  by (simp_all add: set_oc_Provisioned_def)

lemma set_Endpoint_simps [simp]:
  "oc_Meta (set_Endpoint e c) = oc_Meta c"
  "oc_Status (set_Endpoint e c) = oc_Status c"
  "oc_Spec (set_Endpoint e c) = (oc_Spec c)\<lparr>ControlPlaneEndpoint := e\<rparr>"
  by (simp_all add: set_Endpoint_def)

subsection \<open>The condition helpers' interface\<close>

definition find_cond :: "Condition list \<Rightarrow> string \<Rightarrow> Condition option" where
  "find_cond cs t = List.find (\<lambda>c. CondType c = t) cs"

text \<open>
  What \<open>conditions.Set\<close> promises of the list it stores: the condition of that type is the new
  one, those of the other types are untouched.
\<close>

definition upsert_ok :: "(Condition list \<Rightarrow> Condition \<Rightarrow> Condition list) \<Rightarrow> bool" where
  "upsert_ok up \<longleftrightarrow>
     (\<forall>cs c t. find_cond (up cs c) t = (if t = CondType c then Some c else find_cond cs t))"

locale conditions_Setter =
  fixes getc :: "'o \<Rightarrow> Condition list"
    and setc :: "'o \<Rightarrow> Condition list \<Rightarrow> 'o"
  assumes getc_setc: "getc (setc x cs) = cs"
    and setc_setc: "setc (setc x cs) ds = setc x ds"
    and setc_getc: "setc x (getc x) = x"
begin

lemma find_after_set:
  assumes "upsert_ok up"
  shows "find_cond (getc (setc x (up (getc x) c))) t =
     (if t = CondType c then Some c else find_cond (getc x) t)"
  using assms by (simp add: upsert_ok_def getc_setc)

lemma set_twice_same_type:
  assumes "upsert_ok up" and "CondType c = CondType d"
  shows "find_cond (getc (setc (setc x (up (getc x) c))
             (up (getc (setc x (up (getc x) c))) d))) t =
     (if t = CondType d then Some d else find_cond (getc x) t)"
  using assms by (simp add: upsert_ok_def getc_setc)

end

interpretation om_conditions: conditions_Setter om_GetConditions om_SetConditions
  by unfold_locales (simp_all add: om_GetConditions_def om_SetConditions_def)

interpretation oc_conditions: conditions_Setter oc_GetConditions oc_SetConditions
  by unfold_locales (simp_all add: oc_GetConditions_def oc_SetConditions_def)

lemma om_SetConditions_frame [simp]:
  "om_Meta (om_SetConditions m cs) = om_Meta m"
  "om_Spec (om_SetConditions m cs) = om_Spec m"
  "Addresses (om_Status (om_SetConditions m cs)) = Addresses (om_Status m)"
  "MachineInitialization (om_Status (om_SetConditions m cs)) = MachineInitialization (om_Status m)"
  by (simp_all add: om_SetConditions_def)

lemma oc_SetConditions_frame [simp]:
  "oc_Meta (oc_SetConditions c cs) = oc_Meta c"
  "oc_Spec (oc_SetConditions c cs) = oc_Spec c"
  "ClusterInitialization (oc_Status (oc_SetConditions c cs)) = ClusterInitialization (oc_Status c)"
  by (simp_all add: oc_SetConditions_def)

lemma GetConditions_frame [simp]:
  "om_GetConditions (set_ProviderID p m) = om_GetConditions m"
  "om_GetConditions (set_om_Provisioned b m) = om_GetConditions m"
  "om_GetConditions (set_Addresses as m) = om_GetConditions m"
  "oc_GetConditions (set_oc_Provisioned b c) = oc_GetConditions c"
  "oc_GetConditions (set_Endpoint e c) = oc_GetConditions c"
  by (simp_all add: om_GetConditions_def oc_GetConditions_def set_om_Provisioned_def
      set_Addresses_def set_oc_Provisioned_def)

end
