(* ===== verification/OxideApi.thy ===== *)
theory OxideApi
  imports ApiTypes
begin

text \<open>
  The Oxide API as the controllers see it: the SDK types the source builds and reads, and the
  interface \<open>cloud.OxideClient\<close> of \<open>internal/cloud/oxide.go\<close> as a record with one
  operation per method. An operation is a computation over a world \<open>'w\<close> that the client
  knows and the controllers do not, and returns an error or a value: the SDK's contract that a nil
  error comes with a non-nil result. Nothing is assumed of what the operations do. \<open>log_client\<close>
  wraps a client so that every call is recorded with its parameters and its answer, in call order;
  safety properties are stated on these logs.
\<close>

subsection \<open>SDK types\<close>

type_synonym NameOrId = string

datatype InstanceState =
    InstanceStateRunning
  | InstanceStateStopped
  | InstanceStateFailed
  | InstanceStateOther string

record Instance =
  InstanceId :: string
  InstanceName :: string
  RunState :: InstanceState

datatype DiskStateState =
    DiskStateStateDetached
  | DiskStateStateFaulted
  | DiskStateStateOther string

record Disk =
  DiskId :: string
  DiskState :: DiskStateState

record FloatingIp =
  FipId :: string
  FipIp :: string
  FipInstanceId :: string

datatype PoolSelector = PoolSelectorExplicit NameOrId | PoolSelectorAuto string

datatype AddressAllocator = AddressAllocatorExplicit string | AddressAllocatorAuto PoolSelector

datatype ExternalIpCreate = ExternalIpCreateEphemeral PoolSelector

datatype DiskSource = DiskSourceImage string | DiskSourceBlank int

datatype DiskBackend = DiskBackendDistributed DiskSource

record InstanceDiskAttachmentCreate =
  DiskCreateName :: string
  DiskCreateSize :: int
  DiskCreateBackend :: DiskBackend

record InstanceNetworkInterfaceCreate =
  NicName :: string
  NicVpcName :: string
  NicSubnetName :: string

text \<open>The stack of a NIC; \<open>OtherIpStack\<close> is any other variant, with its Go type name.\<close>

datatype PrivateIpStack =
    PrivateIpStackV4 string
  | PrivateIpStackV6 string
  | PrivateIpStackDualStack string string
  | OtherIpStack string

record InstanceNetworkInterface =
  NicId :: string
  IpStack :: PrivateIpStack

datatype ExternalIp = ExternalIpEphemeral string | OtherExternalIp string

subsection \<open>Parameters\<close>

text \<open>The parameters of the calls that name a resource within a project.\<close>

record ProjectResource =
  ParamProject :: NameOrId
  ParamResource :: NameOrId

record FloatingIpCreateParams =
  FipCreateProject :: NameOrId
  FipCreateName :: string
  FipCreateAllocator :: AddressAllocator

datatype FloatingIpParentKind = FloatingIpParentKindInstance

record FloatingIpAttachParams =
  AttachFloatingIp :: NameOrId
  AttachKind :: FloatingIpParentKind
  AttachParent :: NameOrId

abbreviation attach_params :: "NameOrId \<Rightarrow> NameOrId \<Rightarrow> FloatingIpAttachParams" where
  "attach_params ip parent \<equiv>
     \<lparr>AttachFloatingIp = ip, AttachKind = FloatingIpParentKindInstance, AttachParent = parent\<rparr>"

record InstanceCreateParams =
  CreateProject :: NameOrId
  CreateName :: string
  CreateHostname :: string
  CreateNcpus :: int
  CreateMemory :: int
  CreateStart :: bool
  CreateAntiAffinityGroups :: "NameOrId list"
  CreateSshPublicKeys :: "NameOrId list"
  CreateUserData :: string
  CreateBootDisk :: InstanceDiskAttachmentCreate
  CreateDisks :: "InstanceDiskAttachmentCreate list"
  CreateNetworkInterfaces :: "InstanceNetworkInterfaceCreate list"
  CreateExternalIps :: "ExternalIpCreate list"

subsection \<open>The client interface\<close>

record 'w OxideClient =
  FloatingIpCreate :: "FloatingIpCreateParams \<Rightarrow> ('w, go_error + FloatingIp) io"
  FloatingIpView :: "ProjectResource \<Rightarrow> ('w, go_error + FloatingIp) io"
  FloatingIpAttach :: "FloatingIpAttachParams \<Rightarrow> ('w, go_error + FloatingIp) io"
  FloatingIpDetach :: "NameOrId \<Rightarrow> ('w, go_error + FloatingIp) io"
  FloatingIpDelete :: "ProjectResource \<Rightarrow> ('w, go_error option) io"
  InstanceCreate :: "InstanceCreateParams \<Rightarrow> ('w, go_error + Instance) io"
  InstanceView :: "ProjectResource \<Rightarrow> ('w, go_error + Instance) io"
  InstanceStart :: "NameOrId \<Rightarrow> ('w, go_error + Instance) io"
  InstanceStop :: "ProjectResource \<Rightarrow> ('w, go_error + Instance) io"
  InstanceDelete :: "ProjectResource \<Rightarrow> ('w, go_error option) io"
  InstanceNetworkInterfaceListAllPages ::
    "NameOrId \<Rightarrow> ('w, go_error + InstanceNetworkInterface list) io"
  InstanceExternalIpList :: "NameOrId \<Rightarrow> ('w, go_error + ExternalIp list) io"
  DiskView :: "ProjectResource \<Rightarrow> ('w, go_error + Disk) io"
  DiskDelete :: "ProjectResource \<Rightarrow> ('w, go_error option) io"

subsection \<open>Logging the calls\<close>

text \<open>
  An event is a call with its parameters and its answer. The listing event is the cluster controller's
  read of its control plane machines, the snapshot events are the patch helpers
  being built from the object as it was read (with whether that succeeded), the patch events the
  writes back.
\<close>

datatype event =
    EvFloatingIpCreate FloatingIpCreateParams "go_error + FloatingIp"
  | EvFloatingIpView ProjectResource "go_error + FloatingIp"
  | EvFloatingIpAttach FloatingIpAttachParams "go_error + FloatingIp"
  | EvFloatingIpDetach NameOrId "go_error + FloatingIp"
  | EvFloatingIpDelete ProjectResource "go_error option"
  | EvInstanceCreate InstanceCreateParams "go_error + Instance"
  | EvInstanceView ProjectResource "go_error + Instance"
  | EvInstanceStart NameOrId "go_error + Instance"
  | EvInstanceStop ProjectResource "go_error + Instance"
  | EvInstanceDelete ProjectResource "go_error option"
  | EvNicList NameOrId "go_error + InstanceNetworkInterface list"
  | EvExternalIpList NameOrId "go_error + ExternalIp list"
  | EvDiskView ProjectResource "go_error + Disk"
  | EvDiskDelete ProjectResource "go_error option"
  | EvListMachines "go_error + OxideMachine list"
  | EvSnapshotMachine OxideMachine bool
  | EvSnapshotCluster OxideCluster bool
  | EvPatchMachine OxideMachine "go_error option"
  | EvPatchCluster OxideCluster "go_error option"

type_synonym 'w logged = "'w \<times> event list"

definition logged :: "('r \<Rightarrow> event) \<Rightarrow> ('w, 'r) io \<Rightarrow> ('w logged, 'r) io" where
  "logged ev m = State (\<lambda>(w, tr).
     let (r, w') = run_state m w in (r, (w', tr @ [ev r])))"

text \<open>A computation that makes no call of interest runs under the log without a trace.\<close>

definition silent :: "('w, 'r) io \<Rightarrow> ('w logged, 'r) io" where
  "silent m = State (\<lambda>(w, tr). let (r, w') = run_state m w in (r, (w', tr)))"

definition log_client :: "'w OxideClient \<Rightarrow> 'w logged OxideClient" where
  "log_client c =
     \<lparr>FloatingIpCreate = (\<lambda>p. logged (EvFloatingIpCreate p) (FloatingIpCreate c p)),
      FloatingIpView = (\<lambda>p. logged (EvFloatingIpView p) (FloatingIpView c p)),
      FloatingIpAttach = (\<lambda>p. logged (EvFloatingIpAttach p) (FloatingIpAttach c p)),
      FloatingIpDetach = (\<lambda>p. logged (EvFloatingIpDetach p) (FloatingIpDetach c p)),
      FloatingIpDelete = (\<lambda>p. logged (EvFloatingIpDelete p) (FloatingIpDelete c p)),
      InstanceCreate = (\<lambda>p. logged (EvInstanceCreate p) (InstanceCreate c p)),
      InstanceView = (\<lambda>p. logged (EvInstanceView p) (InstanceView c p)),
      InstanceStart = (\<lambda>p. logged (EvInstanceStart p) (InstanceStart c p)),
      InstanceStop = (\<lambda>p. logged (EvInstanceStop p) (InstanceStop c p)),
      InstanceDelete = (\<lambda>p. logged (EvInstanceDelete p) (InstanceDelete c p)),
      InstanceNetworkInterfaceListAllPages =
        (\<lambda>p. logged (EvNicList p) (InstanceNetworkInterfaceListAllPages c p)),
      InstanceExternalIpList = (\<lambda>p. logged (EvExternalIpList p) (InstanceExternalIpList c p)),
      DiskView = (\<lambda>p. logged (EvDiskView p) (DiskView c p)),
      DiskDelete = (\<lambda>p. logged (EvDiskDelete p) (DiskDelete c p))\<rparr>"

lemma log_client_simps [simp]:
  "FloatingIpCreate (log_client c) fc = logged (EvFloatingIpCreate fc) (FloatingIpCreate c fc)"
  "FloatingIpView (log_client c) p = logged (EvFloatingIpView p) (FloatingIpView c p)"
  "FloatingIpAttach (log_client c) a = logged (EvFloatingIpAttach a) (FloatingIpAttach c a)"
  "FloatingIpDetach (log_client c) n = logged (EvFloatingIpDetach n) (FloatingIpDetach c n)"
  "FloatingIpDelete (log_client c) p = logged (EvFloatingIpDelete p) (FloatingIpDelete c p)"
  "InstanceCreate (log_client c) ic = logged (EvInstanceCreate ic) (InstanceCreate c ic)"
  "InstanceView (log_client c) p = logged (EvInstanceView p) (InstanceView c p)"
  "InstanceStart (log_client c) n = logged (EvInstanceStart n) (InstanceStart c n)"
  "InstanceStop (log_client c) p = logged (EvInstanceStop p) (InstanceStop c p)"
  "InstanceDelete (log_client c) p = logged (EvInstanceDelete p) (InstanceDelete c p)"
  "InstanceNetworkInterfaceListAllPages (log_client c) n =
     logged (EvNicList n) (InstanceNetworkInterfaceListAllPages c n)"
  "InstanceExternalIpList (log_client c) n = logged (EvExternalIpList n) (InstanceExternalIpList c n)"
  "DiskView (log_client c) p = logged (EvDiskView p) (DiskView c p)"
  "DiskDelete (log_client c) p = logged (EvDiskDelete p) (DiskDelete c p)"
  by (simp_all add: log_client_def)

text \<open>
  Nothing is known of an answer, so a postcondition of a logged call has to hold for every answer,
  with the call appended to the log.
\<close>

lemma run_logged:
  "run_state (logged ev m) (w, tr) =
     (fst (run_state m w), (snd (run_state m w), tr @ [ev (fst (run_state m w))]))"
  by (simp add: logged_def split: prod.splits)

lemma run_silent:
  "run_state (silent m) (w, tr) = (fst (run_state m w), (snd (run_state m w), tr))"
  by (simp add: silent_def split: prod.splits)

subsection \<open>What a computation can do: its results with the calls it makes\<close>

text \<open>
  \<open>emits m R\<close>: whatever the world answers, \<open>m\<close> only appends to the log, and its result
  and the calls it appends are related by \<open>R\<close>. The rules below compute the condition for a
  whole handler; the collection \<open>emits_rules\<close> is meant for \<open>intro!\<close>.
\<close>

named_theorems emits_rules "introduction rules for what a computation can do"

definition emits :: "('w logged, 'a) io \<Rightarrow> ('a \<Rightarrow> event list \<Rightarrow> bool) \<Rightarrow> bool" where
  "emits m R \<longleftrightarrow>
     (\<forall>w tr. wp m (\<lambda>a s. \<exists>evs. snd s = tr @ evs \<and> R a evs) (w, tr))"

lemma emits_return [emits_rules]: "R x [] \<Longrightarrow> emits (return x) R"
  by (simp add: emits_def wp_return)

lemma emits_logged [emits_rules]: "(\<And>r. R r [ev r]) \<Longrightarrow> emits (logged ev m) R"
  by (simp add: emits_def wp_def run_logged)

lemma emits_silent [emits_rules]: "(\<And>r. R r []) \<Longrightarrow> emits (silent m) R"
  by (simp add: emits_def wp_def run_silent)

text \<open>Where something is known of an answer, it can be used.\<close>

lemma emits_silent_known:
  "(\<And>w. S (fst (run_state m w))) \<Longrightarrow> (\<And>r. S r \<Longrightarrow> R r []) \<Longrightarrow> emits (silent m) R"
  by (simp add: emits_def wp_def run_silent)

lemma emits_mono: "emits m R \<Longrightarrow> (\<And>a evs. R a evs \<Longrightarrow> S a evs) \<Longrightarrow> emits m S"
  unfolding emits_def wp_def by blast

lemma emits_bind [emits_rules]:
  assumes "emits m (\<lambda>a es. emits (f a) (\<lambda>b fs. R b (es @ fs)))"
  shows "emits (m \<bind> f) R"
proof -
  have "\<exists>evs. snd (snd (run_state (m \<bind> f) (w, tr))) = tr @ evs
      \<and> R (fst (run_state (m \<bind> f) (w, tr))) evs" for w tr
  proof -
    obtain a w1 tr1 where m: "run_state m (w, tr) = (a, (w1, tr1))"
      by (cases "run_state m (w, tr)") auto
    with assms obtain es where es: "tr1 = tr @ es" "emits (f a) (\<lambda>b fs. R b (es @ fs))"
      unfolding emits_def wp_def by (metis fst_conv snd_conv)
    obtain b w2 tr2 where f: "run_state (f a) (w1, tr1) = (b, (w2, tr2))"
      by (cases "run_state (f a) (w1, tr1)") auto
    with es(2) obtain fs where "tr2 = tr1 @ fs" "R b (es @ fs)"
      unfolding emits_def wp_def by (metis fst_conv snd_conv)
    with es(1) m f show ?thesis by simp
  qed
  then show ?thesis by (simp add: emits_def wp_def)
qed

text \<open>A part whose behaviour is known enters a larger computation with what is known of it.\<close>

lemma emits_bind_known:
  assumes "emits m S" and "\<And>a es. S a es \<Longrightarrow> emits (f a) (\<lambda>b fs. R b (es @ fs))"
  shows "emits (m \<bind> f) R"
  using assms(1) by (rule emits_bind [OF emits_mono]) (rule assms(2))

lemma emits_run:
  assumes "emits m R" and "run_state m (w, tr) = (a, (w', tr'))"
  obtains evs where "tr' = tr @ evs" and "R a evs"
  using assms unfolding emits_def wp_def by (metis fst_conv snd_conv)

lemma emits_run_Nil:
  assumes "emits m R" and "run_state m (w, []) = (a, (w', evs))"
  shows "R a evs"
  using emits_run [OF assms] by auto

lemma emits_conj: "emits m R \<Longrightarrow> emits m S \<Longrightarrow> emits m (\<lambda>a evs. R a evs \<and> S a evs)"
  unfolding emits_def wp_def by (metis same_append_eq)

end
