(* ===== verification/Packages.thy ===== *)
theory Packages
  imports OxideApi
begin

text \<open>
  The third-party packages the controllers call for a pure result, as one record of functions:
  UUID parsing, the list surgery of Cluster API's condition
  helpers and of controller-runtime's finalizer helpers, the value of a resource quantity, the
  SDK's numeric types and its names of instance states. What the code relies on of them is the
  predicate \<open>pkgs_ok\<close>, their documented behaviour; \<open>sample_pkgs\<close> is a concrete instance of
  it, used to run the model on examples.
\<close>

record pkgs =
  uuid_Parse :: "string \<Rightarrow> go_error option"
  conditions_upsert :: "Condition list \<Rightarrow> Condition \<Rightarrow> Condition list"
  AddFinalizer :: "string list \<Rightarrow> string \<Rightarrow> string list"
  RemoveFinalizer :: "string list \<Rightarrow> string \<Rightarrow> string list"
  unicode_ToLower :: "string \<Rightarrow> string"
  Quantity_Value :: "Quantity \<Rightarrow> int64"
  to_InstanceCpuCount :: "int64 \<Rightarrow> int"
  to_ByteCount :: "int64 \<Rightarrow> int"
  to_BlockSize :: "int64 \<Rightarrow> int"
  running_value :: string
  stopped_value :: string
  failed_value :: string

text \<open>
  An instance state is a string in the SDK, with named constants for the states the code compares with: its
  conversion to a string is the constant's value, and the string itself for every other state.
\<close>

fun InstanceState_string :: "pkgs \<Rightarrow> InstanceState \<Rightarrow> string" where
  "InstanceState_string P InstanceStateRunning = running_value P"
| "InstanceState_string P InstanceStateStopped = stopped_value P"
| "InstanceState_string P InstanceStateFailed = failed_value P"
| "InstanceState_string P (InstanceStateOther s) = s"

text \<open>\<open>conditions.Set\<close> on the two kinds, through their accessors.\<close>

definition om_conditions_Set :: "pkgs \<Rightarrow> Condition \<Rightarrow> OxideMachine \<Rightarrow> OxideMachine" where
  "om_conditions_Set P c m =
     om_SetConditions m (conditions_upsert P (om_GetConditions m) c)"

definition oc_conditions_Set :: "pkgs \<Rightarrow> Condition \<Rightarrow> OxideCluster \<Rightarrow> OxideCluster" where
  "oc_conditions_Set P c oc =
     oc_SetConditions oc (conditions_upsert P (oc_GetConditions oc) c)"

definition finalizers_ok ::
    "(string list \<Rightarrow> string \<Rightarrow> string list) \<Rightarrow> (string list \<Rightarrow> string \<Rightarrow> string list) \<Rightarrow> bool" where
  "finalizers_ok add remove \<longleftrightarrow>
     (\<forall>fs f. set (add fs f) = insert f (set fs) \<and> set (remove fs f) = set fs - {f})"

definition pkgs_ok :: "pkgs \<Rightarrow> bool" where
  "pkgs_ok P \<longleftrightarrow>
     upsert_ok (conditions_upsert P) \<and> finalizers_ok (AddFinalizer P) (RemoveFinalizer P)"

lemma pkgs_okD:
  assumes "pkgs_ok P"
  shows "upsert_ok (conditions_upsert P)"
    and "set (AddFinalizer P fs f) = insert f (set fs)"
    and "set (RemoveFinalizer P fs f) = set fs - {f}"
  using assms by (simp_all add: pkgs_ok_def finalizers_ok_def)

lemma om_conditions_Set_frame [simp]:
  "om_Meta (om_conditions_Set P c m) = om_Meta m"
  "om_Spec (om_conditions_Set P c m) = om_Spec m"
  "Addresses (om_Status (om_conditions_Set P c m)) = Addresses (om_Status m)"
  "MachineInitialization (om_Status (om_conditions_Set P c m)) = MachineInitialization (om_Status m)"
  by (simp_all add: om_conditions_Set_def)

lemma oc_conditions_Set_frame [simp]:
  "oc_Meta (oc_conditions_Set P c oc) = oc_Meta oc"
  "oc_Spec (oc_conditions_Set P c oc) = oc_Spec oc"
  "ClusterInitialization (oc_Status (oc_conditions_Set P c oc)) = ClusterInitialization (oc_Status oc)"
  by (simp_all add: oc_conditions_Set_def)

lemma find_om_conditions_Set:
  assumes "pkgs_ok P"
  shows "find_cond (om_GetConditions (om_conditions_Set P c m)) t =
     (if t = CondType c then Some c else find_cond (om_GetConditions m) t)"
  unfolding om_conditions_Set_def by (rule om_conditions.find_after_set [OF pkgs_okD(1) [OF assms]])

lemma find_oc_conditions_Set:
  assumes "pkgs_ok P"
  shows "find_cond (oc_GetConditions (oc_conditions_Set P c oc)) t =
     (if t = CondType c then Some c else find_cond (oc_GetConditions oc) t)"
  unfolding oc_conditions_Set_def by (rule oc_conditions.find_after_set [OF pkgs_okD(1) [OF assms]])

text \<open>\<open>controllerutil.AddFinalizer\<close> and \<open>RemoveFinalizer\<close> on the two kinds.\<close>

definition om_AddFinalizer :: "pkgs \<Rightarrow> string \<Rightarrow> OxideMachine \<Rightarrow> OxideMachine" where
  "om_AddFinalizer P f x =
     x\<lparr>om_Meta := (om_Meta x)\<lparr>Finalizers := AddFinalizer P (Finalizers (om_Meta x)) f\<rparr>\<rparr>"

definition om_RemoveFinalizer :: "pkgs \<Rightarrow> string \<Rightarrow> OxideMachine \<Rightarrow> OxideMachine" where
  "om_RemoveFinalizer P f x =
     x\<lparr>om_Meta := (om_Meta x)\<lparr>Finalizers := RemoveFinalizer P (Finalizers (om_Meta x)) f\<rparr>\<rparr>"

definition oc_AddFinalizer :: "pkgs \<Rightarrow> string \<Rightarrow> OxideCluster \<Rightarrow> OxideCluster" where
  "oc_AddFinalizer P f x =
     x\<lparr>oc_Meta := (oc_Meta x)\<lparr>Finalizers := AddFinalizer P (Finalizers (oc_Meta x)) f\<rparr>\<rparr>"

definition oc_RemoveFinalizer :: "pkgs \<Rightarrow> string \<Rightarrow> OxideCluster \<Rightarrow> OxideCluster" where
  "oc_RemoveFinalizer P f x =
     x\<lparr>oc_Meta := (oc_Meta x)\<lparr>Finalizers := RemoveFinalizer P (Finalizers (oc_Meta x)) f\<rparr>\<rparr>"

lemma om_AddFinalizer_frame [simp]:
  "om_Spec (om_AddFinalizer P f x) = om_Spec x"
  "om_Status (om_AddFinalizer P f x) = om_Status x"
  "om_GetConditions (om_AddFinalizer P f x) = om_GetConditions x"
  "ObjName (om_Meta (om_AddFinalizer P f x)) = ObjName (om_Meta x)"
  "ObjNamespace (om_Meta (om_AddFinalizer P f x)) = ObjNamespace (om_Meta x)"
  "Labels (om_Meta (om_AddFinalizer P f x)) = Labels (om_Meta x)"
  "DeletionTimestamp (om_Meta (om_AddFinalizer P f x)) = DeletionTimestamp (om_Meta x)"
  "OwnerReferences (om_Meta (om_AddFinalizer P f x)) = OwnerReferences (om_Meta x)"
  "Finalizers (om_Meta (om_AddFinalizer P f x)) = AddFinalizer P (Finalizers (om_Meta x)) f"
  by (simp_all add: om_AddFinalizer_def om_GetConditions_def)

lemma om_RemoveFinalizer_frame [simp]:
  "om_Spec (om_RemoveFinalizer P f x) = om_Spec x"
  "om_Status (om_RemoveFinalizer P f x) = om_Status x"
  "om_GetConditions (om_RemoveFinalizer P f x) = om_GetConditions x"
  "ObjName (om_Meta (om_RemoveFinalizer P f x)) = ObjName (om_Meta x)"
  "ObjNamespace (om_Meta (om_RemoveFinalizer P f x)) = ObjNamespace (om_Meta x)"
  "Labels (om_Meta (om_RemoveFinalizer P f x)) = Labels (om_Meta x)"
  "DeletionTimestamp (om_Meta (om_RemoveFinalizer P f x)) = DeletionTimestamp (om_Meta x)"
  "OwnerReferences (om_Meta (om_RemoveFinalizer P f x)) = OwnerReferences (om_Meta x)"
  "Finalizers (om_Meta (om_RemoveFinalizer P f x)) = RemoveFinalizer P (Finalizers (om_Meta x)) f"
  by (simp_all add: om_RemoveFinalizer_def om_GetConditions_def)

lemma oc_AddFinalizer_frame [simp]:
  "oc_Spec (oc_AddFinalizer P f x) = oc_Spec x"
  "oc_Status (oc_AddFinalizer P f x) = oc_Status x"
  "oc_GetConditions (oc_AddFinalizer P f x) = oc_GetConditions x"
  "ObjName (oc_Meta (oc_AddFinalizer P f x)) = ObjName (oc_Meta x)"
  "ObjNamespace (oc_Meta (oc_AddFinalizer P f x)) = ObjNamespace (oc_Meta x)"
  "Labels (oc_Meta (oc_AddFinalizer P f x)) = Labels (oc_Meta x)"
  "DeletionTimestamp (oc_Meta (oc_AddFinalizer P f x)) = DeletionTimestamp (oc_Meta x)"
  "OwnerReferences (oc_Meta (oc_AddFinalizer P f x)) = OwnerReferences (oc_Meta x)"
  "Finalizers (oc_Meta (oc_AddFinalizer P f x)) = AddFinalizer P (Finalizers (oc_Meta x)) f"
  by (simp_all add: oc_AddFinalizer_def oc_GetConditions_def)

lemma oc_RemoveFinalizer_frame [simp]:
  "oc_Spec (oc_RemoveFinalizer P f x) = oc_Spec x"
  "oc_Status (oc_RemoveFinalizer P f x) = oc_Status x"
  "oc_GetConditions (oc_RemoveFinalizer P f x) = oc_GetConditions x"
  "ObjName (oc_Meta (oc_RemoveFinalizer P f x)) = ObjName (oc_Meta x)"
  "ObjNamespace (oc_Meta (oc_RemoveFinalizer P f x)) = ObjNamespace (oc_Meta x)"
  "Labels (oc_Meta (oc_RemoveFinalizer P f x)) = Labels (oc_Meta x)"
  "DeletionTimestamp (oc_Meta (oc_RemoveFinalizer P f x)) = DeletionTimestamp (oc_Meta x)"
  "OwnerReferences (oc_Meta (oc_RemoveFinalizer P f x)) = OwnerReferences (oc_Meta x)"
  "Finalizers (oc_Meta (oc_RemoveFinalizer P f x)) = RemoveFinalizer P (Finalizers (oc_Meta x)) f"
  by (simp_all add: oc_RemoveFinalizer_def oc_GetConditions_def)

subsection \<open>A concrete instance\<close>

fun sample_upsert :: "Condition list \<Rightarrow> Condition \<Rightarrow> Condition list" where
  "sample_upsert [] c = [c]"
| "sample_upsert (d # ds) c = (if CondType d = CondType c then c # ds else d # sample_upsert ds c)"

definition sample_pkgs :: pkgs where
  "sample_pkgs =
     \<lparr>uuid_Parse = (\<lambda>s. if s = [] then Some (New ''invalid UUID'') else None),
      conditions_upsert = sample_upsert,
      AddFinalizer = (\<lambda>fs f. if f \<in> set fs then fs else fs @ [f]),
      RemoveFinalizer = (\<lambda>fs f. filter (\<lambda>g. g \<noteq> f) fs),
      unicode_ToLower = id,
      Quantity_Value = (\<lambda>_. 0),
      to_InstanceCpuCount = sint,
      to_ByteCount = sint,
      to_BlockSize = sint,
      running_value = ''running'', stopped_value = ''stopped'', failed_value = ''failed''\<rparr>"

lemma find_sample_upsert:
  "find_cond (sample_upsert cs c) t = (if t = CondType c then Some c else find_cond cs t)"
  by (induction cs) (auto simp: find_cond_def)

lemma sample_pkgs_ok: "pkgs_ok sample_pkgs"
  by (auto simp: pkgs_ok_def sample_pkgs_def upsert_ok_def finalizers_ok_def find_sample_upsert)

end
