(* ===== verification/Naming.thy ===== *)
theory Naming
  imports Packages
begin

text \<open>
  The names of the Oxide resources (\<open>internal/controller/naming.go\<close>): prefix, namespace and
  name joined with dashes, cut to 63 bytes with an FNV-1a hash when longer, lower-cased, and
  without a trailing dash. \<^term>\<open>None\<close> is the panic of a slice bound below zero. What the
  callers need of a namer, that the objects Kubernetes admits get names the Oxide API accepts, is
  the locale \<open>resource_namer\<close>; each of the five namers is an interpretation of it.
\<close>

definition maxResourceLength :: int where
  "maxResourceLength = 63"

definition instancePrefix :: string where
  "instancePrefix = ''capi''"

definition nicPrefix :: string where
  "nicPrefix = ''capi''"

definition bootDiskPrefix :: string where
  "bootDiskPrefix = ''capi-boot''"

definition floatingIPPrefix :: string where
  "floatingIPPrefix = ''capi-fip''"

definition dataDiskPrefix :: "nat \<Rightarrow> string" where
  "dataDiskPrefix idx = ''capi-data-'' @ fmt_d idx"

definition hashTruncateName :: "pkgs \<Rightarrow> string \<Rightarrow> int \<Rightarrow> string option" where
  "hashTruncateName P name maxLength =
     (let finish = (\<lambda>s. Some (TrimSuffix (ToLower (unicode_ToLower P) s) ''-'')) in
      if int (length name) > maxLength
      then (let hash = fmt_x (fnv32a name);
                cut = maxLength - int (length hash) - 1
            in if cut < 0 then None else finish (take (nat cut) name @ ''-'' @ hash))
      else finish name)"

definition resourceName :: "string \<Rightarrow> ObjectMeta \<Rightarrow> string" where
  "resourceName pre obj = pre @ ''-'' @ ObjNamespace obj @ ''-'' @ ObjName obj"

definition getResourceName :: "pkgs \<Rightarrow> string \<Rightarrow> ObjectMeta \<Rightarrow> string" where
  "getResourceName P pre obj = the (hashTruncateName P (resourceName pre obj) maxResourceLength)"

definition getInstanceName :: "pkgs \<Rightarrow> ObjectMeta \<Rightarrow> string" where
  "getInstanceName P obj = getResourceName P instancePrefix obj"

definition getBootDiskName :: "pkgs \<Rightarrow> ObjectMeta \<Rightarrow> string" where
  "getBootDiskName P obj = getResourceName P bootDiskPrefix obj"

definition getNicName :: "pkgs \<Rightarrow> ObjectMeta \<Rightarrow> string" where
  "getNicName P obj = getResourceName P nicPrefix obj"

definition getFloatingIPName :: "pkgs \<Rightarrow> ObjectMeta \<Rightarrow> string" where
  "getFloatingIPName P obj = getResourceName P floatingIPPrefix obj"

definition getDataDiskName :: "pkgs \<Rightarrow> ObjectMeta \<Rightarrow> nat \<Rightarrow> string" where
  "getDataDiskName P obj idx = getResourceName P (dataDiskPrefix idx) obj"

text \<open>A name depends on the namespace and the name of the object only.\<close>

lemma namers_finalizers [simp]:
  "getInstanceName P (om_Meta (om_AddFinalizer P f m)) = getInstanceName P (om_Meta m)"
  "getBootDiskName P (om_Meta (om_AddFinalizer P f m)) = getBootDiskName P (om_Meta m)"
  "getNicName P (om_Meta (om_AddFinalizer P f m)) = getNicName P (om_Meta m)"
  "getDataDiskName P (om_Meta (om_AddFinalizer P f m)) i = getDataDiskName P (om_Meta m) i"
  by (simp_all add: getInstanceName_def getBootDiskName_def getNicName_def getDataDiskName_def
      getResourceName_def resourceName_def)

subsection \<open>Characters\<close>

definition dns_alnum :: "char \<Rightarrow> bool" where
  "dns_alnum c = (let n = (of_char c :: nat) in 97 \<le> n \<and> n \<le> 122 \<or> 48 \<le> n \<and> n \<le> 57)"

definition dns_char :: "char \<Rightarrow> bool" where
  "dns_char c = (dns_alnum c \<or> c = CHR ''-'')"

lemma dns_alnum_facts:
  "dns_alnum c \<Longrightarrow> is_ascii c \<and> lower_char c = c \<and> c \<noteq> CHR ''-'' \<and> dns_char c"
  by (auto simp: dns_alnum_def dns_char_def is_ascii_def lower_char_def Let_def)

lemma dns_char_facts: "dns_char c \<Longrightarrow> is_ascii c \<and> lower_char c = c"
  by (auto simp: dns_char_def is_ascii_def lower_char_def dest: dns_alnum_facts)

lemma hex_digit_alnum: "c \<in> hex_digits \<Longrightarrow> dns_alnum c"
  by (auto simp: hex_digits_def dns_alnum_def)

lemma lower_dns_id: "list_all dns_char s \<Longrightarrow> map lower_char s = s"
  by (induction s) (auto dest: dns_char_facts)

lemma dns_ascii: "list_all dns_char s \<Longrightarrow> list_all is_ascii s"
  by (auto simp: list_all_iff dest: dns_char_facts)

lemma hex_dns: "set s \<subseteq> hex_digits \<Longrightarrow> list_all dns_char s"
  unfolding list_all_iff dns_char_def using hex_digit_alnum by blast

subsection \<open>Cutting to length\<close>

lemma hashTruncateName_short:
  assumes "list_all is_ascii name" and "int (length name) \<le> maxLength"
  shows "hashTruncateName P name maxLength = Some (TrimSuffix (map lower_char name) ''-'')"
  using assms by (simp add: hashTruncateName_def ToLower_def)

lemma last_fmt_x_not_dash: "\<not> suffix ''-'' (s @ fmt_x v)"
proof
  assume "suffix ''-'' (s @ fmt_x v)"
  then have "last (s @ fmt_x v) = CHR ''-''" by (auto simp: suffix_def)
  then have "CHR ''-'' \<in> set (fmt_x v)"
    using last_in_set [OF fmt_x_nonempty, of v] fmt_x_nonempty [of v] by (simp add: last_append)
  then show False using fmt_x_chars hex_digit_alnum dns_alnum_facts by blast
qed

lemma hashTruncateName_long:
  assumes "list_all is_ascii name" and "maxLength < int (length name)" and "9 \<le> maxLength"
  defines "hash \<equiv> fmt_x (fnv32a name)"
  shows "hashTruncateName P name maxLength =
     Some (map lower_char (take (nat (maxLength - int (length hash) - 1)) name) @ ''-'' @ hash)"
proof -
  define k where "k = nat (maxLength - int (length hash) - 1)"
  have hash: "list_all dns_char hash" unfolding hash_def by (rule hex_dns [OF fmt_x_chars])
  have "\<not> maxLength - int (length hash) - 1 < 0"
    using length_fmt_x [of "fnv32a name"] assms(3) by (simp add: hash_def)
  moreover have "list_all is_ascii (take k name @ ''-'' @ hash)"
    using assms(1) dns_ascii [OF hash] by (auto simp: list_all_iff is_ascii_def dest: in_set_takeD)
  moreover have "lower_char (CHR ''-'') = CHR ''-''" by (simp add: lower_char_def)
  moreover have "\<not> suffix ''-'' ((map lower_char (take k name) @ ''-'') @ hash)"
    unfolding hash_def by (rule last_fmt_x_not_dash)
  ultimately show ?thesis
    using assms(2) lower_dns_id [OF hash]
    by (simp add: hashTruncateName_def Let_def ToLower_def hash_def [symmetric] k_def [symmetric]
        TrimSuffix_id)
qed

text \<open>The one panic: a cut below zero, which needs a bound of at most the hash's length.\<close>

lemma hashTruncateName_panics_iff:
  "hashTruncateName P name maxLength = None \<longleftrightarrow>
     maxLength < int (length name) \<and> maxLength \<le> int (length (fmt_x (fnv32a name)))"
  by (auto simp: hashTruncateName_def Let_def)

lemma getResourceName_total:
  "hashTruncateName P (resourceName pre obj) maxResourceLength = Some (getResourceName P pre obj)"
proof -
  have "hashTruncateName P (resourceName pre obj) maxResourceLength \<noteq> None"
    using length_fmt_x [of "fnv32a (resourceName pre obj)"]
    by (simp add: hashTruncateName_panics_iff maxResourceLength_def)
  then show ?thesis by (auto simp: getResourceName_def)
qed

text \<open>The two shapes of a name, and what they share: the first 54 bytes survive, lower-cased.\<close>

lemma getResourceName_cases:
  assumes "list_all is_ascii (resourceName pre obj)"
  obtains (short) "length (resourceName pre obj) \<le> 63"
      "getResourceName P pre obj = TrimSuffix (map lower_char (resourceName pre obj)) ''-''"
  | (long) k where "63 < length (resourceName pre obj)" "54 \<le> k" "k \<le> 62"
      "k + 1 + length (fmt_x (fnv32a (resourceName pre obj))) = 63"
      "getResourceName P pre obj =
         map lower_char (take k (resourceName pre obj)) @ ''-'' @ fmt_x (fnv32a (resourceName pre obj))"
proof (cases "length (resourceName pre obj) \<le> 63")
  case True
  then show ?thesis
    using assms by (intro short) (simp_all add: getResourceName_def hashTruncateName_short maxResourceLength_def)
next
  case False
  let ?n = "resourceName pre obj" and ?h = "fmt_x (fnv32a (resourceName pre obj))"
  have h: "length ?h \<le> 8" "0 < length ?h" using length_fmt_x fmt_x_nonempty by auto
  show ?thesis
  proof (rule long [of "62 - length ?h"])
    have "nat (63 - int (length ?h) - 1) = 62 - length ?h" by simp
    with False assms show "getResourceName P pre obj =
        map lower_char (take (62 - length ?h) ?n) @ ''-'' @ ?h"
      by (simp add: getResourceName_def hashTruncateName_long maxResourceLength_def)
  qed (use False h in auto)
qed

subsection \<open>Well-formed names\<close>

definition dns_label :: "string \<Rightarrow> bool" where
  "dns_label s \<longleftrightarrow> s \<noteq> [] \<and> list_all dns_char s \<and> dns_alnum (hd s) \<and> dns_alnum (last s)"

definition dns_object :: "ObjectMeta \<Rightarrow> bool" where
  "dns_object obj \<longleftrightarrow> dns_label (ObjNamespace obj) \<and> dns_label (ObjName obj)"

definition valid_resource_name :: "string \<Rightarrow> bool" where
  "valid_resource_name s \<longleftrightarrow> length s \<le> 63 \<and> dns_label s \<and> prefix ''capi-'' s"

text \<open>The prefixes the source uses: lower-case words that start with \<open>capi\<close>.\<close>

definition capi_prefix :: "string \<Rightarrow> bool" where
  "capi_prefix pre \<longleftrightarrow> list_all dns_char pre \<and> prefix ''capi-'' (pre @ ''-'')"

lemma capi_prefixes:
  "capi_prefix instancePrefix" "capi_prefix nicPrefix" "capi_prefix bootDiskPrefix"
  "capi_prefix floatingIPPrefix" "capi_prefix (dataDiskPrefix idx)"
  using hex_dns [OF fmt_d_chars [of idx]]
  by (simp_all add: capi_prefix_def instancePrefix_def nicPrefix_def bootDiskPrefix_def
      floatingIPPrefix_def dataDiskPrefix_def dns_char_def dns_alnum_def)

lemma resourceName_dns:
  assumes "capi_prefix pre" and "dns_object obj"
  shows "list_all dns_char (resourceName pre obj)"
    and "dns_alnum (last (resourceName pre obj))"
    and "prefix ''capi-'' (resourceName pre obj)"
  using assms unfolding capi_prefix_def dns_object_def dns_label_def resourceName_def
  by (auto simp: dns_char_def prefix_append dest: dns_alnum_facts)
    (metis append.assoc append_Cons append_Nil prefix_prefix)

lemma TrimSuffix_alnum: "dns_alnum (last s) \<Longrightarrow> s \<noteq> [] \<Longrightarrow> TrimSuffix s ''-'' = s"
  by (rule TrimSuffix_id) (auto simp: suffix_def dest: dns_alnum_facts)

lemma getResourceName_valid:
  assumes "capi_prefix pre" and "dns_object obj"
  shows "valid_resource_name (getResourceName P pre obj)"
proof -
  let ?n = "resourceName pre obj"
  note dns = resourceName_dns [OF assms]
  have ne: "?n \<noteq> []" by (simp add: resourceName_def)
  have c: "dns_alnum (CHR ''c'')" by (simp add: dns_alnum_def)
  from dns_ascii [OF dns(1)] show ?thesis
  proof (cases rule: getResourceName_cases [where P = P])
    case short
    with dns ne c show ?thesis
      by (auto simp: lower_dns_id TrimSuffix_alnum valid_resource_name_def dns_label_def prefix_def)
  next
    case (long k)
    let ?h = "fmt_x (fnv32a ?n)"
    have h: "list_all dns_char ?h" "dns_alnum (last ?h)"
      using hex_dns [OF fmt_x_chars] last_in_set [OF fmt_x_nonempty] fmt_x_chars hex_digit_alnum
      by blast+
    have t2: "list_all dns_char (take k ?n)"
      using dns(1) by (auto simp: list_all_iff dest: in_set_takeD)
    note t = lower_dns_id [OF t2] t2
    from dns(3) obtain r where r: "?n = ''capi-'' @ r" by (auto simp: prefix_def)
    have p: "take k ?n = ''capi-'' @ take (k - 5) r"
    proof -
      have "take k ''capi-'' = ''capi-''" using long(2) by (intro take_all) simp
      moreover have "length ''capi-'' = 5" by simp
      ultimately show ?thesis unfolding r take_append by (simp only:)
    qed
    have d: "dns_char (CHR ''-'')" by (simp add: dns_char_def)
    show ?thesis
      unfolding valid_resource_name_def dns_label_def long(5) t(1)
      using long h t d c fmt_x_nonempty [of "fnv32a ?n"] by (auto simp: p)
  qed
qed

locale resource_namer =
  fixes namer :: "ObjectMeta \<Rightarrow> string"
  assumes namer_valid: "dns_object obj \<Longrightarrow> valid_resource_name (namer obj)"
begin

lemma namer_length: "dns_object obj \<Longrightarrow> length (namer obj) \<le> 63"
  using namer_valid by (simp add: valid_resource_name_def)

lemma namer_nonempty: "dns_object obj \<Longrightarrow> namer obj \<noteq> []"
  using namer_valid by (auto simp: valid_resource_name_def dns_label_def)

end

interpretation instance_namer: resource_namer "getInstanceName P" for P
  by unfold_locales (simp add: getInstanceName_def getResourceName_valid capi_prefixes)

interpretation boot_disk_namer: resource_namer "getBootDiskName P" for P
  by unfold_locales (simp add: getBootDiskName_def getResourceName_valid capi_prefixes)

interpretation nic_namer: resource_namer "getNicName P" for P
  by unfold_locales (simp add: getNicName_def getResourceName_valid capi_prefixes)

interpretation floating_ip_namer: resource_namer "getFloatingIPName P" for P
  by unfold_locales (simp add: getFloatingIPName_def getResourceName_valid capi_prefixes)

interpretation data_disk_namer: resource_namer "\<lambda>obj. getDataDiskName P obj idx" for P idx
  by unfold_locales (simp add: getDataDiskName_def getResourceName_valid capi_prefixes)

subsection \<open>Names with dots\<close>

text \<open>
  What Kubernetes admits: a namespace is a DNS label of at most 63 characters, the name of a custom resource a DNS
  subdomain of at most 253, labels joined with dots.
\<close>

definition dns_subdomain :: "string \<Rightarrow> bool" where
  "dns_subdomain s \<longleftrightarrow> s \<noteq> [] \<and> list_all (\<lambda>c. dns_char c \<or> c = CHR ''.'') s \<and>
     dns_alnum (hd s) \<and> dns_alnum (last s) \<and>
     successively (\<lambda>a b. (a = CHR ''.'' \<longrightarrow> dns_alnum b) \<and> (b = CHR ''.'' \<longrightarrow> dns_alnum a)) s"

definition admitted_object :: "ObjectMeta \<Rightarrow> bool" where
  "admitted_object obj \<longleftrightarrow> dns_label (ObjNamespace obj) \<and> length (ObjNamespace obj) \<le> 63 \<and>
     dns_subdomain (ObjName obj) \<and> length (ObjName obj) \<le> 253"

lemma dot_facts [simp]:
  "is_ascii (CHR ''.'')" "lower_char (CHR ''.'') = CHR ''.''" "\<not> dns_char (CHR ''.'')"
  by (simp_all add: is_ascii_def lower_char_def dns_char_def dns_alnum_def)

lemma admitted_without_dot:
  assumes "admitted_object obj" and "CHR ''.'' \<notin> set (ObjName obj)"
  shows "dns_object obj"
  using assms by (auto simp: admitted_object_def dns_object_def dns_label_def dns_subdomain_def list_all_iff)

lemma resourceName_ascii:
  assumes "capi_prefix pre" and "admitted_object obj"
  shows "list_all is_ascii (resourceName pre obj)"
proof -
  have "list_all is_ascii pre" "list_all is_ascii (ObjNamespace obj)"
    using assms by (auto simp: capi_prefix_def admitted_object_def dns_label_def intro: dns_ascii)
  moreover have "list_all is_ascii (ObjName obj)"
    using assms(2) by (auto simp: admitted_object_def dns_subdomain_def list_all_iff dest: dns_char_facts)
  moreover have "is_ascii (CHR ''-'')" by (simp add: is_ascii_def)
  ultimately show ?thesis by (simp add: resourceName_def)
qed

lemma admitted_name_length:
  assumes "capi_prefix pre" and "admitted_object obj"
  shows "length (getResourceName P pre obj) \<le> 63"
  using resourceName_ascii [OF assms]
proof (cases rule: getResourceName_cases [where P = P])
  case short
  then show ?thesis by (auto simp: TrimSuffix_def)
qed simp

lemma dotted_name_kept:
  assumes "capi_prefix pre" and "admitted_object obj" and "CHR ''.'' \<in> set (ObjName obj)"
    and "length (resourceName pre obj) \<le> 63"
  shows "\<not> valid_resource_name (getResourceName P pre obj)"
proof -
  have "dns_alnum (last (ObjName obj))" "ObjName obj \<noteq> []"
    using assms(2) by (auto simp: admitted_object_def dns_subdomain_def)
  then have last: "last (map lower_char (resourceName pre obj)) \<noteq> CHR ''-''"
    using dns_alnum_facts [of "last (ObjName obj)"] by (simp add: resourceName_def last_map)
  from resourceName_ascii [OF assms(1,2)] have "getResourceName P pre obj = map lower_char (resourceName pre obj)"
    using assms(4) last
    by (simp add: getResourceName_def hashTruncateName_short maxResourceLength_def TrimSuffix_id suffix_def)
      (auto simp: TrimSuffix_def suffix_def)
  moreover have "CHR ''.'' \<in> set (map lower_char (resourceName pre obj))"
    using assms(3) dot_facts(2) by (force simp: resourceName_def image_iff)
  ultimately show ?thesis
    unfolding valid_resource_name_def dns_label_def list_all_iff using dot_facts(3) by metis
qed

subsection \<open>Distinct names\<close>

text \<open>
  The first 54 bytes of a resource name survive the cut, so names that differ there stay
  different.
\<close>

lemma getResourceName_take:
  assumes "capi_prefix pre" and "dns_object obj"
    and "k \<le> 54" and "k < length (resourceName pre obj)"
  shows "take k (getResourceName P pre obj) = take k (resourceName pre obj)"
proof -
  note dns = resourceName_dns(1) [OF assms(1,2)]
  from dns_ascii [OF dns] show ?thesis
  proof (cases rule: getResourceName_cases [where P = P])
    case short
    with dns assms(3,4) show ?thesis
      by (auto simp: lower_dns_id TrimSuffix_def min_def)
  next
    case (long m)
    have "list_all dns_char (take m (resourceName pre obj))"
      using dns by (auto simp: list_all_iff dest: in_set_takeD)
    with long assms(3,4) show ?thesis by (simp add: lower_dns_id min_def)
  qed
qed

lemma digits_dash_prefix_free:
  assumes "x @ CHR ''-'' # r = y @ CHR ''-'' # s"
    and "CHR ''-'' \<notin> set x" and "CHR ''-'' \<notin> set y"
  shows "x = y"
proof -
  have "takeWhile (\<lambda>c. c \<noteq> CHR ''-'') (x @ CHR ''-'' # r) = x"
    "takeWhile (\<lambda>c. c \<noteq> CHR ''-'') (y @ CHR ''-'' # s) = y"
    using assms(2,3) by (auto simp: takeWhile_append takeWhile_eq_all_conv)
  with assms(1) show ?thesis by metis
qed

lemma fmt_d_no_dash: "CHR ''-'' \<notin> set (fmt_d n)"
  using fmt_d_chars [of n] hex_digit_alnum dns_alnum_facts by blast

lemma length_fmt_d: "n < 10 ^ 40 \<Longrightarrow> length (fmt_d n) \<le> 40"
  unfolding fmt_d_def by (rule length_fmt_base) simp_all

lemma getDataDiskName_head:
  assumes "dns_object obj" and "idx < 10 ^ 40"
  obtains r where "getDataDiskName P obj idx = ''capi-data-'' @ fmt_d idx @ CHR ''-'' # r"
proof -
  let ?h = "''capi-data-'' @ fmt_d idx @ ''-''"
  let ?n = "resourceName (dataDiskPrefix idx) obj"
  have n: "?n = ?h @ ObjNamespace obj @ ''-'' @ ObjName obj"
    by (simp add: resourceName_def dataDiskPrefix_def)
  have "take (length ?h) (getDataDiskName P obj idx) = take (length ?h) ?n"
    unfolding getDataDiskName_def
  proof (rule getResourceName_take)
    show "capi_prefix (dataDiskPrefix idx)" "dns_object obj" by (fact capi_prefixes assms(1))+
    show "length ?h \<le> 54" using length_fmt_d [OF assms(2)] by simp
    show "length ?h < length ?n" unfolding n by simp
  qed
  also have "\<dots> = ?h" unfolding n by simp
  finally have "getDataDiskName P obj idx = ?h @ drop (length ?h) (getDataDiskName P obj idx)"
    by (metis append_take_drop_id)
  then show thesis by (intro that) simp
qed

lemma getBootDiskName_head:
  assumes "dns_object obj"
  obtains r where "getBootDiskName P obj = ''capi-boot-'' @ r"
proof -
  let ?h = "''capi-boot-''" and ?n = "resourceName bootDiskPrefix obj"
  have n: "?n = ?h @ ObjNamespace obj @ ''-'' @ ObjName obj"
    by (simp add: resourceName_def bootDiskPrefix_def)
  have "take (length ?h) (getBootDiskName P obj) = take (length ?h) ?n"
    unfolding getBootDiskName_def
    by (rule getResourceName_take [OF capi_prefixes(3) assms]) (simp_all add: n)
  also have "\<dots> = ?h" unfolding n by simp
  finally show thesis using that by (metis append_take_drop_id)
qed

lemma data_disk_names_distinct:
  assumes "dns_object obj" and "i < 10 ^ 40" and "j < 10 ^ 40"
  shows "getDataDiskName P obj i = getDataDiskName P obj j \<longleftrightarrow> i = j"
proof
  assume eq: "getDataDiskName P obj i = getDataDiskName P obj j"
  obtain r s where "getDataDiskName P obj i = ''capi-data-'' @ fmt_d i @ CHR ''-'' # r"
    "getDataDiskName P obj j = ''capi-data-'' @ fmt_d j @ CHR ''-'' # s"
    using getDataDiskName_head assms by metis
  with eq have "fmt_d i @ CHR ''-'' # r = fmt_d j @ CHR ''-'' # s" by simp
  then show "i = j" using digits_dash_prefix_free fmt_d_no_dash fmt_d_inject by metis
qed simp

lemma data_disk_not_boot_disk:
  assumes "dns_object obj" and "i < 10 ^ 40"
  shows "getDataDiskName P obj i \<noteq> getBootDiskName P obj"
proof -
  obtain r s where "getDataDiskName P obj i = ''capi-data-'' @ r" "getBootDiskName P obj = ''capi-boot-'' @ s"
    using getDataDiskName_head [OF assms, of P] getBootDiskName_head [OF assms(1), of P] by metis
  then show ?thesis by simp
qed

text \<open>Within one namespace and short enough not to be cut, different objects get different names.\<close>

lemma getResourceName_inject:
  assumes "capi_prefix pre" and "dns_object a" and "dns_object b"
    and "length (resourceName pre a) \<le> 63" and "length (resourceName pre b) \<le> 63"
    and "ObjNamespace a = ObjNamespace b"
  shows "getResourceName P pre a = getResourceName P pre b \<longleftrightarrow> ObjName a = ObjName b"
proof -
  have "getResourceName P pre x = resourceName pre x"
    if "dns_object x" "length (resourceName pre x) \<le> 63" for x
  proof -
    note dns = resourceName_dns [OF assms(1) that(1)]
    have "resourceName pre x \<noteq> []" by (simp add: resourceName_def)
    with dns that(2) show ?thesis
      by (simp add: getResourceName_def maxResourceLength_def hashTruncateName_short dns_ascii
          lower_dns_id TrimSuffix_alnum)
  qed
  with assms show ?thesis by (simp add: resourceName_def)
qed

text \<open>Across namespaces the dash that joins the parts is ambiguous.\<close>

lemma getResourceName_ambiguous:
  assumes "ObjNamespace a @ ''-'' @ ObjName a = ObjNamespace b @ ''-'' @ ObjName b"
  shows "getResourceName P pre a = getResourceName P pre b"
  using assms by (simp add: getResourceName_def resourceName_def)

end
