(* ===== verification/ProviderId.thy ===== *)
theory ProviderId
  imports Packages
begin

text \<open>
  Provider IDs (\<open>internal/cloud/provider.go\<close>): the machine controller writes them, the cluster
  controller parses them back. The contract between the two is the locale \<open>id_codec\<close>, an
  encoder and a partial decoder that invert each other on the valid identifiers; the two functions
  of the package are its interpretation, with "valid" meaning that the UUID parser accepts the
  identifier.
\<close>

definition NewProviderID :: "string \<Rightarrow> string" where
  "NewProviderID instanceID = ''oxide://'' @ instanceID"

definition InstanceIDFromProviderID :: "pkgs \<Rightarrow> string \<Rightarrow> go_error + string" where
  "InstanceIDFromProviderID P providerID =
     (if providerID = [] then Inl (New ''provider id is empty'')
      else if \<not> HasPrefix providerID ''oxide://''
      then Inl (New ''provider id does not have 'oxide://' prefix'')
      else (let instanceID = TrimPrefix providerID ''oxide://'' in
            case uuid_Parse P instanceID of
              Some err \<Rightarrow> Inl (Wrapf ''provider id contains invalid uuid'' err)
            | None \<Rightarrow> Inr instanceID))"

definition valid_id :: "pkgs \<Rightarrow> string \<Rightarrow> bool" where
  "valid_id P i \<longleftrightarrow> uuid_Parse P i = None"

subsection \<open>The contract\<close>

locale id_codec =
  fixes enc :: "'i \<Rightarrow> 'p"
    and dec :: "'p \<Rightarrow> 'e + 'i"
    and valid :: "'i \<Rightarrow> bool"
  assumes dec_enc: "valid i \<Longrightarrow> dec (enc i) = Inr i"
    and dec_sound: "dec p = Inr i \<Longrightarrow> p = enc i \<and> valid i"
begin

lemma dec_iff: "dec p = Inr i \<longleftrightarrow> p = enc i \<and> valid i"
  using dec_enc dec_sound by blast

lemma enc_inject: "valid i \<Longrightarrow> valid j \<Longrightarrow> enc i = enc j \<longleftrightarrow> i = j"
  using dec_enc by (metis sum.inject(2))

lemma dec_fails_iff: "(\<exists>e. dec p = Inl e) \<longleftrightarrow> (\<forall>i. valid i \<longrightarrow> p \<noteq> enc i)"
proof -
  have "(\<exists>e. dec p = Inl e) \<longleftrightarrow> (\<nexists>i. dec p = Inr i)" by (cases "dec p") auto
  then show ?thesis by (auto simp: dec_iff)
qed

text \<open>Looking an identifier up among encoded ones is looking for its encoding.\<close>

lemma find_dec:
  assumes "valid i"
  shows "List.find (\<lambda>x. dec (f x) = Inr i) xs = List.find (\<lambda>x. f x = enc i) xs"
  using assms by (simp add: dec_iff)

end

interpretation provider_ids: id_codec NewProviderID "InstanceIDFromProviderID P" "valid_id P" for P
proof
  show "InstanceIDFromProviderID P (NewProviderID i) = Inr i" if "valid_id P i" for i
    using that by (simp add: InstanceIDFromProviderID_def NewProviderID_def valid_id_def Let_def
        HasPrefix_def TrimPrefix_def)
  show "p = NewProviderID i \<and> valid_id P i" if "InstanceIDFromProviderID P p = Inr i" for p i
    using that HasPrefix_iff [of p "''oxide://''"]
    by (auto simp: InstanceIDFromProviderID_def NewProviderID_def valid_id_def Let_def
        split: if_splits option.splits)
qed

lemma NewProviderID_nonempty [simp]: "NewProviderID i \<noteq> []"
  by (simp add: NewProviderID_def)

lemma NewProviderID_inject [simp]: "NewProviderID i = NewProviderID j \<longleftrightarrow> i = j"
  by (simp add: NewProviderID_def)

end
