(* ===== verification/MachineBuilders.thy ===== *)
theory MachineBuilders
  imports Naming ProviderId
begin

text \<open>
  The pure helpers of \<open>internal/controller/oxidemachine_controller.go\<close>: the reason of the
  Ready condition, the addresses read from NICs and external IPs, and the parts of the request
  that creates an instance. Loops that append to a slice carry it as an accumulator.
\<close>

definition toNamesOrIds :: "string list \<Rightarrow> NameOrId list" where
  "toNamesOrIds values = map (\<lambda>v. v) values"

definition getReadyReason :: "pkgs \<Rightarrow> Instance option \<Rightarrow> string" where
  "getReadyReason P inst =
     (case inst of
        None \<Rightarrow> ReasonInstanceDeleted
      | Some i \<Rightarrow> (case InstanceState_string P (RunState i) of
            [] \<Rightarrow> ReasonInstanceUnknown
          | c # cs \<Rightarrow> ''Instance'' @ ToUpper1 c @ cs))"

subsection \<open>Addresses\<close>

fun AsV4 :: "PrivateIpStack \<Rightarrow> string option" where
  "AsV4 (PrivateIpStackV4 ip) = Some ip"
| "AsV4 _ = None"

fun AsV6 :: "PrivateIpStack \<Rightarrow> string option" where
  "AsV6 (PrivateIpStackV6 ip) = Some ip"
| "AsV6 _ = None"

fun AsDualStack :: "PrivateIpStack \<Rightarrow> (string \<times> string) option" where
  "AsDualStack (PrivateIpStackDualStack v4 v6) = Some (v4, v6)"
| "AsDualStack _ = None"

fun ip_stack_type :: "PrivateIpStack \<Rightarrow> string" where
  "ip_stack_type (PrivateIpStackV4 _) = ''*oxide.PrivateIpStackV4''"
| "ip_stack_type (PrivateIpStackV6 _) = ''*oxide.PrivateIpStackV6''"
| "ip_stack_type (PrivateIpStackDualStack _ _) = ''*oxide.PrivateIpStackDualStack''"
| "ip_stack_type (OtherIpStack t) = t"

definition internal_ip :: "string \<Rightarrow> MachineAddress" where
  "internal_ip ip = \<lparr>AddressType = MachineInternalIP, Address = ip\<rparr>"

definition external_ip :: "string \<Rightarrow> MachineAddress" where
  "external_ip ip = \<lparr>AddressType = MachineExternalIP, Address = ip\<rparr>"

fun nic_loop :: "MachineAddress list \<Rightarrow> InstanceNetworkInterface list \<Rightarrow> go_error + MachineAddress list"
where
  "nic_loop addresses [] = Inr addresses"
| "nic_loop addresses (nic # nics) =
     (case AsV4 (IpStack nic) of
        Some v4 \<Rightarrow> nic_loop (addresses @ [internal_ip v4]) nics
      | None \<Rightarrow> (case AsV6 (IpStack nic) of
          Some v6 \<Rightarrow> nic_loop (addresses @ [internal_ip v6]) nics
        | None \<Rightarrow> (case AsDualStack (IpStack nic) of
            Some (v4, v6) \<Rightarrow> nic_loop (addresses @ [internal_ip v4, internal_ip v6]) nics
          | None \<Rightarrow> Inl (New (''unexpected IpStack type '' @ ip_stack_type (IpStack nic) @
                              '' for NIC '' @ NicId nic)))))"

definition machineAddressesFromNICs ::
    "InstanceNetworkInterface list \<Rightarrow> go_error + MachineAddress list" where
  "machineAddressesFromNICs nics = nic_loop [] nics"

fun AsEphemeral :: "ExternalIp \<Rightarrow> string option" where
  "AsEphemeral (ExternalIpEphemeral ip) = Some ip"
| "AsEphemeral (OtherExternalIp _) = None"

fun ip_loop :: "MachineAddress list \<Rightarrow> ExternalIp list \<Rightarrow> MachineAddress list" where
  "ip_loop addresses [] = addresses"
| "ip_loop addresses (ip # ips) =
     (case AsEphemeral ip of
        Some a \<Rightarrow> ip_loop (addresses @ [external_ip a]) ips
      | None \<Rightarrow> ip_loop addresses ips)"

definition machineAddressesFromIPs :: "ExternalIp list \<Rightarrow> MachineAddress list" where
  "machineAddressesFromIPs ips = ip_loop [] ips"

subsection \<open>The parts of an instance creation request\<close>

definition externalIPsFromMachine :: "OxideMachine \<Rightarrow> ExternalIpCreate list" where
  "externalIPsFromMachine m =
     (if MachineIPPool (om_Spec m) \<noteq> []
      then [ExternalIpCreateEphemeral (PoolSelectorExplicit (MachineIPPool (om_Spec m)))]
      else [])"

definition disksFromOxideMachine :: "pkgs \<Rightarrow> OxideMachine \<Rightarrow> InstanceDiskAttachmentCreate list" where
  "disksFromOxideMachine P m =
     map (\<lambda>(idx, dataDisk).
        \<lparr>DiskCreateName = getDataDiskName P (om_Meta m) idx,
         DiskCreateSize = to_ByteCount P (Quantity_Value P (DataDiskSize dataDisk)),
         DiskCreateBackend = DiskBackendDistributed
           (DiskSourceBlank (to_BlockSize P (DataDiskBlockSize dataDisk)))\<rparr>)
       (enumerate 0 (DataDisks (om_Spec m)))"

definition bootDiskFromOxideMachine :: "pkgs \<Rightarrow> OxideMachine \<Rightarrow> InstanceDiskAttachmentCreate" where
  "bootDiskFromOxideMachine P m =
     \<lparr>DiskCreateName = getBootDiskName P (om_Meta m),
      DiskCreateSize = to_ByteCount P (Quantity_Value P (DiskSize (om_Spec m))),
      DiskCreateBackend = DiskBackendDistributed (DiskSourceImage (ImageID (om_Spec m)))\<rparr>"

definition instanceCreateParams ::
    "pkgs \<Rightarrow> OxideMachine \<Rightarrow> OxideCluster \<Rightarrow> byte list \<Rightarrow> InstanceCreateParams" where
  "instanceCreateParams P m oc userData =
     \<lparr>CreateProject = Project (oc_Spec oc),
      CreateName = getInstanceName P (om_Meta m),
      CreateHostname = getInstanceName P (om_Meta m),
      CreateNcpus = to_InstanceCpuCount P (NCpus (om_Spec m)),
      CreateMemory = to_ByteCount P (Quantity_Value P (Memory (om_Spec m))),
      CreateStart = True,
      CreateAntiAffinityGroups = toNamesOrIds (AntiAffinityGroups (om_Spec m)),
      CreateSshPublicKeys = toNamesOrIds (SSHPublicKeys (om_Spec m)),
      CreateUserData = base64_encode userData,
      CreateBootDisk = bootDiskFromOxideMachine P m,
      CreateDisks = disksFromOxideMachine P m,
      CreateNetworkInterfaces =
        [\<lparr>NicName = getNicName P (om_Meta m),
          NicVpcName = VPC (oc_Spec oc),
          NicSubnetName = Subnet (oc_Spec oc)\<rparr>],
      CreateExternalIps = externalIPsFromMachine m\<rparr>"

subsection \<open>Reasons\<close>

lemma getReadyReason_nil [simp]: "getReadyReason P None = ReasonInstanceDeleted"
  by (simp add: getReadyReason_def)

lemma getReadyReason_prefix: "prefix ''Instance'' (getReadyReason P inst)"
  by (auto simp: getReadyReason_def ReasonInstanceDeleted_def ReasonInstanceUnknown_def
      split: option.split list.split)

subsection \<open>Addresses, declaratively\<close>

fun stack_addresses :: "PrivateIpStack \<Rightarrow> MachineAddress list" where
  "stack_addresses (PrivateIpStackV4 ip) = [internal_ip ip]"
| "stack_addresses (PrivateIpStackV6 ip) = [internal_ip ip]"
| "stack_addresses (PrivateIpStackDualStack v4 v6) = [internal_ip v4, internal_ip v6]"
| "stack_addresses (OtherIpStack _) = []"

definition nic_addresses :: "InstanceNetworkInterface \<Rightarrow> MachineAddress list" where
  "nic_addresses nic = stack_addresses (IpStack nic)"

definition known_stack :: "InstanceNetworkInterface \<Rightarrow> bool" where
  "known_stack nic = (case IpStack nic of OtherIpStack _ \<Rightarrow> False | _ \<Rightarrow> True)"

lemma nic_loop_eq:
  "nic_loop as nics =
     (case List.find (\<lambda>nic. \<not> known_stack nic) nics of
        None \<Rightarrow> Inr (as @ concat (map nic_addresses nics))
      | Some nic \<Rightarrow> Inl (New (''unexpected IpStack type '' @ ip_stack_type (IpStack nic) @
          '' for NIC '' @ NicId nic)))"
proof (induction nics arbitrary: as)
  case (Cons nic nics)
  then show ?case using nic_addresses_def [of nic]
    by (cases "IpStack nic") (auto simp: known_stack_def split: option.split)
qed simp

lemma nic_loop_Inr:
  "nic_loop as nics = Inr bs \<Longrightarrow> list_all known_stack nics \<and> bs = as @ concat (map nic_addresses nics)"
  by (auto simp: nic_loop_eq find_None_iff_list_all split: option.splits)

lemma ip_loop_eq: "ip_loop as ips = as @ map external_ip (List.map_filter AsEphemeral ips)"
  by (induction ips arbitrary: as) (auto simp: List.map_filter_def)

lemma length_disksFromOxideMachine:
  "length (disksFromOxideMachine P m) = length (DataDisks (om_Spec m))"
  by (simp add: disksFromOxideMachine_def)

lemma nth_disksFromOxideMachine:
  "i < length (DataDisks (om_Spec m)) \<Longrightarrow>
     DiskCreateName (disksFromOxideMachine P m ! i) = getDataDiskName P (om_Meta m) i"
  by (simp add: disksFromOxideMachine_def nth_enumerate_eq)

lemma disk_names:
  "map DiskCreateName (disksFromOxideMachine P m) =
     map (getDataDiskName P (om_Meta m)) [0..<length (DataDisks (om_Spec m))]"
  by (rule nth_equalityI) (simp_all add: length_disksFromOxideMachine nth_disksFromOxideMachine)

text \<open>A request depends on neither the finalizers, the conditions nor the provider ID.\<close>

lemma instanceCreateParams_AddFinalizer [simp]:
  "instanceCreateParams P (om_AddFinalizer P f m) oc ud = instanceCreateParams P m oc ud"
  by (simp add: instanceCreateParams_def bootDiskFromOxideMachine_def disksFromOxideMachine_def
      externalIPsFromMachine_def)

lemma instanceCreateParams_updates [simp]:
  "instanceCreateParams P (set_ProviderID p m) oc ud = instanceCreateParams P m oc ud"
  "instanceCreateParams P (om_conditions_Set P c m) oc ud = instanceCreateParams P m oc ud"
  by (simp_all add: instanceCreateParams_def bootDiskFromOxideMachine_def disksFromOxideMachine_def
      externalIPsFromMachine_def)

end
