(* ===== verification/K8s.thy ===== *)
theory K8s
  imports Packages
begin

text \<open>
  The Kubernetes side: the calls the reconcilers make through controller-runtime's client and
  Cluster API's helpers, as a record of operations over the world, one field per call of the
  source and kind (\<open>r.Get\<close>, \<open>r.List\<close>, \<open>util.GetOwnerMachine\<close>,
  \<open>util.GetClusterFromMetadata\<close>, \<open>util.GetOwnerCluster\<close>,
  \<open>paused.EnsurePausedCondition\<close>, \<open>patch.NewHelper\<close>, \<open>Patch\<close>). Nothing is assumed
  of them. A patch helper is a value of the type \<open>'h\<close>. The reconcilers' structs and
  \<open>ctrl.Result\<close> follow. \<open>log_k8s\<close> and \<open>log_factory\<close> run the single-object
  reads without a trace and record the machine listing, the snapshot a patch helper takes and the patch, so that the log of a reconcile is the
  object it read, its Oxide calls and the object it wrote.
\<close>

text \<open>The three results of \<open>paused.EnsurePausedCondition\<close>.\<close>

record PausedResult =
  isPaused :: bool
  requeue :: bool
  pausedErr :: "go_error option"

record ('w, 'h) K8sClient =
  GetOxideMachine :: "ObjectKey \<Rightarrow> ('w, go_error + OxideMachine) io"
  GetOxideCluster :: "ObjectKey \<Rightarrow> ('w, go_error + OxideCluster) io"
  GetSecret :: "ObjectKey \<Rightarrow> ('w, go_error + Secret) io"
  ListOxideMachines :: "string \<Rightarrow> (string \<times> string) list \<Rightarrow> ('w, go_error + OxideMachine list) io"
  GetOwnerMachine :: "ObjectMeta \<Rightarrow> ('w, go_error + Machine option) io"
  GetClusterFromMetadata :: "ObjectMeta \<Rightarrow> ('w, go_error + Cluster) io"
  GetOwnerCluster :: "ObjectMeta \<Rightarrow> ('w, go_error + Cluster option) io"
  EnsureMachinePaused :: "Cluster \<Rightarrow> OxideMachine \<Rightarrow> ('w, PausedResult \<times> OxideMachine) io"
  EnsureClusterPaused :: "Cluster \<Rightarrow> OxideCluster \<Rightarrow> ('w, PausedResult \<times> OxideCluster) io"
  NewMachineHelper :: "OxideMachine \<Rightarrow> ('w, go_error + 'h) io"
  NewClusterHelper :: "OxideCluster \<Rightarrow> ('w, go_error + 'h) io"
  PatchMachine :: "'h \<Rightarrow> OxideMachine \<Rightarrow> ('w, go_error option) io"
  PatchCluster :: "'h \<Rightarrow> OxideCluster \<Rightarrow> ('w, go_error option) io"

type_synonym 'w OxideClientFactory = "OxideCluster \<Rightarrow> ('w, go_error + 'w OxideClient) io"

record ('w, 'h, 's) OxideMachineReconciler =
  omr_Client :: "('w, 'h) K8sClient"
  omr_Scheme :: 's
  omr_OxideClientFactory :: "'w OxideClientFactory"

record ('w, 'h, 's) OxideClusterReconciler =
  ocr_Client :: "('w, 'h) K8sClient"
  ocr_Scheme :: 's
  ocr_OxideClientFactory :: "'w OxideClientFactory"

record Result =
  RequeueAfter :: int

definition time_Second :: int where
  "time_Second = 1000000000"

definition Result_empty :: Result where
  "Result_empty = \<lparr>RequeueAfter = 0\<rparr>"

definition Result_10s :: Result where
  "Result_10s = \<lparr>RequeueAfter = 10 * time_Second\<rparr>"

lemma Result_neq [simp]: "Result_empty \<noteq> Result_10s" "Result_10s \<noteq> Result_empty"
  by (simp_all add: Result_empty_def Result_10s_def time_Second_def)

subsection \<open>Logging\<close>

definition log_k8s :: "('w, 'h) K8sClient \<Rightarrow> ('w logged, 'h) K8sClient" where
  "log_k8s k =
     \<lparr>GetOxideMachine = (\<lambda>x. silent (GetOxideMachine k x)),
      GetOxideCluster = (\<lambda>x. silent (GetOxideCluster k x)),
      GetSecret = (\<lambda>x. silent (GetSecret k x)),
      ListOxideMachines = (\<lambda>n l. logged EvListMachines (ListOxideMachines k n l)),
      GetOwnerMachine = (\<lambda>x. silent (GetOwnerMachine k x)),
      GetClusterFromMetadata = (\<lambda>x. silent (GetClusterFromMetadata k x)),
      GetOwnerCluster = (\<lambda>x. silent (GetOwnerCluster k x)),
      EnsureMachinePaused = (\<lambda>c x. silent (EnsureMachinePaused k c x)),
      EnsureClusterPaused = (\<lambda>c x. silent (EnsureClusterPaused k c x)),
      NewMachineHelper = (\<lambda>x. logged (\<lambda>r. EvSnapshotMachine x (\<not> isl r)) (NewMachineHelper k x)),
      NewClusterHelper = (\<lambda>x. logged (\<lambda>r. EvSnapshotCluster x (\<not> isl r)) (NewClusterHelper k x)),
      PatchMachine = (\<lambda>h x. logged (EvPatchMachine x) (PatchMachine k h x)),
      PatchCluster = (\<lambda>h x. logged (EvPatchCluster x) (PatchCluster k h x))\<rparr>"

lemma log_k8s_simps [simp]:
  "GetOxideMachine (log_k8s k) key = silent (GetOxideMachine k key)"
  "GetOxideCluster (log_k8s k) key = silent (GetOxideCluster k key)"
  "GetSecret (log_k8s k) key = silent (GetSecret k key)"
  "ListOxideMachines (log_k8s k) n l = logged EvListMachines (ListOxideMachines k n l)"
  "GetOwnerMachine (log_k8s k) om = silent (GetOwnerMachine k om)"
  "GetClusterFromMetadata (log_k8s k) om = silent (GetClusterFromMetadata k om)"
  "GetOwnerCluster (log_k8s k) om = silent (GetOwnerCluster k om)"
  "EnsureMachinePaused (log_k8s k) c m = silent (EnsureMachinePaused k c m)"
  "EnsureClusterPaused (log_k8s k) c oc = silent (EnsureClusterPaused k c oc)"
  "NewMachineHelper (log_k8s k) m = logged (\<lambda>r. EvSnapshotMachine m (\<not> isl r)) (NewMachineHelper k m)"
  "NewClusterHelper (log_k8s k) oc = logged (\<lambda>r. EvSnapshotCluster oc (\<not> isl r)) (NewClusterHelper k oc)"
  "PatchMachine (log_k8s k) h m = logged (EvPatchMachine m) (PatchMachine k h m)"
  "PatchCluster (log_k8s k) h oc = logged (EvPatchCluster oc) (PatchCluster k h oc)"
  by (simp_all add: log_k8s_def)

definition log_factory :: "'w OxideClientFactory \<Rightarrow> 'w logged OxideClientFactory" where
  "log_factory f oc = do {
     r \<leftarrow> silent (f oc);
     return (case r of Inl e \<Rightarrow> Inl e | Inr c \<Rightarrow> Inr (log_client c))
   }"

definition log_machine_reconciler ::
    "('w, 'h, 's) OxideMachineReconciler \<Rightarrow> ('w logged, 'h, 's) OxideMachineReconciler" where
  "log_machine_reconciler r =
     \<lparr>omr_Client = log_k8s (omr_Client r), omr_Scheme = omr_Scheme r,
      omr_OxideClientFactory = log_factory (omr_OxideClientFactory r)\<rparr>"

definition log_cluster_reconciler ::
    "('w, 'h, 's) OxideClusterReconciler \<Rightarrow> ('w logged, 'h, 's) OxideClusterReconciler" where
  "log_cluster_reconciler r =
     \<lparr>ocr_Client = log_k8s (ocr_Client r), ocr_Scheme = ocr_Scheme r,
      ocr_OxideClientFactory = log_factory (ocr_OxideClientFactory r)\<rparr>"

lemma log_reconciler_simps [simp]:
  "omr_Client (log_machine_reconciler r) = log_k8s (omr_Client r)"
  "omr_OxideClientFactory (log_machine_reconciler r) = log_factory (omr_OxideClientFactory r)"
  "ocr_Client (log_cluster_reconciler q) = log_k8s (ocr_Client q)"
  "ocr_OxideClientFactory (log_cluster_reconciler q) = log_factory (ocr_OxideClientFactory q)"
  by (simp_all add: log_machine_reconciler_def log_cluster_reconciler_def)

text \<open>A client that comes out of a logging factory is a logging client.\<close>

lemma emits_log_factory:
  assumes "\<And>e. R (Inl e) []" and "\<And>c. R (Inr (log_client c)) []"
  shows "emits (log_factory f oc) R"
  unfolding log_factory_def
  by (intro emits_rules) (auto intro: assms split: sum.split)

end
