(* ===== verification/MachineController.thy ===== *)
theory MachineController
  imports MachineBuilders K8s
begin

text \<open>
  The reconciler of \<open>internal/controller/oxidemachine_controller.go\<close>. Each method is a
  computation over the world; a method that writes to the \<open>OxideMachine\<close> it is given a pointer
  to returns the object as well, on its error paths too, since the deferred patch persists what was
  written before the error. \<open>Reconcile\<close> is cut at the points where it acquires something:
  \<open>machine_Reconcile\<close> up to the patch helper with the deferred patch, \<open>machine_reconcile_body\<close>
  up to the Oxide client, \<open>machine_with_client\<close> from there, \<open>ensureAddresses\<close> for the
  address lookup at its end. The second half says what the calls and results of each method can be,
  as \<open>emits\<close> facts that the properties compose.
\<close>

section \<open>The model\<close>

abbreviation ready_condition :: "ConditionStatus \<Rightarrow> string \<Rightarrow> Condition" where
  "ready_condition status reason \<equiv>
     \<lparr>CondType = ReadyCondition, CondStatus = status, CondReason = reason\<rparr>"

abbreviation in_project :: "string \<Rightarrow> string \<Rightarrow> ProjectResource" where
  "in_project projectName resource \<equiv> \<lparr>ParamProject = projectName, ParamResource = resource\<rparr>"

definition ensureInstance ::
    "pkgs \<Rightarrow> ('w, 'h) K8sClient \<Rightarrow> 'w OxideClient \<Rightarrow> OxideMachine \<Rightarrow> Machine \<Rightarrow> OxideCluster \<Rightarrow>
     ('w, (go_error + Instance option) \<times> OxideMachine) io" where
  "ensureInstance P k c m machine oc =
     (let projectName = Project (oc_Spec oc);
          instanceName = getInstanceName P (om_Meta m);
          adopt = (\<lambda>inst. return
            (Inr (Some inst), set_ProviderID (NewProviderID (InstanceId inst)) m))
      in if ProviderID (om_Spec m) \<noteq> [] then do {
        r \<leftarrow> InstanceView c (in_project projectName instanceName);
        case r of
          Inl err \<Rightarrow> return (Inl (Wrapf ''fetching oxide instance'' err), m)
        | Inr inst \<Rightarrow> return (Inr (Some inst), m)
      } else case DataSecretName machine of
        None \<Rightarrow> return (Inr None,
          om_conditions_Set P (ready_condition ConditionFalse WaitingForBootstrapDataReason) m)
      | Some bootstrapSecretName \<Rightarrow> do {
        r \<leftarrow> GetSecret k \<lparr>KeyNamespace = ObjNamespace (MachineMeta machine),
                          KeyName = bootstrapSecretName\<rparr>;
        case r of
          Inl err \<Rightarrow> return (Inl (Wrapf ''fetching bootstrap secret'' err), m)
        | Inr secret \<Rightarrow> (case SecretData secret ''value'' of
            None \<Rightarrow> return (Inl (New (''missing `value` key in bootstrap secret '' @
                                   bootstrapSecretName)), m)
          | Some userData \<Rightarrow> do {
            r \<leftarrow> InstanceCreate c (instanceCreateParams P m oc userData);
            case r of
              Inr inst \<Rightarrow> adopt inst
            | Inl err \<Rightarrow>
                if \<not> errors_Is err ErrObjectAlreadyExists
                then return (Inl (Wrapf ''creating oxide instance'' err), m)
                else do {
                  r \<leftarrow> InstanceView c (in_project projectName instanceName);
                  case r of
                    Inl err \<Rightarrow> return (Inl (Wrapf ''viewing existing oxide instance'' err), m)
                  | Inr inst \<Rightarrow> adopt inst
                }
          })
      })"

definition ensureInstanceRunning ::
    "'w OxideClient \<Rightarrow> Instance \<Rightarrow> ('w, go_error + bool \<times> Instance) io" where
  "ensureInstanceRunning c inst =
     (case RunState inst of
        InstanceStateStopped \<Rightarrow> do {
          r \<leftarrow> InstanceStart c (InstanceId inst);
          case r of
            Inl err \<Rightarrow> return (Inl (Wrapf ''starting instance'' err))
          | Inr startedInstance \<Rightarrow> return (Inr (False, startedInstance))
        }
      | InstanceStateRunning \<Rightarrow> return (Inr (True, inst))
      | _ \<Rightarrow> return (Inr (False, inst)))"

definition ensureInstanceDeleted ::
    "'w OxideClient \<Rightarrow> string \<Rightarrow> string \<Rightarrow> ('w, go_error + bool \<times> Instance option) io" where
  "ensureInstanceDeleted c projectName instanceName = do {
     r \<leftarrow> InstanceView c (in_project projectName instanceName);
     case r of
       Inl err \<Rightarrow>
         if errors_Is err ErrObjectNotFound then return (Inr (True, None))
         else return (Inl (Wrapf ''viewing instance'' err))
     | Inr inst \<Rightarrow> (case RunState inst of
         InstanceStateRunning \<Rightarrow> do {
           r \<leftarrow> InstanceStop c (in_project projectName instanceName);
           case r of
             Inl err \<Rightarrow>
               if errors_Is err ErrObjectNotFound then return (Inr (True, None))
               else return (Inl (Wrapf ''stopping instance'' err))
           | Inr inst \<Rightarrow> return (Inr (False, Some inst))
         }
       | InstanceStateOther _ \<Rightarrow> return (Inr (False, Some inst))
       | _ \<Rightarrow> do {
           r \<leftarrow> InstanceDelete c (in_project projectName instanceName);
           case r of
             Some err \<Rightarrow>
               if errors_Is err ErrObjectNotFound then return (Inr (True, None))
               else return (Inl (Wrapf ''deleting instance'' err))
           | None \<Rightarrow> return (Inr (False, None))
         })
   }"

definition ensureDiskDeleted ::
    "'w OxideClient \<Rightarrow> string \<Rightarrow> string \<Rightarrow> ('w, go_error + bool) io" where
  "ensureDiskDeleted c projectName diskName = do {
     r \<leftarrow> DiskView c (in_project projectName diskName);
     case r of
       Inl err \<Rightarrow>
         if errors_Is err ErrObjectNotFound then return (Inr True)
         else return (Inl (Wrapf ''viewing disk'' err))
     | Inr disk \<Rightarrow> (case DiskState disk of
         DiskStateStateOther _ \<Rightarrow> return (Inr False)
       | _ \<Rightarrow> do {
           r \<leftarrow> DiskDelete c (in_project projectName diskName);
           case r of
             Some err \<Rightarrow>
               if errors_Is err ErrObjectNotFound then return (Inr True)
               else return (Inl (Wrapf ''destroying disk'' err))
           | None \<Rightarrow> return (Inr True)
         })
   }"

definition handleDelete ::
    "pkgs \<Rightarrow> 'w OxideClient \<Rightarrow> OxideMachine \<Rightarrow> string \<Rightarrow> string \<Rightarrow> string \<Rightarrow>
     ('w, (go_error + Result) \<times> OxideMachine) io" where
  "handleDelete P c m projectName instanceName diskName = do {
     r \<leftarrow> ensureInstanceDeleted c projectName instanceName;
     case r of
       Inl err \<Rightarrow> return (Inl (Wrapf ''ensuring instance deleted'' err), m)
     | Inr (instanceDeleted, inst) \<Rightarrow>
         let m = om_conditions_Set P (ready_condition ConditionFalse (getReadyReason P inst)) m in
         if \<not> instanceDeleted then return (Inr Result_10s, m)
         else do {
           r \<leftarrow> ensureDiskDeleted c projectName diskName;
           case r of
             Inl err \<Rightarrow> return (Inl (Wrapf ''ensuring disk deleted'' err), m)
           | Inr diskDeleted \<Rightarrow>
               if \<not> diskDeleted then return (Inr Result_10s, m)
               else return (Inr Result_empty,
                 om_RemoveFinalizer P MachineFinalizer m)
         }
   }"

definition ensureAddresses ::
    "'w OxideClient \<Rightarrow> Instance \<Rightarrow> OxideMachine \<Rightarrow> ('w, (go_error + Result) \<times> OxideMachine) io" where
  "ensureAddresses c inst m =
     (if Addresses (om_Status m) \<noteq> [] then return (Inr Result_empty, m)
      else do {
        r \<leftarrow> InstanceNetworkInterfaceListAllPages c (InstanceId inst);
        case r of
          Inl err \<Rightarrow> return (Inl (Wrapf ''listing instance NICs'' err), m)
        | Inr nics \<Rightarrow> (case machineAddressesFromNICs nics of
            Inl err \<Rightarrow> return (Inl (Wrapf ''getting NIC addresses'' err), m)
          | Inr addresses \<Rightarrow>
              if MachineIPPool (om_Spec m) \<noteq> [] then do {
                r \<leftarrow> InstanceExternalIpList c (InstanceId inst);
                case r of
                  Inl err \<Rightarrow> return (Inl (Wrapf ''listing external IPs'' err), m)
                | Inr ips \<Rightarrow> return (Inr Result_empty,
                    set_Addresses (addresses @ machineAddressesFromIPs ips) m)
              } else return (Inr Result_empty, set_Addresses addresses m))
      })"

definition machine_with_client ::
    "pkgs \<Rightarrow> ('w, 'h) K8sClient \<Rightarrow> 'w OxideClient \<Rightarrow> OxideMachine \<Rightarrow> Machine \<Rightarrow> OxideCluster \<Rightarrow>
     ('w, (go_error + Result) \<times> OxideMachine) io" where
  "machine_with_client P k c m machine oc =
     (if \<not> IsZero (DeletionTimestamp (om_Meta m))
      then handleDelete P c m (Project (oc_Spec oc)) (getInstanceName P (om_Meta m))
             (getBootDiskName P (om_Meta m))
      else do {
        (r, m) \<leftarrow> ensureInstance P k c
          (om_AddFinalizer P MachineFinalizer m) machine oc;
        case r of
          Inl err \<Rightarrow> return (Inl err, m)
        | Inr None \<Rightarrow> return (Inr Result_empty, m)
        | Inr (Some inst) \<Rightarrow> do {
            r \<leftarrow> ensureInstanceRunning c inst;
            case r of
              Inl err \<Rightarrow> return (Inl (Wrapf ''ensuring instance running'' err), m)
            | Inr (instanceRunning, inst) \<Rightarrow>
                let reason = getReadyReason P (Some inst) in
                if \<not> instanceRunning
                then return (Inr Result_10s,
                       om_conditions_Set P (ready_condition ConditionFalse reason) m)
                else ensureAddresses c inst (set_om_Provisioned (Some True)
                       (om_conditions_Set P (ready_condition ConditionTrue reason) m))
          }
      })"

definition machine_reconcile_body ::
    "pkgs \<Rightarrow> ('w, 'h, 's) OxideMachineReconciler \<Rightarrow> OxideMachine \<Rightarrow> Machine \<Rightarrow>
     ('w, (go_error + Result) \<times> OxideMachine) io" where
  "machine_reconcile_body P r m machine = do {
     g \<leftarrow> GetOxideCluster (omr_Client r)
       \<lparr>KeyNamespace = ObjNamespace (MachineMeta machine),
        KeyName = (case Labels (MachineMeta machine) ClusterNameLabel of
                     None \<Rightarrow> [] | Some clusterName \<Rightarrow> clusterName)\<rparr>;
     case g of
       Inl err \<Rightarrow> return (Inl err, m)
     | Inr oc \<Rightarrow> do {
         f \<leftarrow> omr_OxideClientFactory r oc;
         case f of
           Inl err \<Rightarrow> return (Inl (Wrapf ''constructing oxide client'' err), m)
         | Inr c \<Rightarrow> machine_with_client P (omr_Client r) c m machine oc
       }
   }"

text \<open>The deferred patch: its error replaces the one the body returned.\<close>

definition machine_deferred :: "go_error + Result \<Rightarrow> go_error option \<Rightarrow> Result \<times> go_error option" where
  "machine_deferred res patchErr =
     (case res of Inl _ \<Rightarrow> Result_empty | Inr result \<Rightarrow> result,
      case patchErr of
        Some err \<Rightarrow> Some (Wrapf ''patching machine'' err)
      | None \<Rightarrow> (case res of Inl err \<Rightarrow> Some err | Inr _ \<Rightarrow> None))"

definition machine_Reconcile ::
    "pkgs \<Rightarrow> ('w, 'h, 's) OxideMachineReconciler \<Rightarrow> ObjectKey \<Rightarrow> ('w, Result \<times> go_error option) io" where
  "machine_Reconcile P r req = do {
     g \<leftarrow> GetOxideMachine (omr_Client r) req;
     case g of
       Inl err \<Rightarrow>
         if IsNotFound err then return (Result_empty, None) else return (Result_empty, Some err)
     | Inr m \<Rightarrow> do {
         g \<leftarrow> GetOwnerMachine (omr_Client r) (om_Meta m);
         case g of
           Inl err \<Rightarrow> return (Result_empty, Some err)
         | Inr None \<Rightarrow> return (Result_empty, None)
         | Inr (Some machine) \<Rightarrow> do {
             g \<leftarrow> GetClusterFromMetadata (omr_Client r) (MachineMeta machine);
             case g of
               Inl err \<Rightarrow> return (Result_empty, Some (Wrapf ''getting owner cluster'' err))
             | Inr cluster \<Rightarrow> do {
                 (pr, m) \<leftarrow> EnsureMachinePaused (omr_Client r) cluster m;
                 if pausedErr pr \<noteq> None \<or> isPaused pr \<or> requeue pr
                 then return (Result_empty, pausedErr pr)
                 else do {
                   g \<leftarrow> NewMachineHelper (omr_Client r) m;
                   case g of
                     Inl err \<Rightarrow> return (Result_empty, Some (Wrapf ''building patch helper'' err))
                   | Inr patchHelper \<Rightarrow> do {
                       (res, m) \<leftarrow> machine_reconcile_body P r m machine;
                       patchErr \<leftarrow> PatchMachine (omr_Client r) patchHelper m;
                       return (machine_deferred res patchErr)
                     }
                 }
               }
           }
       }
   }"

section \<open>Calls and results\<close>

text \<open>An answer that says the instance, or the disk, is gone.\<close>

fun instance_gone :: "event \<Rightarrow> bool" where
  "instance_gone (EvInstanceView _ (Inl e)) = errors_Is e ErrObjectNotFound"
| "instance_gone (EvInstanceStop _ (Inl e)) = errors_Is e ErrObjectNotFound"
| "instance_gone (EvInstanceDelete _ (Some e)) = errors_Is e ErrObjectNotFound"
| "instance_gone _ = False"

fun disk_gone :: "event \<Rightarrow> bool" where
  "disk_gone (EvDiskView _ (Inl e)) = errors_Is e ErrObjectNotFound"
| "disk_gone (EvDiskDelete _ None) = True"
| "disk_gone (EvDiskDelete _ (Some e)) = errors_Is e ErrObjectNotFound"
| "disk_gone _ = False"

text \<open>The call that follows a view, by the state the view reported.\<close>

fun instance_deletion_call :: "ProjectResource \<Rightarrow> InstanceState \<Rightarrow> event list \<Rightarrow> bool" where
  "instance_deletion_call p InstanceStateRunning evs = (\<exists>a. evs = [EvInstanceStop p a])"
| "instance_deletion_call p InstanceStateStopped evs = (\<exists>a. evs = [EvInstanceDelete p a])"
| "instance_deletion_call p InstanceStateFailed evs = (\<exists>a. evs = [EvInstanceDelete p a])"
| "instance_deletion_call p (InstanceStateOther _) evs = (evs = [])"

fun disk_deletion_call :: "ProjectResource \<Rightarrow> DiskStateState \<Rightarrow> event list \<Rightarrow> bool" where
  "disk_deletion_call p (DiskStateStateOther _) evs = (evs = [])"
| "disk_deletion_call p _ evs = (\<exists>a. evs = [EvDiskDelete p a])"

definition instance_deletion_log ::
    "ProjectResource \<Rightarrow> go_error + bool \<times> Instance option \<Rightarrow> event list \<Rightarrow> bool" where
  "instance_deletion_log p r evs \<longleftrightarrow>
     (\<exists>view rest. evs = EvInstanceView p view # rest \<and>
        (case view of Inl e \<Rightarrow> rest = [] | Inr i \<Rightarrow> instance_deletion_call p (RunState i) rest)) \<and>
     (instance_gone (last evs) \<longleftrightarrow> r = Inr (True, None)) \<and>
     (\<forall>i. r \<noteq> Inr (True, Some i)) \<and>
     (\<forall>i. r = Inr (False, Some i) \<longrightarrow> EvInstanceView p (Inr i) \<in> set evs \<or> EvInstanceStop p (Inr i) \<in> set evs)"

definition disk_deletion_log :: "ProjectResource \<Rightarrow> go_error + bool \<Rightarrow> event list \<Rightarrow> bool" where
  "disk_deletion_log p r evs \<longleftrightarrow>
     (\<exists>view rest. evs = EvDiskView p view # rest \<and>
        (case view of Inl e \<Rightarrow> rest = [] | Inr d \<Rightarrow> disk_deletion_call p (DiskState d) rest)) \<and>
     (disk_gone (last evs) \<longleftrightarrow> r = Inr True)"

lemma ensureInstanceDeleted_emits:
  "emits (ensureInstanceDeleted (log_client c) pn nm) (instance_deletion_log (in_project pn nm))"
  unfolding ensureInstanceDeleted_def
  by (auto intro!: emits_rules simp: instance_deletion_log_def
      split: sum.split option.split InstanceState.split)

lemma ensureDiskDeleted_emits:
  "emits (ensureDiskDeleted (log_client c) pn dn) (disk_deletion_log (in_project pn dn))"
  unfolding ensureDiskDeleted_def
  by (auto intro!: emits_rules simp: disk_deletion_log_def
      split: sum.split option.split DiskStateState.split)

lemma ensureInstanceRunning_emits:
  "emits (ensureInstanceRunning (log_client c) inst) (\<lambda>r evs.
     (\<forall>running i. r = Inr (running, i) \<longrightarrow>
        running = (RunState inst = InstanceStateRunning) \<and> (running \<longrightarrow> i = inst)) \<and>
     (if RunState inst = InstanceStateStopped then \<exists>a. evs = [EvInstanceStart (InstanceId inst) a]
      else evs = []))"
  unfolding ensureInstanceRunning_def
  by (auto intro!: emits_rules split: sum.split InstanceState.split)

text \<open>
  The longer methods have their behaviour as inductive relations between the result and the calls,
  one rule per way through the method. \<open>handleDelete\<close>: the instance first, the boot disk only
  once the instance is gone, the finalizer only once both are.
\<close>

abbreviation deleting_ready :: "pkgs \<Rightarrow> Instance option \<Rightarrow> OxideMachine \<Rightarrow> OxideMachine" where
  "deleting_ready P inst m \<equiv>
     om_conditions_Set P (ready_condition ConditionFalse (getReadyReason P inst)) m"

inductive handle_delete_log ::
    "pkgs \<Rightarrow> OxideMachine \<Rightarrow> ProjectResource \<Rightarrow> ProjectResource \<Rightarrow>
     (go_error + Result) \<times> OxideMachine \<Rightarrow> event list \<Rightarrow> bool"
  for P :: pkgs and m :: OxideMachine and ip :: ProjectResource and dp :: ProjectResource
where
  instance_error:
    "instance_deletion_log ip (Inl e) ie \<Longrightarrow>
     handle_delete_log P m ip dp (Inl (Wrapf ''ensuring instance deleted'' e), m) ie"
| instance_pending:
    "instance_deletion_log ip (Inr (False, inst)) ie \<Longrightarrow>
     handle_delete_log P m ip dp (Inr Result_10s, deleting_ready P inst m) ie"
| disk_error:
    "instance_deletion_log ip (Inr (True, None)) ie \<Longrightarrow> disk_deletion_log dp (Inl e) de \<Longrightarrow>
     handle_delete_log P m ip dp
       (Inl (Wrapf ''ensuring disk deleted'' e), deleting_ready P None m) (ie @ de)"
| disk_pending:
    "instance_deletion_log ip (Inr (True, None)) ie \<Longrightarrow> disk_deletion_log dp (Inr False) de \<Longrightarrow>
     handle_delete_log P m ip dp (Inr Result_10s, deleting_ready P None m) (ie @ de)"
| all_gone:
    "instance_deletion_log ip (Inr (True, None)) ie \<Longrightarrow> disk_deletion_log dp (Inr True) de \<Longrightarrow>
     handle_delete_log P m ip dp
       (Inr Result_empty, om_RemoveFinalizer P MachineFinalizer (deleting_ready P None m)) (ie @ de)"

lemma handleDelete_emits:
  "emits (handleDelete P (log_client c) m pn inm dn)
     (handle_delete_log P m (in_project pn inm) (in_project pn dn))"
  unfolding handleDelete_def
proof (rule emits_bind_known [OF ensureInstanceDeleted_emits], goal_cases)
  case (1 ri ie)
  show ?case
  proof (cases "ri = Inr (True, None)")
    case True
    with 1 show ?thesis
      by (auto simp: Let_def simp del: getReadyReason_nil
          intro!: emits_bind_known [OF ensureDiskDeleted_emits] emits_return split: sum.split)
        (blast intro: handle_delete_log.intros)+
  next
    case False
    with 1 have "ri \<noteq> Inr (True, i)" for i by (cases i) (auto simp: instance_deletion_log_def)
    with 1 show ?thesis
      by (auto simp: Let_def intro!: emits_return intro: handle_delete_log.intros
          split: sum.split)
  qed
qed

text \<open>\<open>ensureInstance\<close>: view the known instance, wait for bootstrap data, or create and adopt.\<close>

inductive ensure_instance_log ::
    "pkgs \<Rightarrow> OxideMachine \<Rightarrow> Machine \<Rightarrow> OxideCluster \<Rightarrow>
     (go_error + Instance option) \<times> OxideMachine \<Rightarrow> event list \<Rightarrow> bool"
  for P :: pkgs and m :: OxideMachine and machine :: Machine and oc :: OxideCluster
where
  view_error:
    "ProviderID (om_Spec m) \<noteq> [] \<Longrightarrow>
     ensure_instance_log P m machine oc (Inl (Wrapf ''fetching oxide instance'' e), m)
       [EvInstanceView (in_project (Project (oc_Spec oc)) (getInstanceName P (om_Meta m))) (Inl e)]"
| viewed:
    "ProviderID (om_Spec m) \<noteq> [] \<Longrightarrow>
     ensure_instance_log P m machine oc (Inr (Some inst), m)
       [EvInstanceView (in_project (Project (oc_Spec oc)) (getInstanceName P (om_Meta m))) (Inr inst)]"
| waiting:
    "ProviderID (om_Spec m) = [] \<Longrightarrow> DataSecretName machine = None \<Longrightarrow>
     ensure_instance_log P m machine oc
       (Inr None, om_conditions_Set P
          (ready_condition ConditionFalse WaitingForBootstrapDataReason) m) []"
| secret_error:
    "ProviderID (om_Spec m) = [] \<Longrightarrow> DataSecretName machine = Some s \<Longrightarrow>
     ensure_instance_log P m machine oc (Inl e, m) []"
| create_error:
    "ProviderID (om_Spec m) = [] \<Longrightarrow> DataSecretName machine = Some s \<Longrightarrow>
     \<not> errors_Is e ErrObjectAlreadyExists \<Longrightarrow>
     ensure_instance_log P m machine oc (Inl (Wrapf ''creating oxide instance'' e), m)
       [EvInstanceCreate (instanceCreateParams P m oc ud) (Inl e)]"
| created:
    "ProviderID (om_Spec m) = [] \<Longrightarrow> DataSecretName machine = Some s \<Longrightarrow>
     ensure_instance_log P m machine oc
       (Inr (Some inst), set_ProviderID (NewProviderID (InstanceId inst)) m)
       [EvInstanceCreate (instanceCreateParams P m oc ud) (Inr inst)]"
| adopt_error:
    "ProviderID (om_Spec m) = [] \<Longrightarrow> DataSecretName machine = Some s \<Longrightarrow>
     errors_Is e ErrObjectAlreadyExists \<Longrightarrow>
     ensure_instance_log P m machine oc (Inl (Wrapf ''viewing existing oxide instance'' e'), m)
       [EvInstanceCreate (instanceCreateParams P m oc ud) (Inl e),
        EvInstanceView (in_project (Project (oc_Spec oc)) (getInstanceName P (om_Meta m))) (Inl e')]"
| adopted:
    "ProviderID (om_Spec m) = [] \<Longrightarrow> DataSecretName machine = Some s \<Longrightarrow>
     errors_Is e ErrObjectAlreadyExists \<Longrightarrow>
     ensure_instance_log P m machine oc
       (Inr (Some inst), set_ProviderID (NewProviderID (InstanceId inst)) m)
       [EvInstanceCreate (instanceCreateParams P m oc ud) (Inl e),
        EvInstanceView (in_project (Project (oc_Spec oc)) (getInstanceName P (om_Meta m))) (Inr inst)]"

lemma ensureInstance_emits:
  "emits (ensureInstance P (log_k8s k) (log_client c) m machine oc)
     (ensure_instance_log P m machine oc)"
  unfolding ensureInstance_def Let_def
  by (auto intro!: emits_rules split: sum.split option.split)
    (blast intro: ensure_instance_log.intros)+

text \<open>\<open>ensureAddresses\<close> only reads; it writes the addresses or nothing.\<close>

inductive addresses_log ::
    "Instance \<Rightarrow> OxideMachine \<Rightarrow> (go_error + Result) \<times> OxideMachine \<Rightarrow> event list \<Rightarrow> bool"
  for inst :: Instance and m :: OxideMachine
where
  known: "Addresses (om_Status m) \<noteq> [] \<Longrightarrow> addresses_log inst m (Inr Result_empty, m) []"
| nic_error:
    "Addresses (om_Status m) = [] \<Longrightarrow>
     (\<And>nics as. a = Inr nics \<Longrightarrow> machineAddressesFromNICs nics \<noteq> Inr as) \<Longrightarrow>
     addresses_log inst m (Inl e, m) [EvNicList (InstanceId inst) a]"
| nics_only:
    "Addresses (om_Status m) = [] \<Longrightarrow> MachineIPPool (om_Spec m) = [] \<Longrightarrow>
     machineAddressesFromNICs nics = Inr as \<Longrightarrow>
     addresses_log inst m (Inr Result_empty, set_Addresses as m) [EvNicList (InstanceId inst) (Inr nics)]"
| ip_error:
    "Addresses (om_Status m) = [] \<Longrightarrow> MachineIPPool (om_Spec m) \<noteq> [] \<Longrightarrow>
     machineAddressesFromNICs nics = Inr as \<Longrightarrow>
     addresses_log inst m (Inl (Wrapf ''listing external IPs'' e), m)
       [EvNicList (InstanceId inst) (Inr nics), EvExternalIpList (InstanceId inst) (Inl e)]"
| nics_and_ips:
    "Addresses (om_Status m) = [] \<Longrightarrow> MachineIPPool (om_Spec m) \<noteq> [] \<Longrightarrow>
     machineAddressesFromNICs nics = Inr as \<Longrightarrow>
     addresses_log inst m (Inr Result_empty, set_Addresses (as @ machineAddressesFromIPs ips) m)
       [EvNicList (InstanceId inst) (Inr nics), EvExternalIpList (InstanceId inst) (Inr ips)]"

lemma ensureAddresses_emits: "emits (ensureAddresses (log_client c) inst m) (addresses_log inst m)"
  unfolding ensureAddresses_def
  by (auto intro!: emits_rules addresses_log.intros split: sum.split)

text \<open>The whole reconcile, from the client on, from the object on, and from the request on.\<close>

inductive machine_log ::
    "pkgs \<Rightarrow> OxideMachine \<Rightarrow> Machine \<Rightarrow> OxideCluster \<Rightarrow>
     (go_error + Result) \<times> OxideMachine \<Rightarrow> event list \<Rightarrow> bool"
  for P :: pkgs and m :: OxideMachine and machine :: Machine and oc :: OxideCluster
where
  deleting:
    "\<not> IsZero (DeletionTimestamp (om_Meta m)) \<Longrightarrow>
     handle_delete_log P m (in_project (Project (oc_Spec oc)) (getInstanceName P (om_Meta m)))
       (in_project (Project (oc_Spec oc)) (getBootDiskName P (om_Meta m))) rm evs \<Longrightarrow>
     machine_log P m machine oc rm evs"
| live_error:
    "IsZero (DeletionTimestamp (om_Meta m)) \<Longrightarrow>
     ensure_instance_log P (om_AddFinalizer P MachineFinalizer m) machine oc (Inl e, m1) evs \<Longrightarrow>
     machine_log P m machine oc (Inl e, m1) evs"
| live_waiting:
    "IsZero (DeletionTimestamp (om_Meta m)) \<Longrightarrow>
     ensure_instance_log P (om_AddFinalizer P MachineFinalizer m) machine oc (Inr None, m1) evs \<Longrightarrow>
     machine_log P m machine oc (Inr Result_empty, m1) evs"
| start_error:
    "IsZero (DeletionTimestamp (om_Meta m)) \<Longrightarrow>
     ensure_instance_log P (om_AddFinalizer P MachineFinalizer m) machine oc (Inr (Some inst), m1) evs \<Longrightarrow>
     RunState inst = InstanceStateStopped \<Longrightarrow>
     machine_log P m machine oc
       (Inl (Wrapf ''ensuring instance running'' (Wrapf ''starting instance'' e)), m1)
       (evs @ [EvInstanceStart (InstanceId inst) (Inl e)])"
| starting:
    "IsZero (DeletionTimestamp (om_Meta m)) \<Longrightarrow>
     ensure_instance_log P (om_AddFinalizer P MachineFinalizer m) machine oc (Inr (Some inst), m1) evs \<Longrightarrow>
     RunState inst = InstanceStateStopped \<Longrightarrow>
     machine_log P m machine oc
       (Inr Result_10s, om_conditions_Set P
          (ready_condition ConditionFalse (getReadyReason P (Some inst'))) m1)
       (evs @ [EvInstanceStart (InstanceId inst) (Inr inst')])"
| pending:
    "IsZero (DeletionTimestamp (om_Meta m)) \<Longrightarrow>
     ensure_instance_log P (om_AddFinalizer P MachineFinalizer m) machine oc (Inr (Some inst), m1) evs \<Longrightarrow>
     RunState inst \<noteq> InstanceStateStopped \<Longrightarrow> RunState inst \<noteq> InstanceStateRunning \<Longrightarrow>
     machine_log P m machine oc
       (Inr Result_10s, om_conditions_Set P
          (ready_condition ConditionFalse (getReadyReason P (Some inst))) m1) evs"
| running:
    "IsZero (DeletionTimestamp (om_Meta m)) \<Longrightarrow>
     ensure_instance_log P (om_AddFinalizer P MachineFinalizer m) machine oc (Inr (Some inst), m1) evs \<Longrightarrow>
     RunState inst = InstanceStateRunning \<Longrightarrow>
     addresses_log inst (set_om_Provisioned (Some True) (om_conditions_Set P
        (ready_condition ConditionTrue (getReadyReason P (Some inst))) m1)) rm es \<Longrightarrow>
     machine_log P m machine oc rm (evs @ es)"

lemma ensureInstanceRunning_cases:
  "ensureInstanceRunning c inst =
     (if RunState inst = InstanceStateRunning then return (Inr (True, inst))
      else if RunState inst = InstanceStateStopped then do {
        r \<leftarrow> InstanceStart c (InstanceId inst);
        case r of Inl err \<Rightarrow> return (Inl (Wrapf ''starting instance'' err))
        | Inr startedInstance \<Rightarrow> return (Inr (False, startedInstance))
      } else return (Inr (False, inst)))"
  by (cases "RunState inst") (simp_all add: ensureInstanceRunning_def)

lemma machine_with_client_emits:
  "emits (machine_with_client P (log_k8s k) (log_client c) m machine oc) (machine_log P m machine oc)"
proof (cases "IsZero (DeletionTimestamp (om_Meta m))")
  case False
  then show ?thesis unfolding machine_with_client_def
    by (auto intro!: emits_mono [OF handleDelete_emits] intro: machine_log.deleting)
next
  case True
  then have eq: "machine_with_client P (log_k8s k) (log_client c) m machine oc = (do {
      (r, m1) \<leftarrow> ensureInstance P (log_k8s k) (log_client c) (om_AddFinalizer P MachineFinalizer m) machine oc;
      case r of
        Inl err \<Rightarrow> return (Inl err, m1)
      | Inr None \<Rightarrow> return (Inr Result_empty, m1)
      | Inr (Some inst) \<Rightarrow> do {
          r \<leftarrow> ensureInstanceRunning (log_client c) inst;
          case r of
            Inl err \<Rightarrow> return (Inl (Wrapf ''ensuring instance running'' err), m1)
          | Inr (instanceRunning, inst) \<Rightarrow>
              let reason = getReadyReason P (Some inst) in
              if \<not> instanceRunning
              then return (Inr Result_10s, om_conditions_Set P (ready_condition ConditionFalse reason) m1)
              else ensureAddresses (log_client c) inst (set_om_Provisioned (Some True)
                     (om_conditions_Set P (ready_condition ConditionTrue reason) m1))
        }
    })"
    by (simp add: machine_with_client_def)
  show ?thesis unfolding eq
  proof (rule emits_bind_known [OF ensureInstance_emits], goal_cases)
    case (1 rm evs)
    obtain r m1 where rm: "rm = (r, m1)" by (cases rm)
    consider e where "r = Inl e" | "r = Inr None" | inst where "r = Inr (Some inst)"
      by (metis sum.exhaust option.exhaust)
    then show ?case
    proof cases
      case (3 inst)
      note e = 1 [unfolded rm 3]
      note simps = rm 3 ensureInstanceRunning_cases Let_def
      consider "RunState inst = InstanceStateRunning" | "RunState inst = InstanceStateStopped"
        | "RunState inst \<noteq> InstanceStateStopped" "RunState inst \<noteq> InstanceStateRunning" by blast
      then show ?thesis
      proof cases
        case 1
        then show ?thesis
          by (auto simp: simps intro!: emits_mono [OF ensureAddresses_emits] machine_log.running True e)
      next
        case 2
        then show ?thesis
          by (auto simp: simps intro!: emits_rules machine_log.start_error machine_log.starting True e
              split: sum.split)
      next
        case 3
        then show ?thesis by (auto simp: simps intro!: emits_return machine_log.pending True e)
      qed
    qed (use 1 rm True in \<open>auto intro!: emits_return intro: machine_log.live_error machine_log.live_waiting\<close>)
  qed
qed

inductive machine_body_log ::
    "pkgs \<Rightarrow> OxideMachine \<Rightarrow> Machine \<Rightarrow> (go_error + Result) \<times> OxideMachine \<Rightarrow> event list \<Rightarrow> bool"
  for P :: pkgs and m :: OxideMachine and machine :: Machine
where
  no_client: "machine_body_log P m machine (Inl e, m) []"
| with_client: "machine_log P m machine oc rm evs \<Longrightarrow> machine_body_log P m machine rm evs"

lemma machine_reconcile_body_emits:
  "emits (machine_reconcile_body P (log_machine_reconciler r) m machine) (machine_body_log P m machine)"
  unfolding machine_reconcile_body_def
  by (auto intro!: emits_bind emits_silent emits_return emits_log_factory machine_body_log.no_client
      emits_mono [OF machine_with_client_emits] split: sum.split)
    (blast intro: machine_body_log.with_client)

inductive machine_reconcile_log :: "pkgs \<Rightarrow> Result \<times> go_error option \<Rightarrow> event list \<Rightarrow> bool"
  for P :: pkgs
where
  idle: "machine_reconcile_log P (Result_empty, err) []"
| no_helper:
    "machine_reconcile_log P (Result_empty, Some (Wrapf ''building patch helper'' e))
       [EvSnapshotMachine m False]"
| reconciled:
    "machine_body_log P m machine (res, m') ox \<Longrightarrow>
     machine_reconcile_log P (machine_deferred res a)
       (EvSnapshotMachine m True # ox @ [EvPatchMachine m' a])"

lemma machine_Reconcile_emits:
  "emits (machine_Reconcile P (log_machine_reconciler r) req) (machine_reconcile_log P)"
  unfolding machine_Reconcile_def
  by (auto intro!: emits_rules emits_bind_known [OF machine_reconcile_body_emits]
      machine_reconcile_log.intros split: sum.split option.split)

end
