(* ===== verification/MachineProps.thy ===== *)
theory MachineProps
  imports MachineController
begin

text \<open>
  Properties of the machine reconciler, read off the relations between results and calls of
  \<open>MachineController\<close>. A run of a reconcile is a result with its log: the object read, the Oxide
  calls with their answers, the object written back.
\<close>

definition machine_run ::
    "pkgs \<Rightarrow> ('w, 'h, 's) OxideMachineReconciler \<Rightarrow> ObjectKey \<Rightarrow> 'w \<Rightarrow>
     Result \<times> go_error option \<Rightarrow> event list \<Rightarrow> bool" where
  "machine_run P r req w res evs \<longleftrightarrow>
     (\<exists>w'. run_state (machine_Reconcile P (log_machine_reconciler r) req) (w, []) = (res, (w', evs)))"

lemma machine_run_log: "machine_run P r req w res evs \<Longrightarrow> machine_reconcile_log P res evs"
  unfolding machine_run_def by (elim exE) (rule emits_run_Nil [OF machine_Reconcile_emits])

section \<open>Kinds of calls\<close>

fun instance_answer :: "event \<Rightarrow> Instance option" where
  "instance_answer (EvInstanceCreate _ (Inr i)) = Some i"
| "instance_answer (EvInstanceView _ (Inr i)) = Some i"
| "instance_answer _ = None"

fun is_bookkeeping :: "event \<Rightarrow> bool" where
  "is_bookkeeping (EvSnapshotMachine _ _) = True"
| "is_bookkeeping (EvSnapshotCluster _ _) = True"
| "is_bookkeeping (EvPatchMachine _ _) = True"
| "is_bookkeeping (EvPatchCluster _ _) = True"
| "is_bookkeeping (EvListMachines _) = True"
| "is_bookkeeping _ = False"

text \<open>The calls that bring a machine up, and those that take it down.\<close>

fun bring_up :: "event \<Rightarrow> bool" where
  "bring_up (EvInstanceCreate _ _) = True"
| "bring_up (EvInstanceStart _ _) = True"
| "bring_up (EvNicList _ _) = True"
| "bring_up (EvExternalIpList _ _) = True"
| "bring_up _ = False"

fun take_down :: "event \<Rightarrow> bool" where
  "take_down (EvInstanceStop _ _) = True"
| "take_down (EvInstanceDelete _ _) = True"
| "take_down (EvDiskView _ _) = True"
| "take_down (EvDiskDelete _ _) = True"
| "take_down _ = False"

fun is_create :: "event \<Rightarrow> bool" where
  "is_create (EvInstanceCreate _ _) = True"
| "is_create _ = False"

section \<open>Facts about the logs\<close>

lemma instance_deletion_log_cases:
  assumes "instance_deletion_log p r evs"
  obtains (view_failed) e where "evs = [EvInstanceView p (Inl e)]"
  | (stop) i a where "evs = [EvInstanceView p (Inr i), EvInstanceStop p a]"
      "RunState i = InstanceStateRunning"
  | (delete) i a where "evs = [EvInstanceView p (Inr i), EvInstanceDelete p a]"
      "RunState i = InstanceStateStopped \<or> RunState i = InstanceStateFailed"
  | (wait) i s where "evs = [EvInstanceView p (Inr i)]" "RunState i = InstanceStateOther s"
proof -
  from assms obtain view rest where evs: "evs = EvInstanceView p view # rest"
    and rest: "case view of Inl e \<Rightarrow> rest = [] | Inr i \<Rightarrow> instance_deletion_call p (RunState i) rest"
    by (auto simp: instance_deletion_log_def)
  show thesis
  proof (cases view)
    case (Inl e)
    with evs rest show thesis by (auto intro: view_failed)
  next
    case (Inr i)
    with evs rest show thesis by (cases "RunState i") (auto intro: stop delete wait)
  qed
qed

lemma disk_deletion_log_cases:
  assumes "disk_deletion_log p r evs"
  obtains (view_failed) e where "evs = [EvDiskView p (Inl e)]"
  | (delete) d a where "evs = [EvDiskView p (Inr d), EvDiskDelete p a]"
      "DiskState d = DiskStateStateDetached \<or> DiskState d = DiskStateStateFaulted"
  | (wait) d s where "evs = [EvDiskView p (Inr d)]" "DiskState d = DiskStateStateOther s"
proof -
  from assms obtain view rest where evs: "evs = EvDiskView p view # rest"
    and rest: "case view of Inl e \<Rightarrow> rest = [] | Inr d \<Rightarrow> disk_deletion_call p (DiskState d) rest"
    by (auto simp: disk_deletion_log_def)
  show thesis
  proof (cases view)
    case (Inl e)
    with evs rest show thesis by (auto intro: view_failed)
  next
    case (Inr d)
    with evs rest show thesis by (cases "DiskState d") (auto intro: delete wait)
  qed
qed

lemma instance_deletion_no_bring_up:
  "instance_deletion_log p r evs \<Longrightarrow> ev \<in> set evs \<Longrightarrow> \<not> bring_up ev \<and> \<not> is_bookkeeping ev \<and> \<not> is_create ev"
  by (erule instance_deletion_log_cases) auto

lemma disk_deletion_no_bring_up:
  "disk_deletion_log p r evs \<Longrightarrow> ev \<in> set evs \<Longrightarrow> \<not> bring_up ev \<and> \<not> is_bookkeeping ev \<and> \<not> is_create ev"
  by (erule disk_deletion_log_cases) auto

lemma handle_delete_no_bring_up:
  "handle_delete_log P m ip dp rm evs \<Longrightarrow> ev \<in> set evs \<Longrightarrow>
     \<not> bring_up ev \<and> \<not> is_bookkeeping ev \<and> \<not> is_create ev"
  by (erule handle_delete_log.cases)
    (auto dest: instance_deletion_no_bring_up disk_deletion_no_bring_up)

lemma ensure_instance_no_take_down:
  "ensure_instance_log P m machine oc rm evs \<Longrightarrow> ev \<in> set evs \<Longrightarrow>
     \<not> take_down ev \<and> \<not> is_bookkeeping ev"
  by (erule ensure_instance_log.cases) auto

lemma addresses_no_take_down:
  "addresses_log inst m rm evs \<Longrightarrow> ev \<in> set evs \<Longrightarrow>
     \<not> take_down ev \<and> \<not> is_bookkeeping ev \<and> \<not> is_create ev"
  by (erule addresses_log.cases) auto

lemma machine_log_phases:
  assumes "machine_log P m machine oc rm evs" and "ev \<in> set evs"
  shows "\<not> is_bookkeeping ev"
    and "IsZero (DeletionTimestamp (om_Meta m)) \<Longrightarrow> \<not> take_down ev"
    and "\<not> IsZero (DeletionTimestamp (om_Meta m)) \<Longrightarrow> \<not> bring_up ev"
  using assms
  by (auto elim!: machine_log.cases dest: handle_delete_no_bring_up ensure_instance_no_take_down
      addresses_no_take_down)

lemma machine_body_log_phases:
  assumes "machine_body_log P m machine rm evs" and "ev \<in> set evs"
  shows "\<not> is_bookkeeping ev"
    and "IsZero (DeletionTimestamp (om_Meta m)) \<Longrightarrow> \<not> take_down ev"
    and "\<not> IsZero (DeletionTimestamp (om_Meta m)) \<Longrightarrow> \<not> bring_up ev"
  using assms by (auto elim!: machine_body_log.cases dest: machine_log_phases)

text \<open>
  A run that patched: what it read, what it called, what it wrote. Every property of the written
  object starts here.
\<close>

lemma machine_run_patched:
  assumes "machine_run P r req w res evs" and "EvPatchMachine m' a \<in> set evs"
  obtains m machine body ox where
    "machine_body_log P m machine (body, m') ox"
    "evs = EvSnapshotMachine m True # ox @ [EvPatchMachine m' a]"
    "res = machine_deferred body a"
  using machine_run_log [OF assms(1)]
proof cases
  case (reconciled m machine body m'' ox a')
  from reconciled(2) assms(2) have "EvPatchMachine m' a \<in> set ox \<or> m'' = m' \<and> a' = a" by auto
  moreover have "EvPatchMachine m' a \<notin> set ox"
    using machine_body_log_phases(1) [OF reconciled(3)] is_bookkeeping.simps(3) by blast
  ultimately show thesis using reconciled that by auto
qed (use assms(2) in auto)

lemma machine_run_called:
  assumes "machine_run P r req w res evs" and "ev \<in> set evs" and "\<not> is_bookkeeping ev"
  obtains m machine body m' ox a where
    "machine_body_log P m machine (body, m') ox" "ev \<in> set ox"
    "evs = EvSnapshotMachine m True # ox @ [EvPatchMachine m' a]"
    "res = machine_deferred body a"
  using machine_run_log [OF assms(1)]
proof cases
  case (reconciled m machine body m' ox a)
  with assms(2,3) show thesis by (intro that) auto
qed (use assms(2,3) in auto)

lemma machine_run_snapshot_unique:
  assumes "machine_body_log P m machine rm ox"
    and "EvSnapshotMachine m0 ok \<in> set (EvSnapshotMachine m True # ox @ [EvPatchMachine m' a])"
  shows "m0 = m"
  using assms machine_body_log_phases(1) [OF assms(1)] by fastforce

section \<open>What a reconcile may change\<close>

definition machine_frame :: "OxideMachine \<Rightarrow> OxideMachine \<Rightarrow> bool" where
  "machine_frame m m' \<longleftrightarrow>
     (\<exists>fs. om_Meta m' = (om_Meta m)\<lparr>Finalizers := fs\<rparr>) \<and>
     (\<exists>p. om_Spec m' = (om_Spec m)\<lparr>ProviderID := p\<rparr>) \<and>
     (ProviderID (om_Spec m) \<noteq> [] \<longrightarrow> om_Spec m' = om_Spec m) \<and>
     (MachineProvisioned (MachineInitialization (om_Status m)) = Some True \<longrightarrow>
        MachineProvisioned (MachineInitialization (om_Status m')) = Some True) \<and>
     (Addresses (om_Status m) \<noteq> [] \<longrightarrow> Addresses (om_Status m') = Addresses (om_Status m))"

lemma ex_Finalizers: "\<exists>fs. (x :: ObjectMeta) = x\<lparr>Finalizers := fs\<rparr>"
  by (rule exI [of _ "Finalizers x"]) simp

lemma ex_ProviderID: "\<exists>p. (x :: OxideMachineSpec) = x\<lparr>ProviderID := p\<rparr>"
  by (rule exI [of _ "ProviderID x"]) simp

lemma machine_frame_refl: "machine_frame m m"
  by (simp add: machine_frame_def ex_Finalizers ex_ProviderID)

lemma machine_frame_trans: "machine_frame a b \<Longrightarrow> machine_frame b c \<Longrightarrow> machine_frame a c"
  by (auto simp: machine_frame_def)

lemma machine_frame_steps:
  "machine_frame m (om_AddFinalizer P f m)"
  "machine_frame m (om_RemoveFinalizer P f m)"
  "machine_frame m (om_conditions_Set P c m)"
  "machine_frame m (set_om_Provisioned (Some True) m)"
  "Addresses (om_Status m) = [] \<Longrightarrow> machine_frame m (set_Addresses as m)"
  "ProviderID (om_Spec m) = [] \<Longrightarrow> machine_frame m (set_ProviderID p m)"
  by (auto simp: machine_frame_def ex_Finalizers ex_ProviderID om_AddFinalizer_def
      om_RemoveFinalizer_def)

lemmas machine_frame_chain = machine_frame_trans [OF _ machine_frame_steps(1)]
  machine_frame_trans [OF _ machine_frame_steps(2)] machine_frame_trans [OF _ machine_frame_steps(3)]
  machine_frame_trans [OF _ machine_frame_steps(4)]

lemma handle_delete_frame: "handle_delete_log P m ip dp (r, m') evs \<Longrightarrow> machine_frame m m'"
  by (erule handle_delete_log.cases) (auto intro!: machine_frame_chain intro: machine_frame_refl)

lemma ensure_instance_frame: "ensure_instance_log P m machine oc (r, m') evs \<Longrightarrow> machine_frame m m'"
  by (erule ensure_instance_log.cases) (auto intro: machine_frame_refl machine_frame_steps)

lemma addresses_frame: "addresses_log inst m (r, m') evs \<Longrightarrow> machine_frame m m'"
  by (erule addresses_log.cases) (auto intro: machine_frame_refl machine_frame_steps)

lemma ensure_instance_start_frame:
  "ensure_instance_log P (om_AddFinalizer P f m) machine oc (r, m') evs \<Longrightarrow> machine_frame m m'"
  by (rule machine_frame_trans [OF machine_frame_steps(1) ensure_instance_frame])

lemma machine_log_frame:
  assumes "machine_log P m machine oc (r, m') evs"
  shows "machine_frame m m'"
  using assms
proof cases
  case (running inst m1 evs' es)
  show ?thesis
    by (rule machine_frame_trans [OF machine_frame_chain(4) addresses_frame [OF running(5)]],
        rule machine_frame_chain(3), rule ensure_instance_start_frame [OF running(3)])
qed (blast intro: handle_delete_frame ensure_instance_start_frame machine_frame_chain(3))+

lemma machine_body_log_frame: "machine_body_log P m machine (r, m') evs \<Longrightarrow> machine_frame m m'"
  by (erule machine_body_log.cases) (auto intro: machine_frame_refl machine_log_frame)

section \<open>Metadata and finalizers\<close>

lemma ensure_instance_meta: "ensure_instance_log P m machine oc (r, m') evs \<Longrightarrow> om_Meta m' = om_Meta m"
  by (erule ensure_instance_log.cases) auto

lemma addresses_meta: "addresses_log inst m (r, m') evs \<Longrightarrow> om_Meta m' = om_Meta m"
  by (erule addresses_log.cases) auto

lemma machine_log_live_meta:
  assumes "machine_log P m machine oc (r, m') evs" and "IsZero (DeletionTimestamp (om_Meta m))"
  shows "om_Meta m' = om_Meta (om_AddFinalizer P MachineFinalizer m)"
  using assms(1)
proof cases
  case (running inst m1 evs' es)
  then show ?thesis using ensure_instance_meta [OF running(3)] addresses_meta [OF running(5)] by simp
qed (use assms(2) ensure_instance_meta in auto)

lemma machine_log_live_finalizer:
  assumes "pkgs_ok P" and "machine_log P m machine oc (r, m') evs"
    and "IsZero (DeletionTimestamp (om_Meta m))"
  shows "MachineFinalizer \<in> set (Finalizers (om_Meta m'))"
  using machine_log_live_meta [OF assms(2,3)] pkgs_okD(2) [OF assms(1)] by simp

text \<open>The resource a call of the deletion path names.\<close>

fun event_resource :: "event \<Rightarrow> ProjectResource option" where
  "event_resource (EvInstanceView p _) = Some p"
| "event_resource (EvInstanceStop p _) = Some p"
| "event_resource (EvInstanceDelete p _) = Some p"
| "event_resource (EvDiskView p _) = Some p"
| "event_resource (EvDiskDelete p _) = Some p"
| "event_resource _ = None"

lemma instance_deletion_gone:
  assumes "instance_deletion_log p (Inr (True, None)) evs"
  obtains xs e where "evs = xs @ [e]" "instance_gone e" "event_resource e = Some p"
proof -
  have "instance_gone (last evs)" using assms by (simp add: instance_deletion_log_def)
  with assms show thesis
    by (cases rule: instance_deletion_log_cases)
      (auto intro: that [of "[]"] that [of "[EvInstanceView p (Inr i)]" for i])
qed

lemma disk_deletion_gone:
  assumes "disk_deletion_log p (Inr True) evs"
  obtains xs e where "evs = xs @ [e]" "disk_gone e" "event_resource e = Some p"
proof -
  have "disk_gone (last evs)" using assms by (simp add: disk_deletion_log_def)
  with assms show thesis
    by (cases rule: disk_deletion_log_cases)
      (auto intro: that [of "[]"] that [of "[EvDiskView p (Inr i)]" for i])
qed

lemma handle_delete_finalizer:
  assumes "pkgs_ok P" and "handle_delete_log P m ip dp (r, m') evs"
    and "MachineFinalizer \<in> set (Finalizers (om_Meta m))"
  shows "MachineFinalizer \<notin> set (Finalizers (om_Meta m')) \<longleftrightarrow> r = Inr Result_empty"
  using assms(2) assms(1,3) pkgs_okD(3) [OF assms(1)]
  by cases auto

lemma handle_delete_gone:
  assumes "handle_delete_log P m ip dp (Inr Result_empty, m') evs"
  obtains xs ie ys de where "evs = xs @ ie # ys @ [de]"
    "instance_gone ie" "event_resource ie = Some ip" "disk_gone de" "event_resource de = Some dp"
  using assms
proof cases
  case (all_gone ie de)
  then show thesis
    by (elim instance_deletion_gone disk_deletion_gone) (auto intro: that)
qed auto

lemma machine_body_finalizer_dropped:
  assumes "pkgs_ok P" and "machine_body_log P m machine (r, m') evs"
    and "MachineFinalizer \<in> set (Finalizers (om_Meta m))"
    and "MachineFinalizer \<notin> set (Finalizers (om_Meta m'))"
  obtains oc :: OxideCluster where "\<not> IsZero (DeletionTimestamp (om_Meta m))"
    "handle_delete_log P m (in_project (Project (oc_Spec oc)) (getInstanceName P (om_Meta m)))
       (in_project (Project (oc_Spec oc)) (getBootDiskName P (om_Meta m))) (Inr Result_empty, m') evs"
  using assms(2)
proof cases
  case (with_client oc)
  have deleting: "\<not> IsZero (DeletionTimestamp (om_Meta m))"
    using machine_log_live_finalizer [OF assms(1) with_client] assms(4) by blast
  from with_client show thesis
  proof cases
    case del: deleting
    then have "r = Inr Result_empty"
      using handle_delete_finalizer [OF assms(1) del(2) assms(3)] assms(4) by simp
    with del show thesis using that [of oc] by blast
  qed (use deleting in auto)
qed (use assms(3,4) in auto)

section \<open>The call protocol\<close>

text \<open>What the answer before a call must have been, for each call.\<close>

fun machine_call_ok :: "event \<Rightarrow> event \<Rightarrow> bool" where
  "machine_call_ok prev (EvInstanceCreate _ _) =
     (\<exists>m. prev = EvSnapshotMachine m True \<and> ProviderID (om_Spec m) = [] \<and>
        IsZero (DeletionTimestamp (om_Meta m)))"
| "machine_call_ok prev (EvInstanceView _ _) =
     ((\<exists>m. prev = EvSnapshotMachine m True \<and>
         (ProviderID (om_Spec m) \<noteq> [] \<or> \<not> IsZero (DeletionTimestamp (om_Meta m)))) \<or>
      (\<exists>p e. prev = EvInstanceCreate p (Inl e) \<and> errors_Is e ErrObjectAlreadyExists))"
| "machine_call_ok prev (EvInstanceStart n _) =
     (\<exists>i. instance_answer prev = Some i \<and> InstanceId i = n \<and> RunState i = InstanceStateStopped)"
| "machine_call_ok prev (EvInstanceStop p _) =
     (\<exists>i. prev = EvInstanceView p (Inr i) \<and> RunState i = InstanceStateRunning)"
| "machine_call_ok prev (EvInstanceDelete p _) =
     (\<exists>i. prev = EvInstanceView p (Inr i) \<and>
        (RunState i = InstanceStateStopped \<or> RunState i = InstanceStateFailed))"
| "machine_call_ok prev (EvDiskView _ _) = instance_gone prev"
| "machine_call_ok prev (EvDiskDelete p _) =
     (\<exists>d. prev = EvDiskView p (Inr d) \<and>
        (DiskState d = DiskStateStateDetached \<or> DiskState d = DiskStateStateFaulted))"
| "machine_call_ok prev (EvNicList n _) =
     (\<exists>i. instance_answer prev = Some i \<and> InstanceId i = n \<and> RunState i = InstanceStateRunning)"
| "machine_call_ok prev (EvExternalIpList n _) = (\<exists>nics. prev = EvNicList n (Inr nics))"
| "machine_call_ok prev (EvPatchMachine _ _) = True"
| "machine_call_ok prev (EvSnapshotMachine _ _) = False"
| "machine_call_ok prev _ = False"

lemma ensure_instance_protocol:
  assumes "ensure_instance_log P m machine oc rm evs" and "IsZero (DeletionTimestamp (om_Meta m))"
    and "ProviderID (om_Spec m0) = ProviderID (om_Spec m)" and "IsZero (DeletionTimestamp (om_Meta m0))"
  shows "successively machine_call_ok (EvSnapshotMachine m0 True # evs)"
  using assms by (auto elim!: ensure_instance_log.cases)

lemma ensure_instance_answer:
  assumes "ensure_instance_log P m machine oc (Inr (Some inst), m') evs"
  shows "evs \<noteq> []" and "instance_answer (last evs) = Some inst"
  using assms by (auto elim!: ensure_instance_log.cases)

lemma addresses_protocol:
  assumes "addresses_log inst m rm es" and "instance_answer prev = Some inst"
    and "RunState inst = InstanceStateRunning"
  shows "successively machine_call_ok (prev # es)"
  using assms by (auto elim!: addresses_log.cases)

lemma instance_deletion_protocol:
  assumes "instance_deletion_log p r evs" and "\<not> IsZero (DeletionTimestamp (om_Meta m))"
  shows "successively machine_call_ok (EvSnapshotMachine m True # evs)"
  using assms by (auto elim!: instance_deletion_log_cases)

lemma disk_deletion_protocol:
  assumes "disk_deletion_log p r evs" and "instance_gone prev"
  shows "successively machine_call_ok (prev # evs)"
  using assms by (auto elim!: disk_deletion_log_cases)

lemma successively_glue:
  assumes "successively R (x # xs @ [e])" and "successively R (e # ys)"
  shows "successively R (x # xs @ e # ys)"
  using assms by (induction xs arbitrary: x) auto

lemma handle_delete_protocol:
  assumes "handle_delete_log P m ip dp rm evs" and "\<not> IsZero (DeletionTimestamp (om_Meta m))"
  shows "successively machine_call_ok (EvSnapshotMachine m True # evs)"
proof -
  note start = instance_deletion_protocol [OF _ assms(2)]
  have both: "successively machine_call_ok (EvSnapshotMachine m True # ie @ de)"
    if "instance_deletion_log ip (Inr (True, None)) ie" "disk_deletion_log dp rd de" for ie de rd
  proof -
    from that(1) obtain xs e where ie: "ie = xs @ [e]" "instance_gone e" by (rule instance_deletion_gone)
    show ?thesis
      using successively_glue [OF start [OF that(1), unfolded ie] disk_deletion_protocol [OF that(2) ie(2)]]
      by (simp add: ie)
  qed
  show ?thesis using assms(1) by cases (auto intro: start both)
qed

lemma machine_log_protocol:
  assumes "machine_log P m machine oc rm evs"
  shows "successively machine_call_ok (EvSnapshotMachine m True # evs)"
proof -
  have first: "successively machine_call_ok (EvSnapshotMachine m True # es)"
    if "ensure_instance_log P (om_AddFinalizer P MachineFinalizer m) machine oc rm' es"
      "IsZero (DeletionTimestamp (om_Meta m))" for rm' es
    using that(1) by (rule ensure_instance_protocol) (use that in simp_all)
  have glue: "successively machine_call_ok (EvSnapshotMachine m True # es @ fs)"
    if e: "ensure_instance_log P (om_AddFinalizer P MachineFinalizer m) machine oc (Inr (Some inst), m1) es"
      "IsZero (DeletionTimestamp (om_Meta m))"
      and f: "\<And>prev. instance_answer prev = Some inst \<Longrightarrow> successively machine_call_ok (prev # fs)"
    for inst m1 es fs
  proof -
    obtain ys e' where es: "es = ys @ [e']" and e': "instance_answer e' = Some inst"
      using ensure_instance_answer [OF e(1)] by (metis append_butlast_last_id)
    show ?thesis
      using successively_glue [OF first [OF e, unfolded es] f [OF e']] by (simp add: es)
  qed
  show ?thesis using assms
  proof cases
    case deleting
    then show ?thesis by (intro handle_delete_protocol)
  next
    case (running inst m1 evs' es)
    show ?thesis unfolding running
      by (rule glue [OF running(3,2)]) (rule addresses_protocol [OF running(5) _ running(4)])
  qed (auto intro: first intro!: glue)
qed

lemma machine_body_log_protocol:
  "machine_body_log P m machine rm evs \<Longrightarrow> successively machine_call_ok (EvSnapshotMachine m True # evs)"
  by (erule machine_body_log.cases) (auto intro: machine_log_protocol)

section \<open>What a run wrote\<close>

lemma ensure_instance_provider:
  assumes "ensure_instance_log P m machine oc (r, m') evs"
  shows "ProviderID (om_Spec m') = ProviderID (om_Spec m) \<or>
     (\<exists>ev inst. ev \<in> set evs \<and> instance_answer ev = Some inst \<and>
        ProviderID (om_Spec m') = NewProviderID (InstanceId inst))"
  using assms by (auto elim!: ensure_instance_log.cases)

lemma addresses_spec: "addresses_log inst m (r, m') evs \<Longrightarrow> om_Spec m' = om_Spec m"
  by (erule addresses_log.cases) auto

lemma addresses_keeps:
  assumes "addresses_log inst m (r, m') evs"
  shows "om_GetConditions m' = om_GetConditions m"
    and "MachineInitialization (om_Status m') = MachineInitialization (om_Status m)"
  using assms by (auto elim!: addresses_log.cases)

lemma handle_delete_spec:
  "handle_delete_log P m ip dp (r, m') evs \<Longrightarrow>
     om_Spec m' = om_Spec m \<and> MachineInitialization (om_Status m') = MachineInitialization (om_Status m) \<and>
     Addresses (om_Status m') = Addresses (om_Status m)"
  by (erule handle_delete_log.cases) auto

lemma machine_log_provider:
  assumes "machine_log P m machine oc (r, m') evs"
  shows "ProviderID (om_Spec m') = ProviderID (om_Spec m) \<or>
     (\<exists>ev inst. ev \<in> set evs \<and> instance_answer ev = Some inst \<and>
        ProviderID (om_Spec m') = NewProviderID (InstanceId inst))"
  using assms
proof cases
  case deleting
  then show ?thesis using handle_delete_spec [OF deleting(2)] by simp
next
  case (running inst m1 evs' es)
  then show ?thesis
    using ensure_instance_provider [OF running(3)] addresses_spec [OF running(5)] by auto
qed (auto dest!: ensure_instance_provider)

lemma ensure_instance_status:
  "ensure_instance_log P m machine oc (Inr (Some inst), m') evs \<Longrightarrow> om_Status m' = om_Status m"
  by (erule ensure_instance_log.cases) auto

lemma ensure_instance_init:
  "ensure_instance_log P m machine oc (r, m') evs \<Longrightarrow>
     MachineInitialization (om_Status m') = MachineInitialization (om_Status m) \<and>
     Addresses (om_Status m') = Addresses (om_Status m)"
  by (erule ensure_instance_log.cases) auto

text \<open>The one way a machine becomes provisioned: an instance that answered as running.\<close>

abbreviation running_ready :: "pkgs \<Rightarrow> Instance \<Rightarrow> Condition" where
  "running_ready P inst \<equiv> ready_condition ConditionTrue (getReadyReason P (Some inst))"

lemma machine_log_running:
  assumes "pkgs_ok P" and "machine_log P m machine oc (r, m') evs"
    and "RunState inst = InstanceStateRunning"
    and "ensure_instance_log P (om_AddFinalizer P MachineFinalizer m) machine oc (Inr (Some inst), m1) es"
    and "addresses_log inst (set_om_Provisioned (Some True)
           (om_conditions_Set P (running_ready P inst) m1)) (r, m') fs"
  shows "MachineProvisioned (MachineInitialization (om_Status m')) = Some True"
    and "find_cond (om_GetConditions m') ReadyCondition = Some (running_ready P inst)"
  using addresses_keeps [OF assms(5)]
  by (simp_all add: find_om_conditions_Set [OF assms(1)])

definition running_answer :: "event list \<Rightarrow> Instance \<Rightarrow> bool" where
  "running_answer evs inst \<longleftrightarrow>
     (\<exists>ev \<in> set evs. instance_answer ev = Some inst) \<and> RunState inst = InstanceStateRunning"

lemma machine_log_provisioned:
  assumes "pkgs_ok P" and "machine_log P m machine oc (r, m') evs"
    and "MachineInitialization (om_Status m') \<noteq> MachineInitialization (om_Status m)"
  obtains inst where "running_answer evs inst"
    "MachineProvisioned (MachineInitialization (om_Status m')) = Some True"
    "find_cond (om_GetConditions m') ReadyCondition = Some (running_ready P inst)"
  using assms(2)
proof cases
  case deleting
  then show thesis using handle_delete_spec assms(3) by blast
next
  case (running inst m1 evs' es)
  have "running_answer evs inst"
    using ensure_instance_answer [OF running(3)] last_in_set running
    by (fastforce simp: running_answer_def)
  then show thesis
    by (rule that) (rule machine_log_running [OF assms(1,2) running(4,3,5)])+
qed (use assms(3) in \<open>auto dest!: ensure_instance_init\<close>)

text \<open>A reconcile that asks to come back in ten seconds has said that the machine is not ready.\<close>

lemma machine_log_requeue:
  assumes "pkgs_ok P" and "machine_log P m machine oc (Inr Result_10s, m') evs"
  shows "\<exists>reason. prefix ''Instance'' reason \<and>
     find_cond (om_GetConditions m') ReadyCondition = Some (ready_condition ConditionFalse reason)"
  using assms(2)
proof cases
  case deleting
  from deleting(2) show ?thesis
    by cases (auto simp: find_om_conditions_Set [OF assms(1)] intro: getReadyReason_prefix
        simp del: getReadyReason_nil)
next
  case (running inst m1 evs' es)
  from running(5) show ?thesis by cases auto
qed (auto simp: find_om_conditions_Set [OF assms(1)] intro: getReadyReason_prefix)

text \<open>A reconcile that has nothing left to do.\<close>

lemma machine_log_settled:
  assumes "pkgs_ok P" and "machine_log P m machine oc (Inr Result_empty, m') evs"
  obtains (released) "\<not> IsZero (DeletionTimestamp (om_Meta m))"
      "MachineFinalizer \<notin> set (Finalizers (om_Meta m'))"
  | (waiting) "IsZero (DeletionTimestamp (om_Meta m))" "DataSecretName machine = None"
      "ProviderID (om_Spec m') = []"
      "find_cond (om_GetConditions m') ReadyCondition =
         Some (ready_condition ConditionFalse WaitingForBootstrapDataReason)"
  | (running) inst where "IsZero (DeletionTimestamp (om_Meta m))" "running_answer evs inst"
      "ProviderID (om_Spec m') \<noteq> []"
      "MachineProvisioned (MachineInitialization (om_Status m')) = Some True"
      "find_cond (om_GetConditions m') ReadyCondition = Some (running_ready P inst)"
  using assms(2)
proof cases
  case deleting
  from deleting(2) have "MachineFinalizer \<notin> set (Finalizers (om_Meta m'))"
    by cases (auto simp: pkgs_okD(3) [OF assms(1)])
  with deleting(1) show thesis by (rule released)
next
  case live_waiting
  from live_waiting(2) show thesis
    by cases (use live_waiting(1) in \<open>auto intro!: waiting simp: find_om_conditions_Set [OF assms(1)]\<close>)
next
  case run: (running inst m1 evs' es)
  have "running_answer evs inst"
    using ensure_instance_answer [OF run(3)] last_in_set run
    by (fastforce simp: running_answer_def)
  moreover have "ProviderID (om_Spec m1) \<noteq> []" using run(3) by cases auto
  ultimately show thesis
    using run(2) addresses_spec [OF run(5)] machine_log_running [OF assms(1,2) run(4,3,5)]
    by (intro running [of inst]) simp_all
qed auto

text \<open>The written addresses.\<close>

lemma machine_log_addresses:
  assumes "machine_log P m machine oc (r, m') evs"
    and "Addresses (om_Status m') \<noteq> Addresses (om_Status m)"
  obtains n nics as ips where "EvNicList n (Inr nics) \<in> set evs"
    "machineAddressesFromNICs nics = Inr as"
    "Addresses (om_Status m') = as @ machineAddressesFromIPs ips"
    "if MachineIPPool (om_Spec m) = [] then ips = [] else EvExternalIpList n (Inr ips) \<in> set evs"
  using assms(1)
proof cases
  case deleting
  then show thesis using handle_delete_spec assms(2) by blast
next
  case (running inst m1 evs' es)
  have pool: "MachineIPPool (om_Spec m1) = MachineIPPool (om_Spec m)"
    and same: "Addresses (om_Status m1) = Addresses (om_Status m)"
    using running(3) by (cases; simp)+
  from running(5) show thesis
    by cases (use assms(2) same pool running(1) in
      \<open>auto intro: that [where ips = "[]"] that simp: machineAddressesFromIPs_def\<close>)
qed (use assms(2) in \<open>auto dest!: ensure_instance_init\<close>)

section \<open>A run, from its snapshot\<close>

lemma machine_run_written:
  assumes "machine_run P r req w res evs" and "EvSnapshotMachine m ok \<in> set evs"
    and "EvPatchMachine m' a \<in> set evs"
  obtains machine body ox where
    "machine_body_log P m machine (body, m') ox"
    "evs = EvSnapshotMachine m True # ox @ [EvPatchMachine m' a]"
    "res = machine_deferred body a"
proof (rule machine_run_patched [OF assms(1,3)])
  fix m0 machine body ox
  assume log: "machine_body_log P m0 machine (body, m') ox"
    "evs = EvSnapshotMachine m0 True # ox @ [EvPatchMachine m' a]" "res = machine_deferred body a"
  have "m = m0" using machine_run_snapshot_unique [OF log(1)] assms(2) log(2) by simp
  with log show thesis by (intro that) simp_all
qed

lemma machine_run_calls:
  assumes "machine_run P r req w res evs" and "EvSnapshotMachine m ok \<in> set evs"
    and "ev \<in> set evs" and "\<not> is_bookkeeping ev"
  obtains machine oc body m' ox a where
    "machine_log P m machine oc (body, m') ox" "ev \<in> set ox"
    "evs = EvSnapshotMachine m True # ox @ [EvPatchMachine m' a]"
    "res = machine_deferred body a"
proof (rule machine_run_called [OF assms(1,3,4)])
  fix m0 machine body m' ox a
  assume log: "machine_body_log P m0 machine (body, m') ox" "ev \<in> set ox"
    "evs = EvSnapshotMachine m0 True # ox @ [EvPatchMachine m' a]" "res = machine_deferred body a"
  have m: "m = m0" using machine_run_snapshot_unique [OF log(1)] assms(2) log(3) by simp
  from log(1,2) obtain oc where "machine_log P m0 machine oc (body, m') ox" by cases auto
  with m log show thesis by (intro that) simp_all
qed

end
