(* ===== verification/Creation.thy ===== *)
theory Creation
  imports MachineProps
begin

text \<open>
  Where the parameters of a creation come from. Reads of single objects leave no trace in the log, so what a
  reconcile read is said through its client: \<open>may_answer op x\<close> holds when the call \<open>op\<close> can
  answer with x.
\<close>

definition may_answer :: "('w, go_error + 'a) io \<Rightarrow> 'a \<Rightarrow> bool" where
  "may_answer op x \<longleftrightarrow> (\<exists>w. fst (run_state op w) = Inr x)"

definition bootstrap_data :: "('w, 'h) K8sClient \<Rightarrow> Machine \<Rightarrow> byte list \<Rightarrow> bool" where
  "bootstrap_data k machine ud \<longleftrightarrow> (\<exists>s secret. DataSecretName machine = Some s \<and>
     may_answer (GetSecret k \<lparr>KeyNamespace = ObjNamespace (MachineMeta machine), KeyName = s\<rparr>) secret \<and>
     SecretData secret ''value'' = Some ud)"

definition labelled_cluster :: "('w, 'h) K8sClient \<Rightarrow> Machine \<Rightarrow> OxideCluster \<Rightarrow> bool" where
  "labelled_cluster k machine oc \<longleftrightarrow>
     may_answer (GetOxideCluster k \<lparr>KeyNamespace = ObjNamespace (MachineMeta machine),
       KeyName = (case Labels (MachineMeta machine) ClusterNameLabel of None \<Rightarrow> [] | Some n \<Rightarrow> n)\<rparr>) oc"

definition creates_with :: "(InstanceCreateParams \<Rightarrow> bool) \<Rightarrow> event list \<Rightarrow> bool" where
  "creates_with Q evs \<longleftrightarrow> (\<forall>p a. EvInstanceCreate p a \<in> set evs \<longrightarrow> Q p)"

lemma creates_with_simps [simp]:
  "creates_with Q []" "creates_with Q (xs @ ys) \<longleftrightarrow> creates_with Q xs \<and> creates_with Q ys"
  "creates_with Q (EvInstanceCreate p a # xs) \<longleftrightarrow> Q p \<and> creates_with Q xs"
  "\<not> is_create ev \<Longrightarrow> creates_with Q (ev # xs) \<longleftrightarrow> creates_with Q xs"
  by (auto simp: creates_with_def)

lemma creates_with_mono: "creates_with Q evs \<Longrightarrow> (\<And>p. Q p \<Longrightarrow> R p) \<Longrightarrow> creates_with R evs"
  by (auto simp: creates_with_def)

lemma creates_with_none: "(\<And>ev. ev \<in> set evs \<Longrightarrow> \<not> is_create ev) \<Longrightarrow> creates_with Q evs"
  unfolding creates_with_def using is_create.simps(1) by blast

lemma emits_read:
  "(\<And>e. R (Inl e) []) \<Longrightarrow> (\<And>x. may_answer op x \<Longrightarrow> R (Inr x) []) \<Longrightarrow> emits (silent op) R"
  by (rule emits_silent_known [where S = "\<lambda>r. \<forall>x. r = Inr x \<longrightarrow> may_answer op x"])
    (auto simp: may_answer_def, metis sum.exhaust)

lemma ensureInstance_creates:
  "emits (ensureInstance P (log_k8s k) (log_client c) m machine oc)
     (\<lambda>_. creates_with (\<lambda>p. \<exists>ud. bootstrap_data k machine ud \<and> p = instanceCreateParams P m oc ud))"
  unfolding ensureInstance_def Let_def
  by (auto intro!: emits_bind emits_return emits_logged emits_read simp: bootstrap_data_def split: sum.split option.split)
    blast+

lemma machine_with_client_creates:
  "emits (machine_with_client P (log_k8s k) (log_client c) m machine oc)
     (\<lambda>_. creates_with (\<lambda>p. \<exists>ud. bootstrap_data k machine ud \<and> p = instanceCreateParams P m oc ud))"
proof -
  let ?Q = "\<lambda>p. \<exists>ud. bootstrap_data k machine ud \<and> p = instanceCreateParams P m oc ud"
  have delete: "emits (handleDelete P (log_client c) m pn nm dn) (\<lambda>_. creates_with ?Q)" for pn nm dn
    by (rule emits_mono [OF handleDelete_emits]) (auto intro!: creates_with_none dest: handle_delete_no_bring_up)
  have ensure: "emits (ensureInstance P (log_k8s k) (log_client c) (om_AddFinalizer P MachineFinalizer m) machine oc)
      (\<lambda>_. creates_with ?Q)"
    by (rule emits_mono [OF ensureInstance_creates]) simp
  have run: "emits (ensureInstanceRunning (log_client c) i) (\<lambda>_. creates_with ?Q)" for i
    unfolding ensureInstanceRunning_cases by (auto intro!: emits_bind emits_return emits_logged split: sum.split)
  have addr: "emits (ensureAddresses (log_client c) i m1) (\<lambda>_. creates_with ?Q)" for i m1
    by (rule emits_mono [OF ensureAddresses_emits]) (auto intro!: creates_with_none dest: addresses_no_take_down)
  show ?thesis
    unfolding machine_with_client_def
    by (auto simp: Let_def intro!: delete emits_bind_known [OF ensure] emits_return emits_bind_known [OF run]
        emits_mono [OF addr] split: sum.split option.split)
qed

lemma machine_reconcile_body_creates:
  "emits (machine_reconcile_body P (log_machine_reconciler r) m machine)
     (\<lambda>_. creates_with (\<lambda>p. \<exists>oc ud. labelled_cluster (omr_Client r) machine oc \<and>
        bootstrap_data (omr_Client r) machine ud \<and> p = instanceCreateParams P m oc ud))"
  unfolding machine_reconcile_body_def
  by (auto simp: labelled_cluster_def intro!: emits_bind emits_read emits_return emits_log_factory
      emits_mono [OF machine_with_client_creates] split: sum.split)
    (erule creates_with_mono, blast)

text \<open>The machine of the event log, and the owner it was reconciled for.\<close>

definition reconciled_for :: "('w, 'h) K8sClient \<Rightarrow> ObjectKey \<Rightarrow> OxideMachine \<Rightarrow> Machine \<Rightarrow> bool" where
  "reconciled_for k req m machine \<longleftrightarrow> (\<exists>m0 cluster w pr.
     may_answer (GetOxideMachine k req) m0 \<and> may_answer (GetOwnerMachine k (om_Meta m0)) (Some machine) \<and>
     may_answer (GetClusterFromMetadata k (MachineMeta machine)) cluster \<and>
     fst (run_state (EnsureMachinePaused k cluster m0) w) = (pr, m))"

definition creation_determined ::
    "pkgs \<Rightarrow> ('w, 'h) K8sClient \<Rightarrow> ObjectKey \<Rightarrow> OxideMachine \<Rightarrow> InstanceCreateParams \<Rightarrow> bool" where
  "creation_determined P k req m p \<longleftrightarrow> (\<exists>machine oc ud. reconciled_for k req m machine \<and>
     labelled_cluster k machine oc \<and> bootstrap_data k machine ud \<and> p = instanceCreateParams P m oc ud)"

lemma machine_Reconcile_creates:
  "emits (machine_Reconcile P (log_machine_reconciler r) req) (\<lambda>_ evs. \<forall>m ys. evs = EvSnapshotMachine m True # ys \<longrightarrow>
     creates_with (creation_determined P (omr_Client r) req m) evs)"
proof -
  let ?k = "omr_Client r"
  have paused: "emits (silent (EnsureMachinePaused ?k cluster m0)) (\<lambda>(pr, m) evs. evs = [] \<and>
      (\<exists>w. fst (run_state (EnsureMachinePaused ?k cluster m0) w) = (pr, m)))" for cluster m0
    by (rule emits_silent_known [where S = "\<lambda>x. \<exists>w. fst (run_state (EnsureMachinePaused ?k cluster m0) w) = x"]) auto
  show ?thesis
    unfolding machine_Reconcile_def
    by (auto intro!: emits_bind emits_read emits_return emits_logged emits_bind_known [OF paused]
        emits_bind_known [OF machine_reconcile_body_creates] split: sum.split option.split)
      (erule creates_with_mono, auto simp: creation_determined_def reconciled_for_def, blast)
qed

lemma machine_run_creates:
  assumes "machine_run P r req w res (EvSnapshotMachine m True # evs)" and "EvInstanceCreate p a \<in> set evs"
  shows "creation_determined P (omr_Client r) req m p"
proof -
  from assms(1) obtain w' where run: "run_state (machine_Reconcile P (log_machine_reconciler r) req) (w, []) =
      (res, (w', EvSnapshotMachine m True # evs))" by (auto simp: machine_run_def)
  have "creates_with (creation_determined P (omr_Client r) req m) (EvSnapshotMachine m True # evs)"
    using emits_run_Nil [OF machine_Reconcile_creates run] by blast
  then show ?thesis using assms(2) by (auto simp: creates_with_def)
qed

end
