(* ===== verification/ClusterController.thy ===== *)
theory ClusterController
  imports Naming ProviderId K8s
begin

text \<open>
  The reconciler of \<open>internal/controller/oxidecluster_controller.go\<close>, in the style of
  \<open>MachineController\<close>. The two loops of \<open>reconcileFloatingIPAttachment\<close> are recursive
  functions (\<open>target_loop\<close>, \<open>holder_loop\<close>), its detach-then-attach block is
  \<open>moveFloatingIP\<close>. \<open>Reconcile\<close> always returns the empty \<open>ctrl.Result\<close>, so its parts
  return the error and the object.
\<close>

section \<open>The model\<close>

definition floatingIPAllocator :: "OxideCluster \<Rightarrow> AddressAllocator" where
  "floatingIPAllocator oc =
     (if Host (ControlPlaneEndpoint (oc_Spec oc)) \<noteq> []
      then AddressAllocatorExplicit (Host (ControlPlaneEndpoint (oc_Spec oc)))
      else if ClusterIPPool (oc_Spec oc) \<noteq> []
      then AddressAllocatorAuto (PoolSelectorExplicit (ClusterIPPool (oc_Spec oc)))
      else AddressAllocatorAuto (PoolSelectorAuto (IPType (oc_Spec oc))))"

definition ensureFloatingIPExists ::
    "'w OxideClient \<Rightarrow> OxideCluster \<Rightarrow> string \<Rightarrow> string \<Rightarrow> ('w, go_error + FloatingIp) io" where
  "ensureFloatingIPExists c oc projectName ipName = do {
     r \<leftarrow> FloatingIpView c \<lparr>ParamProject = projectName, ParamResource = ipName\<rparr>;
     case r of
       Inr ip \<Rightarrow> return (Inr ip)
     | Inl err \<Rightarrow>
         if \<not> errors_Is err ErrObjectNotFound
         then return (Inl (Wrapf ''fetching existing floating ip'' err))
         else do {
           r \<leftarrow> FloatingIpCreate c
             \<lparr>FipCreateProject = projectName, FipCreateName = ipName,
              FipCreateAllocator = floatingIPAllocator oc\<rparr>;
           case r of
             Inl err \<Rightarrow> return (Inl (Wrapf ''creating floating ip'' err))
           | Inr ip \<Rightarrow> return (Inr ip)
         }
   }"

definition ensureFloatingIPDeleted ::
    "'w OxideClient \<Rightarrow> string \<Rightarrow> string \<Rightarrow> ('w, go_error option) io" where
  "ensureFloatingIPDeleted c projectName ipName = do {
     r \<leftarrow> FloatingIpDelete c \<lparr>ParamProject = projectName, ParamResource = ipName\<rparr>;
     case r of
       None \<Rightarrow> return None
     | Some err \<Rightarrow> if \<not> errors_Is err ErrObjectNotFound then return (Some err) else return None
   }"

text \<open>The first loop: the candidate target (empty if none) and why the others were skipped.\<close>

fun target_loop ::
    "pkgs \<Rightarrow> string list \<Rightarrow> OxideMachine list \<Rightarrow> go_error + string \<times> string list" where
  "target_loop P skipped [] = Inr ([], skipped)"
| "target_loop P skipped (m # ms) =
     (if ProviderID (om_Spec m) = []
      then target_loop P (skipped @ [ObjName (om_Meta m) @ '': missing providerID'']) ms
      else if MachineProvisioned (MachineInitialization (om_Status m)) \<noteq> Some True
      then target_loop P (skipped @ [ObjName (om_Meta m) @ '': not provisioned'']) ms
      else if \<not> IsZero (DeletionTimestamp (om_Meta m))
      then target_loop P (skipped @ [ObjName (om_Meta m) @ '': being deleted'']) ms
      else case InstanceIDFromProviderID P (ProviderID (om_Spec m)) of
        Inl err \<Rightarrow> Inl (Wrapf ''parsing provider id'' err)
      | Inr instanceID \<Rightarrow> Inr (instanceID, skipped))"

text \<open>The second loop: \<open>shouldAttach\<close>, given the holder's instance and the target.\<close>

fun holder_loop :: "pkgs \<Rightarrow> string \<Rightarrow> string \<Rightarrow> OxideMachine list \<Rightarrow> go_error + bool" where
  "holder_loop P held targetInstanceID [] = Inr True"
| "holder_loop P held targetInstanceID (m # ms) =
     (if ProviderID (om_Spec m) = [] then holder_loop P held targetInstanceID ms
      else case InstanceIDFromProviderID P (ProviderID (om_Spec m)) of
        Inl err \<Rightarrow> Inl (Wrapf ''parsing provider id'' err)
      | Inr instanceID \<Rightarrow>
          if instanceID \<noteq> held then holder_loop P held targetInstanceID ms
          else Inr (\<not> IsZero (DeletionTimestamp (om_Meta m)) \<and> targetInstanceID \<noteq> []))"

definition shouldAttach :: "pkgs \<Rightarrow> OxideMachine list \<Rightarrow> string \<Rightarrow> FloatingIp \<Rightarrow> go_error + bool" where
  "shouldAttach P ms targetInstanceID ip =
     (if FipInstanceId ip \<noteq> [] then holder_loop P (FipInstanceId ip) targetInstanceID ms
      else Inr True)"

definition moveFloatingIP :: "'w OxideClient \<Rightarrow> FloatingIp \<Rightarrow> string \<Rightarrow> ('w, go_error + FloatingIp) io"
where
  "moveFloatingIP c ip targetInstanceID = do {
     d \<leftarrow> (if FipInstanceId ip \<noteq> [] then FloatingIpDetach c (FipId ip) else return (Inr ip));
     case d of
       Inl err \<Rightarrow> return (Inl (Wrapf ''detaching floating ip'' err))
     | Inr ip \<Rightarrow>
         if targetInstanceID \<noteq> []
         then FloatingIpAttach c (attach_params (FipId ip) targetInstanceID)
         else return (Inr ip)
   }"

definition attached_condition :: "FloatingIp \<Rightarrow> Condition" where
  "attached_condition ip =
     (if FipInstanceId ip \<noteq> []
      then \<lparr>CondType = FloatingIPAttachedCondition, CondStatus = ConditionTrue,
            CondReason = ReasonFloatingIPAttached\<rparr>
      else \<lparr>CondType = FloatingIPAttachedCondition, CondStatus = ConditionFalse,
            CondReason = ReasonWaitingForControlPlaneMachine\<rparr>)"

definition reconcileFloatingIPAttachment ::
    "pkgs \<Rightarrow> ('w, 'h) K8sClient \<Rightarrow> 'w OxideClient \<Rightarrow> OxideCluster \<Rightarrow> FloatingIp \<Rightarrow>
     ('w, go_error option \<times> OxideCluster) io" where
  "reconcileFloatingIPAttachment P k c oc ip = do {
     l \<leftarrow> ListOxideMachines k (ObjNamespace (oc_Meta oc))
       [(ClusterNameLabel, ObjName (oc_Meta oc)), (MachineControlPlaneLabel, [])];
     case l of
       Inl err \<Rightarrow> return (Some (Wrapf ''listing oxide machines'' err), oc)
     | Inr machines \<Rightarrow> (case target_loop P [] machines of
         Inl err \<Rightarrow> return (Some err, oc)
       | Inr (targetInstanceID, skipped) \<Rightarrow> (case shouldAttach P machines targetInstanceID ip of
           Inl err \<Rightarrow> return (Some err, oc)
         | Inr attach \<Rightarrow> do {
             r \<leftarrow> (if attach then moveFloatingIP c ip targetInstanceID else return (Inr ip));
             case r of
               Inl err \<Rightarrow> return (Some err, oc)
             | Inr ip \<Rightarrow> return (None, oc_conditions_Set P (attached_condition ip) oc)
           }))
   }"

text \<open>The endpoint and status written once the floating IP exists.\<close>

definition provisioned_cluster :: "pkgs \<Rightarrow> FloatingIp \<Rightarrow> OxideCluster \<Rightarrow> OxideCluster" where
  "provisioned_cluster P ip oc =
     oc_conditions_Set P
       \<lparr>CondType = ReadyCondition, CondStatus = ConditionTrue,
        CondReason = ReasonFloatingIPProvisioned\<rparr>
       (set_oc_Provisioned (Some True)
         (set_Endpoint
           \<lparr>Host = FipIp ip,
            Port = (if Port (ControlPlaneEndpoint (oc_Spec oc)) = 0 then 6443
                    else Port (ControlPlaneEndpoint (oc_Spec oc)))\<rparr> oc))"

definition cluster_with_client ::
    "pkgs \<Rightarrow> ('w, 'h) K8sClient \<Rightarrow> 'w OxideClient \<Rightarrow> Cluster \<Rightarrow> OxideCluster \<Rightarrow>
     ('w, go_error option \<times> OxideCluster) io" where
  "cluster_with_client P k c cluster oc =
     (let projectName = Project (oc_Spec oc);
          ipName = getFloatingIPName P (oc_Meta oc)
      in if \<not> IsZero (DeletionTimestamp (oc_Meta oc)) then do {
        r \<leftarrow> ensureFloatingIPDeleted c projectName ipName;
        case r of
          Some err \<Rightarrow> return (Some (Wrapf ''deleting floating ip'' err), oc)
        | None \<Rightarrow> return (None, oc_RemoveFinalizer P ClusterFinalizer oc)
      }
      else if \<not> IsZero (DeletionTimestamp (ClusterMeta cluster)) then return (None, oc)
      else do {
        let oc = oc_AddFinalizer P ClusterFinalizer oc;
        r \<leftarrow> ensureFloatingIPExists c oc projectName ipName;
        case r of
          Inl err \<Rightarrow> return (Some (Wrapf ''ensuring floating ip'' err), oc)
        | Inr ip \<Rightarrow> reconcileFloatingIPAttachment P k c (provisioned_cluster P ip oc) ip
      })"

definition cluster_reconcile_body ::
    "pkgs \<Rightarrow> ('w, 'h, 's) OxideClusterReconciler \<Rightarrow> OxideCluster \<Rightarrow> Cluster \<Rightarrow>
     ('w, go_error option \<times> OxideCluster) io" where
  "cluster_reconcile_body P r oc cluster = do {
     f \<leftarrow> ocr_OxideClientFactory r oc;
     case f of
       Inl err \<Rightarrow> return (Some err, oc)
     | Inr c \<Rightarrow> cluster_with_client P (ocr_Client r) c cluster oc
   }"

text \<open>The deferred patch: its error is joined to the one the body returned.\<close>

definition cluster_deferred :: "go_error option \<Rightarrow> go_error option \<Rightarrow> go_error option" where
  "cluster_deferred retErr patchErr =
     (case patchErr of
        Some err \<Rightarrow> errors_Join [retErr, Some (Wrapf ''patching cluster'' err)]
      | None \<Rightarrow> retErr)"

definition cluster_Reconcile ::
    "pkgs \<Rightarrow> ('w, 'h, 's) OxideClusterReconciler \<Rightarrow> ObjectKey \<Rightarrow> ('w, Result \<times> go_error option) io" where
  "cluster_Reconcile P r req = do {
     g \<leftarrow> GetOxideCluster (ocr_Client r) req;
     case g of
       Inl err \<Rightarrow>
         if IsNotFound err then return (Result_empty, None) else return (Result_empty, Some err)
     | Inr oc \<Rightarrow> do {
         g \<leftarrow> GetOwnerCluster (ocr_Client r) (oc_Meta oc);
         case g of
           Inl err \<Rightarrow> return (Result_empty, Some err)
         | Inr None \<Rightarrow> return (Result_empty, None)
         | Inr (Some cluster) \<Rightarrow> do {
             (pr, oc) \<leftarrow> EnsureClusterPaused (ocr_Client r) cluster oc;
             if pausedErr pr \<noteq> None \<or> isPaused pr \<or> requeue pr
             then return (Result_empty, pausedErr pr)
             else do {
               g \<leftarrow> NewClusterHelper (ocr_Client r) oc;
               case g of
                 Inl err \<Rightarrow> return (Result_empty, Some (Wrapf ''building patch helper'' err))
               | Inr patchHelper \<Rightarrow> do {
                   (retErr, oc) \<leftarrow> cluster_reconcile_body P r oc cluster;
                   patchErr \<leftarrow> PatchCluster (ocr_Client r) patchHelper oc;
                   return (Result_empty, cluster_deferred retErr patchErr)
                 }
             }
           }
       }
   }"

text \<open>The watch on machines: a machine event requeues the cluster its label names.\<close>

definition oxideMachineToOxideCluster :: "ObjectMeta \<Rightarrow> ObjectKey list" where
  "oxideMachineToOxideCluster obj =
     (case Labels obj ClusterNameLabel of
        None \<Rightarrow> []
      | Some clusterName \<Rightarrow> [\<lparr>KeyNamespace = ObjNamespace obj, KeyName = clusterName\<rparr>])"

section \<open>Calls and results\<close>

text \<open>Moving the floating IP: detach if it is attached, attach if there is a target.\<close>

inductive move_log :: "FloatingIp \<Rightarrow> string \<Rightarrow> go_error + FloatingIp \<Rightarrow> event list \<Rightarrow> bool"
  for ip :: FloatingIp and t :: string
where
  detach_error:
    "FipInstanceId ip \<noteq> [] \<Longrightarrow>
     move_log ip t (Inl (Wrapf ''detaching floating ip'' e)) [EvFloatingIpDetach (FipId ip) (Inl e)]"
| detached:
    "FipInstanceId ip \<noteq> [] \<Longrightarrow> t = [] \<Longrightarrow>
     move_log ip t (Inr ip') [EvFloatingIpDetach (FipId ip) (Inr ip')]"
| moved:
    "FipInstanceId ip \<noteq> [] \<Longrightarrow> t \<noteq> [] \<Longrightarrow>
     move_log ip t a
       [EvFloatingIpDetach (FipId ip) (Inr ip'),
        EvFloatingIpAttach (attach_params (FipId ip') t) a]"
| attached:
    "FipInstanceId ip = [] \<Longrightarrow> t \<noteq> [] \<Longrightarrow>
     move_log ip t a [EvFloatingIpAttach (attach_params (FipId ip) t) a]"
| nothing: "FipInstanceId ip = [] \<Longrightarrow> t = [] \<Longrightarrow> move_log ip t (Inr ip) []"

lemma moveFloatingIP_emits: "emits (moveFloatingIP (log_client c) ip t) (move_log ip t)"
  by (cases "FipInstanceId ip = []"; cases "t = []")
    (auto simp: moveFloatingIP_def intro!: emits_rules intro: move_log.intros split: sum.split)

inductive attachment_log ::
    "pkgs \<Rightarrow> OxideMachine list \<Rightarrow> OxideCluster \<Rightarrow> FloatingIp \<Rightarrow>
     go_error option \<times> OxideCluster \<Rightarrow> event list \<Rightarrow> bool"
  for P :: pkgs and ms :: "OxideMachine list" and oc :: OxideCluster and ip :: FloatingIp
where
  target_error: "target_loop P [] ms = Inl e \<Longrightarrow> attachment_log P ms oc ip (Some e, oc) []"
| holder_error:
    "target_loop P [] ms = Inr (t, sk) \<Longrightarrow> shouldAttach P ms t ip = Inl e \<Longrightarrow>
     attachment_log P ms oc ip (Some e, oc) []"
| left_alone:
    "target_loop P [] ms = Inr (t, sk) \<Longrightarrow> shouldAttach P ms t ip = Inr False \<Longrightarrow>
     attachment_log P ms oc ip (None, oc_conditions_Set P (attached_condition ip) oc) []"
| move_error:
    "target_loop P [] ms = Inr (t, sk) \<Longrightarrow> shouldAttach P ms t ip = Inr True \<Longrightarrow>
     move_log ip t (Inl e) evs \<Longrightarrow> attachment_log P ms oc ip (Some e, oc) evs"
| move_done:
    "target_loop P [] ms = Inr (t, sk) \<Longrightarrow> shouldAttach P ms t ip = Inr True \<Longrightarrow>
     move_log ip t (Inr ip') evs \<Longrightarrow>
     attachment_log P ms oc ip (None, oc_conditions_Set P (attached_condition ip') oc) evs"

inductive listed_attachment_log ::
    "pkgs \<Rightarrow> OxideCluster \<Rightarrow> FloatingIp \<Rightarrow> go_error option \<times> OxideCluster \<Rightarrow> event list \<Rightarrow> bool"
  for P :: pkgs and oc :: OxideCluster and ip :: FloatingIp
where
  list_error:
    "listed_attachment_log P oc ip (Some (Wrapf ''listing oxide machines'' e), oc)
       [EvListMachines (Inl e)]"
| listed:
    "attachment_log P ms oc ip rm evs \<Longrightarrow>
     listed_attachment_log P oc ip rm (EvListMachines (Inr ms) # evs)"

lemma reconcileFloatingIPAttachment_emits:
  "emits (reconcileFloatingIPAttachment P (log_k8s k) (log_client c) oc ip)
     (listed_attachment_log P oc ip)"
  unfolding reconcileFloatingIPAttachment_def
  by (auto intro!: emits_rules emits_bind_known [OF moveFloatingIP_emits]
      listed_attachment_log.intros split: sum.split)
    (blast intro: attachment_log.intros)+

inductive floating_ip_log ::
    "OxideCluster \<Rightarrow> string \<Rightarrow> string \<Rightarrow> go_error + FloatingIp \<Rightarrow> event list \<Rightarrow> bool"
  for oc :: OxideCluster and pn :: string and nm :: string
where
  viewed:
    "floating_ip_log oc pn nm (Inr ip)
       [EvFloatingIpView \<lparr>ParamProject = pn, ParamResource = nm\<rparr> (Inr ip)]"
| view_error:
    "\<not> errors_Is e ErrObjectNotFound \<Longrightarrow>
     floating_ip_log oc pn nm (Inl (Wrapf ''fetching existing floating ip'' e))
       [EvFloatingIpView \<lparr>ParamProject = pn, ParamResource = nm\<rparr> (Inl e)]"
| create_error:
    "errors_Is e ErrObjectNotFound \<Longrightarrow>
     floating_ip_log oc pn nm (Inl (Wrapf ''creating floating ip'' e'))
       [EvFloatingIpView \<lparr>ParamProject = pn, ParamResource = nm\<rparr> (Inl e),
        EvFloatingIpCreate \<lparr>FipCreateProject = pn, FipCreateName = nm,
          FipCreateAllocator = floatingIPAllocator oc\<rparr> (Inl e')]"
| created:
    "errors_Is e ErrObjectNotFound \<Longrightarrow>
     floating_ip_log oc pn nm (Inr ip)
       [EvFloatingIpView \<lparr>ParamProject = pn, ParamResource = nm\<rparr> (Inl e),
        EvFloatingIpCreate \<lparr>FipCreateProject = pn, FipCreateName = nm,
          FipCreateAllocator = floatingIPAllocator oc\<rparr> (Inr ip)]"

lemma ensureFloatingIPExists_emits:
  "emits (ensureFloatingIPExists (log_client c) oc pn nm) (floating_ip_log oc pn nm)"
  unfolding ensureFloatingIPExists_def
  by (auto intro!: emits_rules split: sum.split) (blast intro: floating_ip_log.intros)+

lemma ensureFloatingIPDeleted_emits:
  "emits (ensureFloatingIPDeleted (log_client c) pn nm) (\<lambda>r evs.
     \<exists>a. evs = [EvFloatingIpDelete \<lparr>ParamProject = pn, ParamResource = nm\<rparr> a] \<and>
       (r = None \<longleftrightarrow> (\<forall>e. a = Some e \<longrightarrow> errors_Is e ErrObjectNotFound)) \<and>
       (\<forall>e. r = Some e \<longrightarrow> a = Some e))"
  unfolding ensureFloatingIPDeleted_def
  by (auto intro!: emits_rules split: option.split)

text \<open>The whole reconcile.\<close>

inductive cluster_log ::
    "pkgs \<Rightarrow> Cluster \<Rightarrow> OxideCluster \<Rightarrow> go_error option \<times> OxideCluster \<Rightarrow> event list \<Rightarrow> bool"
  for P :: pkgs and cluster :: Cluster and oc :: OxideCluster
where
  delete_error:
    "\<not> IsZero (DeletionTimestamp (oc_Meta oc)) \<Longrightarrow> \<not> errors_Is e ErrObjectNotFound \<Longrightarrow>
     cluster_log P cluster oc (Some (Wrapf ''deleting floating ip'' e), oc)
       [EvFloatingIpDelete \<lparr>ParamProject = Project (oc_Spec oc),
          ParamResource = getFloatingIPName P (oc_Meta oc)\<rparr> (Some e)]"
| deleted:
    "\<not> IsZero (DeletionTimestamp (oc_Meta oc)) \<Longrightarrow>
     (\<And>e. a = Some e \<Longrightarrow> errors_Is e ErrObjectNotFound) \<Longrightarrow>
     cluster_log P cluster oc (None, oc_RemoveFinalizer P ClusterFinalizer oc)
       [EvFloatingIpDelete \<lparr>ParamProject = Project (oc_Spec oc),
          ParamResource = getFloatingIPName P (oc_Meta oc)\<rparr> a]"
| owner_deleting:
    "IsZero (DeletionTimestamp (oc_Meta oc)) \<Longrightarrow> \<not> IsZero (DeletionTimestamp (ClusterMeta cluster)) \<Longrightarrow>
     cluster_log P cluster oc (None, oc) []"
| ip_error:
    "IsZero (DeletionTimestamp (oc_Meta oc)) \<Longrightarrow> IsZero (DeletionTimestamp (ClusterMeta cluster)) \<Longrightarrow>
     floating_ip_log (oc_AddFinalizer P ClusterFinalizer oc) (Project (oc_Spec oc))
       (getFloatingIPName P (oc_Meta oc)) (Inl e) evs \<Longrightarrow>
     cluster_log P cluster oc
       (Some (Wrapf ''ensuring floating ip'' e), oc_AddFinalizer P ClusterFinalizer oc) evs"
| provisioned:
    "IsZero (DeletionTimestamp (oc_Meta oc)) \<Longrightarrow> IsZero (DeletionTimestamp (ClusterMeta cluster)) \<Longrightarrow>
     floating_ip_log (oc_AddFinalizer P ClusterFinalizer oc) (Project (oc_Spec oc))
       (getFloatingIPName P (oc_Meta oc)) (Inr ip) evs \<Longrightarrow>
     listed_attachment_log P (provisioned_cluster P ip (oc_AddFinalizer P ClusterFinalizer oc)) ip rm es \<Longrightarrow>
     cluster_log P cluster oc rm (evs @ es)"

lemma cluster_with_client_emits:
  "emits (cluster_with_client P (log_k8s k) (log_client c) cluster oc) (cluster_log P cluster oc)"
proof -
  consider "\<not> IsZero (DeletionTimestamp (oc_Meta oc))"
    | "IsZero (DeletionTimestamp (oc_Meta oc))" "\<not> IsZero (DeletionTimestamp (ClusterMeta cluster))"
    | "IsZero (DeletionTimestamp (oc_Meta oc))" "IsZero (DeletionTimestamp (ClusterMeta cluster))"
    by blast
  then show ?thesis
  proof cases
    case 1
    then show ?thesis
      by (auto simp: cluster_with_client_def Let_def
          intro!: emits_bind_known [OF ensureFloatingIPDeleted_emits] emits_return
            cluster_log.delete_error cluster_log.deleted
          split: option.splits if_splits)
  next
    case 2
    then show ?thesis
      by (auto simp: cluster_with_client_def Let_def intro!: emits_return cluster_log.owner_deleting)
  next
    case 3
    then show ?thesis
      by (auto simp: cluster_with_client_def Let_def
          intro!: emits_bind_known [OF ensureFloatingIPExists_emits] emits_return
            emits_mono [OF reconcileFloatingIPAttachment_emits] cluster_log.ip_error cluster_log.provisioned
          split: sum.split)
  qed
qed

inductive cluster_body_log ::
    "pkgs \<Rightarrow> Cluster \<Rightarrow> OxideCluster \<Rightarrow> go_error option \<times> OxideCluster \<Rightarrow> event list \<Rightarrow> bool"
  for P :: pkgs and cluster :: Cluster and oc :: OxideCluster
where
  no_client: "cluster_body_log P cluster oc (Some e, oc) []"
| with_client: "cluster_log P cluster oc rm evs \<Longrightarrow> cluster_body_log P cluster oc rm evs"

lemma cluster_reconcile_body_emits:
  "emits (cluster_reconcile_body P (log_cluster_reconciler r) oc cluster) (cluster_body_log P cluster oc)"
  unfolding cluster_reconcile_body_def
  by (auto intro!: emits_bind emits_return emits_log_factory cluster_body_log.no_client
      emits_mono [OF cluster_with_client_emits] cluster_body_log.with_client split: sum.split)

inductive cluster_reconcile_log :: "pkgs \<Rightarrow> Result \<times> go_error option \<Rightarrow> event list \<Rightarrow> bool"
  for P :: pkgs
where
  idle: "cluster_reconcile_log P (Result_empty, err) []"
| no_helper:
    "cluster_reconcile_log P (Result_empty, Some (Wrapf ''building patch helper'' e))
       [EvSnapshotCluster oc False]"
| reconciled:
    "cluster_body_log P cluster oc (retErr, oc') ox \<Longrightarrow>
     cluster_reconcile_log P (Result_empty, cluster_deferred retErr a)
       (EvSnapshotCluster oc True # ox @ [EvPatchCluster oc' a])"

lemma cluster_Reconcile_emits:
  "emits (cluster_Reconcile P (log_cluster_reconciler r) req) (cluster_reconcile_log P)"
  unfolding cluster_Reconcile_def
  by (auto intro!: emits_rules emits_bind_known [OF cluster_reconcile_body_emits]
      cluster_reconcile_log.intros split: sum.split option.split)

end
