(* ===== verification/Sample.thy ===== *)
theory Sample
  imports MachineController ClusterController
begin

text \<open>
  A concrete environment in which whole reconciles evaluate: an API server that holds one machine,
  one cluster and a list of control plane machines, and an Oxide client with fixed answers. The
  world is trivial; a run is computed by simplification. The runs below are the inputs at which the
  properties of the reconcilers are instantiated.
\<close>

section \<open>Objects\<close>

definition sample_meta :: "string \<Rightarrow> time option \<Rightarrow> string list \<Rightarrow> ObjectMeta" where
  "sample_meta nm deleted fins =
     \<lparr>ObjName = nm, ObjNamespace = ''prod'', Labels = [ClusterNameLabel \<mapsto> ''east''],
      DeletionTimestamp = deleted, Finalizers = fins, OwnerReferences = []\<rparr>"

lemma sample_meta_simps [simp]:
  "ObjName (sample_meta nm d fs) = nm"
  "ObjNamespace (sample_meta nm d fs) = ''prod''"
  "Labels (sample_meta nm d fs) = [ClusterNameLabel \<mapsto> ''east'']"
  "DeletionTimestamp (sample_meta nm d fs) = d"
  "Finalizers (sample_meta nm d fs) = fs"
  by (simp_all add: sample_meta_def)

definition sample_machine :: "string \<Rightarrow> string \<Rightarrow> time option \<Rightarrow> string list \<Rightarrow> bool option \<Rightarrow> OxideMachine" where
  "sample_machine nm provider deleted fins provisioned =
     \<lparr>om_Meta = sample_meta nm deleted fins,
      om_Spec = \<lparr>ProviderID = provider, NCpus = 4, Memory = ''8Gi'', DiskSize = ''32Gi'', ImageID = ''img'',
        AntiAffinityGroups = [], SSHPublicKeys = [], MachineIPPool = [],
        DataDisks = [\<lparr>DataDiskSize = ''10Gi'', DataDiskBlockSize = 512\<rparr>]\<rparr>,
      om_Status = \<lparr>MachineInitialization = \<lparr>MachineProvisioned = provisioned\<rparr>,
        MachineConditions = [], Addresses = []\<rparr>\<rparr>"

lemma sample_machine_simps [simp]:
  "om_Meta (sample_machine nm p d fs b) = sample_meta nm d fs"
  "ProviderID (om_Spec (sample_machine nm p d fs b)) = p"
  "MachineIPPool (om_Spec (sample_machine nm p d fs b)) = []"
  "MachineProvisioned (MachineInitialization (om_Status (sample_machine nm p d fs b))) = b"
  "Addresses (om_Status (sample_machine nm p d fs b)) = []"
  "om_GetConditions (sample_machine nm p d fs b) = []"
  by (simp_all add: sample_machine_def om_GetConditions_def)

definition sample_cluster :: "time option \<Rightarrow> string list \<Rightarrow> string \<Rightarrow> OxideCluster" where
  "sample_cluster deleted fins host =
     \<lparr>oc_Meta = sample_meta ''east'' deleted fins,
      oc_Spec = \<lparr>Project = ''proj'', VPC = ''vpc'', Subnet = ''net'',
        CredentialsRef = \<lparr>RefName = ''creds'', RefNamespace = ''prod''\<rparr>,
        ControlPlaneEndpoint = \<lparr>Host = host, Port = 0\<rparr>, ClusterIPPool = [], IPType = ''v4''\<rparr>,
      oc_Status = \<lparr>ClusterConditions = [], ClusterInitialization = \<lparr>ClusterProvisioned = None\<rparr>\<rparr>\<rparr>"

lemma sample_cluster_simps [simp]:
  "oc_Meta (sample_cluster d fs h) = sample_meta ''east'' d fs"
  "Project (oc_Spec (sample_cluster d fs h)) = ''proj''"
  "ControlPlaneEndpoint (oc_Spec (sample_cluster d fs h)) = \<lparr>Host = h, Port = 0\<rparr>"
  "oc_GetConditions (sample_cluster d fs h) = []"
  by (simp_all add: sample_cluster_def oc_GetConditions_def)

definition sample_owner :: Machine where
  "sample_owner = \<lparr>MachineMeta = sample_meta ''m'' None [], DataSecretName = Some ''boot''\<rparr>"

definition sample_capi_cluster :: Cluster where
  "sample_capi_cluster = \<lparr>ClusterMeta = sample_meta ''east'' None [], ClusterPaused = None\<rparr>"

lemma sample_owner_simps [simp]:
  "MachineMeta sample_owner = sample_meta ''m'' None []"
  "DataSecretName sample_owner = Some ''boot''"
  "ClusterMeta sample_capi_cluster = sample_meta ''east'' None []"
  by (simp_all add: sample_owner_def sample_capi_cluster_def)

definition sample_secret :: Secret where
  "sample_secret = \<lparr>SecretData = [''value'' \<mapsto> [0x68, 0x69]]\<rparr>"

section \<open>Oxide\<close>

definition sample_instance :: "InstanceState \<Rightarrow> Instance" where
  "sample_instance s = \<lparr>InstanceId = ''i-1'', InstanceName = ''capi-prod-m'', RunState = s\<rparr>"

definition sample_ip :: "string \<Rightarrow> FloatingIp" where
  "sample_ip holder = \<lparr>FipId = ''f-1'', FipIp = ''10.0.0.9'', FipInstanceId = holder\<rparr>"

lemma sample_oxide_simps [simp]:
  "InstanceId (sample_instance s) = ''i-1''" "RunState (sample_instance s) = s"
  "FipId (sample_ip h) = ''f-1''" "FipIp (sample_ip h) = ''10.0.0.9''" "FipInstanceId (sample_ip h) = h"
  by (simp_all add: sample_instance_def sample_ip_def)

definition sample_nics :: "InstanceNetworkInterface list" where
  "sample_nics = [\<lparr>NicId = ''n-1'', IpStack = PrivateIpStackV4 ''172.30.0.5''\<rparr>]"

definition not_found :: go_error where
  "not_found = OxideErr (Some ErrObjectNotFound) ''not found''"

lemma errors_Is_not_found [simp]: "errors_Is not_found t \<longleftrightarrow> t = ErrObjectNotFound"
  by (auto simp: not_found_def)

definition sample_client ::
    "go_error + Instance \<Rightarrow> go_error + FloatingIp \<Rightarrow> unit OxideClient" where
  "sample_client view ip =
     \<lparr>FloatingIpCreate = (\<lambda>_. return (Inr (sample_ip []))),
      FloatingIpView = (\<lambda>_. return ip),
      FloatingIpAttach = (\<lambda>p. return (Inr (sample_ip (AttachParent p)))),
      FloatingIpDetach = (\<lambda>_. return (Inr (sample_ip []))),
      FloatingIpDelete = (\<lambda>_. return None),
      InstanceCreate = (\<lambda>_. return (Inr (sample_instance InstanceStateRunning))),
      InstanceView = (\<lambda>_. return view),
      InstanceStart = (\<lambda>_. return (Inr (sample_instance (InstanceStateOther ''starting'')))),
      InstanceStop = (\<lambda>_. return (Inr (sample_instance (InstanceStateOther ''stopping'')))),
      InstanceDelete = (\<lambda>_. return None),
      InstanceNetworkInterfaceListAllPages = (\<lambda>_. return (Inr sample_nics)),
      InstanceExternalIpList = (\<lambda>_. return (Inr [])),
      DiskView = (\<lambda>_. return (Inr \<lparr>DiskId = ''d-1'', DiskState = DiskStateStateDetached\<rparr>)),
      DiskDelete = (\<lambda>_. return None)\<rparr>"

section \<open>Kubernetes\<close>

definition sample_k8s ::
    "bool \<Rightarrow> go_error option \<Rightarrow> OxideMachine \<Rightarrow> OxideCluster \<Rightarrow> OxideMachine list \<Rightarrow> ('w, unit) K8sClient" where
  "sample_k8s pausing patchErr m oc ms =
     \<lparr>GetOxideMachine = (\<lambda>_. return (Inr m)),
      GetOxideCluster = (\<lambda>_. return (Inr oc)),
      GetSecret = (\<lambda>_. return (Inr sample_secret)),
      ListOxideMachines = (\<lambda>_ _. return (Inr ms)),
      GetOwnerMachine = (\<lambda>_. return (Inr (Some sample_owner))),
      GetClusterFromMetadata = (\<lambda>_. return (Inr sample_capi_cluster)),
      GetOwnerCluster = (\<lambda>_. return (Inr (Some sample_capi_cluster))),
      EnsureMachinePaused = (\<lambda>_ x. return (\<lparr>isPaused = pausing, requeue = False, pausedErr = None\<rparr>, x)),
      EnsureClusterPaused = (\<lambda>_ x. return (\<lparr>isPaused = pausing, requeue = False, pausedErr = None\<rparr>, x)),
      NewMachineHelper = (\<lambda>_. return (Inr ())),
      NewClusterHelper = (\<lambda>_. return (Inr ())),
      PatchMachine = (\<lambda>_ _. return patchErr),
      PatchCluster = (\<lambda>_ _. return patchErr)\<rparr>"

definition sample_omr ::
    "bool \<Rightarrow> go_error option \<Rightarrow> OxideMachine \<Rightarrow> go_error + Instance \<Rightarrow> (unit, unit, unit) OxideMachineReconciler" where
  "sample_omr pausing patchErr m view =
     \<lparr>omr_Client = sample_k8s pausing patchErr m (sample_cluster None [] []) [m], omr_Scheme = (),
      omr_OxideClientFactory = (\<lambda>_. return (Inr (sample_client view (Inr (sample_ip [])))))\<rparr>"

definition sample_ocr ::
    "bool \<Rightarrow> go_error option \<Rightarrow> OxideCluster \<Rightarrow> OxideMachine list \<Rightarrow> go_error + FloatingIp \<Rightarrow>
     (unit, unit, unit) OxideClusterReconciler" where
  "sample_ocr pausing patchErr oc ms ip =
     \<lparr>ocr_Client = sample_k8s pausing patchErr (sample_machine ''m'' [] None [] None) oc ms, ocr_Scheme = (),
      ocr_OxideClientFactory = (\<lambda>_. return (Inr (sample_client (Inl not_found) ip)))\<rparr>"

lemma run_silent_return [simp]: "silent (return x) = return x"
  by (simp add: silent_def State_Monad.return_def)

lemma run_logged_return [simp]:
  "run_state (logged ev (return x)) (w, tr) = (x, (w, tr @ [ev x]))"
  by (simp add: logged_def)

definition sample_key :: ObjectKey where
  "sample_key = \<lparr>KeyNamespace = ''prod'', KeyName = ''m''\<rparr>"

lemmas sample_run_simps = Let_def sample_omr_def sample_ocr_def sample_k8s_def sample_client_def
  log_factory_def

section \<open>Runs of the machine reconciler\<close>

definition bootstrapping :: OxideMachine where
  "bootstrapping = sample_machine ''m'' [] None [] None"

definition bootstrap_params :: InstanceCreateParams where
  "bootstrap_params = instanceCreateParams sample_pkgs (om_AddFinalizer sample_pkgs MachineFinalizer bootstrapping)
     (sample_cluster None [] []) [0x68, 0x69]"

definition bootstrapped :: OxideMachine where
  "bootstrapped =
     set_Addresses [internal_ip ''172.30.0.5''] (set_om_Provisioned (Some True) (om_conditions_Set sample_pkgs
       (ready_condition ConditionTrue (getReadyReason sample_pkgs (Some (sample_instance InstanceStateRunning))))
       (set_ProviderID (NewProviderID ''i-1'') (om_AddFinalizer sample_pkgs MachineFinalizer bootstrapping))))"

definition bootstrap_log :: "go_error option \<Rightarrow> event list" where
  "bootstrap_log patchErr =
     [EvSnapshotMachine bootstrapping True,
      EvInstanceCreate bootstrap_params (Inr (sample_instance InstanceStateRunning)),
      EvNicList ''i-1'' (Inr sample_nics),
      EvPatchMachine bootstrapped patchErr]"

lemma bootstrap_run:
  "run_state (machine_Reconcile sample_pkgs
       (log_machine_reconciler (sample_omr False patchErr bootstrapping (Inl not_found))) sample_key) ((), []) =
     (machine_deferred (Inr Result_empty) patchErr, ((), bootstrap_log patchErr))"
  by (simp add: machine_Reconcile_def machine_reconcile_body_def machine_with_client_def ensureInstance_def
      ensureInstanceRunning_def ensureAddresses_def machineAddressesFromNICs_def sample_nics_def
      sample_run_simps bootstrap_log_def bootstrap_params_def bootstrapped_def bootstrapping_def sample_secret_def)

text \<open>A deleting machine whose instance is gone, and one whose instance is still there.\<close>

definition doomed :: OxideMachine where
  "doomed = sample_machine ''m'' [] (Some 5) [MachineFinalizer] None"

abbreviation doomed_instance :: ProjectResource where
  "doomed_instance \<equiv> in_project ''proj'' (getInstanceName sample_pkgs (sample_meta ''m'' (Some 5) [MachineFinalizer]))"

abbreviation doomed_disk :: ProjectResource where
  "doomed_disk \<equiv> in_project ''proj'' (getBootDiskName sample_pkgs (sample_meta ''m'' (Some 5) [MachineFinalizer]))"

definition detached_disk :: Disk where
  "detached_disk = \<lparr>DiskId = ''d-1'', DiskState = DiskStateStateDetached\<rparr>"

definition released :: OxideMachine where
  "released = om_RemoveFinalizer sample_pkgs MachineFinalizer (deleting_ready sample_pkgs None doomed)"

definition release_log :: "event list" where
  "release_log =
     [EvSnapshotMachine doomed True, EvInstanceView doomed_instance (Inl not_found),
      EvDiskView doomed_disk (Inr detached_disk), EvDiskDelete doomed_disk None,
      EvPatchMachine released None]"

lemma release_run:
  "run_state (machine_Reconcile sample_pkgs
       (log_machine_reconciler (sample_omr False None doomed (Inl not_found))) sample_key) ((), []) =
     ((Result_empty, None), ((), release_log))"
  by (simp add: machine_Reconcile_def machine_reconcile_body_def machine_with_client_def handleDelete_def
      ensureInstanceDeleted_def ensureDiskDeleted_def sample_run_simps release_log_def released_def
      doomed_def detached_disk_def machine_deferred_def)

definition stopping_instance :: Instance where
  "stopping_instance = sample_instance (InstanceStateOther ''stopping'')"

definition stop_log :: "event list" where
  "stop_log =
     [EvSnapshotMachine doomed True,
      EvInstanceView doomed_instance (Inr (sample_instance InstanceStateRunning)),
      EvInstanceStop doomed_instance (Inr stopping_instance),
      EvPatchMachine (deleting_ready sample_pkgs (Some stopping_instance) doomed) None]"

lemma stop_run:
  "run_state (machine_Reconcile sample_pkgs (log_machine_reconciler
       (sample_omr False None doomed (Inr (sample_instance InstanceStateRunning)))) sample_key) ((), []) =
     ((Result_10s, None), ((), stop_log))"
  by (simp add: machine_Reconcile_def machine_reconcile_body_def machine_with_client_def handleDelete_def
      ensureInstanceDeleted_def sample_run_simps stop_log_def stopping_instance_def
      doomed_def machine_deferred_def)

section \<open>Runs of the cluster reconciler\<close>

definition new_cluster :: OxideCluster where
  "new_cluster = sample_cluster None [] []"

definition node :: OxideMachine where
  "node = sample_machine ''cp-0'' (NewProviderID ''i-1'') None [MachineFinalizer] (Some True)"

abbreviation cluster_ip :: ProjectResource where
  "cluster_ip \<equiv> \<lparr>ParamProject = ''proj'',
     ParamResource = getFloatingIPName sample_pkgs (sample_meta ''east'' None [])\<rparr>"

definition new_endpoint :: OxideCluster where
  "new_endpoint = provisioned_cluster sample_pkgs (sample_ip []) (oc_AddFinalizer sample_pkgs ClusterFinalizer new_cluster)"

definition attach_log :: "go_error option \<Rightarrow> event list" where
  "attach_log patchErr =
     [EvSnapshotCluster new_cluster True, EvFloatingIpView cluster_ip (Inl not_found),
      EvFloatingIpCreate \<lparr>FipCreateProject = ''proj'', FipCreateName = ParamResource cluster_ip,
        FipCreateAllocator = AddressAllocatorAuto (PoolSelectorAuto ''v4'')\<rparr> (Inr (sample_ip [])),
      EvListMachines (Inr [node]),
      EvFloatingIpAttach (attach_params ''f-1'' ''i-1'') (Inr (sample_ip ''i-1'')),
      EvPatchCluster (oc_conditions_Set sample_pkgs (attached_condition (sample_ip ''i-1'')) new_endpoint) patchErr]"

lemma uuid_Parse_sample [simp]: "uuid_Parse sample_pkgs s = (if s = [] then Some (New ''invalid UUID'') else None)"
  by (simp add: sample_pkgs_def)

lemma decode_sample [simp]:
  "s \<noteq> [] \<Longrightarrow> InstanceIDFromProviderID sample_pkgs (NewProviderID s) = Inr s"
  by (rule provider_ids.dec_enc) (simp add: valid_id_def)

lemma getFloatingIPName_AddFinalizer [simp]:
  "getFloatingIPName P (oc_Meta (oc_AddFinalizer P f oc)) = getFloatingIPName P (oc_Meta oc)"
  by (simp add: getFloatingIPName_def getResourceName_def resourceName_def)

lemma attach_run:
  "run_state (cluster_Reconcile sample_pkgs
       (log_cluster_reconciler (sample_ocr False patchErr new_cluster [node] (Inl not_found))) sample_key) ((), []) =
     ((Result_empty, cluster_deferred None patchErr), ((), attach_log patchErr))"
  by (simp add: cluster_Reconcile_def cluster_reconcile_body_def cluster_with_client_def ensureFloatingIPExists_def
      reconcileFloatingIPAttachment_def moveFloatingIP_def shouldAttach_def floatingIPAllocator_def
      sample_run_simps attach_log_def new_endpoint_def new_cluster_def node_def sample_cluster_def)

definition closing_cluster :: OxideCluster where
  "closing_cluster = sample_cluster (Some 5) [ClusterFinalizer] ''10.0.0.9''"

definition close_log :: "event list" where
  "close_log =
     [EvSnapshotCluster closing_cluster True,
      EvFloatingIpDelete \<lparr>ParamProject = ''proj'', ParamResource = getFloatingIPName sample_pkgs
         (sample_meta ''east'' (Some 5) [ClusterFinalizer])\<rparr> None,
      EvPatchCluster (oc_RemoveFinalizer sample_pkgs ClusterFinalizer closing_cluster) None]"

lemma close_run:
  "run_state (cluster_Reconcile sample_pkgs
       (log_cluster_reconciler (sample_ocr False None closing_cluster [] (Inl not_found))) sample_key) ((), []) =
     ((Result_empty, None), ((), close_log))"
  by (simp add: cluster_Reconcile_def cluster_reconcile_body_def cluster_with_client_def
      ensureFloatingIPDeleted_def sample_run_simps close_log_def closing_cluster_def cluster_deferred_def)

lemma sample_machines_live [simp]:
  "DeletionTimestamp (om_Meta doomed) = Some 5" "DeletionTimestamp (om_Meta bootstrapping) = None"
  "Finalizers (om_Meta doomed) = [MachineFinalizer]" "ProviderID (om_Spec bootstrapping) = []"
  "MachineProvisioned (MachineInitialization (om_Status bootstrapping)) = None"
  "Addresses (om_Status bootstrapping) = []" "MachineIPPool (om_Spec bootstrapping) = []"
  by (simp_all add: doomed_def bootstrapping_def)

lemma sample_machines_written [simp]:
  "MachineFinalizer \<notin> set (Finalizers (om_Meta released))"
  "MachineFinalizer \<in> set (Finalizers (om_Meta bootstrapped))"
  "ProviderID (om_Spec bootstrapped) = NewProviderID ''i-1''"
  "MachineProvisioned (MachineInitialization (om_Status bootstrapped)) = Some True"
  "Addresses (om_Status bootstrapped) = [internal_ip ''172.30.0.5'']"
  using pkgs_okD(2,3) [OF sample_pkgs_ok]
  by (simp_all add: released_def bootstrapped_def doomed_def)

end
