(* ===== verification/MachineClaims.thy ===== *)
theory MachineClaims
  imports Creation Sample
begin

text \<open>
  The properties of the machine reconciler, each with the sample run it is instantiated at. They
  are stated on \<open>machine_run\<close>: for every result and log a reconcile can have, whatever the
  Kubernetes and Oxide APIs answer.
\<close>

text \<open>Sample runs, as runs of the reconciler.\<close>

lemma bootstrap_machine_run:
  "machine_run sample_pkgs (sample_omr False patchErr bootstrapping (Inl not_found)) sample_key ()
     (machine_deferred (Inr Result_empty) patchErr) (bootstrap_log patchErr)"
  using bootstrap_run by (auto simp: machine_run_def)

lemma release_machine_run:
  "machine_run sample_pkgs (sample_omr False None doomed (Inl not_found)) sample_key ()
     (Result_empty, None) release_log"
  using release_run by (auto simp: machine_run_def)

lemma stop_machine_run:
  "machine_run sample_pkgs (sample_omr False None doomed (Inr (sample_instance InstanceStateRunning)))
     sample_key () (Result_10s, None) stop_log"
  using stop_run by (auto simp: machine_run_def)

lemma sample_logs_snapshot:
  "EvSnapshotMachine doomed True \<in> set release_log" "EvSnapshotMachine doomed True \<in> set stop_log"
  "EvSnapshotMachine bootstrapping True \<in> set (bootstrap_log patchErr)"
  by (simp_all add: release_log_def stop_log_def bootstrap_log_def)

lemma sample_logs_patch:
  "EvPatchMachine released None \<in> set release_log"
  "EvPatchMachine (deleting_ready sample_pkgs (Some stopping_instance) doomed) None \<in> set stop_log"
  "EvPatchMachine bootstrapped patchErr \<in> set (bootstrap_log patchErr)"
  by (simp_all add: release_log_def stop_log_def bootstrap_log_def)

section \<open>Properties\<close>

text \<open>C4: The finalizer of a machine is dropped only when the machine is being deleted and, in this
  very reconcile, the API has answered that the machine's instance is gone and, after that, that
  its boot disk is gone or deleted, both looked up in the same project under the machine's names.\<close>

theorem machine_finalizer_safe:
  assumes "pkgs_ok P" and "machine_run P r req w res evs"
    and "EvSnapshotMachine m ok \<in> set evs" and "EvPatchMachine m' a \<in> set evs"
    and "MachineFinalizer \<in> set (Finalizers (om_Meta m))"
    and "MachineFinalizer \<notin> set (Finalizers (om_Meta m'))"
  shows "\<not> IsZero (DeletionTimestamp (om_Meta m)) \<and>
    (\<exists>project xs ie ys de zs. evs = xs @ ie # ys @ de # zs \<and>
       instance_gone ie \<and> event_resource ie = Some (in_project project (getInstanceName P (om_Meta m))) \<and>
       disk_gone de \<and> event_resource de = Some (in_project project (getBootDiskName P (om_Meta m))))"
proof (rule machine_run_written [OF assms(2-4)])
  fix machine body ox
  assume body: "machine_body_log P m machine (body, m') ox"
    and evs: "evs = EvSnapshotMachine m True # ox @ [EvPatchMachine m' a]"
  let ?ip = "\<lambda>oc :: OxideCluster. in_project (Project (oc_Spec oc)) (getInstanceName P (om_Meta m))"
    and ?dp = "\<lambda>oc :: OxideCluster. in_project (Project (oc_Spec oc)) (getBootDiskName P (om_Meta m))"
  obtain oc where deleting: "\<not> IsZero (DeletionTimestamp (om_Meta m))"
    and log: "handle_delete_log P m (?ip oc) (?dp oc) (Inr Result_empty, m') ox"
    by (rule machine_body_finalizer_dropped [OF assms(1) body assms(5,6)])
  from log obtain xs ie ys de where "ox = xs @ ie # ys @ [de]" "instance_gone ie"
    "event_resource ie = Some (?ip oc)" "disk_gone de" "event_resource de = Some (?dp oc)"
    by (rule handle_delete_gone)
  moreover from this(1) evs
  have "evs = (EvSnapshotMachine m True # xs) @ ie # ys @ de # [EvPatchMachine m' a]" by simp
  ultimately show ?thesis using deleting by blast
qed

theorem machine_finalizer_safe_witness:
  "\<exists>project xs ie ys de zs. release_log = xs @ ie # ys @ de # zs \<and> instance_gone ie \<and>
     event_resource ie = Some (in_project project (getInstanceName sample_pkgs (om_Meta doomed))) \<and>
     disk_gone de \<and> event_resource de = Some (in_project project (getBootDiskName sample_pkgs (om_Meta doomed)))"
  using machine_finalizer_safe [OF sample_pkgs_ok release_machine_run sample_logs_snapshot(1)
      sample_logs_patch(1)] by simp

text \<open>A reconcile of a live machine that made any Oxide call ends by writing the machine back
  with the finalizer on it.\<close>

lemma machine_call_leaves_finalizer:
  assumes "pkgs_ok P" and "machine_run P r req w res evs"
    and "EvSnapshotMachine m ok \<in> set evs" and "IsZero (DeletionTimestamp (om_Meta m))"
    and "ev \<in> set evs" and "\<not> is_bookkeeping ev"
  shows "\<exists>m' a. last evs = EvPatchMachine m' a \<and> MachineFinalizer \<in> set (Finalizers (om_Meta m'))"
  by (rule machine_run_calls [OF assms(2,3,5,6)])
    (simp add: machine_log_live_finalizer [OF assms(1) _ assms(4)])

text \<open>A reconcile reads nothing and writes nothing, or fails to build its patch helper, or
  takes one snapshot of the machine, makes its Oxide calls, and writes the machine back once, last.\<close>

lemma machine_one_write:
  assumes "machine_run P r req w res evs"
  shows "(evs = [] \<and> fst res = Result_empty) \<or>
    (\<exists>m e. evs = [EvSnapshotMachine m False] \<and> res = (Result_empty, Some (Wrapf ''building patch helper'' e))) \<or>
    (\<exists>m ox m' a. evs = EvSnapshotMachine m True # ox @ [EvPatchMachine m' a] \<and>
       (\<forall>ev \<in> set ox. \<not> is_bookkeeping ev))"
  using machine_run_log [OF assms]
  by cases (auto dest: machine_body_log_phases(1))

text \<open>Deleting and live machines never mix: a reconcile of a live machine stops and deletes
  nothing, a reconcile of a machine being deleted creates and starts nothing.\<close>

lemma machine_phases_disjoint:
  assumes "machine_run P r req w res evs" and "EvSnapshotMachine m ok \<in> set evs" and "ev \<in> set evs"
  shows "if IsZero (DeletionTimestamp (om_Meta m)) then \<not> take_down ev else \<not> bring_up ev"
proof (cases "is_bookkeeping ev")
  case True
  then show ?thesis by (cases ev) auto
next
  case False
  show ?thesis
    by (rule machine_run_calls [OF assms False]) (simp add: machine_log_phases(2,3))
qed

text \<open>C6: Every call of a reconcile is licensed by the answer right before it: an instance is
  created only from a live machine without a provider ID, started only after an answer that says it
  is stopped, stopped only after a view that says it is running, deleted only after a view that
  says it is stopped or failed; the boot disk is looked at only after the answer that the instance is
  gone and deleted only after a view that says it is detached or faulted; addresses are read only
  for an instance that just answered as running.\<close>

theorem machine_calls_licensed:
  assumes "machine_run P r req w res evs"
  shows "successively machine_call_ok evs"
  using machine_run_log [OF assms]
proof cases
  case (reconciled m machine body m' ox a)
  from machine_body_log_protocol [OF reconciled(3)] show ?thesis
    unfolding reconciled(2) by (simp add: successively_append_iff flip: append_Cons)
qed simp_all

theorem machine_calls_licensed_witness: "successively machine_call_ok release_log"
  by (rule machine_calls_licensed [OF release_machine_run])

lemma machine_log_create:
  assumes "machine_log P m machine oc rm ox" and "ox = xs @ EvInstanceCreate p a # ys"
  shows "xs = [] \<and> ProviderID (om_Spec m) = [] \<and> IsZero (DeletionTimestamp (om_Meta m)) \<and>
     (\<exists>ud. p = instanceCreateParams P m oc ud) \<and> list_all (\<lambda>ev. \<not> is_create ev) ys"
proof -
  have step: "xs = [] \<and> ProviderID (om_Spec m) = [] \<and> (\<exists>ud. p = instanceCreateParams P m oc ud) \<and>
      list_all (\<lambda>ev. \<not> is_create ev) ys"
    if "ensure_instance_log P (om_AddFinalizer P MachineFinalizer m) machine oc rm' es"
      "es @ fs = xs @ EvInstanceCreate p a # ys" "list_all (\<lambda>ev. \<not> is_create ev) fs" for rm' es fs
    using that(1)
    by cases (use that(2,3) in \<open>force simp: Cons_eq_append_conv append_eq_Cons_conv list_all_iff\<close>)+
  have "EvInstanceCreate p a \<in> set ox" using assms(2) by simp
  with assms(1) have live: "IsZero (DeletionTimestamp (om_Meta m))"
    by (cases rule: machine_log.cases) (auto dest: handle_delete_no_bring_up)
  from assms(1) show ?thesis
  proof cases
    case (running inst m1 evs' es)
    have "list_all (\<lambda>ev. \<not> is_create ev) es"
      using addresses_no_take_down [OF running(5)] by (auto simp: list_all_iff)
    with step [OF running(3)] running(1) assms(2) live show ?thesis by simp
  qed (use live assms(2) in \<open>auto dest: step [of _ _ "[]"] step\<close>)
qed


text \<open>C11: A reconcile asks for at most one instance, as its first Oxide call, before anything is
  written to the API server: only for a live machine without a provider ID, with exactly the parameters that three
  objects determine: the machine, the cluster that its owner's label names, and the data under the key value of the
  secret that its owner names. What the reconcile read is said as an answer the client can give to that very read.\<close>

theorem machine_creates_once:
  assumes "machine_run P r req w res evs" and "evs = xs @ EvInstanceCreate p a # ys"
  shows "\<exists>m machine oc ud. xs = [EvSnapshotMachine m True] \<and> ProviderID (om_Spec m) = [] \<and>
     IsZero (DeletionTimestamp (om_Meta m)) \<and> reconciled_for (omr_Client r) req m machine \<and>
     labelled_cluster (omr_Client r) machine oc \<and> bootstrap_data (omr_Client r) machine ud \<and>
     p = instanceCreateParams P m oc ud \<and> (\<forall>ev \<in> set ys. \<not> is_create ev)"
proof -
  have "EvInstanceCreate p a \<in> set evs" "\<not> is_bookkeeping (EvInstanceCreate p a)"
    using assms(2) by simp_all
  then show ?thesis
  proof (rule machine_run_called [OF assms(1)])
    fix m machine body m' ox b
    assume body: "machine_body_log P m machine (body, m') ox" and created: "EvInstanceCreate p a \<in> set ox"
      and evs: "evs = EvSnapshotMachine m True # ox @ [EvPatchMachine m' b]"
    from body created obtain oc where log: "machine_log P m machine oc (body, m') ox" by cases auto
    from evs assms(2) obtain xs' zs where "xs = EvSnapshotMachine m True # xs'"
      "ox = xs' @ EvInstanceCreate p a # zs" "ys = zs @ [EvPatchMachine m' b]"
      by (cases xs; cases ys rule: rev_cases) auto
    with machine_log_create [OF log this(2)] have "xs = [EvSnapshotMachine m True]" "ProviderID (om_Spec m) = []"
      "IsZero (DeletionTimestamp (om_Meta m))" "\<forall>ev \<in> set ys. \<not> is_create ev"
      by (auto simp: list_all_iff)
    moreover have "creation_determined P (omr_Client r) req m p"
      by (rule machine_run_creates [OF assms(1) [unfolded evs], of _ a]) (use created in simp)
    ultimately show ?thesis unfolding creation_determined_def by blast
  qed
qed

theorem machine_creates_once_witness:
  "\<exists>m machine oc ud. [EvSnapshotMachine bootstrapping True] = [EvSnapshotMachine m True] \<and>
     bootstrap_data (omr_Client (sample_omr False None bootstrapping (Inl not_found))) machine ud \<and>
     bootstrap_params = instanceCreateParams sample_pkgs m oc ud"
  using machine_creates_once [OF bootstrap_machine_run [of None], of "[EvSnapshotMachine bootstrapping True]"
      bootstrap_params "Inr (sample_instance InstanceStateRunning)" "drop 2 (bootstrap_log None)"]
  by (auto simp: bootstrap_log_def)

text \<open>A machine gets a provider ID only when it had none, and it is the ID of an instance that
  the API returned in this reconcile.\<close>

lemma machine_provider_id_answered:
  assumes "machine_run P r req w res evs"
    and "EvSnapshotMachine m ok \<in> set evs" and "EvPatchMachine m' a \<in> set evs"
    and "ProviderID (om_Spec m') \<noteq> ProviderID (om_Spec m)"
  shows "ProviderID (om_Spec m) = [] \<and>
    (\<exists>ev inst. ev \<in> set evs \<and> instance_answer ev = Some inst \<and>
       ProviderID (om_Spec m') = NewProviderID (InstanceId inst))"
proof (rule machine_run_written [OF assms(1-3)])
  fix machine body ox
  assume body: "machine_body_log P m machine (body, m') ox"
    and evs: "evs = EvSnapshotMachine m True # ox @ [EvPatchMachine m' a]"
  have "ProviderID (om_Spec m) \<noteq> [] \<longrightarrow> om_Spec m' = om_Spec m"
    using machine_body_log_frame [OF body] by (simp add: machine_frame_def)
  with assms(4) have "ProviderID (om_Spec m) = []" by auto
  moreover from body have "\<exists>ev inst. ev \<in> set ox \<and> instance_answer ev = Some inst \<and>
      ProviderID (om_Spec m') = NewProviderID (InstanceId inst)"
    by cases (use assms(4) in \<open>auto dest!: machine_log_provider\<close>)
  ultimately show ?thesis using evs by auto
qed

text \<open>C24: A reconcile changes nothing else of the machine: of the metadata only the finalizers, of
  the spec only an empty provider ID; a machine once marked as provisioned stays so, and addresses
  once known stay.\<close>

theorem machine_frame_preserved:
  assumes "machine_run P r req w res evs"
    and "EvSnapshotMachine m ok \<in> set evs" and "EvPatchMachine m' a \<in> set evs"
  shows "machine_frame m m'"
  by (rule machine_run_written [OF assms]) (rule machine_body_log_frame)

theorem machine_frame_preserved_witness: "machine_frame bootstrapping bootstrapped"
  by (rule machine_frame_preserved [OF bootstrap_machine_run sample_logs_snapshot(3) sample_logs_patch(3)])

text \<open>C20: The initialization status changes only to provisioned, only when an instance answered as
  running in this reconcile, and together with a true Ready condition.\<close>

theorem machine_provisioned_running:
  assumes "pkgs_ok P" and "machine_run P r req w res evs"
    and "EvSnapshotMachine m ok \<in> set evs" and "EvPatchMachine m' a \<in> set evs"
    and "MachineInitialization (om_Status m') \<noteq> MachineInitialization (om_Status m)"
  shows "\<exists>inst. running_answer evs inst \<and>
     MachineProvisioned (MachineInitialization (om_Status m')) = Some True \<and>
     find_cond (om_GetConditions m') ReadyCondition =
       Some (ready_condition ConditionTrue (getReadyReason P (Some inst)))"
proof (rule machine_run_written [OF assms(2-4)])
  fix machine body ox
  assume body: "machine_body_log P m machine (body, m') ox"
    and evs: "evs = EvSnapshotMachine m True # ox @ [EvPatchMachine m' a]"
  from body assms(5) obtain oc where "machine_log P m machine oc (body, m') ox" by cases auto
  from machine_log_provisioned [OF assms(1) this assms(5)] obtain inst where
    "running_answer ox inst" "MachineProvisioned (MachineInitialization (om_Status m')) = Some True"
    "find_cond (om_GetConditions m') ReadyCondition = Some (running_ready P inst)" by blast
  then show ?thesis by (intro exI [of _ inst]) (auto simp: running_answer_def evs)
qed

theorem machine_provisioned_running_witness:
  "\<exists>inst. running_answer (bootstrap_log None) inst \<and>
     find_cond (om_GetConditions bootstrapped) ReadyCondition =
       Some (ready_condition ConditionTrue (getReadyReason sample_pkgs (Some inst)))"
proof -
  have "MachineInitialization (om_Status bootstrapped) \<noteq> MachineInitialization (om_Status bootstrapping)"
    by (metis sample_machines_live(5) sample_machines_written(4) option.distinct(1))
  from machine_provisioned_running [OF sample_pkgs_ok bootstrap_machine_run sample_logs_snapshot(3)
      sample_logs_patch(3) this] show ?thesis by blast
qed

text \<open>A reconcile that asks to be called again in ten seconds has written a false Ready
  condition, with the state of the instance as its reason.\<close>

lemma machine_requeue_not_ready:
  assumes "pkgs_ok P" and "machine_run P r req w (Result_10s, err) evs"
    and "EvPatchMachine m' a \<in> set evs"
  shows "\<exists>reason. prefix ''Instance'' reason \<and>
     find_cond (om_GetConditions m') ReadyCondition = Some (ready_condition ConditionFalse reason)"
proof (rule machine_run_patched [OF assms(2,3)])
  fix m machine body ox
  assume body: "machine_body_log P m machine (body, m') ox" and "(Result_10s, err) = machine_deferred body a"
  then have "body = Inr Result_10s" by (auto simp: machine_deferred_def split: sum.splits)
  with body obtain oc where "machine_log P m machine oc (Inr Result_10s, m') ox" by cases auto
  then show ?thesis by (rule machine_log_requeue [OF assms(1)])
qed

text \<open>C14: A reconcile that took its snapshot and wrote the machine, and that returns no error and asks for no
  further call, has done all its work: the write was accepted, and the machine is either released by its deletion, or
  waits for bootstrap data and says so, or runs with a provider ID and is provisioned and ready. (A reconcile of a
  paused, missing or ownerless machine writes nothing.)\<close>

theorem machine_settled:
  assumes "pkgs_ok P" and "machine_run P r req w (Result_empty, None) evs"
    and "EvSnapshotMachine m ok \<in> set evs" and "EvPatchMachine m' a \<in> set evs"
  shows "a = None \<and>
    (if IsZero (DeletionTimestamp (om_Meta m))
     then MachineFinalizer \<in> set (Finalizers (om_Meta m')) \<and>
       (ProviderID (om_Spec m') = [] \<and> find_cond (om_GetConditions m') ReadyCondition =
          Some (ready_condition ConditionFalse WaitingForBootstrapDataReason) \<or>
        ProviderID (om_Spec m') \<noteq> [] \<and>
        MachineProvisioned (MachineInitialization (om_Status m')) = Some True \<and>
        (\<exists>inst. running_answer evs inst \<and> find_cond (om_GetConditions m') ReadyCondition =
          Some (ready_condition ConditionTrue (getReadyReason P (Some inst)))))
     else MachineFinalizer \<notin> set (Finalizers (om_Meta m')))"
proof (rule machine_run_written [OF assms(2-4)])
  fix machine body ox
  assume body: "machine_body_log P m machine (body, m') ox"
    and evs: "evs = EvSnapshotMachine m True # ox @ [EvPatchMachine m' a]"
    and "(Result_empty, None) = machine_deferred body a"
  then have a: "a = None" and r: "body = Inr Result_empty"
    by (auto simp: machine_deferred_def split: sum.splits option.splits)
  from body obtain oc where log: "machine_log P m machine oc (Inr Result_empty, m') ox"
    unfolding r by cases auto
  note fin = machine_log_live_finalizer [OF assms(1) log]
  have ans: "running_answer ox inst \<Longrightarrow> running_answer evs inst" for inst
    by (auto simp: running_answer_def evs)
  from machine_log_settled [OF assms(1) log] show ?thesis
    using a fin ans by cases auto
qed

theorem machine_settled_witness:
  "MachineFinalizer \<in> set (Finalizers (om_Meta bootstrapped)) \<and>
     (\<exists>inst. running_answer (bootstrap_log None) inst)"
  using machine_settled [OF sample_pkgs_ok bootstrap_machine_run [of None, unfolded machine_deferred_def,
      simplified] sample_logs_snapshot(3) sample_logs_patch(3)]
  by auto

lemma handle_delete_disk:
  assumes "handle_delete_log P m ip dp rm evs" and "ev \<in> set evs"
    and "ev = EvDiskView p v \<or> ev = EvDiskDelete p d"
  shows "p = dp"
proof -
  have inst: "instance_deletion_log ip r es \<Longrightarrow> ev \<notin> set es" for r es
    using assms(3) by (auto elim!: instance_deletion_log_cases)
  have disk: "disk_deletion_log dp r es \<Longrightarrow> ev \<in> set es \<Longrightarrow> p = dp" for r es
    using assms(3) by (auto elim!: disk_deletion_log_cases)
  show ?thesis using assms(1,2) by cases (auto dest: inst disk)
qed

lemma machine_log_disk:
  assumes "machine_log P m machine oc rm evs" and "EvDiskDelete p a \<in> set evs"
  shows "ParamResource p = getBootDiskName P (om_Meta m)"
proof -
  have "\<not> IsZero (DeletionTimestamp (om_Meta m))"
    using machine_log_phases(2) [OF assms] by auto
  with assms(1) show ?thesis
    by cases (use assms(2) handle_delete_disk in fastforce)+
qed

text \<open>C31: The only disk a reconcile ever deletes is the machine's boot disk: the data disks that
  the creation request asked for are never deleted with the machine.\<close>

theorem machine_deletes_boot_disk_only:
  assumes "machine_run P r req w res evs"
    and "EvSnapshotMachine m ok \<in> set evs" and "EvDiskDelete p a \<in> set evs"
  shows "ParamResource p = getBootDiskName P (om_Meta m) \<and>
    (dns_object (om_Meta m) \<longrightarrow>
       (\<forall>i < 10 ^ 40. ParamResource p \<noteq> getDataDiskName P (om_Meta m) i))"
proof -
  have "ParamResource p = getBootDiskName P (om_Meta m)"
    by (rule machine_run_calls [OF assms]) (simp_all add: machine_log_disk)
  then show ?thesis using data_disk_not_boot_disk by metis
qed

theorem machine_deletes_boot_disk_only_witness:
  "ParamResource doomed_disk = getBootDiskName sample_pkgs (om_Meta doomed) \<and>
   ParamResource doomed_disk \<noteq> getDataDiskName sample_pkgs (om_Meta doomed) 0"
proof -
  have "dns_object (om_Meta doomed)" by (simp add: doomed_def) (code_simp)
  moreover have "EvDiskDelete doomed_disk None \<in> set release_log" by (simp add: release_log_def)
  ultimately show ?thesis
    using machine_deletes_boot_disk_only [OF release_machine_run sample_logs_snapshot(1), of doomed_disk None]
    by (simp add: doomed_def)
qed

text \<open>C34: A failed write hides every other error of the reconcile: whatever the body returned, the
  reported error is the patch error alone. No error reported means the write was accepted.\<close>

theorem machine_patch_error_reported:
  assumes "machine_run P r req w res evs" and "EvSnapshotMachine m ok \<in> set evs"
    and "EvPatchMachine m' a \<in> set evs"
  shows "\<exists>machine body ox. machine_body_log P m machine (body, m') ox \<and>
    evs = EvSnapshotMachine m True # ox @ [EvPatchMachine m' a] \<and>
    (case a of
       Some e \<Rightarrow> snd res = Some (Wrapf ''patching machine'' e)
     | None \<Rightarrow> res = (case body of Inl e \<Rightarrow> (Result_empty, Some e) | Inr result \<Rightarrow> (result, None)))"
proof (rule machine_run_written [OF assms])
  fix machine body ox
  assume "machine_body_log P m machine (body, m') ox"
    and "evs = EvSnapshotMachine m True # ox @ [EvPatchMachine m' a]" and "res = machine_deferred body a"
  then show ?thesis
    by (intro exI [of _ machine] exI [of _ body] exI [of _ ox])
      (simp add: machine_deferred_def split: option.split sum.split)
qed

theorem machine_patch_error_reported_witness:
  "snd (machine_deferred (Inr Result_empty) (Some (K8sErr False ''conflict''))) =
     Some (Wrapf ''patching machine'' (K8sErr False ''conflict''))"
  using machine_patch_error_reported [OF bootstrap_machine_run sample_logs_snapshot(3)
      sample_logs_patch(3) [of "Some (K8sErr False ''conflict'')"]] by auto

text \<open>A paused machine is left alone: no Oxide call, no write, no request to come back.\<close>

lemma machine_paused_idle:
  assumes "\<And>cluster m w. isPaused (fst (fst (run_state (EnsureMachinePaused (omr_Client r) cluster m) w)))"
    and "machine_run P r req w res evs"
  shows "evs = [] \<and> fst res = Result_empty"
proof -
  have paused: "emits (silent (EnsureMachinePaused (omr_Client r) cluster m)) (\<lambda>(pr, _) evs. isPaused pr \<and> evs = [])"
    for cluster m
    by (rule emits_silent_known [where S = "\<lambda>x. isPaused (fst x)"]) (auto intro: assms(1))
  have "emits (machine_Reconcile P (log_machine_reconciler r) req) (\<lambda>res evs. evs = [] \<and> fst res = Result_empty)"
    unfolding machine_Reconcile_def
    by (auto intro!: emits_silent emits_bind emits_return emits_bind_known [OF paused] split: sum.split option.split)
  from emits_run_Nil [OF this] show ?thesis using assms(2) unfolding machine_run_def by blast
qed

lemma paused_machine_run:
  "machine_run sample_pkgs (sample_omr True None doomed (Inl not_found)) sample_key ()
     (Result_empty, None) []"
  unfolding machine_run_def by (simp add: machine_Reconcile_def sample_run_simps)

text \<open>C30: Creation is idempotent: when the name is taken, the instance found under it is adopted,
  and the result and the machine are the same as if it had just been created.\<close>

theorem ensureInstance_adopts:
  assumes "ProviderID (om_Spec m) = []" and "DataSecretName machine = Some s"
    and "run_state (GetSecret k \<lparr>KeyNamespace = ObjNamespace (MachineMeta machine), KeyName = s\<rparr>) w =
           (Inr secret, w1)" and "SecretData secret ''value'' = Some ud"
    and "run_state (InstanceCreate c (instanceCreateParams P m oc ud)) w1 = (Inl e, w2)"
    and "errors_Is e ErrObjectAlreadyExists"
    and "run_state (InstanceView c (in_project (Project (oc_Spec oc)) (getInstanceName P (om_Meta m)))) w2 =
           (Inr inst, w3)"
    and "run_state (InstanceCreate c' (instanceCreateParams P m oc ud)) w1 = (Inr inst, w2')"
  shows "run_state (ensureInstance P k c m machine oc) w =
      ((Inr (Some inst), set_ProviderID (NewProviderID (InstanceId inst)) m), w3) \<and>
    fst (run_state (ensureInstance P k c' m machine oc) w) =
      fst (run_state (ensureInstance P k c m machine oc) w)"
  using assms by (simp add: ensureInstance_def Let_def)

definition taken_client :: "unit OxideClient" where
  "taken_client = (sample_client (Inr (sample_instance InstanceStateRunning)) (Inl not_found))
     \<lparr>InstanceCreate := (\<lambda>_. return (Inl (OxideErr (Some ErrObjectAlreadyExists) ''conflict'')))\<rparr>"

theorem ensureInstance_adopts_witness:
  "fst (run_state (ensureInstance sample_pkgs (sample_k8s False None bootstrapping new_cluster []) taken_client
       bootstrapping sample_owner new_cluster) ()) =
     (Inr (Some (sample_instance InstanceStateRunning)), set_ProviderID (NewProviderID ''i-1'') bootstrapping)"
proof -
  let ?k = "sample_k8s False None bootstrapping new_cluster []"
    and ?c = "sample_client (Inr (sample_instance InstanceStateRunning)) (Inl not_found)"
  have secret: "run_state (GetSecret ?k \<lparr>KeyNamespace = ObjNamespace (MachineMeta sample_owner), KeyName = ''boot''\<rparr>) () =
      (Inr sample_secret, ())"
    and data: "SecretData sample_secret ''value'' = Some [0x68, 0x69]"
    by (simp_all add: sample_k8s_def sample_secret_def)
  have create: "run_state (InstanceCreate taken_client p) () = (Inl (OxideErr (Some ErrObjectAlreadyExists) ''conflict''), ())"
    and view: "run_state (InstanceView taken_client q) () = (Inr (sample_instance InstanceStateRunning), ())"
    and fresh: "run_state (InstanceCreate ?c p) () = (Inr (sample_instance InstanceStateRunning), ())" for p q
    by (simp_all add: taken_client_def sample_client_def)
  show ?thesis
    using ensureInstance_adopts [OF _ _ secret data create _ view fresh] by simp
qed

text \<open>C35: The addresses a reconcile writes are, in this order, the internal addresses of all the
  instance's NICs and, only if the machine asks for an IP pool, its ephemeral external IPs, as the
  API listed them in this reconcile; they are written only where none were known.\<close>

theorem machine_addresses_written:
  assumes "machine_run P r req w res evs"
    and "EvSnapshotMachine m ok \<in> set evs" and "EvPatchMachine m' a \<in> set evs"
    and "Addresses (om_Status m') \<noteq> Addresses (om_Status m)"
  shows "Addresses (om_Status m) = [] \<and>
    (\<exists>n nics ips. EvNicList n (Inr nics) \<in> set evs \<and> list_all known_stack nics \<and>
       (if MachineIPPool (om_Spec m) = [] then ips = [] else EvExternalIpList n (Inr ips) \<in> set evs) \<and>
       Addresses (om_Status m') =
         concat (map nic_addresses nics) @ map external_ip (List.map_filter AsEphemeral ips))"
proof (rule machine_run_written [OF assms(1-3)])
  fix machine body ox
  assume body: "machine_body_log P m machine (body, m') ox"
    and evs: "evs = EvSnapshotMachine m True # ox @ [EvPatchMachine m' a]"
  have none: "Addresses (om_Status m) = []"
    using machine_body_log_frame [OF body] assms(4) by (auto simp: machine_frame_def)
  from body assms(4) obtain oc where log: "machine_log P m machine oc (body, m') ox" by cases auto
  obtain n nics as ips where l: "EvNicList n (Inr nics) \<in> set ox" "machineAddressesFromNICs nics = Inr as"
    "Addresses (om_Status m') = as @ machineAddressesFromIPs ips"
    "if MachineIPPool (om_Spec m) = [] then ips = [] else EvExternalIpList n (Inr ips) \<in> set ox"
    by (rule machine_log_addresses [OF log assms(4)])
  then have "list_all known_stack nics \<and> as = concat (map nic_addresses nics)"
    using nic_loop_Inr [of "[]"] by (simp add: machineAddressesFromNICs_def)
  with l none show ?thesis
    by (intro conjI exI [of _ n] exI [of _ nics] exI [of _ ips])
      (auto simp: evs machineAddressesFromIPs_def ip_loop_eq)
qed

theorem machine_addresses_written_witness:
  "\<exists>n nics. EvNicList n (Inr nics) \<in> set (bootstrap_log None) \<and> list_all known_stack nics \<and>
     Addresses (om_Status bootstrapped) = concat (map nic_addresses nics)"
  using machine_addresses_written [OF bootstrap_machine_run [of None] sample_logs_snapshot(3)
      sample_logs_patch(3)]
  by (simp add: nic_addresses_def)

end
