(* ===== verification/ClusterProps.thy ===== *)
theory ClusterProps
  imports ClusterController
begin

text \<open>
  Properties of the cluster reconciler, read off the relations between results and calls of
  \<open>ClusterController\<close>, in the style of \<open>MachineProps\<close>: runs, what a run may call, what it
  may write, and the two loops of the attachment as searches over the machine list.
\<close>

definition cluster_run ::
    "pkgs \<Rightarrow> ('w, 'h, 's) OxideClusterReconciler \<Rightarrow> ObjectKey \<Rightarrow> 'w \<Rightarrow>
     Result \<times> go_error option \<Rightarrow> event list \<Rightarrow> bool" where
  "cluster_run P r req w res evs \<longleftrightarrow>
     (\<exists>w'. run_state (cluster_Reconcile P (log_cluster_reconciler r) req) (w, []) = (res, (w', evs)))"

lemma cluster_run_log: "cluster_run P r req w res evs \<Longrightarrow> cluster_reconcile_log P res evs"
  unfolding cluster_run_def by (elim exE) (rule emits_run_Nil [OF cluster_Reconcile_emits])

fun is_object_event :: "event \<Rightarrow> bool" where
  "is_object_event (EvSnapshotMachine _ _) = True"
| "is_object_event (EvSnapshotCluster _ _) = True"
| "is_object_event (EvPatchMachine _ _) = True"
| "is_object_event (EvPatchCluster _ _) = True"
| "is_object_event _ = False"

fun ip_answer :: "event \<Rightarrow> FloatingIp option" where
  "ip_answer (EvFloatingIpView _ (Inr ip)) = Some ip"
| "ip_answer (EvFloatingIpCreate _ (Inr ip)) = Some ip"
| "ip_answer (EvFloatingIpAttach _ (Inr ip)) = Some ip"
| "ip_answer (EvFloatingIpDetach _ (Inr ip)) = Some ip"
| "ip_answer _ = None"

text \<open>The address the reconcile found or made, before it was moved.\<close>

fun found_ip :: "event \<Rightarrow> FloatingIp option" where
  "found_ip (EvFloatingIpView _ (Inr ip)) = Some ip"
| "found_ip (EvFloatingIpCreate _ (Inr ip)) = Some ip"
| "found_ip _ = None"

fun moves_ip :: "event \<Rightarrow> bool" where
  "moves_ip (EvFloatingIpAttach _ _) = True"
| "moves_ip (EvFloatingIpDetach _ _) = True"
| "moves_ip _ = False"

section \<open>The logs\<close>

lemma move_log_events:
  assumes "move_log ip t r evs" and "ev \<in> set evs"
  shows "moves_ip ev" and "\<not> is_object_event ev" and "found_ip ev = None"
  using assms by (auto elim!: move_log.cases)

lemma attachment_log_events:
  assumes "attachment_log P ms oc ip rm evs" and "ev \<in> set evs"
  shows "moves_ip ev" and "\<not> is_object_event ev" and "found_ip ev = None"
  using assms by (auto elim!: attachment_log.cases dest: move_log_events)

lemma floating_ip_log_events:
  assumes "floating_ip_log oc pn nm r evs" and "ev \<in> set evs"
  shows "\<not> moves_ip ev" and "\<not> is_object_event ev"
    and "ev \<noteq> EvListMachines l" and "ev \<noteq> EvFloatingIpDelete p a"
  using assms by (auto elim!: floating_ip_log.cases)

lemma floating_ip_log_found:
  assumes "floating_ip_log oc pn nm (Inr ip) evs"
  shows "List.map_filter found_ip evs = [ip]" and "evs \<noteq> []" and "ip_answer (last evs) = Some ip"
  using assms by (auto elim!: floating_ip_log.cases simp: List.map_filter_def)

lemma cluster_log_events:
  assumes "cluster_log P cluster oc rm evs" and "ev \<in> set evs"
  shows "\<not> is_object_event ev"
  using assms
  by (auto elim!: cluster_log.cases listed_attachment_log.cases
      dest: attachment_log_events floating_ip_log_events)

lemma cluster_body_log_events:
  assumes "cluster_body_log P cluster oc rm evs" and "ev \<in> set evs"
  shows "\<not> is_object_event ev"
  using assms by (auto elim!: cluster_body_log.cases dest: cluster_log_events)

section \<open>A run, from its snapshot\<close>

lemma cluster_run_written:
  assumes "cluster_run P r req w res evs" and "EvSnapshotCluster oc ok \<in> set evs"
    and "EvPatchCluster oc' a \<in> set evs"
  obtains cluster retErr ox where
    "cluster_body_log P cluster oc (retErr, oc') ox"
    "evs = EvSnapshotCluster oc True # ox @ [EvPatchCluster oc' a]"
    "res = (Result_empty, cluster_deferred retErr a)"
  using cluster_run_log [OF assms(1)]
proof cases
  case (reconciled cluster oc0 retErr oc'' ox a')
  have "EvSnapshotCluster oc ok \<notin> set ox" "EvPatchCluster oc' a \<notin> set ox"
    using cluster_body_log_events [OF reconciled(3)] is_object_event.simps(2,4) by blast+
  with assms(2,3) reconciled show thesis by (intro that [of cluster retErr ox]) auto
qed (use assms(3) in auto)

lemma cluster_run_calls:
  assumes "cluster_run P r req w res evs" and "EvSnapshotCluster oc ok \<in> set evs"
    and "ev \<in> set evs" and "\<not> is_object_event ev"
  obtains cluster retErr oc' ox a where
    "cluster_log P cluster oc (retErr, oc') ox" "ev \<in> set ox"
    "evs = EvSnapshotCluster oc True # ox @ [EvPatchCluster oc' a]"
    "res = (Result_empty, cluster_deferred retErr a)"
  using cluster_run_log [OF assms(1)]
proof cases
  case (reconciled cluster oc0 retErr oc' ox a)
  have "EvSnapshotCluster oc ok \<notin> set ox"
    using cluster_body_log_events [OF reconciled(3)] is_object_event.simps(2) by blast
  with assms(2) reconciled have oc: "oc0 = oc" by auto
  have ev: "ev \<in> set ox" using assms(3,4) reconciled by auto
  from reconciled(3) ev have "cluster_log P cluster oc (retErr, oc') ox" unfolding oc by cases auto
  with ev reconciled oc show thesis by (intro that [of cluster retErr oc' ox a]) auto
qed (use assms(3,4) in auto)

text \<open>A run that reached the attachment: the address it holds, the object it attaches for.\<close>

lemma cluster_log_listed:
  assumes "cluster_log P cluster oc rm evs" and "EvListMachines l \<in> set evs"
  obtains ip es fs where "evs = es @ fs" "IsZero (DeletionTimestamp (oc_Meta oc))"
    "floating_ip_log (oc_AddFinalizer P ClusterFinalizer oc) (Project (oc_Spec oc))
       (getFloatingIPName P (oc_Meta oc)) (Inr ip) es"
    "listed_attachment_log P (provisioned_cluster P ip (oc_AddFinalizer P ClusterFinalizer oc)) ip rm fs"
    "EvListMachines l \<in> set fs"
  using assms by (cases rule: cluster_log.cases) (auto intro: that dest: floating_ip_log_events)

lemma cluster_log_moves:
  assumes "cluster_log P cluster oc rm evs" and "ev \<in> set evs" and "moves_ip ev"
  obtains ip es ms fs where "evs = es @ EvListMachines (Inr ms) # fs"
    "floating_ip_log (oc_AddFinalizer P ClusterFinalizer oc) (Project (oc_Spec oc))
       (getFloatingIPName P (oc_Meta oc)) (Inr ip) es"
    "attachment_log P ms (provisioned_cluster P ip (oc_AddFinalizer P ClusterFinalizer oc)) ip rm fs"
    "ev \<in> set fs"
  using assms(1)
proof cases
  case (provisioned ip es fs)
  have "ev \<notin> set es" using floating_ip_log_events(1) [OF provisioned(4)] assms(3) by blast
  with assms(2) provisioned(1) have ev: "ev \<in> set fs" by simp
  from provisioned(5) show thesis
  proof cases
    case (listed ms fs')
    show thesis by (rule that [OF _ provisioned(4) listed(2)]) (use ev assms(3) provisioned listed in auto)
  qed (use ev assms(3) in auto)
qed (use assms(2,3) floating_ip_log_events(1) in auto)

section \<open>The target\<close>

definition eligible :: "OxideMachine \<Rightarrow> bool" where
  "eligible m \<longleftrightarrow> ProviderID (om_Spec m) \<noteq> [] \<and>
     MachineProvisioned (MachineInitialization (om_Status m)) = Some True \<and>
     IsZero (DeletionTimestamp (om_Meta m))"

definition skip_reason :: "OxideMachine \<Rightarrow> string" where
  "skip_reason m = ObjName (om_Meta m) @
     (if ProviderID (om_Spec m) = [] then '': missing providerID''
      else if MachineProvisioned (MachineInitialization (om_Status m)) \<noteq> Some True
      then '': not provisioned'' else '': being deleted'')"

lemma target_loop_eq:
  "target_loop P sk ms =
     (case List.find eligible ms of
        None \<Rightarrow> Inr ([], sk @ map skip_reason ms)
      | Some m \<Rightarrow> (case InstanceIDFromProviderID P (ProviderID (om_Spec m)) of
          Inl err \<Rightarrow> Inl (Wrapf ''parsing provider id'' err)
        | Inr i \<Rightarrow> Inr (i, sk @ map skip_reason (takeWhile (\<lambda>m. \<not> eligible m) ms))))"
  by (induction ms arbitrary: sk)
    (auto simp: eligible_def skip_reason_def split: option.splits sum.splits)

lemma target_loop_Some:
  assumes "target_loop P [] ms = Inr (t, sk)" and "t \<noteq> []"
  obtains m where "List.find eligible ms = Some m" "ProviderID (om_Spec m) = NewProviderID t" "valid_id P t"
  using assms by (auto simp: target_loop_eq provider_ids.dec_iff split: option.splits sum.splits)

section \<open>The holder\<close>

definition holds :: "string \<Rightarrow> OxideMachine \<Rightarrow> bool" where
  "holds i m \<longleftrightarrow> ProviderID (om_Spec m) = NewProviderID i"

definition parsed :: "pkgs \<Rightarrow> OxideMachine \<Rightarrow> bool" where
  "parsed P m \<longleftrightarrow> ProviderID (om_Spec m) = [] \<or>
     (\<exists>i. valid_id P i \<and> ProviderID (om_Spec m) = NewProviderID i)"

lemma not_parsed_Inl:
  "\<not> parsed P m \<Longrightarrow> \<exists>e. InstanceIDFromProviderID P (ProviderID (om_Spec m)) = Inl e"
  by (cases "InstanceIDFromProviderID P (ProviderID (om_Spec m))")
    (auto simp: parsed_def provider_ids.dec_iff)

lemma holder_loop_Inr:
  assumes "holder_loop P i t ms = Inr b"
  shows "case List.find (holds i) ms of
       None \<Rightarrow> b = True
     | Some m \<Rightarrow> valid_id P i \<and> b = (\<not> IsZero (DeletionTimestamp (om_Meta m)) \<and> t \<noteq> [])"
  using assms
proof (induction ms)
  case (Cons m ms)
  show ?case
  proof (cases "ProviderID (om_Spec m) = []")
    case True
    then have "\<not> holds i m" by (simp add: holds_def NewProviderID_def)
    with Cons True show ?thesis by simp
  next
    case False
    then obtain j where j: "InstanceIDFromProviderID P (ProviderID (om_Spec m)) = Inr j"
      using Cons.prems by (auto split: sum.splits)
    then have "ProviderID (om_Spec m) = NewProviderID j" "valid_id P j"
      by (simp_all add: provider_ids.dec_iff)
    then have "holds i m \<longleftrightarrow> j = i" by (simp add: holds_def)
    with Cons j False \<open>valid_id P j\<close> show ?thesis by (auto split: if_splits)
  qed
qed simp

lemma holder_loop_parsed:
  assumes "list_all (parsed P) ms"
  shows "\<exists>b. holder_loop P i t ms = Inr b"
  using assms
proof (induction ms)
  case (Cons m ms)
  then show ?case by (auto simp: parsed_def provider_ids.dec_enc split: sum.split)
qed (simp add: ex_bool_eq)

lemma shouldAttach_Inr:
  assumes "shouldAttach P ms t ip = Inr b"
  shows "b = (if FipInstanceId ip = [] then True
     else case List.find (holds (FipInstanceId ip)) ms of
       None \<Rightarrow> True
     | Some m \<Rightarrow> \<not> IsZero (DeletionTimestamp (om_Meta m)) \<and> t \<noteq> [])"
  using assms holder_loop_Inr [of P "FipInstanceId ip" t ms b]
  by (auto simp: shouldAttach_def split: if_splits option.splits)

section \<open>What a reconcile writes\<close>

lemma provisioned_cluster_fields:
  "oc_Meta (provisioned_cluster P ip oc) = oc_Meta oc"
  "oc_Spec (provisioned_cluster P ip oc) = (oc_Spec oc)\<lparr>ControlPlaneEndpoint :=
     \<lparr>Host = FipIp ip, Port = (if Port (ControlPlaneEndpoint (oc_Spec oc)) = 0 then 6443
        else Port (ControlPlaneEndpoint (oc_Spec oc)))\<rparr>\<rparr>"
  "ClusterProvisioned (ClusterInitialization (oc_Status (provisioned_cluster P ip oc))) = Some True"
  by (simp_all add: provisioned_cluster_def)

lemma provisioned_cluster_conditions:
  assumes "pkgs_ok P"
  shows "find_cond (oc_GetConditions (provisioned_cluster P ip oc)) t =
     (if t = ReadyCondition then Some \<lparr>CondType = ReadyCondition, CondStatus = ConditionTrue,
        CondReason = ReasonFloatingIPProvisioned\<rparr> else find_cond (oc_GetConditions oc) t)"
  by (simp add: provisioned_cluster_def find_oc_conditions_Set [OF assms])

lemma attached_condition_type [simp]: "CondType (attached_condition ip) = FloatingIPAttachedCondition"
  by (simp add: attached_condition_def)

text \<open>The attachment writes its condition, or, on an error, nothing.\<close>

lemma attachment_log_writes:
  assumes "attachment_log P ms oc ip (e, oc') evs"
  shows "oc' = oc \<and> e \<noteq> None \<or>
     e = None \<and> (\<exists>ip'. oc' = oc_conditions_Set P (attached_condition ip') oc \<and>
       (ip' = ip \<and> evs = [] \<or> evs \<noteq> [] \<and> ip_answer (last evs) = Some ip'))"
  using assms by (auto elim!: attachment_log.cases move_log.cases)

lemma listed_attachment_log_writes:
  assumes "listed_attachment_log P oc ip (e, oc') evs"
  shows "oc' = oc \<or> (\<exists>c. CondType c = FloatingIPAttachedCondition \<and> oc' = oc_conditions_Set P c oc)"
  using assms
proof cases
  case (listed ms evs')
  from attachment_log_writes [OF listed(2)] show ?thesis
    by (metis attached_condition_type)
qed simp

lemma cluster_log_endpoint:
  assumes "pkgs_ok P" and "cluster_log P cluster oc (e, oc') evs" and "EvListMachines l \<in> set evs"
  obtains ip where "List.map_filter found_ip evs = [ip]" "ClusterFinalizer \<in> set (Finalizers (oc_Meta oc'))"
    "ControlPlaneEndpoint (oc_Spec oc') =
       \<lparr>Host = FipIp ip, Port = (if Port (ControlPlaneEndpoint (oc_Spec oc)) = 0 then 6443
          else Port (ControlPlaneEndpoint (oc_Spec oc)))\<rparr>"
    "ClusterProvisioned (ClusterInitialization (oc_Status oc')) = Some True"
    "find_cond (oc_GetConditions oc') ReadyCondition = Some \<lparr>CondType = ReadyCondition,
       CondStatus = ConditionTrue, CondReason = ReasonFloatingIPProvisioned\<rparr>"
  using assms(2,3)
proof (rule cluster_log_listed)
  fix ip es fs
  let ?oc = "provisioned_cluster P ip (oc_AddFinalizer P ClusterFinalizer oc)"
  assume evs: "evs = es @ fs"
    and found: "floating_ip_log (oc_AddFinalizer P ClusterFinalizer oc) (Project (oc_Spec oc))
      (getFloatingIPName P (oc_Meta oc)) (Inr ip) es"
    and listed: "listed_attachment_log P ?oc ip (e, oc') fs"
  have "\<forall>ev \<in> set fs. found_ip ev = None"
    using listed by (auto elim!: listed_attachment_log.cases dest: attachment_log_events(3))
  then have "List.map_filter found_ip fs = []"
    by (induction fs) (auto simp: List.map_filter_def)
  with floating_ip_log_found [OF found] have ips: "List.map_filter found_ip evs = [ip]"
    by (simp add: evs List.map_filter_def)
  note fields = provisioned_cluster_fields provisioned_cluster_conditions [OF assms(1)]
    find_oc_conditions_Set [OF assms(1)] pkgs_okD(2) [OF assms(1)]
  from listed_attachment_log_writes [OF listed] show thesis
    by (elim disjE exE conjE; intro that [OF ips]) (auto simp: fields)
qed

text \<open>What a reconcile leaves alone.\<close>

definition cluster_frame :: "OxideCluster \<Rightarrow> OxideCluster \<Rightarrow> bool" where
  "cluster_frame oc oc' \<longleftrightarrow>
     (\<exists>fs. oc_Meta oc' = (oc_Meta oc)\<lparr>Finalizers := fs\<rparr>) \<and>
     (\<exists>e. oc_Spec oc' = (oc_Spec oc)\<lparr>ControlPlaneEndpoint := e\<rparr> \<and>
        (Port (ControlPlaneEndpoint (oc_Spec oc)) \<noteq> 0 \<longrightarrow> Port e = Port (ControlPlaneEndpoint (oc_Spec oc)))) \<and>
     (ClusterProvisioned (ClusterInitialization (oc_Status oc)) = Some True \<longrightarrow>
        ClusterProvisioned (ClusterInitialization (oc_Status oc')) = Some True)"

lemma ex_Finalizers_cluster: "\<exists>fs. (x :: ObjectMeta) = x\<lparr>Finalizers := fs\<rparr>"
  by (rule exI [of _ "Finalizers x"]) simp

lemma ex_Endpoint:
  "\<exists>e. (x :: OxideClusterSpec) = x\<lparr>ControlPlaneEndpoint := e\<rparr> \<and>
     (Port (ControlPlaneEndpoint x) \<noteq> 0 \<longrightarrow> Port e = Port (ControlPlaneEndpoint x))"
  by (rule exI [of _ "ControlPlaneEndpoint x"]) simp

lemma cluster_frame_refl: "cluster_frame oc oc"
  by (simp add: cluster_frame_def ex_Finalizers_cluster ex_Endpoint)

lemma cluster_frame_trans: "cluster_frame a b \<Longrightarrow> cluster_frame b c \<Longrightarrow> cluster_frame a c"
  by (auto simp: cluster_frame_def)

lemma cluster_frame_steps:
  "cluster_frame oc (oc_AddFinalizer P f oc)"
  "cluster_frame oc (oc_RemoveFinalizer P f oc)"
  "cluster_frame oc (oc_conditions_Set P c oc)"
  "cluster_frame oc (provisioned_cluster P ip oc)"
  by (auto simp: cluster_frame_def ex_Finalizers_cluster ex_Endpoint oc_AddFinalizer_def
      oc_RemoveFinalizer_def provisioned_cluster_fields)

lemma cluster_body_log_frame:
  assumes "cluster_body_log P cluster oc (e, oc') evs"
  shows "cluster_frame oc oc'"
proof -
  have listed: "cluster_frame oc oc'"
    if "listed_attachment_log P (provisioned_cluster P ip (oc_AddFinalizer P f oc)) ip (e, oc') evs"
    for ip f evs
  proof -
    let ?oc = "provisioned_cluster P ip (oc_AddFinalizer P f oc)"
    have "cluster_frame oc ?oc"
      by (rule cluster_frame_trans [OF cluster_frame_steps(1,4)])
    moreover have "cluster_frame ?oc oc'"
      using listed_attachment_log_writes [OF that] cluster_frame_refl cluster_frame_steps(3) by metis
    ultimately show ?thesis by (rule cluster_frame_trans)
  qed
  show ?thesis using assms
    by (auto elim!: cluster_body_log.cases cluster_log.cases
        intro: cluster_frame_refl cluster_frame_steps listed)
qed

section \<open>A run that reached the attachment\<close>

text \<open>Its shape: the calls that found the address, the listing, the calls that moved it.\<close>

definition attachment_run ::
    "pkgs \<Rightarrow> OxideCluster \<Rightarrow> FloatingIp \<Rightarrow> OxideMachine list \<Rightarrow> event list \<Rightarrow> event list \<Rightarrow>
     go_error option \<Rightarrow> OxideCluster \<Rightarrow> go_error option \<Rightarrow> event list \<Rightarrow> bool" where
  "attachment_run P oc ip ms es fs retErr oc' a evs \<longleftrightarrow>
     evs = EvSnapshotCluster oc True # es @ EvListMachines (Inr ms) # fs @ [EvPatchCluster oc' a] \<and>
     floating_ip_log (oc_AddFinalizer P ClusterFinalizer oc) (Project (oc_Spec oc))
       (getFloatingIPName P (oc_Meta oc)) (Inr ip) es \<and>
     attachment_log P ms (provisioned_cluster P ip (oc_AddFinalizer P ClusterFinalizer oc)) ip (retErr, oc') fs"

lemma cluster_run_listed:
  assumes "cluster_run P r req w res evs" and "EvSnapshotCluster oc ok \<in> set evs"
    and "EvListMachines (Inr ms) \<in> set evs"
  obtains ip es fs retErr oc' a where "attachment_run P oc ip ms es fs retErr oc' a evs"
    "res = (Result_empty, cluster_deferred retErr a)"
proof (rule cluster_run_calls [OF assms])
  fix cluster retErr oc' ox a
  assume log: "cluster_log P cluster oc (retErr, oc') ox" "EvListMachines (Inr ms) \<in> set ox"
    and evs: "evs = EvSnapshotCluster oc True # ox @ [EvPatchCluster oc' a]"
    and res: "res = (Result_empty, cluster_deferred retErr a)"
  show thesis
  proof (rule cluster_log_listed [OF log])
    fix ip es fs
    assume ox: "ox = es @ fs"
      and found: "floating_ip_log (oc_AddFinalizer P ClusterFinalizer oc) (Project (oc_Spec oc))
        (getFloatingIPName P (oc_Meta oc)) (Inr ip) es"
      and listed: "listed_attachment_log P (provisioned_cluster P ip (oc_AddFinalizer P ClusterFinalizer oc)) ip
        (retErr, oc') fs" and "EvListMachines (Inr ms) \<in> set fs"
    from listed show thesis
    proof cases
      case (listed ms0 fs')
      with \<open>_ \<in> set fs\<close> attachment_log_events(1) [OF listed(2)] have "ms0 = ms" by fastforce
      with listed found ox evs have "attachment_run P oc ip ms es fs' retErr oc' a evs"
        by (simp add: attachment_run_def)
      then show thesis by (rule that) (rule res)
    qed (use \<open>_ \<in> set fs\<close> in simp)
  qed
qed simp

lemma cluster_run_moves_listed:
  assumes "cluster_run P r req w res evs" and "EvSnapshotCluster oc ok \<in> set evs"
    and "ev \<in> set evs" and "moves_ip ev"
  shows "\<exists>ms. EvListMachines (Inr ms) \<in> set evs"
proof -
  have "\<not> is_object_event ev" using assms(4) by (cases ev) simp_all
  then show ?thesis
  proof (rule cluster_run_calls [OF assms(1-3)])
    fix cluster retErr oc' ox a
    assume evs: "evs = EvSnapshotCluster oc True # ox @ [EvPatchCluster oc' a]"
      and log: "cluster_log P cluster oc (retErr, oc') ox" "ev \<in> set ox"
    have "\<exists>ms. EvListMachines (Inr ms) \<in> set ox"
      by (rule cluster_log_moves [OF log assms(4)]) auto
    with evs show ?thesis by auto
  qed
qed

lemma attachment_run_facts:
  assumes "attachment_run P oc ip ms es fs retErr oc' a evs"
  shows "es \<noteq> []" and "ip_answer (last es) = Some ip"
    and "ev \<in> set evs \<Longrightarrow> moves_ip ev \<Longrightarrow> ev \<in> set fs"
    and "ev \<in> set evs \<Longrightarrow> found_ip ev = Some ip' \<Longrightarrow> ip' = ip"
    and "EvListMachines (Inr ms') \<in> set evs \<Longrightarrow> ms' = ms"
    and "EvSnapshotCluster oc'' ok \<in> set evs \<Longrightarrow> oc'' = oc"
    and "EvPatchCluster oc'' b \<in> set evs \<Longrightarrow> oc'' = oc' \<and> b = a"
proof -
  from assms have evs: "evs = EvSnapshotCluster oc True # es @ EvListMachines (Inr ms) # fs @ [EvPatchCluster oc' a]"
    and found: "floating_ip_log (oc_AddFinalizer P ClusterFinalizer oc) (Project (oc_Spec oc))
        (getFloatingIPName P (oc_Meta oc)) (Inr ip) es"
    and att: "attachment_log P ms (provisioned_cluster P ip (oc_AddFinalizer P ClusterFinalizer oc)) ip (retErr, oc') fs"
    by (simp_all add: attachment_run_def)
  note fs = attachment_log_events [OF att] and es = floating_ip_log_events [OF found]
  show "es \<noteq> []" "ip_answer (last es) = Some ip"
    using floating_ip_log_found [OF found] by simp_all
  show "ev \<in> set evs \<Longrightarrow> moves_ip ev \<Longrightarrow> ev \<in> set fs" using es(1) by (auto simp: evs)
  show "EvListMachines (Inr ms') \<in> set evs \<Longrightarrow> ms' = ms"
    using es(3) by (auto simp: evs dest: fs(1))
  show "EvSnapshotCluster oc'' ok \<in> set evs \<Longrightarrow> oc'' = oc"
    and "EvPatchCluster oc'' b \<in> set evs \<Longrightarrow> oc'' = oc' \<and> b = a"
    by (auto simp: evs dest: fs(1) es(2))
  show "ip' = ip" if "ev \<in> set evs" "found_ip ev = Some ip'"
  proof -
    have "ev \<in> set es" using that by (auto simp: evs dest: fs(3))
    with that(2) have "ip' \<in> set (List.map_filter found_ip es)"
      by (force simp: List.map_filter_def)
    with floating_ip_log_found(1) [OF found] show ?thesis by simp
  qed
qed

lemma attachment_run_answer:
  assumes "attachment_run P oc ip ms es fs retErr oc' a evs"
  shows "\<exists>ev \<in> set evs. ip_answer ev = Some ip"
  using attachment_run_facts(1,2) [OF assms] last_in_set [of es] assms
  by (auto simp: attachment_run_def)

lemma attachment_run_log:
  "attachment_run P oc ip ms es fs retErr oc' a evs \<Longrightarrow>
     attachment_log P ms (provisioned_cluster P ip (oc_AddFinalizer P ClusterFinalizer oc)) ip (retErr, oc') fs"
  by (simp add: attachment_run_def)

lemma attachment_run_calls:
  "attachment_run P oc ip ms es fs retErr oc' a evs \<Longrightarrow> set es \<subseteq> set evs \<and> set fs \<subseteq> set evs"
  by (auto simp: attachment_run_def)

text \<open>The calls of an attachment, by the machine that holds the address.\<close>

lemma attachment_log_moves:
  assumes "attachment_log P ms oc ip rm fs" and "ev \<in> set fs"
  obtains t sk r where "target_loop P [] ms = Inr (t, sk)" "shouldAttach P ms t ip = Inr True" "move_log ip t r fs"
  using assms by cases auto

lemma attachment_log_target:
  assumes "attachment_log P ms oc ip rm fs" and "EvFloatingIpAttach p a \<in> set fs"
  obtains m where "List.find eligible ms = Some m" "ProviderID (om_Spec m) = NewProviderID (AttachParent p)"
    "valid_id P (AttachParent p)"
proof (rule attachment_log_moves [OF assms])
  fix t sk r
  assume "target_loop P [] ms = Inr (t, sk)" "move_log ip t r fs"
  moreover from this(2) assms(2) have "AttachParent p = t" "t \<noteq> []" by (auto elim!: move_log.cases)
  ultimately show thesis using target_loop_Some that by metis
qed

text \<open>The reported error is empty only if both errors are, and matches what either matches.\<close>

lemma cluster_deferred_None: "cluster_deferred retErr patchErr = None \<longleftrightarrow> retErr = None \<and> patchErr = None"
  by (cases retErr; cases patchErr) (simp_all add: cluster_deferred_def)

lemma cluster_deferred_Is:
  assumes "cluster_deferred retErr patchErr = Some err"
  shows "errors_Is err t \<longleftrightarrow> (\<exists>e. (retErr = Some e \<or> patchErr = Some e) \<and> errors_Is e t)"
  using assms by (cases retErr; cases patchErr) (auto simp: cluster_deferred_def)

end
