(* ===== verification/ClusterClaims.thy ===== *)
theory ClusterClaims
  imports ClusterProps Sample
begin

text \<open>
  The properties of the cluster reconciler, each with the sample run it is instantiated at. They
  are stated on \<open>cluster_run\<close>: for every result and log a reconcile can have, whatever the
  Kubernetes and Oxide APIs answer.
\<close>

text \<open>Sample runs, as runs of the reconciler.\<close>

lemma attach_cluster_run:
  "cluster_run sample_pkgs (sample_ocr False patchErr new_cluster [node] (Inl not_found)) sample_key ()
     (Result_empty, cluster_deferred None patchErr) (attach_log patchErr)"
  using attach_run by (auto simp: cluster_run_def)

lemma close_cluster_run:
  "cluster_run sample_pkgs (sample_ocr False None closing_cluster [] (Inl not_found)) sample_key ()
     (Result_empty, None) close_log"
  using close_run by (auto simp: cluster_run_def)

definition attached_cluster :: OxideCluster where
  "attached_cluster = oc_conditions_Set sample_pkgs (attached_condition (sample_ip ''i-1'')) new_endpoint"

lemma sample_cluster_logs:
  "EvSnapshotCluster new_cluster True \<in> set (attach_log patchErr)"
  "EvListMachines (Inr [node]) \<in> set (attach_log patchErr)"
  "EvPatchCluster attached_cluster patchErr \<in> set (attach_log patchErr)"
  "EvFloatingIpAttach (attach_params ''f-1'' ''i-1'') (Inr (sample_ip ''i-1''))
     \<in> set (attach_log patchErr)"
  "EvSnapshotCluster closing_cluster True \<in> set close_log"
  "EvPatchCluster (oc_RemoveFinalizer sample_pkgs ClusterFinalizer closing_cluster) None \<in> set close_log"
  by (simp_all add: attach_log_def close_log_def attached_cluster_def)

lemma sample_clusters [simp]:
  "DeletionTimestamp (oc_Meta new_cluster) = None" "DeletionTimestamp (oc_Meta closing_cluster) = Some 5"
  "Finalizers (oc_Meta closing_cluster) = [ClusterFinalizer]"
  "ControlPlaneEndpoint (oc_Spec new_cluster) = \<lparr>Host = [], Port = 0\<rparr>"
  by (simp_all add: new_cluster_def closing_cluster_def)

section \<open>Properties\<close>

text \<open>C5: The finalizer of a cluster is dropped only when the cluster is being deleted and the API
  has, in this reconcile, deleted its floating IP or answered that there is none.\<close>

theorem cluster_finalizer_safe:
  assumes "pkgs_ok P" and "cluster_run P r req w res evs"
    and "EvSnapshotCluster oc ok \<in> set evs" and "EvPatchCluster oc' a \<in> set evs"
    and "ClusterFinalizer \<in> set (Finalizers (oc_Meta oc))"
    and "ClusterFinalizer \<notin> set (Finalizers (oc_Meta oc'))"
  shows "\<not> IsZero (DeletionTimestamp (oc_Meta oc)) \<and>
    (\<exists>d. EvFloatingIpDelete \<lparr>ParamProject = Project (oc_Spec oc),
           ParamResource = getFloatingIPName P (oc_Meta oc)\<rparr> d \<in> set evs \<and>
       (\<forall>e. d = Some e \<longrightarrow> errors_Is e ErrObjectNotFound))"
proof (rule cluster_run_written [OF assms(2-4)])
  fix cluster retErr ox
  assume body: "cluster_body_log P cluster oc (retErr, oc') ox"
    and evs: "evs = EvSnapshotCluster oc True # ox @ [EvPatchCluster oc' a]"
  have listed: "ClusterFinalizer \<in> set (Finalizers (oc_Meta oc'))"
    if "listed_attachment_log P (provisioned_cluster P ip (oc_AddFinalizer P ClusterFinalizer oc)) ip
          (retErr, oc') es" for ip es
    using listed_attachment_log_writes [OF that]
    by (auto simp: provisioned_cluster_fields pkgs_okD(2) [OF assms(1)])
  from body obtain "cluster_log P cluster oc (retErr, oc') ox"
    using assms(5,6) by cases auto
  then show ?thesis
    by cases (use assms(5,6) listed in \<open>auto simp: evs pkgs_okD(2) [OF assms(1)]\<close>)
qed

theorem cluster_finalizer_safe_witness:
  "\<exists>d. EvFloatingIpDelete \<lparr>ParamProject = Project (oc_Spec closing_cluster),
       ParamResource = getFloatingIPName sample_pkgs (oc_Meta closing_cluster)\<rparr> d \<in> set close_log"
  using cluster_finalizer_safe [OF sample_pkgs_ok close_cluster_run sample_cluster_logs(5,6)]
    pkgs_okD(3) [OF sample_pkgs_ok] by auto

text \<open>A reconcile of a cluster either makes no call, or takes one snapshot of the cluster, makes
  its calls and writes the cluster back once, last. It never asks to be called again by time.\<close>

lemma cluster_one_write:
  assumes "cluster_run P r req w res evs"
  shows "fst res = Result_empty \<and>
    (evs = [] \<or> (\<exists>oc. evs = [EvSnapshotCluster oc False] \<and> snd res \<noteq> None) \<or>
     (\<exists>oc ox oc' a. evs = EvSnapshotCluster oc True # ox @ [EvPatchCluster oc' a] \<and>
        (\<forall>ev \<in> set ox. \<not> is_object_event ev)))"
  using cluster_run_log [OF assms] by cases (auto dest: cluster_body_log_events)

text \<open>The only call for a cluster being deleted is the deletion of its own floating IP; a live
  cluster's floating IP is never deleted.\<close>

lemma cluster_phases:
  assumes "cluster_run P r req w res evs" and "EvSnapshotCluster oc ok \<in> set evs"
    and "ev \<in> set evs" and "\<not> is_object_event ev"
  shows "\<not> IsZero (DeletionTimestamp (oc_Meta oc)) \<longleftrightarrow>
    (\<exists>d. ev = EvFloatingIpDelete \<lparr>ParamProject = Project (oc_Spec oc),
       ParamResource = getFloatingIPName P (oc_Meta oc)\<rparr> d)"
proof (rule cluster_run_calls [OF assms])
  fix cluster retErr oc' ox
  assume "cluster_log P cluster oc (retErr, oc') ox" "ev \<in> set ox"
  then show ?thesis
    by (cases rule: cluster_log.cases)
      (auto elim!: listed_attachment_log.cases dest: attachment_log_events(1) floating_ip_log_events(4))
qed

text \<open>C21: Once a reconcile has a floating IP and goes on to attach it, the cluster is written with
  the finalizer, with the IP as its endpoint host, with port 6443 unless another was chosen,
  provisioned and ready, whatever becomes of the attachment.\<close>

theorem cluster_endpoint_written:
  assumes "pkgs_ok P" and "cluster_run P r req w res evs"
    and "EvSnapshotCluster oc ok \<in> set evs" and "EvListMachines l \<in> set evs"
    and "EvPatchCluster oc' a \<in> set evs"
  shows "\<exists>ip. List.map_filter found_ip evs = [ip] \<and>
    ControlPlaneEndpoint (oc_Spec oc') =
      \<lparr>Host = FipIp ip, Port = (if Port (ControlPlaneEndpoint (oc_Spec oc)) = 0 then 6443
         else Port (ControlPlaneEndpoint (oc_Spec oc)))\<rparr> \<and>
    ClusterProvisioned (ClusterInitialization (oc_Status oc')) = Some True \<and>
    find_cond (oc_GetConditions oc') ReadyCondition = Some \<lparr>CondType = ReadyCondition,
      CondStatus = ConditionTrue, CondReason = ReasonFloatingIPProvisioned\<rparr> \<and>
    ClusterFinalizer \<in> set (Finalizers (oc_Meta oc'))"
proof (rule cluster_run_written [OF assms(2,3,5)])
  fix cluster retErr ox
  assume body: "cluster_body_log P cluster oc (retErr, oc') ox"
    and evs: "evs = EvSnapshotCluster oc True # ox @ [EvPatchCluster oc' a]"
  have l: "EvListMachines l \<in> set ox" using assms(4) evs by simp
  from body l have log: "cluster_log P cluster oc (retErr, oc') ox" by cases auto
  show ?thesis
  proof (rule cluster_log_endpoint [OF assms(1) log l], goal_cases)
    case (1 ip)
    then show ?case by (intro exI [of _ ip]) (simp add: evs List.map_filter_def)
  qed
qed

theorem cluster_endpoint_written_witness:
  "Host (ControlPlaneEndpoint (oc_Spec attached_cluster)) = ''10.0.0.9'' \<and>
   Port (ControlPlaneEndpoint (oc_Spec attached_cluster)) = 6443"
  using cluster_endpoint_written [OF sample_pkgs_ok attach_cluster_run sample_cluster_logs(1-3)]
  by (auto simp: attach_log_def List.map_filter_def)

text \<open>A reconcile of a cluster changes nothing else of it: of the metadata only the finalizers,
  of the spec only the endpoint and never a port that was chosen; once provisioned it stays so.\<close>

lemma cluster_frame_preserved:
  assumes "cluster_run P r req w res evs"
    and "EvSnapshotCluster oc ok \<in> set evs" and "EvPatchCluster oc' a \<in> set evs"
  shows "cluster_frame oc oc'"
  by (rule cluster_run_written [OF assms]) (rule cluster_body_log_frame)

text \<open>C25: A floating IP is created only after the API has answered that there is none, under the
  cluster's name and project; if the endpoint already has a host, exactly that address is asked
  for, so that a lost IP comes back as the same endpoint.\<close>

theorem cluster_recreates_same_ip:
  assumes "cluster_run P r req w res evs" and "EvSnapshotCluster oc ok \<in> set evs"
    and "EvFloatingIpCreate p a \<in> set evs"
  shows "FipCreateProject p = Project (oc_Spec oc) \<and> FipCreateName p = getFloatingIPName P (oc_Meta oc) \<and>
    (\<exists>e. errors_Is e ErrObjectNotFound \<and> EvFloatingIpView \<lparr>ParamProject = Project (oc_Spec oc),
       ParamResource = getFloatingIPName P (oc_Meta oc)\<rparr> (Inl e) \<in> set evs) \<and>
    (Host (ControlPlaneEndpoint (oc_Spec oc)) \<noteq> [] \<longrightarrow>
       FipCreateAllocator p = AddressAllocatorExplicit (Host (ControlPlaneEndpoint (oc_Spec oc))))"
proof (rule cluster_run_calls [OF assms])
  fix cluster retErr oc' ox b
  assume log: "cluster_log P cluster oc (retErr, oc') ox" and ev: "EvFloatingIpCreate p a \<in> set ox"
    and evs: "evs = EvSnapshotCluster oc True # ox @ [EvPatchCluster oc' b]"
  from log ev obtain r es where "set es \<subseteq> set ox" "EvFloatingIpCreate p a \<in> set es"
    "floating_ip_log (oc_AddFinalizer P ClusterFinalizer oc) (Project (oc_Spec oc))
       (getFloatingIPName P (oc_Meta oc)) r es"
    by (cases rule: cluster_log.cases)
      (auto elim!: listed_attachment_log.cases dest: attachment_log_events(1))
  from this(3) show ?thesis
    by cases (use \<open>set es \<subseteq> set ox\<close> \<open>_ \<in> set es\<close> in \<open>auto simp: evs floatingIPAllocator_def\<close>)
qed simp

theorem cluster_recreates_same_ip_witness:
  "FipCreateName \<lparr>FipCreateProject = ''proj'', FipCreateName = ParamResource cluster_ip,
     FipCreateAllocator = AddressAllocatorAuto (PoolSelectorAuto ''v4'')\<rparr> =
   getFloatingIPName sample_pkgs (oc_Meta new_cluster)"
proof -
  have "EvFloatingIpCreate \<lparr>FipCreateProject = ''proj'', FipCreateName = ParamResource cluster_ip,
      FipCreateAllocator = AddressAllocatorAuto (PoolSelectorAuto ''v4'')\<rparr> (Inr (sample_ip []))
      \<in> set (attach_log None)" by (simp add: attach_log_def)
  from cluster_recreates_same_ip [OF attach_cluster_run sample_cluster_logs(1) this] show ?thesis by simp
qed

text \<open>C28: The target loop is a search: the first machine that has a provider ID, is provisioned and
  is not being deleted; its instance is the target, and every machine before it is skipped with its
  reason. A target whose provider ID does not parse fails the reconcile.\<close>

theorem target_loop_spec:
  "target_loop P [] ms =
     (case List.find eligible ms of
        None \<Rightarrow> Inr ([], map skip_reason ms)
      | Some m \<Rightarrow> (case InstanceIDFromProviderID P (ProviderID (om_Spec m)) of
          Inl err \<Rightarrow> Inl (Wrapf ''parsing provider id'' err)
        | Inr i \<Rightarrow> Inr (i, map skip_reason (takeWhile (\<lambda>m. \<not> eligible m) ms))))"
  by (simp add: target_loop_eq split: option.split sum.split)

text \<open>The machine that decides about an IP held by h: it holds it, or its provider ID cannot be parsed.\<close>

definition decides :: "pkgs \<Rightarrow> string \<Rightarrow> OxideMachine \<Rightarrow> bool" where
  "decides P h m = (if parsed P m then holds h m else True)"

text \<open>C29: Whether to move the IP is decided by one machine: the first whose provider ID does not
  parse, which fails the reconcile, or which holds the IP. A holder of the cluster is left alone
  unless it is being deleted and there is a target; an IP held by nobody or by a stranger is moved.\<close>

theorem shouldAttach_spec:
  "shouldAttach P ms t ip =
     (if FipInstanceId ip = [] then Inr True
      else case List.find (decides P (FipInstanceId ip)) ms of
        None \<Rightarrow> Inr True
      | Some m \<Rightarrow> (case InstanceIDFromProviderID P (ProviderID (om_Spec m)) of
          Inl err \<Rightarrow> Inl (Wrapf ''parsing provider id'' err)
        | Inr _ \<Rightarrow> Inr (\<not> IsZero (DeletionTimestamp (om_Meta m)) \<and> t \<noteq> [])))"
proof -
  have "holder_loop P h t ms =
      (case List.find (decides P h) ms of
        None \<Rightarrow> Inr True
      | Some m \<Rightarrow> (case InstanceIDFromProviderID P (ProviderID (om_Spec m)) of
          Inl err \<Rightarrow> Inl (Wrapf ''parsing provider id'' err)
        | Inr _ \<Rightarrow> Inr (\<not> IsZero (DeletionTimestamp (om_Meta m)) \<and> t \<noteq> [])))" for h
  proof (induction ms)
    case (Cons m ms)
    consider "ProviderID (om_Spec m) = []" | e where "ProviderID (om_Spec m) \<noteq> []"
        "InstanceIDFromProviderID P (ProviderID (om_Spec m)) = Inl e"
      | i where "InstanceIDFromProviderID P (ProviderID (om_Spec m)) = Inr i"
      by (cases "InstanceIDFromProviderID P (ProviderID (om_Spec m))") auto
    then show ?case
    proof cases
      case 1
      then have "parsed P m" "\<not> holds h m" by (simp_all add: parsed_def holds_def NewProviderID_def)
      with 1 Cons show ?thesis by (simp add: decides_def)
    next
      case (2 e)
      then have "\<not> parsed P m" by (auto simp: parsed_def provider_ids.dec_enc)
      with 2 show ?thesis by (simp add: decides_def)
    next
      case (3 i)
      then have i: "ProviderID (om_Spec m) = NewProviderID i" "valid_id P i" by (simp_all add: provider_ids.dec_iff)
      then have "parsed P m" "holds h m \<longleftrightarrow> i = h" by (auto simp: parsed_def holds_def)
      with 3 i(1) Cons show ?thesis by (cases "i = h") (simp_all add: decides_def)
    qed
  qed simp
  then show ?thesis by (simp add: shouldAttach_def)
qed

lemma last_answer:
  assumes "ip_answer e = Some x"
  shows "List.map_filter ip_answer (xs @ [e]) \<noteq> [] \<and> last (List.map_filter ip_answer (xs @ [e])) = x"
  using assms by (simp add: List.map_filter_def)

text \<open>The answer before an attachment: the one to the detachment, or the one that found the address.\<close>

lemma attachment_run_last_answer:
  assumes run: "attachment_run P oc ip ms es fs retErr oc' b evs" and evs: "evs = xs @ EvFloatingIpAttach p a # ys"
  shows "EvListMachines (Inr ms) \<in> set xs \<and> List.map_filter ip_answer xs \<noteq> [] \<and>
    AttachFloatingIp p = FipId (last (List.map_filter ip_answer xs))"
proof -
  let ?att = "EvFloatingIpAttach p a" and ?pre = "EvSnapshotCluster oc True # es @ [EvListMachines (Inr ms)]"
  have es: "es = butlast es @ [last es]" "ip_answer (last es) = Some ip"
    using attachment_run_facts(1,2) [OF run] by simp_all
  have no: "?att \<notin> set es"
    using run floating_ip_log_events(1) by (fastforce simp: attachment_run_def)
  have whole: "xs @ ?att # ys = ?pre @ fs @ [EvPatchCluster oc' b]"
    using run evs by (simp add: attachment_run_def)
  have split: "xs = ?pre @ ds" if "fs = ds @ [?att]" "?att \<notin> set ds" for ds
    using whole no that append_Cons_eq_iff [of ?att "?pre @ ds" "[EvPatchCluster oc' b]" xs ys] by simp
  have att: "?att \<in> set fs"
    using evs attachment_run_facts(3) [OF run] by simp
  show ?thesis
  proof (rule attachment_log_moves [OF attachment_run_log [OF run] att])
    fix t sk r
    assume "move_log ip t r fs"
    then show ?thesis
    proof cases
      case (moved ip')
      with att have fs: "fs = [EvFloatingIpDetach (FipId ip) (Inr ip')] @ [?att]" and p: "AttachFloatingIp p = FipId ip'"
        by auto
      have xs: "xs = ?pre @ [EvFloatingIpDetach (FipId ip) (Inr ip')]" by (rule split [OF fs]) simp
      show ?thesis
        using last_answer [of "EvFloatingIpDetach (FipId ip) (Inr ip')" ip' ?pre] by (simp add: xs p)
    next
      case attached
      with att have fs: "fs = [] @ [?att]" and p: "AttachFloatingIp p = FipId ip" by auto
      have xs: "xs = ?pre @ []" by (rule split [OF fs]) simp
      have "List.map_filter ip_answer xs = List.map_filter ip_answer (butlast es @ [last es])"
        using es(1) by (simp add: xs List.map_filter_def)
      then show ?thesis using last_answer [OF es(2), of "butlast es"] by (simp add: xs p)
    qed (use att in auto)
  qed
qed

text \<open>C15: The floating IP is attached only to the target: the first eligible machine of the list the
  reconcile read before, and by the identifier in the answer about the IP that came last before the attachment, which
  is that of the detachment if there was one.\<close>

theorem cluster_attaches_target:
  assumes "cluster_run P r req w res evs" and "EvSnapshotCluster oc ok \<in> set evs"
    and "evs = xs @ EvFloatingIpAttach p a # ys"
  shows "\<exists>ms m. EvListMachines (Inr ms) \<in> set xs \<and> List.find eligible ms = Some m \<and>
     ProviderID (om_Spec m) = NewProviderID (AttachParent p) \<and> valid_id P (AttachParent p) \<and>
     List.map_filter ip_answer xs \<noteq> [] \<and> AttachFloatingIp p = FipId (last (List.map_filter ip_answer xs))"
proof -
  have ev: "EvFloatingIpAttach p a \<in> set evs" using assms(3) by simp
  obtain ms where ms: "EvListMachines (Inr ms) \<in> set evs"
    using cluster_run_moves_listed [OF assms(1,2) ev] by auto
  show ?thesis
  proof (rule cluster_run_listed [OF assms(1,2) ms])
    fix ip es fs retErr oc' b
    assume run: "attachment_run P oc ip ms es fs retErr oc' b evs"
    then have "EvFloatingIpAttach p a \<in> set fs" using ev by (simp add: attachment_run_facts(3))
    then obtain m where "List.find eligible ms = Some m" "valid_id P (AttachParent p)"
      "ProviderID (om_Spec m) = NewProviderID (AttachParent p)"
      by (rule attachment_log_target [OF attachment_run_log [OF run]])
    with attachment_run_last_answer [OF run assms(3)] show ?thesis by blast
  qed
qed

theorem cluster_attaches_target_witness:
  "List.map_filter ip_answer (take 4 (attach_log None)) \<noteq> [] \<and>
     ''f-1'' = FipId (last (List.map_filter ip_answer (take 4 (attach_log None))))"
  using cluster_attaches_target [OF attach_cluster_run [of None] sample_cluster_logs(1),
      of "take 4 (attach_log None)" "attach_params ''f-1'' ''i-1''" "Inr (sample_ip ''i-1'')" "drop 5 (attach_log None)"]
  by (auto simp: attach_log_def)

text \<open>C16: A floating IP that a live machine of the cluster holds is left where it is.\<close>

theorem cluster_leaves_live_holder:
  assumes "cluster_run P r req w res evs" and "EvSnapshotCluster oc ok \<in> set evs"
    and "EvListMachines (Inr ms) \<in> set evs" and "found_ip ev = Some ip" and "ev \<in> set evs"
    and "FipInstanceId ip \<noteq> []" and "List.find (holds (FipInstanceId ip)) ms = Some m"
    and "IsZero (DeletionTimestamp (om_Meta m))"
  shows "\<forall>ev \<in> set evs. \<not> moves_ip ev"
proof (rule cluster_run_listed [OF assms(1-3)])
  fix ip0 es fs retErr oc' a
  assume run: "attachment_run P oc ip0 ms es fs retErr oc' a evs"
  have "ip0 = ip" using attachment_run_facts(4) [OF run assms(5,4)] by simp
  with attachment_run_log [OF run] have "fs = []"
    by cases (use assms(6-8) in \<open>auto dest: shouldAttach_Inr\<close>)
  with attachment_run_facts(3) [OF run] show ?thesis by auto
qed

text \<open>The run after the address has been attached: nothing is left to call.\<close>

definition steady_log :: "event list" where
  "steady_log =
     [EvSnapshotCluster new_cluster True, EvFloatingIpView cluster_ip (Inr (sample_ip ''i-1'')),
      EvListMachines (Inr [node]),
      EvPatchCluster (oc_conditions_Set sample_pkgs (attached_condition (sample_ip ''i-1''))
        (provisioned_cluster sample_pkgs (sample_ip ''i-1'') (oc_AddFinalizer sample_pkgs ClusterFinalizer new_cluster)))
        None]"

lemma steady_run:
  "cluster_run sample_pkgs (sample_ocr False None new_cluster [node] (Inr (sample_ip ''i-1''))) sample_key ()
     (Result_empty, None) steady_log"
proof -
  have "ProviderID (om_Spec node) = NewProviderID ''i-1''" "DeletionTimestamp (om_Meta node) = None"
    "MachineProvisioned (MachineInitialization (om_Status node)) = Some True"
    by (simp_all add: node_def)
  then show ?thesis
    unfolding cluster_run_def
    by (simp add: cluster_Reconcile_def cluster_reconcile_body_def cluster_with_client_def ensureFloatingIPExists_def
        reconcileFloatingIPAttachment_def moveFloatingIP_def shouldAttach_def cluster_deferred_def
        sample_run_simps steady_log_def new_cluster_def)
qed

lemma node_fields [simp]:
  "ProviderID (om_Spec node) = NewProviderID ''i-1''" "DeletionTimestamp (om_Meta node) = None"
  "MachineProvisioned (MachineInitialization (om_Status node)) = Some True"
  by (simp_all add: node_def)

theorem cluster_leaves_live_holder_witness: "list_all (\<lambda>ev. \<not> moves_ip ev) steady_log"
  unfolding list_all_iff
  by (rule cluster_leaves_live_holder [OF steady_run, where oc = new_cluster and ok = True and ms = "[node]"
        and ev = "EvFloatingIpView cluster_ip (Inr (sample_ip ''i-1''))" and ip = "sample_ip ''i-1''" and m = node])
    (simp_all add: steady_log_def holds_def)

text \<open>C10: The floating IP is never taken from a machine of the cluster without a place to put it:
  when the holder is one of the listed machines and the IP was detached, the attachment to an
  eligible machine is asked for in the same reconcile.\<close>

theorem cluster_never_strands:
  assumes "cluster_run P r req w res evs" and "EvSnapshotCluster oc ok \<in> set evs"
    and "EvListMachines (Inr ms) \<in> set evs" and "found_ip ev = Some ip" and "ev \<in> set evs"
    and "List.find (holds (FipInstanceId ip)) ms = Some m"
    and "EvFloatingIpDetach f (Inr ip') \<in> set evs"
  shows "\<not> IsZero (DeletionTimestamp (om_Meta m)) \<and>
    (\<exists>t a. EvFloatingIpAttach (attach_params (FipId ip') t) a \<in> set evs \<and>
       (\<exists>m' \<in> set ms. eligible m' \<and> ProviderID (om_Spec m') = NewProviderID t))"
proof (rule cluster_run_listed [OF assms(1-3)])
  fix ip0 es fs retErr oc' a
  assume run: "attachment_run P oc ip0 ms es fs retErr oc' a evs"
  have ip: "ip0 = ip" using attachment_run_facts(4) [OF run assms(5,4)] by simp
  have detach: "EvFloatingIpDetach f (Inr ip') \<in> set fs" using assms(7) by (simp add: attachment_run_facts(3) [OF run])
  show ?thesis
  proof (rule attachment_log_moves [OF attachment_run_log [OF run] detach])
    fix t sk r
    assume "shouldAttach P ms t ip0 = Inr True" and mv: "move_log ip0 t r fs"
    from mv detach have "FipInstanceId ip \<noteq> []" by cases (auto simp: ip)
    with shouldAttach_Inr [OF \<open>shouldAttach P ms t ip0 = Inr True\<close>] assms(6)
    have deleting: "\<not> IsZero (DeletionTimestamp (om_Meta m))" "t \<noteq> []" by (simp_all add: ip)
    with mv detach obtain b where
      att: "EvFloatingIpAttach (attach_params (FipId ip') t) b \<in> set fs" by cases auto
    then obtain m' where "List.find eligible ms = Some m'" "ProviderID (om_Spec m') = NewProviderID t"
      by (rule attachment_log_target [OF attachment_run_log [OF run]]) simp
    with deleting att attachment_run_calls [OF run] show ?thesis by (metis find_Some_iff nth_mem subsetD)
  qed
qed

definition leaving_node :: OxideMachine where
  "leaving_node = sample_machine ''cp-9'' (NewProviderID ''i-0'') (Some 5) [MachineFinalizer] (Some True)"

lemma leaving_node_fields [simp]:
  "ProviderID (om_Spec leaving_node) = NewProviderID ''i-0''" "DeletionTimestamp (om_Meta leaving_node) = Some 5"
  "MachineProvisioned (MachineInitialization (om_Status leaving_node)) = Some True"
  by (simp_all add: leaving_node_def)

definition handover_log :: "event list" where
  "handover_log =
     [EvSnapshotCluster new_cluster True, EvFloatingIpView cluster_ip (Inr (sample_ip ''i-0'')),
      EvListMachines (Inr [leaving_node, node]),
      EvFloatingIpDetach ''f-1'' (Inr (sample_ip [])),
      EvFloatingIpAttach (attach_params ''f-1'' ''i-1'') (Inr (sample_ip ''i-1'')),
      EvPatchCluster (oc_conditions_Set sample_pkgs (attached_condition (sample_ip ''i-1''))
        (provisioned_cluster sample_pkgs (sample_ip ''i-0'') (oc_AddFinalizer sample_pkgs ClusterFinalizer new_cluster)))
        None]"

lemma handover_run:
  "cluster_run sample_pkgs (sample_ocr False None new_cluster [leaving_node, node] (Inr (sample_ip ''i-0''))) sample_key ()
     (Result_empty, None) handover_log"
  unfolding cluster_run_def
  by (simp add: cluster_Reconcile_def cluster_reconcile_body_def cluster_with_client_def ensureFloatingIPExists_def
      reconcileFloatingIPAttachment_def moveFloatingIP_def shouldAttach_def cluster_deferred_def
      sample_run_simps handover_log_def new_cluster_def)

theorem cluster_never_strands_witness:
  "\<exists>t a. EvFloatingIpAttach (attach_params ''f-1'' t) a \<in> set handover_log"
  using cluster_never_strands [OF handover_run, where oc = new_cluster and ok = True
      and ms = "[leaving_node, node]" and ev = "EvFloatingIpView cluster_ip (Inr (sample_ip ''i-0''))"
      and ip = "sample_ip ''i-0''" and m = leaving_node and f = "''f-1''" and ip' = "sample_ip []"]
  by (simp add: handover_log_def holds_def)

text \<open>C26: After a reconcile without error the FloatingIPAttached condition is the truth about the
  last answer the API gave: true if the IP it returned is attached, false if it is not.\<close>

theorem cluster_condition_truthful:
  assumes "pkgs_ok P" and "cluster_run P r req w (Result_empty, None) evs"
    and "EvSnapshotCluster oc ok \<in> set evs" and "EvListMachines (Inr ms) \<in> set evs"
    and "EvPatchCluster oc' a \<in> set evs"
  shows "List.map_filter ip_answer evs \<noteq> [] \<and>
     find_cond (oc_GetConditions oc') FloatingIPAttachedCondition =
       Some (attached_condition (last (List.map_filter ip_answer evs)))"
proof (rule cluster_run_listed [OF assms(2-4)])
  fix ip es fs retErr oc0 b
  assume run: "attachment_run P oc ip ms es fs retErr oc0 b evs"
    and res: "(Result_empty, None) = (Result_empty, cluster_deferred retErr b)"
  have oc': "oc0 = oc'" using attachment_run_facts(7) [OF run assms(5)] by simp
  from res have "retErr = None" using cluster_deferred_None [of retErr b] by simp
  with attachment_log_writes [OF attachment_run_log [OF run]] obtain ip' where
    cond: "oc' = oc_conditions_Set P (attached_condition ip')
      (provisioned_cluster P ip (oc_AddFinalizer P ClusterFinalizer oc))"
    and ip': "ip' = ip \<and> fs = [] \<or> fs \<noteq> [] \<and> ip_answer (last fs) = Some ip'"
    unfolding oc' by blast
  have last: "last (List.map_filter ip_answer (xs @ [e])) = x" if "ip_answer e = Some x" for xs e x
    using that by (simp add: List.map_filter_def)
  have skip: "List.map_filter ip_answer (EvSnapshotCluster oc True # xs @ EvListMachines l # ys @ [EvPatchCluster c d]) =
      List.map_filter ip_answer (xs @ ys)" for xs ys l c d
    by (simp add: List.map_filter_def)
  have "evs = EvSnapshotCluster oc True # es @ EvListMachines (Inr ms) # fs @ [EvPatchCluster oc0 b]"
    using run by (simp add: attachment_run_def)
  then have "List.map_filter ip_answer evs = List.map_filter ip_answer (es @ fs)" by (simp only: skip)
  also have "last \<dots> = ip'"
    using ip'
  proof
    assume "ip' = ip \<and> fs = []"
    then show ?thesis
      using last [OF attachment_run_facts(2) [OF run], of "butlast es"] attachment_run_facts(1) [OF run] by simp
  next
    assume "fs \<noteq> [] \<and> ip_answer (last fs) = Some ip'"
    then show ?thesis using last [of "last fs" ip' "es @ butlast fs"] by simp
  qed
  finally have "last (List.map_filter ip_answer evs) = ip'" .
  moreover obtain ev where "ev \<in> set evs" "ip_answer ev = Some ip"
    using attachment_run_answer [OF run] by blast
  then have "List.map_filter ip_answer evs \<noteq> []" by (force simp: List.map_filter_def filter_empty_conv)
  ultimately show ?thesis
    by (simp add: cond find_oc_conditions_Set [OF assms(1)])
qed

theorem cluster_condition_truthful_witness:
  "find_cond (oc_GetConditions (oc_conditions_Set sample_pkgs (attached_condition (sample_ip ''i-1''))
      (provisioned_cluster sample_pkgs (sample_ip ''i-1'') (oc_AddFinalizer sample_pkgs ClusterFinalizer new_cluster))))
    FloatingIPAttachedCondition = Some (attached_condition (sample_ip ''i-1''))"
  using cluster_condition_truthful [OF sample_pkgs_ok steady_run, of new_cluster True "[node]"]
  by (auto simp: steady_log_def List.map_filter_def)

text \<open>C32: When moving the floating IP fails, the condition is not touched: if the IP was detached
  and could not be attached again, a FloatingIPAttached condition that was true stays true.\<close>

theorem cluster_condition_stale:
  assumes "pkgs_ok P" and "cluster_run P r req w res evs"
    and "EvSnapshotCluster oc ok \<in> set evs"
    and "EvFloatingIpDetach f (Inr ip') \<in> set evs" and "EvFloatingIpAttach p (Inl e) \<in> set evs"
    and "EvPatchCluster oc' a \<in> set evs"
  shows "find_cond (oc_GetConditions oc') FloatingIPAttachedCondition =
      find_cond (oc_GetConditions oc) FloatingIPAttachedCondition \<and> snd res \<noteq> None"
proof -
  obtain ms where ms: "EvListMachines (Inr ms) \<in> set evs"
    using cluster_run_moves_listed [OF assms(2,3,5)] by auto
  show ?thesis
  proof (rule cluster_run_listed [OF assms(2,3) ms])
    fix ip es fs retErr oc0 b
    assume run: "attachment_run P oc ip ms es fs retErr oc0 b evs"
      and res: "res = (Result_empty, cluster_deferred retErr b)"
    have oc': "oc0 = oc'" using attachment_run_facts(7) [OF run assms(6)] by simp
    have "EvFloatingIpAttach p (Inl e) \<in> set fs" using assms(5) by (simp add: attachment_run_facts(3) [OF run])
    with attachment_run_log [OF run] have "retErr \<noteq> None \<and> oc0 =
        provisioned_cluster P ip (oc_AddFinalizer P ClusterFinalizer oc)"
      by cases (auto elim!: move_log.cases)
    then show ?thesis
      using res cluster_deferred_None [of retErr b]
      by (simp add: oc' provisioned_cluster_conditions [OF assms(1)])
  qed
qed

text \<open>A handover whose second half fails.\<close>

definition attach_error :: go_error where
  "attach_error = OxideErr None ''unavailable''"

definition flaky_ocr :: "(unit, unit, unit) OxideClusterReconciler" where
  "flaky_ocr = (sample_ocr False None new_cluster [leaving_node, node] (Inr (sample_ip ''i-0'')))
     \<lparr>ocr_OxideClientFactory := (\<lambda>_. return (Inr ((sample_client (Inl not_found) (Inr (sample_ip ''i-0'')))
        \<lparr>FloatingIpAttach := (\<lambda>_. return (Inl attach_error))\<rparr>)))\<rparr>"

definition flaky_log :: "event list" where
  "flaky_log =
     [EvSnapshotCluster new_cluster True, EvFloatingIpView cluster_ip (Inr (sample_ip ''i-0'')),
      EvListMachines (Inr [leaving_node, node]),
      EvFloatingIpDetach ''f-1'' (Inr (sample_ip [])),
      EvFloatingIpAttach (attach_params ''f-1'' ''i-1'') (Inl attach_error),
      EvPatchCluster (provisioned_cluster sample_pkgs (sample_ip ''i-0'')
        (oc_AddFinalizer sample_pkgs ClusterFinalizer new_cluster)) None]"

lemma flaky_run:
  "cluster_run sample_pkgs flaky_ocr sample_key () (Result_empty, Some attach_error) flaky_log"
  unfolding cluster_run_def flaky_ocr_def
  by (simp add: cluster_Reconcile_def cluster_reconcile_body_def cluster_with_client_def ensureFloatingIPExists_def
      reconcileFloatingIPAttachment_def moveFloatingIP_def shouldAttach_def cluster_deferred_def
      sample_run_simps flaky_log_def new_cluster_def)

theorem cluster_condition_stale_witness:
  "find_cond (oc_GetConditions (provisioned_cluster sample_pkgs (sample_ip ''i-0'')
        (oc_AddFinalizer sample_pkgs ClusterFinalizer new_cluster))) FloatingIPAttachedCondition =
     find_cond (oc_GetConditions new_cluster) FloatingIPAttachedCondition"
proof -
  have log: "EvSnapshotCluster new_cluster True \<in> set flaky_log"
    "EvFloatingIpDetach ''f-1'' (Inr (sample_ip [])) \<in> set flaky_log"
    "EvFloatingIpAttach (attach_params ''f-1'' ''i-1'') (Inl attach_error) \<in> set flaky_log"
    "EvPatchCluster (provisioned_cluster sample_pkgs (sample_ip ''i-0'')
        (oc_AddFinalizer sample_pkgs ClusterFinalizer new_cluster)) None \<in> set flaky_log"
    by (simp_all add: flaky_log_def)
  show ?thesis using cluster_condition_stale [OF sample_pkgs_ok flaky_run log] by simp
qed

text \<open>C27: The attachment is stable: when the IP is held by the target, all provider IDs parse and
  are distinct, a reconcile of the attachment moves nothing and sets the condition to true.\<close>

theorem attachment_stable:
  assumes "run_state (ListOxideMachines k (ObjNamespace (oc_Meta oc))
      [(ClusterNameLabel, ObjName (oc_Meta oc)), (MachineControlPlaneLabel, [])]) w = (Inr ms, w')"
    and "list_all (parsed P) ms" and "target_loop P [] ms = Inr (FipInstanceId ip, sk)"
    and "FipInstanceId ip \<noteq> []"
    and "distinct (filter (\<lambda>p. p \<noteq> []) (map (\<lambda>m. ProviderID (om_Spec m)) ms))"
  shows "run_state (reconcileFloatingIPAttachment P k c oc ip) w =
      ((None, oc_conditions_Set P (attached_condition ip) oc), w') \<and>
    CondStatus (attached_condition ip) = ConditionTrue"
proof -
  let ?i = "FipInstanceId ip"
  obtain m where m: "List.find eligible ms = Some m" "ProviderID (om_Spec m) = NewProviderID ?i"
    using target_loop_Some [OF assms(3,4)] by metis
  have "m \<in> set ms" "eligible m" using m(1) by (auto simp: find_Some_iff)
  have unique: "m' = m" if "m' \<in> set ms" "holds ?i m'" for m'
    using assms(5) that(1) \<open>m \<in> set ms\<close> that(2) m(2)
  proof (induction ms)
    case (Cons x xs)
    then show ?case by (auto simp: holds_def image_iff split: if_splits) (metis NewProviderID_nonempty)+
  qed simp
  obtain h where h: "List.find (holds ?i) ms = Some h"
    using \<open>m \<in> set ms\<close> m(2) by (cases "List.find (holds ?i) ms") (auto simp: find_None_iff holds_def)
  then have "h \<in> set ms" "holds ?i h" by (auto simp: find_Some_iff)
  with unique h have "List.find (holds ?i) ms = Some m" by simp
  moreover obtain b where b: "shouldAttach P ms ?i ip = Inr b"
    using holder_loop_parsed [OF assms(2)] assms(4) by (auto simp: shouldAttach_def)
  ultimately have "b = False"
    using shouldAttach_Inr [OF b] \<open>eligible m\<close> assms(4) by (simp add: eligible_def)
  with b assms(1,3,4) show ?thesis
    by (simp add: reconcileFloatingIPAttachment_def attached_condition_def)
qed

theorem attachment_stable_witness:
  "run_state (reconcileFloatingIPAttachment sample_pkgs
       (sample_k8s False None bootstrapping new_cluster [node]) (sample_client (Inl not_found) (Inl not_found))
       new_cluster (sample_ip ''i-1'')) () =
     ((None, oc_conditions_Set sample_pkgs (attached_condition (sample_ip ''i-1'')) new_cluster), ())"
proof -
  let ?k = "sample_k8s False None bootstrapping new_cluster [node]"
  have l: "run_state (ListOxideMachines ?k n ls) () = (Inr [node], ())" for n ls
    by (simp add: sample_k8s_def)
  have p: "list_all (parsed sample_pkgs) [node]"
    and t: "target_loop sample_pkgs [] [node] = Inr (FipInstanceId (sample_ip ''i-1''), [])"
    by (auto simp: parsed_def valid_id_def)
  show ?thesis by (rule conjunct1 [OF attachment_stable [OF l p t]]) simp_all
qed

text \<open>No error of a cluster reconcile is lost: the reported error is empty only if both the
  body and the write succeeded, and it matches exactly what either of the two errors matches.\<close>

lemma cluster_errors_joined:
  assumes "cluster_run P r req w res evs" and "EvSnapshotCluster oc ok \<in> set evs"
    and "EvPatchCluster oc' a \<in> set evs"
  shows "\<exists>cluster retErr ox. cluster_body_log P cluster oc (retErr, oc') ox \<and>
    evs = EvSnapshotCluster oc True # ox @ [EvPatchCluster oc' a] \<and>
    (case snd res of
       None \<Rightarrow> retErr = None \<and> a = None
     | Some err \<Rightarrow> (retErr \<noteq> None \<or> a \<noteq> None) \<and>
         (\<forall>t. errors_Is err t \<longleftrightarrow> (\<exists>e. (retErr = Some e \<or> a = Some e) \<and> errors_Is e t)))"
proof (rule cluster_run_written [OF assms])
  fix cluster retErr ox
  assume body: "cluster_body_log P cluster oc (retErr, oc') ox"
    and evs: "evs = EvSnapshotCluster oc True # ox @ [EvPatchCluster oc' a]"
    and res: "res = (Result_empty, cluster_deferred retErr a)"
  show ?thesis
  proof (intro exI conjI, rule body, rule evs)
    show "case snd res of None \<Rightarrow> retErr = None \<and> a = None
      | Some err \<Rightarrow> (retErr \<noteq> None \<or> a \<noteq> None) \<and>
         (\<forall>t. errors_Is err t \<longleftrightarrow> (\<exists>e. (retErr = Some e \<or> a = Some e) \<and> errors_Is e t))"
      using cluster_deferred_None [of retErr a] cluster_deferred_Is [of retErr a]
      by (auto simp: res split: option.split)
  qed
qed

text \<open>A paused cluster is left alone: no call and no write.\<close>

lemma cluster_paused_idle:
  assumes "\<And>cluster oc w. isPaused (fst (fst (run_state (EnsureClusterPaused (ocr_Client r) cluster oc) w)))"
    and "cluster_run P r req w res evs"
  shows "evs = [] \<and> fst res = Result_empty"
proof -
  have paused: "emits (silent (EnsureClusterPaused (ocr_Client r) cluster oc)) (\<lambda>(pr, _) evs. isPaused pr \<and> evs = [])"
    for cluster oc
    by (rule emits_silent_known [where S = "\<lambda>x. isPaused (fst x)"]) (auto intro: assms(1))
  have "emits (cluster_Reconcile P (log_cluster_reconciler r) req) (\<lambda>res evs. evs = [] \<and> fst res = Result_empty)"
    unfolding cluster_Reconcile_def
    by (auto intro!: emits_silent emits_bind emits_return emits_bind_known [OF paused] split: sum.split option.split)
  from emits_run_Nil [OF this] show ?thesis using assms(2) unfolding cluster_run_def by blast
qed

text \<open>A machine event wakes exactly the cluster whose listing can contain the machine: the one
  of the machine's namespace that its cluster name label names.\<close>

lemma machine_watch_matches_listing:
  "key \<in> set (oxideMachineToOxideCluster obj) \<longleftrightarrow>
     KeyNamespace key = ObjNamespace obj \<and> Labels obj ClusterNameLabel = Some (KeyName key)"
  by (cases key) (auto simp: oxideMachineToOxideCluster_def split: option.split)

end
