(* ===== verification/ClientFactory.thy ===== *)
theory ClientFactory
  imports K8s
begin

text \<open>
  The construction of Oxide clients (\<open>NewOxideClientFactory\<close> in \<open>internal/cloud/oxide.go\<close>):
  the credentials secret named by the cluster is read and its host and token are handed, with a
  timeout of 30 seconds and the user agent, to \<open>oxide.NewClient\<close>, which is a parameter. The
  Kubernetes client is fixed when the factory is built, as both reconcilers pass their own.
\<close>

definition SecretDataHostKey :: string where
  "SecretDataHostKey = ''oxide-host''"

definition SecretDataTokenKey :: string where
  "SecretDataTokenKey = ''oxide-token''"

record OxideClientOptions =
  WithHost :: string
  WithToken :: string
  WithTimeout :: int
  WithUserAgent :: string

text \<open>\<open>string(secret.Data[key])\<close>: the bytes as they are, empty for a missing key.\<close>

definition bytes_string :: "byte list \<Rightarrow> string" where
  "bytes_string bs = map (\<lambda>b. char_of (unat b)) bs"

definition secret_string :: "Secret \<Rightarrow> string \<Rightarrow> string" where
  "secret_string s key = (case SecretData s key of None \<Rightarrow> [] | Some bs \<Rightarrow> bytes_string bs)"

definition NewOxideClientFactory ::
    "(OxideClientOptions \<Rightarrow> go_error + 'w OxideClient) \<Rightarrow> string \<Rightarrow> ('w, 'h) K8sClient \<Rightarrow>
     'w OxideClientFactory" where
  "NewOxideClientFactory oxide_NewClient userAgent k8sClient oxideCluster = do {
     s \<leftarrow> GetSecret k8sClient
       \<lparr>KeyNamespace = RefNamespace (CredentialsRef (oc_Spec oxideCluster)),
        KeyName = RefName (CredentialsRef (oc_Spec oxideCluster))\<rparr>;
     case s of
       Inl err \<Rightarrow> return (Inl (Wrapf ''loading oxide credentials'' err))
     | Inr secret \<Rightarrow> return (case oxide_NewClient
           \<lparr>WithHost = secret_string secret SecretDataHostKey,
            WithToken = secret_string secret SecretDataTokenKey,
            WithTimeout = 30 * time_Second,
            WithUserAgent = userAgent\<rparr> of
         Inl err \<Rightarrow> Inl (Wrapf ''constructing oxide client'' err)
       | Inr oxideClient \<Rightarrow> Inr oxideClient)
   }"

end
