(* ===== verification/HelperClaims.thy ===== *)
theory HelperClaims
  imports Sample ClientFactory
begin

text \<open>
  The properties of the pure parts: resource names, provider IDs, the creation request, NIC
  addresses, and of the client factory.
\<close>

text \<open>The names of a machine that do not depend on an index.\<close>

definition object_names :: "pkgs \<Rightarrow> ObjectMeta \<Rightarrow> string list" where
  "object_names P obj = [getInstanceName P obj, getBootDiskName P obj, getNicName P obj]"

text \<open>C36: The resource names. For every object that Kubernetes admits, all its names have at most 63
  characters; if moreover the object's own name has no dot, they are names that Oxide accepts: lower-case letters,
  digits and dashes, beginning with a letter and ending with a letter or digit.\<close>

theorem resource_names_valid:
  assumes "admitted_object obj"
  shows "list_all (\<lambda>n. length n \<le> 63) (getFloatingIPName P obj # getDataDiskName P obj idx # object_names P obj) \<and>
    (CHR ''.'' \<notin> set (ObjName obj) \<longrightarrow>
       list_all valid_resource_name (getFloatingIPName P obj # getDataDiskName P obj idx # object_names P obj))"
proof -
  note defs = object_names_def getFloatingIPName_def getDataDiskName_def getInstanceName_def getBootDiskName_def
    getNicName_def
  have "list_all valid_resource_name (getFloatingIPName P obj # getDataDiskName P obj idx # object_names P obj)"
    if "CHR ''.'' \<notin> set (ObjName obj)"
    using admitted_without_dot [OF assms that]
    by (simp add: object_names_def instance_namer.namer_valid boot_disk_namer.namer_valid nic_namer.namer_valid
        floating_ip_namer.namer_valid data_disk_namer.namer_valid)
  then show ?thesis by (simp add: defs admitted_name_length [OF _ assms] capi_prefixes)
qed

definition sample_object :: ObjectMeta where
  "sample_object = \<lparr>ObjName = ''m-0'', ObjNamespace = ''prod'', Labels = Map.empty, DeletionTimestamp = None,
     Finalizers = [], OwnerReferences = []\<rparr>"

lemma admitted_samples:
  "admitted_object sample_object" "admitted_object (sample_object\<lparr>ObjName := ''m.0''\<rparr>)"
  unfolding sample_object_def admitted_object_def by (simp; code_simp)+

theorem resource_names_valid_witness:
  "valid_resource_name (getInstanceName sample_pkgs sample_object) \<and>
   length (getInstanceName sample_pkgs (sample_object\<lparr>ObjName := ''m.0''\<rparr>)) \<le> 63"
  using resource_names_valid [OF admitted_samples(1), of sample_pkgs 0]
    resource_names_valid [OF admitted_samples(2), of sample_pkgs 0]
  by (simp add: object_names_def) (simp add: sample_object_def)



text \<open>Cutting a name to length panics exactly when the bound leaves no room for the hash, and so
  never with the bound the controllers use.\<close>

lemma hashTruncateName_panics:
  "(hashTruncateName P name maxLength = None \<longleftrightarrow>
     maxLength < int (length name) \<and> maxLength \<le> int (length (fmt_x (fnv32a name)))) \<and>
   hashTruncateName P name maxResourceLength \<noteq> None"
  using length_fmt_x [of "fnv32a name"]
  by (simp add: hashTruncateName_panics_iff maxResourceLength_def)

text \<open>Within a namespace, objects whose names are short enough not to be cut get the same resource
  name only if they are the same object.\<close>

lemma instance_names_injective:
  assumes "dns_object a" and "dns_object b" and "ObjNamespace a = ObjNamespace b"
    and "length (ObjNamespace a) + length (ObjName a) \<le> 57"
    and "length (ObjNamespace b) + length (ObjName b) \<le> 57"
  shows "getInstanceName P a = getInstanceName P b \<longleftrightarrow> ObjName a = ObjName b"
  unfolding getInstanceName_def
  by (rule getResourceName_inject [OF capi_prefixes(1) assms(1,2) _ _ assms(3)])
    (use assms(4,5) in \<open>simp_all add: resourceName_def instancePrefix_def\<close>)


text \<open>C38: A provider ID decodes exactly when it is the encoding of an identifier that is a valid UUID,
  and then to that identifier.\<close>

theorem provider_id_roundtrip:
  "InstanceIDFromProviderID P p = Inr i \<longleftrightarrow> p = NewProviderID i \<and> uuid_Parse P i = None"
  using provider_ids.dec_iff [of P p i] by (simp add: valid_id_def)

text \<open>The disks of a creation request, the boot disk and the data disks in the order of the spec,
  have valid names that are pairwise different.\<close>

lemma request_disk_names:
  assumes "dns_object (om_Meta m)" and "length (DataDisks (om_Spec m)) \<le> 10 ^ 40"
  shows "let req = instanceCreateParams P m oc ud;
             names = DiskCreateName (CreateBootDisk req) # map DiskCreateName (CreateDisks req)
    in distinct names \<and> list_all valid_resource_name names \<and>
       length (CreateDisks req) = length (DataDisks (om_Spec m))"
proof -
  let ?n = "length (DataDisks (om_Spec m))" and ?req = "instanceCreateParams P m oc ud"
  have names: "DiskCreateName (CreateBootDisk ?req) # map DiskCreateName (CreateDisks ?req) =
      getBootDiskName P (om_Meta m) # map (getDataDiskName P (om_Meta m)) [0..<?n]"
    by (simp add: instanceCreateParams_def bootDiskFromOxideMachine_def disk_names)
  have small: "i < 10 ^ 40" if "i < ?n" for i using that assms(2) by (rule less_le_trans)
  have "inj_on (getDataDiskName P (om_Meta m)) {0..<?n}"
    by (rule inj_onI) (use data_disk_names_distinct [OF assms(1) small small] in \<open>simp del: power_numeral_even\<close>)
  moreover have "getBootDiskName P (om_Meta m) \<notin> getDataDiskName P (om_Meta m) ` {0..<?n}"
    using data_disk_not_boot_disk [OF assms(1) small, of _ P] by fastforce
  moreover have "length (CreateDisks ?req) = ?n"
    by (simp add: instanceCreateParams_def length_disksFromOxideMachine)
  ultimately show ?thesis
    unfolding Let_def names
    using boot_disk_namer.namer_valid [OF assms(1)] data_disk_namer.namer_valid [OF assms(1)]
    by (auto simp: distinct_map list_all_iff)
qed

text \<open>The user data of a creation request is the base64 text of the bootstrap data: decoding it
  gives the bootstrap data back.\<close>

lemma user_data_roundtrip:
  "base64_decode (CreateUserData (instanceCreateParams P m oc userData)) = Some userData"
  by (simp add: instanceCreateParams_def base64_decode_encode)

text \<open>The addresses read from NICs: all NICs' addresses, in order, two for a dual stack; the first
  NIC of an unknown stack fails the whole list with an error that names it.\<close>

lemma machineAddressesFromNICs_spec:
  "machineAddressesFromNICs nics =
     (case List.find (\<lambda>nic. \<not> known_stack nic) nics of
        None \<Rightarrow> Inr (concat (map nic_addresses nics))
      | Some nic \<Rightarrow> Inl (New (''unexpected IpStack type '' @ ip_stack_type (IpStack nic) @
          '' for NIC '' @ NicId nic)))"
  by (simp add: machineAddressesFromNICs_def nic_loop_eq split: option.split)

text \<open>A client is built exactly from the host and token of the secret that the cluster names, with
  a timeout of thirty seconds, and from nothing else.\<close>

lemma client_from_secret:
  "run_state (NewOxideClientFactory oxide_NewClient userAgent k oc) w = (Inr c, w') \<longleftrightarrow>
     (\<exists>secret. run_state (GetSecret k \<lparr>KeyNamespace = RefNamespace (CredentialsRef (oc_Spec oc)),
          KeyName = RefName (CredentialsRef (oc_Spec oc))\<rparr>) w = (Inr secret, w') \<and>
        oxide_NewClient \<lparr>WithHost = secret_string secret SecretDataHostKey,
          WithToken = secret_string secret SecretDataTokenKey, WithTimeout = 30 * time_Second,
          WithUserAgent = userAgent\<rparr> = Inr c)"
  by (auto simp: NewOxideClientFactory_def split: prod.splits sum.splits)

end
