(* ===== verification/Progress.thy ===== *)
theory Progress
  imports MachineProps Sample
begin

text \<open>
  Progress over several reconciles. Kubernetes calls a reconcile again when it asked for it; between
  two calls the cloud moves on by itself. What the Oxide API promises about one machine's instance
  and boot disk is a predicate over an abstract state of the cloud: what a view answers, that a stop, a
  deletion and the passing of time make progress, measured by a rank. Time ends the transitional states, a
  parameter; that a run does not come across an instance or a disk in a state that only an operator ends
  (a disk attached elsewhere, an instance that failed to start) is a hypothesis about the run, over the
  worlds in which its rounds end. \<open>sim_client\<close> is a cloud that keeps the promise.
\<close>

section \<open>Deletion\<close>

text \<open>Rounds of a reconcile until one does not ask to come back; None when the rounds run out.\<close>

fun reconcile_rounds ::
    "pkgs \<Rightarrow> ('w, 'h) K8sClient \<Rightarrow> 'w OxideClient \<Rightarrow> Machine \<Rightarrow> OxideCluster \<Rightarrow> ('w \<Rightarrow> 'w) \<Rightarrow> nat \<Rightarrow>
     OxideMachine \<Rightarrow> 'w \<Rightarrow> ((go_error + Result) \<times> OxideMachine) option" where
  "reconcile_rounds P k c machine oc env 0 m w = None"
| "reconcile_rounds P k c machine oc env (Suc n) m w =
     (let ((r, m'), w') = run_state (machine_with_client P k c m machine oc) w in
      if r = Inr Result_10s then reconcile_rounds P k c machine oc env n m' (env w') else Some (r, m'))"

text \<open>The worlds in which the rounds end that ask to come back.\<close>

fun round_worlds ::
    "pkgs \<Rightarrow> ('w, 'h) K8sClient \<Rightarrow> 'w OxideClient \<Rightarrow> Machine \<Rightarrow> OxideCluster \<Rightarrow> ('w \<Rightarrow> 'w) \<Rightarrow> nat \<Rightarrow>
     OxideMachine \<Rightarrow> 'w \<Rightarrow> 'w list" where
  "round_worlds P k c machine oc env 0 m w = []"
| "round_worlds P k c machine oc env (Suc n) m w =
     (let ((r, m'), w') = run_state (machine_with_client P k c m machine oc) w in
      if r = Inr Result_10s then w' # round_worlds P k c machine oc env n m' (env w') else [])"

text \<open>Views report the state and change nothing of it; the other calls work on the states they are
  meant for; a state that is neither settles with time.\<close>

definition instance_api ::
    "'w OxideClient \<Rightarrow> ProjectResource \<Rightarrow> ('w \<Rightarrow> InstanceState option) \<Rightarrow> ('w \<Rightarrow> DiskStateState option) \<Rightarrow>
     ('w \<Rightarrow> nat) \<Rightarrow> bool" where
  "instance_api c p inst disk rank \<longleftrightarrow>
     (\<forall>w. inst w = None \<longrightarrow> (\<exists>e w'. run_state (InstanceView c p) w = (Inl e, w') \<and>
        errors_Is e ErrObjectNotFound \<and> inst w' = None \<and> disk w' = disk w \<and> rank w' \<le> rank w)) \<and>
     (\<forall>w s. inst w = Some s \<longrightarrow> (\<exists>i w'. run_state (InstanceView c p) w = (Inr i, w') \<and>
        RunState i = s \<and> inst w' = Some s \<and> rank w' \<le> rank w)) \<and>
     (\<forall>w. inst w = Some InstanceStateRunning \<longrightarrow>
        (\<exists>i w'. run_state (InstanceStop c p) w = (Inr i, w') \<and> rank w' < rank w)) \<and>
     (\<forall>w. inst w = Some InstanceStateStopped \<or> inst w = Some InstanceStateFailed \<longrightarrow>
        (\<exists>w'. run_state (InstanceDelete c p) w = (None, w') \<and> rank w' < rank w))"

definition disk_api ::
    "'w OxideClient \<Rightarrow> ProjectResource \<Rightarrow> ('w \<Rightarrow> InstanceState option) \<Rightarrow> ('w \<Rightarrow> DiskStateState option) \<Rightarrow>
     ('w \<Rightarrow> nat) \<Rightarrow> bool" where
  "disk_api c q inst disk rank \<longleftrightarrow>
     (\<forall>w. disk w = None \<longrightarrow>
        (\<exists>e w'. run_state (DiskView c q) w = (Inl e, w') \<and> errors_Is e ErrObjectNotFound)) \<and>
     (\<forall>w s. disk w = Some s \<longrightarrow> (\<exists>d w'. run_state (DiskView c q) w = (Inr d, w') \<and>
        DiskState d = s \<and> inst w' = inst w \<and> disk w' = Some s \<and> rank w' \<le> rank w)) \<and>
     (\<forall>w. disk w = Some DiskStateStateDetached \<or> disk w = Some DiskStateStateFaulted \<longrightarrow>
        (\<exists>w'. run_state (DiskDelete c q) w = (None, w')))"

text \<open>Time alone undoes nothing, and it ends the transitions the reconcile waits for, those named by tr.\<close>

definition settles ::
    "(string \<Rightarrow> bool) \<Rightarrow> ('w \<Rightarrow> 'w) \<Rightarrow> ('w \<Rightarrow> InstanceState option) \<Rightarrow> ('w \<Rightarrow> DiskStateState option) \<Rightarrow> ('w \<Rightarrow> nat) \<Rightarrow> bool"
where
  "settles tr env inst disk rank \<longleftrightarrow>
     (\<forall>w. rank (env w) \<le> rank w) \<and>
     (\<forall>w s. inst w = Some (InstanceStateOther s) \<and> tr s \<longrightarrow> rank (env w) < rank w) \<and>
     (\<forall>w s. inst w = None \<and> disk w = Some (DiskStateStateOther s) \<and> tr s \<longrightarrow> rank (env w) < rank w)"

text \<open>What the reconcile waits for will end: the instance, or the disk once the instance is gone.\<close>

fun disk_moving :: "(string \<Rightarrow> bool) \<Rightarrow> DiskStateState option \<Rightarrow> bool" where
  "disk_moving tr (Some (DiskStateStateOther s)) = tr s"
| "disk_moving tr _ = True"

fun deletable :: "(string \<Rightarrow> bool) \<Rightarrow> InstanceState option \<Rightarrow> DiskStateState option \<Rightarrow> bool" where
  "deletable tr None d = disk_moving tr d"
| "deletable tr (Some (InstanceStateOther s)) d = tr s"
| "deletable tr _ d = True"

text \<open>One round ends the deletion or lowers the rank by the time of the next.\<close>

lemma handleDelete_progress:
  assumes "pkgs_ok P"
    and inst: "instance_api c (in_project pn nm) inst disk rank"
    and disk: "disk_api c (in_project pn dn) inst disk rank"
    and time: "settles tr env inst disk rank"
    and pending: "\<forall>m' w'. run_state (handleDelete P c m pn nm dn) w = ((Inr Result_10s, m'), w') \<longrightarrow>
      deletable tr (inst w') (disk w')"
  obtains (finished) m' w' where "run_state (handleDelete P c m pn nm dn) w = ((Inr Result_empty, m'), w')"
      "MachineFinalizer \<notin> set (Finalizers (om_Meta m'))"
  | (again) m' w' where "run_state (handleDelete P c m pn nm dn) w = ((Inr Result_10s, m'), w')"
      "om_Meta m' = om_Meta m" "rank (env w') < rank w"
proof -
  have le: "rank (env w') \<le> rank w'" for w' using time by (simp add: settles_def)
  consider (gone) "inst w = None" | (running) "inst w = Some InstanceStateRunning"
    | (off) "inst w = Some InstanceStateStopped \<or> inst w = Some InstanceStateFailed"
    | (moving) s where "inst w = Some (InstanceStateOther s)"
    by (metis InstanceState.exhaust option.exhaust)
  then show thesis
  proof cases
    case running
    then obtain i w1 j w2 where "run_state (InstanceView c (in_project pn nm)) w = (Inr i, w1)"
      "RunState i = InstanceStateRunning" "rank w1 \<le> rank w"
      "run_state (InstanceStop c (in_project pn nm)) w1 = (Inr j, w2)" "rank w2 < rank w1"
      using inst unfolding instance_api_def by metis
    then show thesis using le [of w2]
      by (intro again [of "deleting_ready P (Some j) m" w2])
        (simp_all add: handleDelete_def ensureInstanceDeleted_def)
  next
    case off
    then obtain i w1 w2 where "run_state (InstanceView c (in_project pn nm)) w = (Inr i, w1)"
      "RunState i = InstanceStateStopped \<or> RunState i = InstanceStateFailed" "rank w1 \<le> rank w"
      "run_state (InstanceDelete c (in_project pn nm)) w1 = (None, w2)" "rank w2 < rank w1"
      using inst unfolding instance_api_def by metis
    then show thesis using le [of w2]
      by (intro again [of "deleting_ready P None m" w2])
        (auto simp: handleDelete_def ensureInstanceDeleted_def)
  next
    case (moving s)
    then obtain i w1 where "run_state (InstanceView c (in_project pn nm)) w = (Inr i, w1)"
      "RunState i = InstanceStateOther s" "inst w1 = Some (InstanceStateOther s)" "rank w1 \<le> rank w"
      using inst unfolding instance_api_def by metis
    moreover from this have run: "run_state (handleDelete P c m pn nm dn) w =
        ((Inr Result_10s, deleting_ready P (Some i) m), w1)"
      by (simp add: handleDelete_def ensureInstanceDeleted_def)
    moreover from pending run \<open>inst w1 = _\<close> have "rank (env w1) < rank w1"
      using time by (simp add: settles_def)
    ultimately show thesis by (intro again [of "deleting_ready P (Some i) m" w1]) simp_all
  next
    case gone
    then obtain e w1 where view: "run_state (InstanceView c (in_project pn nm)) w = (Inl e, w1)"
      "errors_Is e ErrObjectNotFound" and w1: "inst w1 = None" "disk w1 = disk w" "rank w1 \<le> rank w"
      using inst unfolding instance_api_def by metis
    note simps = handleDelete_def ensureInstanceDeleted_def ensureDiskDeleted_def Let_def
    have drop: "MachineFinalizer \<notin> set (Finalizers (om_Meta (om_RemoveFinalizer P MachineFinalizer x)))" for x
      using pkgs_okD(3) [OF assms(1)] by simp
    consider "disk w = None" | t where "disk w = Some (DiskStateStateOther t)"
      | "disk w = Some DiskStateStateDetached \<or> disk w = Some DiskStateStateFaulted"
      by (metis DiskStateState.exhaust option.exhaust)
    then show thesis
    proof cases
      case 1
      then obtain e' w2 where "run_state (DiskView c (in_project pn dn)) w1 = (Inl e', w2)"
        "errors_Is e' ErrObjectNotFound"
        using disk w1(2) unfolding disk_api_def by metis
      with view show thesis
        by (intro finished [OF _ drop [of "deleting_ready P None m"]]) (simp add: simps)
    next
      case (2 t)
      then obtain d w2 where "run_state (DiskView c (in_project pn dn)) w1 = (Inr d, w2)"
        "DiskState d = DiskStateStateOther t" "inst w2 = None" "disk w2 = Some (DiskStateStateOther t)" "rank w2 \<le> rank w1"
        using disk w1 unfolding disk_api_def by metis
      moreover from this view have run: "run_state (handleDelete P c m pn nm dn) w =
          ((Inr Result_10s, deleting_ready P None m), w2)" by (simp add: simps)
      moreover from pending run \<open>inst w2 = None\<close> \<open>disk w2 = _\<close> have "rank (env w2) < rank w2"
        using time by (simp add: settles_def)
      ultimately show thesis using w1(3) by (intro again [of "deleting_ready P None m" w2]) simp_all
    next
      case 3
      then obtain d w2 w3 where "run_state (DiskView c (in_project pn dn)) w1 = (Inr d, w2)"
        "DiskState d = DiskStateStateDetached \<or> DiskState d = DiskStateStateFaulted"
        "run_state (DiskDelete c (in_project pn dn)) w2 = (None, w3)"
        using disk w1(2) unfolding disk_api_def by metis
      with view show thesis
        by (intro finished [OF _ drop [of "deleting_ready P None m"]]) (auto simp: simps)
    qed
  qed
qed

text \<open>C7: Deletion completes: for a machine being deleted, on a cloud whose API keeps its promises for
  the instance and the boot disk, whose rank at the start is below n, at most n rounds of reconciles are needed, and
  the last one asks for nothing more and releases the finalizer; provided that when a round asks to come back, what it waits
  for, the instance or else the boot disk, is in a state that time ends.\<close>

theorem deletion_completes:
  assumes "pkgs_ok P" and "\<not> IsZero (DeletionTimestamp (om_Meta m))"
    and "instance_api c (in_project (Project (oc_Spec oc)) (getInstanceName P (om_Meta m))) inst disk rank"
    and "disk_api c (in_project (Project (oc_Spec oc)) (getBootDiskName P (om_Meta m))) inst disk rank"
    and "settles tr env inst disk rank" and "rank w < n"
    and "list_all (\<lambda>w'. deletable tr (inst w') (disk w')) (round_worlds P k c machine oc env n m w)"
  shows "\<exists>m'. reconcile_rounds P k c machine oc env n m w = Some (Inr Result_empty, m') \<and>
     MachineFinalizer \<notin> set (Finalizers (om_Meta m'))"
  using assms(2-4,6,7)
proof (induction n arbitrary: m w)
  case (Suc n)
  have step: "machine_with_client P k c m machine oc = handleDelete P c m (Project (oc_Spec oc))
      (getInstanceName P (om_Meta m)) (getBootDiskName P (om_Meta m))"
    using Suc.prems(1) by (simp add: machine_with_client_def)
  have "\<forall>m' w'. run_state (handleDelete P c m (Project (oc_Spec oc)) (getInstanceName P (om_Meta m))
        (getBootDiskName P (om_Meta m))) w = ((Inr Result_10s, m'), w') \<longrightarrow> deletable tr (inst w') (disk w')"
    using Suc.prems(5) by (auto simp: step)
  with assms(1) Suc.prems(2,3) assms(5) show ?case
  proof (cases rule: handleDelete_progress [where m = m and w = w])
    case (finished m' w')
    then show ?thesis by (simp add: step)
  next
    case (again m' w')
    have "\<exists>m''. reconcile_rounds P k c machine oc env n m' (env w') = Some (Inr Result_empty, m'') \<and>
        MachineFinalizer \<notin> set (Finalizers (om_Meta m''))"
      by (rule Suc.IH) (use Suc.prems again in \<open>simp_all add: step\<close>)
    with again show ?thesis by (simp add: step)
  qed
qed simp

section \<open>A cloud that keeps the promises\<close>

record sim_cloud =
  sim_instance :: "InstanceState option"
  sim_disk :: "DiskStateState option"

definition sim_view :: "('w \<Rightarrow> 's option) \<Rightarrow> ('s \<Rightarrow> 'r) \<Rightarrow> ('w, go_error + 'r) io" where
  "sim_view obs answer = State (\<lambda>w. (case obs w of None \<Rightarrow> Inl not_found | Some s \<Rightarrow> Inr (answer s), w))"

definition sim_client :: "sim_cloud OxideClient" where
  "sim_client =
     \<lparr>FloatingIpCreate = (\<lambda>_. return (Inl not_found)), FloatingIpView = (\<lambda>_. return (Inl not_found)),
      FloatingIpAttach = (\<lambda>_. return (Inl not_found)), FloatingIpDetach = (\<lambda>_. return (Inl not_found)),
      FloatingIpDelete = (\<lambda>_. return None), InstanceCreate = (\<lambda>_. return (Inl not_found)),
      InstanceView = (\<lambda>_. sim_view sim_instance sample_instance),
      InstanceStart = (\<lambda>_. return (Inl not_found)),
      InstanceStop = (\<lambda>_. State (\<lambda>w. (Inr (sample_instance (InstanceStateOther ''stopping'')),
         w\<lparr>sim_instance := Some (InstanceStateOther ''stopping'')\<rparr>))),
      InstanceDelete = (\<lambda>_. State (\<lambda>w. (None, w\<lparr>sim_instance := None\<rparr>))),
      InstanceNetworkInterfaceListAllPages = (\<lambda>_. return (Inr [])),
      InstanceExternalIpList = (\<lambda>_. return (Inr [])),
      DiskView = (\<lambda>_. sim_view sim_disk (\<lambda>s. \<lparr>DiskId = ''d-1'', DiskState = s\<rparr>)),
      DiskDelete = (\<lambda>_. State (\<lambda>w. (None, w\<lparr>sim_disk := None\<rparr>)))\<rparr>"

text \<open>Time stops a stopping instance and detaches the disk of an instance that is gone; it ends no other state.\<close>

definition sim_transitional :: "string \<Rightarrow> bool" where
  "sim_transitional s \<longleftrightarrow> s = ''stopping'' \<or> s = ''attached''"

fun sim_time :: "sim_cloud \<Rightarrow> sim_cloud" where
  "sim_time w = (case sim_instance w of
     Some (InstanceStateOther s) \<Rightarrow> if sim_transitional s then w\<lparr>sim_instance := Some InstanceStateStopped\<rparr> else w
   | None \<Rightarrow> (case sim_disk w of
        Some (DiskStateStateOther s) \<Rightarrow> if sim_transitional s then w\<lparr>sim_disk := Some DiskStateStateDetached\<rparr> else w
      | _ \<Rightarrow> w)
   | _ \<Rightarrow> w)"

fun sim_rank :: "sim_cloud \<Rightarrow> nat" where
  "sim_rank w =
     (case sim_instance w of
        None \<Rightarrow> 0
      | Some InstanceStateRunning \<Rightarrow> 3
      | Some (InstanceStateOther _) \<Rightarrow> 2
      | _ \<Rightarrow> 1) +
     (case sim_disk w of Some (DiskStateStateOther _) \<Rightarrow> 1 | _ \<Rightarrow> 0)"

lemma sim_promises:
  "instance_api sim_client p sim_instance sim_disk sim_rank"
  "disk_api sim_client q sim_instance sim_disk sim_rank"
  "settles sim_transitional sim_time sim_instance sim_disk sim_rank"
  by (auto simp: instance_api_def disk_api_def settles_def sim_client_def sim_view_def
      split: option.split InstanceState.split DiskStateState.split)

text \<open>From a running instance with an attached disk five rounds are enough.\<close>

definition sim_start :: sim_cloud where
  "sim_start = \<lparr>sim_instance = Some InstanceStateRunning, sim_disk = Some (DiskStateStateOther ''attached'')\<rparr>"

lemma sim_rounds:
  assumes "\<not> IsZero (DeletionTimestamp (om_Meta m))"
  shows "list_all (\<lambda>w. deletable sim_transitional (sim_instance w) (sim_disk w))
    (round_worlds P k sim_client machine oc sim_time 5 m sim_start)"
  using assms
  by (simp add: eval_nat_numeral machine_with_client_def handleDelete_def ensureInstanceDeleted_def ensureDiskDeleted_def
      sim_client_def sim_view_def sim_start_def sim_transitional_def Let_def)

theorem deletion_completes_witness:
  "\<exists>m'. reconcile_rounds sample_pkgs (sample_k8s False None doomed new_cluster []) sim_client sample_owner new_cluster
       sim_time 5 doomed sim_start = Some (Inr Result_empty, m') \<and>
     MachineFinalizer \<notin> set (Finalizers (om_Meta m'))"
  by (rule deletion_completes [OF sample_pkgs_ok _ sim_promises _ sim_rounds]) (simp_all add: sim_start_def)

section \<open>Bringing a machine up\<close>

text \<open>What creating, viewing and starting the machine's instance promise: creation makes it or says
  that it exists, starting a stopped instance makes progress, and its addresses can be read. The bootstrap
  secret is there. An instance may fail: that the run does not come across one that did is a hypothesis about
  the run.\<close>

definition bringup_api ::
    "'w OxideClient \<Rightarrow> ProjectResource \<Rightarrow> InstanceCreateParams \<Rightarrow> ('w \<Rightarrow> InstanceState option) \<Rightarrow> ('w \<Rightarrow> nat) \<Rightarrow> bool"
where
  "bringup_api c p prm inst rank \<longleftrightarrow>
     (\<forall>w. inst w = None \<longrightarrow> (\<exists>i w'. run_state (InstanceCreate c prm) w = (Inr i, w') \<and>
        inst w' = Some (RunState i) \<and> rank w' \<le> rank w)) \<and>
     (\<forall>w s. inst w = Some s \<longrightarrow> (\<exists>e w'. run_state (InstanceCreate c prm) w = (Inl e, w') \<and>
        errors_Is e ErrObjectAlreadyExists \<and> inst w' = Some s \<and> rank w' \<le> rank w)) \<and>
     (\<forall>w s. inst w = Some s \<longrightarrow>
        (\<exists>i w'. run_state (InstanceView c p) w = (Inr i, w') \<and> RunState i = s \<and> inst w' = Some s \<and>
           rank w' \<le> rank w)) \<and>
     (\<forall>w n. inst w = Some InstanceStateStopped \<longrightarrow>
        (\<exists>i w'. run_state (InstanceStart c n) w = (Inr i, w') \<and> inst w' \<noteq> None \<and> rank w' < rank w)) \<and>
     (\<forall>w n. \<exists>nics w'. run_state (InstanceNetworkInterfaceListAllPages c n) w = (Inr nics, w') \<and>
        list_all known_stack nics) \<and>
     (\<forall>w n. \<exists>ips w'. run_state (InstanceExternalIpList c n) w = (Inr ips, w'))"

definition secret_api ::
    "('w, 'h) K8sClient \<Rightarrow> ObjectKey \<Rightarrow> byte list \<Rightarrow> ('w \<Rightarrow> InstanceState option) \<Rightarrow> ('w \<Rightarrow> nat) \<Rightarrow> bool" where
  "secret_api k key ud inst rank \<longleftrightarrow>
     (\<forall>w. \<exists>secret w'. run_state (GetSecret k key) w = (Inr secret, w') \<and> SecretData secret ''value'' = Some ud \<and>
        inst w' = inst w \<and> rank w' \<le> rank w)"

definition comes_up ::
    "(string \<Rightarrow> bool) \<Rightarrow> ('w \<Rightarrow> 'w) \<Rightarrow> ('w \<Rightarrow> InstanceState option) \<Rightarrow> ('w \<Rightarrow> nat) \<Rightarrow> bool" where
  "comes_up tr env inst rank \<longleftrightarrow>
     (\<forall>w. rank (env w) \<le> rank w \<and> (inst w \<noteq> None \<longrightarrow> inst (env w) \<noteq> None)) \<and>
     (\<forall>w s. inst w = Some (InstanceStateOther s) \<and> tr s \<longrightarrow> rank (env w) < rank w)"

text \<open>An instance the reconcile can wait for; a failed one it neither starts nor deletes.\<close>

fun startable :: "(string \<Rightarrow> bool) \<Rightarrow> InstanceState option \<Rightarrow> bool" where
  "startable tr (Some (InstanceStateOther s)) = tr s"
| "startable tr (Some InstanceStateFailed) = False"
| "startable tr _ = True"

definition machine_up :: "OxideMachine \<Rightarrow> bool" where
  "machine_up m \<longleftrightarrow> ProviderID (om_Spec m) \<noteq> [] \<and>
     MachineProvisioned (MachineInitialization (om_Status m)) = Some True \<and>
     (\<exists>c. find_cond (om_GetConditions m) ReadyCondition = Some c \<and> CondStatus c = ConditionTrue) \<and>
     MachineFinalizer \<in> set (Finalizers (om_Meta m))"

lemma ensureAddresses_succeeds:
  assumes "bringup_api c p prm inst rank"
  shows "\<exists>as w'. run_state (ensureAddresses c i m) w = ((Inr Result_empty, m), w') \<or>
     run_state (ensureAddresses c i m) w = ((Inr Result_empty, set_Addresses as m), w')"
proof (cases "Addresses (om_Status m) = []")
  case True
  obtain nics w1 where nics: "run_state (InstanceNetworkInterfaceListAllPages c (InstanceId i)) w = (Inr nics, w1)"
    "list_all known_stack nics"
    using assms unfolding bringup_api_def by metis
  obtain ips w2 where ips: "run_state (InstanceExternalIpList c (InstanceId i)) w1 = (Inr ips, w2)"
    using assms unfolding bringup_api_def by metis
  have "List.find (\<lambda>nic. \<not> known_stack nic) nics = None"
    using nics(2) by (simp add: find_None_iff_list_all)
  then have "machineAddressesFromNICs nics = Inr (concat (map nic_addresses nics))"
    by (simp add: machineAddressesFromNICs_def nic_loop_eq)
  with True nics(1) ips show ?thesis
    by (cases "MachineIPPool (om_Spec m) = []") (auto simp: ensureAddresses_def)
qed (auto simp: ensureAddresses_def)

text \<open>The instance is there, or is made.\<close>

lemma ensureInstance_succeeds:
  assumes api: "bringup_api c (in_project (Project (oc_Spec oc)) (getInstanceName P (om_Meta m)))
      (instanceCreateParams P m oc ud) inst rank"
    and secret: "secret_api k \<lparr>KeyNamespace = ObjNamespace (MachineMeta machine), KeyName = s\<rparr> ud inst rank"
    and "DataSecretName machine = Some s" and "ProviderID (om_Spec m) \<noteq> [] \<Longrightarrow> inst w \<noteq> None"
  obtains i m' w' where "run_state (ensureInstance P k c m machine oc) w = ((Inr (Some i), m'), w')"
    "inst w' = Some (RunState i)" "rank w' \<le> rank w" "ProviderID (om_Spec m') \<noteq> []"
    "m' = m \<or> m' = set_ProviderID (NewProviderID (InstanceId i)) m"
proof (cases "ProviderID (om_Spec m) = []")
  case False
  with assms(4) obtain st where "inst w = Some st" by auto
  then obtain i w' where "run_state (InstanceView c (in_project (Project (oc_Spec oc)) (getInstanceName P (om_Meta m)))) w =
      (Inr i, w')" "RunState i = st" "inst w' = Some st" "rank w' \<le> rank w"
    using api unfolding bringup_api_def by metis
  with False show thesis by (intro that [of i m w']) (simp_all add: ensureInstance_def)
next
  case True
  obtain sec w1 where sec: "run_state (GetSecret k \<lparr>KeyNamespace = ObjNamespace (MachineMeta machine), KeyName = s\<rparr>) w =
      (Inr sec, w1)" "SecretData sec ''value'' = Some ud" "inst w1 = inst w" "rank w1 \<le> rank w"
    using secret unfolding secret_api_def by metis
  show thesis
  proof (cases "inst w1")
    case None
    then obtain i w2 where "run_state (InstanceCreate c (instanceCreateParams P m oc ud)) w1 = (Inr i, w2)"
      "inst w2 = Some (RunState i)" "rank w2 \<le> rank w1"
      using api unfolding bringup_api_def by metis
    with True assms(3) sec show thesis
      by (intro that [of i "set_ProviderID (NewProviderID (InstanceId i)) m" w2])
        (simp_all add: ensureInstance_def Let_def)
  next
    case (Some st)
    then obtain e w2 where create: "run_state (InstanceCreate c (instanceCreateParams P m oc ud)) w1 = (Inl e, w2)"
      "errors_Is e ErrObjectAlreadyExists" "inst w2 = Some st" "rank w2 \<le> rank w1"
      using api unfolding bringup_api_def by metis
    then obtain i w3 where "run_state (InstanceView c (in_project (Project (oc_Spec oc)) (getInstanceName P (om_Meta m)))) w2 =
        (Inr i, w3)" "RunState i = st" "inst w3 = Some st" "rank w3 \<le> rank w2"
      using api unfolding bringup_api_def by metis
    with True assms(3) sec create show thesis
      by (intro that [of i "set_ProviderID (NewProviderID (InstanceId i)) m" w3])
        (simp_all add: ensureInstance_def Let_def)
  qed
qed

text \<open>One round brings the machine up or lowers the rank by the time of the next.\<close>

lemma bringup_progress:
  assumes "pkgs_ok P" and live: "IsZero (DeletionTimestamp (om_Meta m))"
    and api: "bringup_api c (in_project (Project (oc_Spec oc)) (getInstanceName P (om_Meta m)))
      (instanceCreateParams P m oc ud) inst rank"
    and secret: "secret_api k \<lparr>KeyNamespace = ObjNamespace (MachineMeta machine), KeyName = s\<rparr> ud inst rank"
    and time: "comes_up tr env inst rank"
    and "DataSecretName machine = Some s" and "ProviderID (om_Spec m) \<noteq> [] \<longrightarrow> inst w \<noteq> None"
    and pending: "\<forall>m' w'. run_state (machine_with_client P k c m machine oc) w = ((Inr Result_10s, m'), w') \<longrightarrow>
      startable tr (inst w')"
  obtains (up) m' w' where "run_state (machine_with_client P k c m machine oc) w = ((Inr Result_empty, m'), w')"
      "machine_up m'"
  | (again) m' w' where "run_state (machine_with_client P k c m machine oc) w = ((Inr Result_10s, m'), w')"
      "instanceCreateParams P m' oc ud = instanceCreateParams P m oc ud" "om_Meta m' = om_Meta (om_AddFinalizer P MachineFinalizer m)"
      "inst (env w') \<noteq> None" "rank (env w') < rank w"
proof -
  let ?m = "om_AddFinalizer P MachineFinalizer m"
  have fin: "MachineFinalizer \<in> set (Finalizers (om_Meta ?m))" using pkgs_okD(2) [OF assms(1)] by simp
  have le: "rank (env w') \<le> rank w'" "inst w' \<noteq> None \<Longrightarrow> inst (env w') \<noteq> None" for w'
    using time by (simp_all add: comes_up_def)
  have api': "bringup_api c (in_project (Project (oc_Spec oc)) (getInstanceName P (om_Meta ?m)))
      (instanceCreateParams P ?m oc ud) inst rank" using api by simp
  obtain i m1 w1 where ensure: "run_state (ensureInstance P k c ?m machine oc) w = ((Inr (Some i), m1), w1)"
    and w1: "inst w1 = Some (RunState i)" "rank w1 \<le> rank w"
    and m1: "ProviderID (om_Spec m1) \<noteq> []" "m1 = ?m \<or> m1 = set_ProviderID (NewProviderID (InstanceId i)) ?m"
    by (rule ensureInstance_succeeds [OF api' secret assms(6)]) (use assms(7) in simp_all)
  have params: "instanceCreateParams P (om_conditions_Set P x m1) oc ud = instanceCreateParams P m oc ud" for x
    using m1(2) by auto
  have meta: "om_Meta m1 = om_Meta ?m" using m1(2) by auto
  note simps = machine_with_client_def live ensure ensureInstanceRunning_def Let_def
  show thesis
  proof (cases "RunState i")
    case InstanceStateRunning
    let ?m2 = "set_om_Provisioned (Some True) (om_conditions_Set P (ready_condition ConditionTrue (getReadyReason P (Some i))) m1)"
    obtain as w2 m' where "run_state (ensureAddresses c i ?m2) w1 = ((Inr Result_empty, m'), w2)"
      and m': "m' = ?m2 \<or> m' = set_Addresses as ?m2"
      using ensureAddresses_succeeds [OF api', of i ?m2 w1] by blast
    moreover have "machine_up m'" using m' m1(1) fin
      by (auto simp: machine_up_def find_om_conditions_Set [OF assms(1)] meta)
    ultimately show thesis using InstanceStateRunning
      by (intro up [of m' w2]) (simp_all add: simps)
  next
    case InstanceStateStopped
    then obtain j w2 where start: "run_state (InstanceStart c (InstanceId i)) w1 = (Inr j, w2)"
      "inst w2 \<noteq> None" "rank w2 < rank w1"
      using api w1(1) unfolding bringup_api_def by metis
    with InstanceStateStopped le [of w2] w1(2) show thesis
      by (intro again [OF _ params, of _ w2]) (simp_all add: simps meta)
  next
    case InstanceStateFailed
    then have "run_state (machine_with_client P k c m machine oc) w =
        ((Inr Result_10s, om_conditions_Set P (ready_condition ConditionFalse (getReadyReason P (Some i))) m1), w1)"
      by (simp add: simps)
    with pending w1(1) InstanceStateFailed show thesis by fastforce
  next
    case (InstanceStateOther st)
    then have run: "run_state (machine_with_client P k c m machine oc) w =
        ((Inr Result_10s, om_conditions_Set P (ready_condition ConditionFalse (getReadyReason P (Some i))) m1), w1)"
      by (simp add: simps)
    have "tr st" using pending run w1(1) InstanceStateOther by fastforce
    with w1(1) InstanceStateOther have "rank (env w1) < rank w1" using time by (simp add: comes_up_def)
    with run le [of w1] w1 show thesis
      by (intro again [OF _ params, of _ w1]) (simp_all add: meta)
  qed
qed

text \<open>C8: Bringing up completes: for a live machine whose bootstrap secret is named and can be read, and whose
  instance exists if it has a provider ID, on a cloud that keeps its promises and whose rank at the start is below n,
  at most n rounds are needed; the last one asks for nothing more and leaves the machine with a provider ID,
  provisioned, ready and with its finalizer; provided that when a round asks to come back the instance has not failed and
  is not in a state that time does not end.\<close>

theorem bringup_completes:
  assumes "pkgs_ok P" and "IsZero (DeletionTimestamp (om_Meta m))"
    and "DataSecretName machine = Some s"
    and "bringup_api c (in_project (Project (oc_Spec oc)) (getInstanceName P (om_Meta m)))
      (instanceCreateParams P m oc ud) inst rank"
    and "secret_api k \<lparr>KeyNamespace = ObjNamespace (MachineMeta machine), KeyName = s\<rparr> ud inst rank"
    and "comes_up tr env inst rank" and "ProviderID (om_Spec m) = [] \<or> inst w \<noteq> None" and "rank w < n"
    and "list_all (\<lambda>w'. startable tr (inst w')) (round_worlds P k c machine oc env n m w)"
  shows "\<exists>m'. reconcile_rounds P k c machine oc env n m w = Some (Inr Result_empty, m') \<and> machine_up m'"
  using assms(2,4,7-9)
proof (induction n arbitrary: m w)
  case (Suc n)
  have pending: "\<forall>m' w'. run_state (machine_with_client P k c m machine oc) w = ((Inr Result_10s, m'), w') \<longrightarrow>
      startable tr (inst w')"
    using Suc.prems(5) by auto
  have known: "ProviderID (om_Spec m) \<noteq> [] \<longrightarrow> inst w \<noteq> None" using Suc.prems(3) by blast
  show ?case
  proof (rule bringup_progress [OF assms(1) Suc.prems(1,2) assms(5,6,3) known pending])
    fix m' w'
    assume "run_state (machine_with_client P k c m machine oc) w = ((Inr Result_empty, m'), w')" "machine_up m'"
    then show ?thesis by simp
  next
    fix m' w'
    assume again: "run_state (machine_with_client P k c m machine oc) w = ((Inr Result_10s, m'), w')"
      "instanceCreateParams P m' oc ud = instanceCreateParams P m oc ud"
      "om_Meta m' = om_Meta (om_AddFinalizer P MachineFinalizer m)"
      "inst (env w') \<noteq> None" "rank (env w') < rank w"
    have "\<exists>m''. reconcile_rounds P k c machine oc env n m' (env w') = Some (Inr Result_empty, m'') \<and> machine_up m''"
      by (rule Suc.IH) (use Suc.prems again in simp_all)
    with again(1) show ?thesis by simp
  qed
qed simp

text \<open>A cloud on which instances are made stopped, start, and run.\<close>

datatype phase = Absent | Off | Starting | On

fun phase_state :: "phase \<Rightarrow> InstanceState option" where
  "phase_state Absent = None"
| "phase_state Off = Some InstanceStateStopped"
| "phase_state Starting = Some (InstanceStateOther ''starting'')"
| "phase_state On = Some InstanceStateRunning"

fun phase_rank :: "phase \<Rightarrow> nat" where
  "phase_rank Absent = 3"
| "phase_rank Off = 2"
| "phase_rank Starting = 1"
| "phase_rank On = 0"

fun phase_time :: "phase \<Rightarrow> phase" where
  "phase_time Starting = On"
| "phase_time x = x"

definition phase_create :: "phase \<Rightarrow> (go_error + Instance) \<times> phase" where
  "phase_create w = (if w = Absent then (Inr (sample_instance InstanceStateStopped), Off)
     else (Inl (OxideErr (Some ErrObjectAlreadyExists) ''conflict''), w))"

definition phase_client :: "phase OxideClient" where
  "phase_client =
     \<lparr>FloatingIpCreate = (\<lambda>_. return (Inl not_found)), FloatingIpView = (\<lambda>_. return (Inl not_found)),
      FloatingIpAttach = (\<lambda>_. return (Inl not_found)), FloatingIpDetach = (\<lambda>_. return (Inl not_found)),
      FloatingIpDelete = (\<lambda>_. return None),
      InstanceCreate = (\<lambda>_. State phase_create),
      InstanceView = (\<lambda>_. sim_view phase_state sample_instance),
      InstanceStart = (\<lambda>_. State (\<lambda>w. (Inr (sample_instance (InstanceStateOther ''starting'')), Starting))),
      InstanceStop = (\<lambda>_. return (Inl not_found)), InstanceDelete = (\<lambda>_. return None),
      InstanceNetworkInterfaceListAllPages = (\<lambda>_. return (Inr sample_nics)),
      InstanceExternalIpList = (\<lambda>_. return (Inr [])),
      DiskView = (\<lambda>_. return (Inl not_found)), DiskDelete = (\<lambda>_. return None)\<rparr>"

definition phase_transitional :: "string \<Rightarrow> bool" where
  "phase_transitional s \<longleftrightarrow> s = ''starting''"

lemma phase_promises:
  "bringup_api phase_client p prm phase_state phase_rank"
  "secret_api (sample_k8s False None m oc ms) key [0x68, 0x69] phase_state phase_rank"
  "comes_up phase_transitional phase_time phase_state phase_rank"
proof -
  have "phase_state w = None \<longleftrightarrow> w = Absent" "phase_state w = Some InstanceStateStopped \<longleftrightarrow> w = Off" for w
    by (cases w; simp)+
  moreover have "list_all known_stack sample_nics" by (simp add: sample_nics_def known_stack_def)
  ultimately show "bringup_api phase_client p prm phase_state phase_rank"
    by (auto simp: bringup_api_def phase_client_def phase_create_def sim_view_def)
  show "secret_api (sample_k8s False None m oc ms) key [0x68, 0x69] phase_state phase_rank"
    by (simp add: secret_api_def sample_k8s_def sample_secret_def)
  show "comes_up phase_transitional phase_time phase_state phase_rank"
    unfolding comes_up_def
  proof (intro conjI allI impI)
    show "phase_rank (phase_time w) \<le> phase_rank w" for w by (cases w) simp_all
    show "phase_state (phase_time w) \<noteq> None" if "phase_state w \<noteq> None" for w using that by (cases w) simp_all
    show "phase_rank (phase_time w) < phase_rank w" if "phase_state w = Some (InstanceStateOther s) \<and> phase_transitional s" for w s
      using that by (cases w) simp_all
  qed
qed

lemma phase_startable: "startable phase_transitional (phase_state w)"
  by (cases w) (simp_all add: phase_transitional_def)

theorem bringup_completes_witness:
  "\<exists>m'. reconcile_rounds sample_pkgs (sample_k8s False None bootstrapping new_cluster []) phase_client sample_owner
       new_cluster phase_time 4 bootstrapping Absent = Some (Inr Result_empty, m') \<and> machine_up m'"
  by (rule bringup_completes [OF sample_pkgs_ok _ sample_owner_simps(2) phase_promises])
    (simp_all add: phase_startable list_all_iff)

end
