(* ===== verification/ClusterProgress.thy ===== *)
theory ClusterProgress
  imports ClusterProps Sample
begin

text \<open>
  Progress of the cluster controller. What the Oxide API promises about one floating IP is a predicate over
  its state: absent, or held by an instance (none: the empty ID). On a cloud that keeps the promise one reconcile
  is enough, and the later ones change nothing of it. \<open>fip_client\<close> is such a cloud.
\<close>

section \<open>The promise\<close>

text \<open>Views report the holder, a creation gives a free IP, a free IP can be attached and one in use detached.\<close>

definition fip_api ::
    "'w OxideClient \<Rightarrow> ProjectResource \<Rightarrow> AddressAllocator \<Rightarrow> string \<Rightarrow> string \<Rightarrow> ('w \<Rightarrow> string option) \<Rightarrow> bool" where
  "fip_api c p al fid addr held \<longleftrightarrow>
     (\<forall>w. held w = None \<longrightarrow> (\<exists>e w'. run_state (FloatingIpView c p) w = (Inl e, w') \<and>
        errors_Is e ErrObjectNotFound \<and> held w' = None)) \<and>
     (\<forall>w h. held w = Some h \<longrightarrow> (\<exists>ip w'. run_state (FloatingIpView c p) w = (Inr ip, w') \<and>
        FipId ip = fid \<and> FipIp ip = addr \<and> FipInstanceId ip = h \<and> held w' = Some h)) \<and>
     (\<forall>w. held w = None \<longrightarrow>
        (\<exists>ip w'. run_state (FloatingIpCreate c \<lparr>FipCreateProject = ParamProject p, FipCreateName = ParamResource p,
            FipCreateAllocator = al\<rparr>) w = (Inr ip, w') \<and>
          FipId ip = fid \<and> FipIp ip = addr \<and> FipInstanceId ip = [] \<and> held w' = Some [])) \<and>
     (\<forall>w h. held w = Some h \<and> h \<noteq> [] \<longrightarrow>
        (\<exists>ip w'. run_state (FloatingIpDetach c fid) w = (Inr ip, w') \<and>
          FipId ip = fid \<and> FipInstanceId ip = [] \<and> held w' = Some [])) \<and>
     (\<forall>w t. held w = Some [] \<and> t \<noteq> [] \<longrightarrow>
        (\<exists>ip w'. run_state (FloatingIpAttach c (attach_params fid t)) w = (Inr ip, w') \<and>
          FipInstanceId ip = t \<and> held w' = Some t))"

text \<open>The cluster's control plane machines, which the reconcile lists.\<close>

definition lists_machines ::
    "('w, 'h) K8sClient \<Rightarrow> ObjectMeta \<Rightarrow> OxideMachine list \<Rightarrow> ('w \<Rightarrow> string option) \<Rightarrow> bool" where
  "lists_machines k om ms held \<longleftrightarrow>
     (\<forall>w. \<exists>w'. run_state (ListOxideMachines k (ObjNamespace om)
          [(ClusterNameLabel, ObjName om), (MachineControlPlaneLabel, [])]) w = (Inr ms, w') \<and>
        held w' = held w)"

section \<open>Where the floating IP goes\<close>

definition target :: "pkgs \<Rightarrow> OxideMachine list \<Rightarrow> string" where
  "target P ms =
     (case List.find eligible ms of
        None \<Rightarrow> []
      | Some m \<Rightarrow> (case InstanceIDFromProviderID P (ProviderID (om_Spec m)) of Inl _ \<Rightarrow> [] | Inr i \<Rightarrow> i))"

definition moves :: "pkgs \<Rightarrow> OxideMachine list \<Rightarrow> string \<Rightarrow> bool" where
  "moves P ms h \<longleftrightarrow> h = [] \<or>
     (case List.find (holds h) ms of
        None \<Rightarrow> True
      | Some m \<Rightarrow> \<not> IsZero (DeletionTimestamp (om_Meta m)) \<and> target P ms \<noteq> [])"

definition settled_holder :: "pkgs \<Rightarrow> OxideMachine list \<Rightarrow> string \<Rightarrow> string" where
  "settled_holder P ms h = (if moves P ms h then target P ms else h)"

lemma settled_holder_idem [simp]: "settled_holder P ms (settled_holder P ms h) = settled_holder P ms h"
  by (simp add: settled_holder_def)

lemma target_parsed:
  assumes "list_all (parsed P) ms"
  obtains sk where "target_loop P [] ms = Inr (target P ms, sk)"
    "\<And>m. List.find eligible ms = Some m \<Longrightarrow> holds (target P ms) m \<and> valid_id P (target P ms)"
proof (cases "List.find eligible ms")
  case None
  then show thesis by (intro that) (simp_all add: target_loop_eq target_def)
next
  case (Some m)
  then have m: "m \<in> set ms" "eligible m" by (auto simp: find_Some_iff)
  with assms obtain i where "valid_id P i" "ProviderID (om_Spec m) = NewProviderID i"
    by (auto simp: parsed_def eligible_def list_all_iff)
  then have "InstanceIDFromProviderID P (ProviderID (om_Spec m)) = Inr i" by (simp add: provider_ids.dec_iff)
  with Some \<open>valid_id P i\<close> \<open>ProviderID (om_Spec m) = NewProviderID i\<close> show thesis
    by (intro that) (simp_all add: target_loop_eq target_def holds_def)
qed

text \<open>With an eligible machine there, the settled holder is an instance of a machine that is not being deleted.\<close>

lemma settled_holder_live:
  assumes "list_all (parsed P) ms" and "list_ex eligible ms" and "\<not> valid_id P []"
  obtains m where "m \<in> set ms" "holds (settled_holder P ms h) m" "IsZero (DeletionTimestamp (om_Meta m))"
    "settled_holder P ms h \<noteq> []"
proof -
  obtain e where e: "List.find eligible ms = Some e" "e \<in> set ms" "eligible e"
    using assms(2) by (cases "List.find eligible ms") (auto simp: find_None_iff find_Some_iff list_ex_iff)
  obtain sk where t: "holds (target P ms) e" "valid_id P (target P ms)"
    by (rule target_parsed [OF assms(1)]) (use e in blast)
  with assms(3) have ne: "target P ms \<noteq> []" by auto
  show thesis
  proof (cases "moves P ms h")
    case True
    with e t ne show thesis by (intro that [of e]) (simp_all add: settled_holder_def eligible_def)
  next
    case False
    then obtain m where "List.find (holds h) ms = Some m" "IsZero (DeletionTimestamp (om_Meta m))" "h \<noteq> []"
      using ne by (auto simp: moves_def split: option.splits)
    with False show thesis by (intro that [of m]) (auto simp: settled_holder_def find_Some_iff)
  qed
qed

section \<open>One reconcile\<close>

lemma moveFloatingIP_succeeds:
  assumes "fip_api c p al fid addr held" and "held w = Some h" and "FipId ip = fid" "FipInstanceId ip = h"
  obtains ip' w' where "run_state (moveFloatingIP c ip t) w = (Inr ip', w')" "FipInstanceId ip' = t" "held w' = Some t"
proof (cases "h = []")
  case True
  show thesis
  proof (cases "t = []")
    case False
    with assms True obtain ip' w' where "run_state (FloatingIpAttach c (attach_params fid t)) w = (Inr ip', w')"
      "FipInstanceId ip' = t" "held w' = Some t" unfolding fip_api_def by metis
    with False True assms show thesis by (intro that [of ip' w']) (simp_all add: moveFloatingIP_def)
  qed (use True assms that [of ip w] in \<open>simp add: moveFloatingIP_def\<close>)
next
  case False
  with assms obtain ip1 w1 where detach: "run_state (FloatingIpDetach c fid) w = (Inr ip1, w1)"
    "FipId ip1 = fid" "FipInstanceId ip1 = []" "held w1 = Some []" unfolding fip_api_def by metis
  show thesis
  proof (cases "t = []")
    case True
    with False detach assms show thesis by (intro that [of ip1 w1]) (simp_all add: moveFloatingIP_def)
  next
    case t: False
    with assms detach(4) obtain ip' w' where "run_state (FloatingIpAttach c (attach_params fid t)) w1 = (Inr ip', w')"
      "FipInstanceId ip' = t" "held w' = Some t" unfolding fip_api_def by metis
    with False t detach assms show thesis by (intro that [of ip' w']) (simp_all add: moveFloatingIP_def)
  qed
qed

lemma shouldAttach_moves:
  assumes "list_all (parsed P) ms"
  shows "shouldAttach P ms (target P ms) ip = Inr (moves P ms (FipInstanceId ip))"
proof -
  obtain b where "shouldAttach P ms (target P ms) ip = Inr b"
    using holder_loop_parsed [OF assms, of "FipInstanceId ip" "target P ms"]
    by (cases "FipInstanceId ip = []") (auto simp: shouldAttach_def)
  with shouldAttach_Inr [OF this] show ?thesis by (simp add: moves_def split: option.splits)
qed

lemma attachment_settles:
  assumes "fip_api c p al fid addr held" and "lists_machines k (oc_Meta oc) ms held" and "list_all (parsed P) ms"
    and "held w = Some h" and "FipId ip = fid" "FipInstanceId ip = h"
  obtains ip' w' where
    "run_state (reconcileFloatingIPAttachment P k c oc ip) w =
       ((None, oc_conditions_Set P (attached_condition ip') oc), w')"
    "FipInstanceId ip' = settled_holder P ms h" "held w' = Some (settled_holder P ms h)"
proof -
  obtain w1 where list: "run_state (ListOxideMachines k (ObjNamespace (oc_Meta oc))
      [(ClusterNameLabel, ObjName (oc_Meta oc)), (MachineControlPlaneLabel, [])]) w = (Inr ms, w1)" "held w1 = Some h"
    using assms(2,4) unfolding lists_machines_def by metis
  obtain sk where t: "target_loop P [] ms = Inr (target P ms, sk)"
    by (rule target_parsed [OF assms(3)])
  note simps = reconcileFloatingIPAttachment_def list(1) t shouldAttach_moves [OF assms(3)] assms(6) settled_holder_def
  show thesis
  proof (cases "moves P ms h")
    case True
    obtain ip' w' where "run_state (moveFloatingIP c ip (target P ms)) w1 = (Inr ip', w')"
      "FipInstanceId ip' = target P ms" "held w' = Some (target P ms)"
      by (rule moveFloatingIP_succeeds [OF assms(1) list(2) assms(5,6)])
    with True show thesis by (intro that [of ip' w']) (simp_all add: simps)
  next
    case False
    with list(2) assms(6) show thesis by (intro that [of ip w1]) (simp_all add: simps)
  qed
qed

lemma ensureFloatingIPExists_succeeds:
  assumes "fip_api c \<lparr>ParamProject = pn, ParamResource = nm\<rparr> al fid addr held"
    and "held w = None \<Longrightarrow> al = floatingIPAllocator oc"
  obtains ip w' where "run_state (ensureFloatingIPExists c oc pn nm) w = (Inr ip, w')"
    "FipId ip = fid" "FipIp ip = addr" "FipInstanceId ip = (case held w of None \<Rightarrow> [] | Some h \<Rightarrow> h)"
    "held w' = Some (FipInstanceId ip)"
proof (cases "held w")
  case None
  with assms(1) obtain e w1 where view: "run_state (FloatingIpView c \<lparr>ParamProject = pn, ParamResource = nm\<rparr>) w =
      (Inl e, w1)" "errors_Is e ErrObjectNotFound" "held w1 = None" unfolding fip_api_def by metis
  with assms obtain ip w2 where "run_state (FloatingIpCreate c \<lparr>FipCreateProject = pn, FipCreateName = nm,
      FipCreateAllocator = floatingIPAllocator oc\<rparr>) w1 = (Inr ip, w2)" "FipId ip = fid" "FipIp ip = addr"
      "FipInstanceId ip = []" "held w2 = Some []"
    using None unfolding fip_api_def by (metis ProjectResource.select_convs)
  with view None show thesis by (intro that [of ip w2]) (simp_all add: ensureFloatingIPExists_def)
next
  case (Some h)
  with assms(1) obtain ip w1 where "run_state (FloatingIpView c \<lparr>ParamProject = pn, ParamResource = nm\<rparr>) w =
      (Inr ip, w1)" "FipId ip = fid" "FipIp ip = addr" "FipInstanceId ip = h" "held w1 = Some h"
    unfolding fip_api_def by metis
  with Some show thesis by (intro that [of ip w1]) (simp_all add: ensureFloatingIPExists_def)
qed

text \<open>What a settled cluster says of itself.\<close>

definition cluster_up :: "string \<Rightarrow> OxideCluster \<Rightarrow> bool" where
  "cluster_up addr oc \<longleftrightarrow> Host (ControlPlaneEndpoint (oc_Spec oc)) = addr \<and>
     ClusterProvisioned (ClusterInitialization (oc_Status oc)) = Some True \<and>
     list_all (\<lambda>t. map_option CondStatus (find_cond (oc_GetConditions oc) t) = Some ConditionTrue)
       [ReadyCondition, FloatingIPAttachedCondition] \<and>
     ClusterFinalizer \<in> set (Finalizers (oc_Meta oc))"

definition same_identity :: "OxideCluster \<Rightarrow> OxideCluster \<Rightarrow> bool" where
  "same_identity x y \<longleftrightarrow> Project (oc_Spec x) = Project (oc_Spec y) \<and>
     ObjName (oc_Meta x) = ObjName (oc_Meta y) \<and> ObjNamespace (oc_Meta x) = ObjNamespace (oc_Meta y) \<and>
     DeletionTimestamp (oc_Meta x) = DeletionTimestamp (oc_Meta y)"

lemma same_identity_iff:
  assumes "same_identity x y"
  shows "fip_api c \<lparr>ParamProject = Project (oc_Spec x), ParamResource = getFloatingIPName P (oc_Meta x)\<rparr> al fid addr held =
      fip_api c \<lparr>ParamProject = Project (oc_Spec y), ParamResource = getFloatingIPName P (oc_Meta y)\<rparr> al fid addr held"
    and "lists_machines k (oc_Meta x) = lists_machines k (oc_Meta y)"
    and "DeletionTimestamp (oc_Meta x) = DeletionTimestamp (oc_Meta y)"
  using assms by (simp_all add: same_identity_def lists_machines_def [abs_def] getFloatingIPName_def
      getResourceName_def resourceName_def)

lemma cluster_round:
  assumes "pkgs_ok P" and "IsZero (DeletionTimestamp (oc_Meta oc))" and "IsZero (DeletionTimestamp (ClusterMeta cluster))"
    and "fip_api c \<lparr>ParamProject = Project (oc_Spec oc), ParamResource = getFloatingIPName P (oc_Meta oc)\<rparr> al fid addr held"
    and "held w = None \<Longrightarrow> al = floatingIPAllocator oc"
    and "lists_machines k (oc_Meta oc) ms held" and "list_all (parsed P) ms"
  obtains oc' w' where "run_state (cluster_with_client P k c cluster oc) w = ((None, oc'), w')"
    "held w' = Some (settled_holder P ms (case held w of None \<Rightarrow> [] | Some h \<Rightarrow> h))"
    "held w' \<noteq> Some [] \<Longrightarrow> cluster_up addr oc'" "same_identity oc oc'"
proof -
  let ?oc = "oc_AddFinalizer P ClusterFinalizer oc" and ?h = "case held w of None \<Rightarrow> [] | Some h \<Rightarrow> h"
  have al: "al = floatingIPAllocator ?oc" if "held w = None"
    using assms(5) [OF that] by (simp add: floatingIPAllocator_def oc_AddFinalizer_def)
  obtain ip w1 where ip: "run_state (ensureFloatingIPExists c ?oc (Project (oc_Spec oc)) (getFloatingIPName P (oc_Meta oc))) w =
      (Inr ip, w1)" "FipId ip = fid" "FipIp ip = addr" "FipInstanceId ip = ?h" "held w1 = Some (FipInstanceId ip)"
    by (rule ensureFloatingIPExists_succeeds [OF assms(4) al])
  let ?up = "provisioned_cluster P ip ?oc"
  have meta: "oc_Meta ?up = oc_Meta ?oc" "same_identity oc ?up"
    by (simp_all add: provisioned_cluster_fields same_identity_def oc_AddFinalizer_def)
  have lists: "lists_machines k (oc_Meta ?up) ms held"
    using assms(6) by (simp only: same_identity_iff(2) [OF meta(2)])
  obtain ip' w' where w': "run_state (reconcileFloatingIPAttachment P k c ?up ip) w1 =
      ((None, oc_conditions_Set P (attached_condition ip') ?up), w')"
    "FipInstanceId ip' = settled_holder P ms ?h" "held w' = Some (settled_holder P ms ?h)"
    by (rule attachment_settles [OF assms(4) lists assms(7) ip(5,2) refl]) (use ip(4) in simp)
  show thesis
  proof (rule that)
    show "run_state (cluster_with_client P k c cluster oc) w = ((None, oc_conditions_Set P (attached_condition ip') ?up), w')"
      using assms(2,3) ip(1) w'(1) by (simp add: cluster_with_client_def Let_def)
    show "held w' = Some (settled_holder P ms ?h)" by (rule w'(3))
    show "cluster_up addr (oc_conditions_Set P (attached_condition ip') ?up)" if "held w' \<noteq> Some []"
      using that w'(2,3) ip(3)
      by (simp add: cluster_up_def provisioned_cluster_fields find_oc_conditions_Set [OF assms(1)]
          provisioned_cluster_conditions [OF assms(1)] pkgs_okD(2) [OF assms(1)] attached_condition_def)
    show "same_identity oc (oc_conditions_Set P (attached_condition ip') ?up)"
      using meta(2) by (simp add: same_identity_def)
  qed
qed

section \<open>Any number of reconciles\<close>

text \<open>One reconcile after the other; None once one fails.\<close>

fun cluster_rounds ::
    "pkgs \<Rightarrow> ('w, 'h) K8sClient \<Rightarrow> 'w OxideClient \<Rightarrow> Cluster \<Rightarrow> nat \<Rightarrow> OxideCluster \<Rightarrow> 'w \<Rightarrow> (OxideCluster \<times> 'w) option" where
  "cluster_rounds P k c cluster 0 oc w = Some (oc, w)"
| "cluster_rounds P k c cluster (Suc n) oc w =
     (let ((e, oc'), w') = run_state (cluster_with_client P k c cluster oc) w in
      if e = None then cluster_rounds P k c cluster n oc' w' else None)"

lemma cluster_rounds_settle:
  assumes "pkgs_ok P" and "IsZero (DeletionTimestamp (oc_Meta oc))" and "IsZero (DeletionTimestamp (ClusterMeta cluster))"
    and "fip_api c \<lparr>ParamProject = Project (oc_Spec oc), ParamResource = getFloatingIPName P (oc_Meta oc)\<rparr> al fid addr held"
    and "held w = None \<Longrightarrow> al = floatingIPAllocator oc"
    and "lists_machines k (oc_Meta oc) ms held" and "list_all (parsed P) ms"
  shows "\<exists>oc' w'. cluster_rounds P k c cluster (Suc n) oc w = Some (oc', w') \<and>
     held w' = Some (settled_holder P ms (case held w of None \<Rightarrow> [] | Some h \<Rightarrow> h)) \<and>
     (held w' \<noteq> Some [] \<longrightarrow> cluster_up addr oc')"
  using assms(2,4-6)
proof (induction n arbitrary: oc w)
  case 0
  from assms(1) 0(1) assms(3) 0(2-4) assms(7) show ?case by (rule cluster_round) auto
next
  case (Suc n)
  from assms(1) Suc.prems(1) assms(3) Suc.prems(2-4) assms(7) show ?case
  proof (rule cluster_round)
    fix oc' w'
    assume step: "run_state (cluster_with_client P k c cluster oc) w = ((None, oc'), w')"
      "held w' = Some (settled_holder P ms (case held w of None \<Rightarrow> [] | Some h \<Rightarrow> h))" "same_identity oc oc'"
    note same = same_identity_iff [OF step(3)]
    have "\<exists>oc'' w''. cluster_rounds P k c cluster (Suc n) oc' w' = Some (oc'', w'') \<and>
        held w'' = Some (settled_holder P ms (case held w' of None \<Rightarrow> [] | Some h \<Rightarrow> h)) \<and>
        (held w'' \<noteq> Some [] \<longrightarrow> cluster_up addr oc'')"
      by (rule Suc.IH) (use Suc.prems step(2) in \<open>simp_all add: same\<close>)
    with step show ?thesis by (simp del: cluster_rounds.simps add: cluster_rounds.simps(2) [of P k c cluster "Suc n"])
  qed
qed

text \<open>C9: The floating IP settles: for a live cluster of a live owner, whose control plane listing is the same in every
  round, has an eligible machine and only provider IDs that are empty or parse, on a cloud that keeps its promises for
  the floating IP, every reconcile succeeds; from the first on, the floating IP exists and
  stays attached to one and the same instance, that of a listed machine that is not being deleted, and the cluster is
  written as provisioned, ready and attached, with the address as its endpoint. The empty string is no UUID.\<close>

theorem floating_ip_settles:
  assumes "pkgs_ok P" and "\<not> valid_id P []"
    and "IsZero (DeletionTimestamp (oc_Meta oc))" and "IsZero (DeletionTimestamp (ClusterMeta cluster))"
    and "fip_api c \<lparr>ParamProject = Project (oc_Spec oc), ParamResource = getFloatingIPName P (oc_Meta oc)\<rparr>
      (floatingIPAllocator oc) fid addr held"
    and "lists_machines k (oc_Meta oc) ms held" and "list_all (parsed P) ms" and "list_ex eligible ms"
  shows "\<exists>i m. m \<in> set ms \<and> holds i m \<and> IsZero (DeletionTimestamp (om_Meta m)) \<and>
    (\<forall>n. \<exists>oc' w'. cluster_rounds P k c cluster (Suc n) oc w = Some (oc', w') \<and> held w' = Some i \<and> cluster_up addr oc')"
proof -
  let ?i = "settled_holder P ms (case held w of None \<Rightarrow> [] | Some h \<Rightarrow> h)"
  obtain m where m: "m \<in> set ms" "holds ?i m" "IsZero (DeletionTimestamp (om_Meta m))" "?i \<noteq> []"
    by (rule settled_holder_live [OF assms(7,8,2)])
  have "\<exists>oc' w'. cluster_rounds P k c cluster (Suc n) oc w = Some (oc', w') \<and> held w' = Some ?i \<and> cluster_up addr oc'" for n
    using cluster_rounds_settle [OF assms(1,3-5) refl assms(6,7), where w = w and n = n] m(4) by fastforce
  with m show ?thesis by blast
qed

text \<open>A cloud with one floating IP: its state is the instance that holds it.\<close>

definition fip_client :: "string option OxideClient" where
  "fip_client =
     \<lparr>FloatingIpCreate = (\<lambda>_. State (\<lambda>w. (Inr (sample_ip []), Some []))),
      FloatingIpView = (\<lambda>_. State (\<lambda>w. (case w of None \<Rightarrow> Inl not_found | Some h \<Rightarrow> Inr (sample_ip h), w))),
      FloatingIpAttach = (\<lambda>p. State (\<lambda>w. (Inr (sample_ip (AttachParent p)), Some (AttachParent p)))),
      FloatingIpDetach = (\<lambda>_. State (\<lambda>w. (Inr (sample_ip []), Some []))),
      FloatingIpDelete = (\<lambda>_. State (\<lambda>w. (None, None))), InstanceCreate = (\<lambda>_. return (Inl not_found)),
      InstanceView = (\<lambda>_. return (Inl not_found)), InstanceStart = (\<lambda>_. return (Inl not_found)),
      InstanceStop = (\<lambda>_. return (Inl not_found)), InstanceDelete = (\<lambda>_. return None),
      InstanceNetworkInterfaceListAllPages = (\<lambda>_. return (Inr [])),
      InstanceExternalIpList = (\<lambda>_. return (Inr [])),
      DiskView = (\<lambda>_. return (Inl not_found)), DiskDelete = (\<lambda>_. return None)\<rparr>"

lemma fip_promises:
  "fip_api fip_client p al ''f-1'' (FipIp (sample_ip [])) id"
  "lists_machines (sample_k8s False None m oc ms) om ms id"
  by (simp_all add: fip_api_def lists_machines_def fip_client_def sample_k8s_def sample_ip_def)

lemma sample_node:
  "list_all (parsed sample_pkgs) [node]" "list_ex eligible [node]"
  by (auto simp: node_def parsed_def eligible_def valid_id_def NewProviderID_def)

text \<open>Whatever the floating IP is attached to at first, and if there is none.\<close>

theorem floating_ip_settles_witness:
  "\<forall>w. \<exists>i m. m \<in> set [node] \<and> holds i m \<and> IsZero (DeletionTimestamp (om_Meta m)) \<and>
    (\<forall>n. \<exists>oc' w'. cluster_rounds sample_pkgs (sample_k8s False None node new_cluster [node]) fip_client
         sample_capi_cluster (Suc n) new_cluster w = Some (oc', w') \<and> id w' = Some i \<and>
       cluster_up (FipIp (sample_ip [])) oc')"
  by (intro allI floating_ip_settles [OF sample_pkgs_ok _ _ _ fip_promises sample_node])
    (simp_all add: valid_id_def new_cluster_def)

end
