(* ===== verification/Lifecycle.thy ===== *)
theory Lifecycle
  imports MachineProps ClusterProps
begin

text \<open>
  The life of one object at the API server, over any number of reconciles: users and other
  controllers edit it and ask for its deletion, reconciles read it, make their Oxide calls and write it back, the
  write can fail or the process can stop before it, and the API server removes the object once it is being
  deleted and has no finalizers left. The question is whether the object can be gone while something created for
  it may still exist. The locale \<open>finalized\<close> answers it for every controller that keeps a few laws about single
  reconciles, and both reconcilers keep them.
\<close>

subsection \<open>A kind of object and its controller\<close>

text \<open>
  The object's metadata, the controller's finalizer, the logs its reconciles can have, which event read and which
  wrote the object (and whether the write was accepted), which asked for a creation, and which logs saw
  everything gone that an object with the given metadata owns in a project.
\<close>

record 'o resource =
  res_meta :: "'o \<Rightarrow> ObjectMeta"
  res_set_meta :: "ObjectMeta \<Rightarrow> 'o \<Rightarrow> 'o"
  res_finalizer :: string
  res_run :: "event list \<Rightarrow> bool"
  res_read :: "event \<Rightarrow> 'o option"
  res_write :: "event \<Rightarrow> ('o \<times> bool) option"
  res_creates :: "event \<Rightarrow> bool"
  res_gone :: "string \<Rightarrow> ObjectMeta \<Rightarrow> event list \<Rightarrow> bool"

definition reads :: "'o resource \<Rightarrow> 'o \<Rightarrow> event list \<Rightarrow> bool" where
  "reads R x evs \<longleftrightarrow> list_ex (\<lambda>ev. res_read R ev = Some x) evs"

definition writes :: "'o resource \<Rightarrow> 'o \<Rightarrow> bool \<Rightarrow> event list \<Rightarrow> bool" where
  "writes R x accepted evs \<longleftrightarrow> list_ex (\<lambda>ev. res_write R ev = Some (x, accepted)) evs"

definition creates :: "'o resource \<Rightarrow> event list \<Rightarrow> bool" where
  "creates R evs \<longleftrightarrow> list_ex (res_creates R) evs"

definition guarded :: "'o resource \<Rightarrow> 'o \<Rightarrow> bool" where
  "guarded R x \<longleftrightarrow> res_finalizer R \<in> set (Finalizers (res_meta R x))"

definition same_object :: "ObjectMeta \<Rightarrow> ObjectMeta \<Rightarrow> bool" where
  "same_object x y \<longleftrightarrow> ObjName x = ObjName y \<and> ObjNamespace x = ObjNamespace y"

text \<open>What the API server keeps of an object that was written.\<close>

definition stored :: "'o resource \<Rightarrow> 'o \<Rightarrow> 'o option" where
  "stored R x =
     (if \<not> IsZero (DeletionTimestamp (res_meta R x)) \<and> Finalizers (res_meta R x) = [] then None else Some x)"

text \<open>
  What others may change: anything but the identity and the deletion timestamp, which the API server protects, and
  this controller's finalizer, which is the controller's to remove.
\<close>

definition edit :: "'o resource \<Rightarrow> 'o \<Rightarrow> 'o \<Rightarrow> bool" where
  "edit R x y \<longleftrightarrow> same_object (res_meta R x) (res_meta R y) \<and>
     DeletionTimestamp (res_meta R x) = DeletionTimestamp (res_meta R y) \<and>
     (guarded R x \<longrightarrow> guarded R y)"

definition request_deletion :: "'o resource \<Rightarrow> time \<Rightarrow> 'o \<Rightarrow> 'o" where
  "request_deletion R t x = res_set_meta R ((res_meta R x)\<lparr>DeletionTimestamp := Some t\<rparr>) x"

subsection \<open>Histories\<close>

text \<open>
  The object as stored and the logs of its reconciles, the latest first. A reconcile that writes reads the object
  that is stored; one that is cut off leaves a beginning of its log.
\<close>

inductive lifecycle :: "'o resource \<Rightarrow> 'o \<Rightarrow> 'o option \<Rightarrow> event list list \<Rightarrow> bool"
  for R :: "'o resource" and x0 :: 'o
where
  created: "lifecycle R x0 (Some x0) []"
| edited: "lifecycle R x0 (Some x) runs \<Longrightarrow> edit R x y \<Longrightarrow> lifecycle R x0 (stored R y) runs"
| deletion_requested:
    "lifecycle R x0 (Some x) runs \<Longrightarrow> t \<noteq> 0 \<Longrightarrow> lifecycle R x0 (stored R (request_deletion R t x)) runs"
| written:
    "lifecycle R x0 (Some x) runs \<Longrightarrow> res_run R evs \<Longrightarrow> reads R x evs \<Longrightarrow> writes R y True evs \<Longrightarrow>
     lifecycle R x0 (stored R y) (evs # runs)"
| write_failed:
    "lifecycle R x0 (Some x) runs \<Longrightarrow> res_run R evs \<Longrightarrow> reads R x evs \<Longrightarrow> writes R y False evs \<Longrightarrow>
     lifecycle R x0 (Some x) (evs # runs)"
| cut_off:
    "lifecycle R x0 obj runs \<Longrightarrow> res_run R evs \<Longrightarrow> prefix evs' evs \<Longrightarrow>
     list_all (\<lambda>ev. res_write R ev = None) evs' \<Longrightarrow> lifecycle R x0 obj (evs' # runs)"

text \<open>The project a call works in.\<close>

fun event_project :: "event \<Rightarrow> string option" where
  "event_project (EvInstanceCreate p _) = Some (CreateProject p)"
| "event_project (EvFloatingIpCreate p _) = Some (FipCreateProject p)"
| "event_project (EvFloatingIpView p _) = Some (ParamProject p)"
| "event_project (EvFloatingIpDelete p _) = Some (ParamProject p)"
| "event_project ev = map_option ParamProject (event_resource ev)"

definition in_one_project :: "string \<Rightarrow> event list \<Rightarrow> bool" where
  "in_one_project project evs \<longleftrightarrow>
     list_all (\<lambda>ev. case event_project ev of None \<Rightarrow> True | Some p \<Rightarrow> p = project) evs"

text \<open>A creation was asked for, whatever the answer, and no later reconcile saw everything gone.\<close>

fun exposed :: "'o resource \<Rightarrow> string \<Rightarrow> ObjectMeta \<Rightarrow> event list list \<Rightarrow> bool" where
  "exposed R project om [] = False"
| "exposed R project om (evs # runs) =
     (creates R evs \<or> (\<not> res_gone R project om evs \<and> exposed R project om runs))"

text \<open>A reconcile that asked for a creation and had no write accepted.\<close>

definition accepted :: "('o \<times> bool) option \<Rightarrow> bool" where
  "accepted w = (case w of None \<Rightarrow> False | Some p \<Rightarrow> snd p)"

definition lost_creation :: "'o resource \<Rightarrow> event list \<Rightarrow> bool" where
  "lost_creation R evs \<longleftrightarrow>
     creates R evs \<and> \<not> list_ex (\<lambda>ev. accepted (res_write R ev)) evs"

subsection \<open>The invariant\<close>

lemma same_object_refl [simp]: "same_object x x"
  by (simp add: same_object_def)

lemma same_object_trans: "same_object x y \<Longrightarrow> same_object y z \<Longrightarrow> same_object x z"
  by (simp add: same_object_def)

lemma stored_guarded: "guarded R x \<Longrightarrow> stored R x = Some x"
  by (auto simp: stored_def guarded_def)

lemma stored_cases: "stored R x = None \<or> stored R x = Some x"
  by (simp add: stored_def)

text \<open>
  The laws of a controller's single reconcile: it writes one object, the one it read; when it asks for a creation
  it writes the finalizer; when it takes the finalizer off it has seen everything gone.
\<close>

locale finalized =
  fixes R :: "'o resource"
  assumes meta_set: "res_meta R (res_set_meta R om x) = om"
    and creation_guards: "res_run R evs \<Longrightarrow> creates R evs \<Longrightarrow> \<exists>y a. writes R y a evs \<and> guarded R y"
    and written_once: "res_run R evs \<Longrightarrow> writes R y a evs \<Longrightarrow> writes R z b evs \<Longrightarrow> y = z \<and> a = b"
    and keeps_identity: "res_run R evs \<Longrightarrow> reads R x evs \<Longrightarrow> writes R y a evs \<Longrightarrow>
      same_object (res_meta R x) (res_meta R y)"
    and unguarded_gone: "res_run R evs \<Longrightarrow> in_one_project project evs \<Longrightarrow> reads R x evs \<Longrightarrow>
      writes R y a evs \<Longrightarrow> guarded R x \<Longrightarrow> \<not> guarded R y \<Longrightarrow> res_gone R project (res_meta R x) evs"
    and gone_identity: "same_object om om' \<Longrightarrow> res_gone R project om evs = res_gone R project om' evs"
begin

definition safe_state :: "string \<Rightarrow> 'o \<Rightarrow> 'o option \<Rightarrow> event list list \<Rightarrow> bool" where
  "safe_state project x0 obj runs \<longleftrightarrow>
     (case obj of
        None \<Rightarrow> \<not> exposed R project (res_meta R x0) runs
      | Some x \<Rightarrow> same_object (res_meta R x0) (res_meta R x) \<and>
          (exposed R project (res_meta R x0) runs \<longrightarrow> guarded R x))"

lemma safe_stored:
  assumes "same_object (res_meta R x0) (res_meta R x)"
    and "exposed R project (res_meta R x0) runs \<longrightarrow> guarded R x"
  shows "safe_state project x0 (stored R x) runs"
  using stored_cases [of R x] assms stored_guarded [of R x] by (auto simp: safe_state_def)

lemma safe_written:
  assumes "res_run R evs" and "in_one_project project evs"
    and "reads R x evs" and "writes R y a evs" and "safe_state project x0 (Some x) runs"
  shows "safe_state project x0 (stored R y) (evs # runs)"
proof (rule safe_stored)
  have x: "same_object (res_meta R x0) (res_meta R x)"
    using assms(5) by (simp add: safe_state_def)
  then show "same_object (res_meta R x0) (res_meta R y)"
    using keeps_identity [OF assms(1,3,4)] by (rule same_object_trans)
  show "exposed R project (res_meta R x0) (evs # runs) \<longrightarrow> guarded R y"
  proof (rule impI, rule ccontr)
    assume ex: "exposed R project (res_meta R x0) (evs # runs)" and no: "\<not> guarded R y"
    have "\<not> creates R evs"
      using creation_guards [OF assms(1)] written_once [OF assms(1,4)] no by blast
    with ex have un: "\<not> res_gone R project (res_meta R x0) evs" and "exposed R project (res_meta R x0) runs"
      by simp_all
    with assms(5) have "guarded R x" by (simp add: safe_state_def)
    from unguarded_gone [OF assms(1-4) this no] un gone_identity [OF x] show False by simp
  qed
qed

lemma lost_unless_accepted:
  assumes "\<not> lost_creation R evs" and "creates R evs"
  shows "\<exists>y. writes R y True evs"
  using assms by (force simp: lost_creation_def writes_def accepted_def list_ex_iff split: option.splits)

lemma lifecycle_safe:
  assumes "lifecycle R x0 obj runs"
    and "list_all (in_one_project project) runs" and "list_all (\<lambda>evs. \<not> lost_creation R evs) runs"
  shows "safe_state project x0 obj runs"
  using assms
proof (induction rule: lifecycle.induct)
  case created
  show ?case by (simp add: safe_state_def)
next
  case (edited x runs y)
  then show ?case
    by (intro safe_stored) (auto simp: edit_def safe_state_def intro: same_object_trans)
next
  case (deletion_requested x runs t)
  then show ?case
    by (intro safe_stored) (auto simp: request_deletion_def safe_state_def guarded_def same_object_def meta_set)
next
  case (written x runs evs y)
  then show ?case by (intro safe_written) simp_all
next
  case (write_failed x runs evs y)
  then have "\<not> creates R evs"
    using lost_unless_accepted [of evs] written_once [OF write_failed(2,4)] by auto
  with write_failed show ?case by (auto simp: safe_state_def)
next
  case (cut_off obj runs evs evs')
  then have "\<not> creates R evs'"
    using lost_unless_accepted [of evs'] by (auto simp: writes_def list_all_iff list_ex_iff)
  with cut_off show ?case by (auto simp: safe_state_def split: option.splits)
qed

lemma gone_not_exposed:
  assumes "lifecycle R x0 None runs"
    and "list_all (in_one_project project) runs" and "list_all (\<lambda>evs. \<not> lost_creation R evs) runs"
  shows "\<not> exposed R project (res_meta R x0) runs"
  using lifecycle_safe [OF assms] by (simp add: safe_state_def)

end

end
