(* ===== verification/Ownership.thy ===== *)
theory Ownership
  imports Lifecycle
begin

text \<open>
  The two reconcilers as controllers of finalized objects: a machine owns its instance and its boot disk, a
  cluster its floating IP. A reconcile runs in any environment of a given set, with the helper packages as
  documented.
\<close>

section \<open>OxideMachine\<close>

fun machine_read :: "event \<Rightarrow> OxideMachine option" where
  "machine_read (EvSnapshotMachine m True) = Some m"
| "machine_read _ = None"

fun machine_write :: "event \<Rightarrow> (OxideMachine \<times> bool) option" where
  "machine_write (EvPatchMachine m a) = Some (m, a = None)"
| "machine_write _ = None"

text \<open>The instance and the boot disk of the object were both answered to be gone.\<close>

definition machine_gone :: "pkgs \<Rightarrow> string \<Rightarrow> ObjectMeta \<Rightarrow> event list \<Rightarrow> bool" where
  "machine_gone P project om evs \<longleftrightarrow>
     list_ex (\<lambda>ev. instance_gone ev \<and>
       event_resource ev = Some (in_project project (getInstanceName P om))) evs \<and>
     list_ex (\<lambda>ev. disk_gone ev \<and>
       event_resource ev = Some (in_project project (getBootDiskName P om))) evs"

definition machine_resource ::
    "pkgs \<Rightarrow> ('w, 'h, 's) OxideMachineReconciler set \<Rightarrow> OxideMachine resource" where
  "machine_resource P rs =
     \<lparr>res_meta = om_Meta, res_set_meta = (\<lambda>om m. m\<lparr>om_Meta := om\<rparr>), res_finalizer = MachineFinalizer,
      res_run = (\<lambda>evs. pkgs_ok P \<and> (\<exists>r \<in> rs. \<exists>req w res. machine_run P r req w res evs)),
      res_read = machine_read, res_write = machine_write, res_creates = is_create,
      res_gone = machine_gone P\<rparr>"

lemma names_same_object:
  assumes "same_object x y"
  shows "getInstanceName P x = getInstanceName P y" and "getBootDiskName P x = getBootDiskName P y"
    and "getFloatingIPName P x = getFloatingIPName P y"
  using assms by (simp_all add: same_object_def getInstanceName_def getBootDiskName_def
      getFloatingIPName_def getResourceName_def resourceName_def)

lemma machine_read_iff: "machine_read ev = Some m \<longleftrightarrow> ev = EvSnapshotMachine m True"
  by (cases ev rule: machine_read.cases) auto

lemma machine_write_iff: "machine_write ev = Some (m, a) \<longleftrightarrow> (\<exists>e. ev = EvPatchMachine m e \<and> a = (e = None))"
  by (cases ev rule: machine_write.cases) auto

lemma machine_reads: "reads (machine_resource P rs) m evs \<longleftrightarrow> EvSnapshotMachine m True \<in> set evs"
  by (auto simp: reads_def machine_resource_def list_ex_iff machine_read_iff)

lemma machine_writes:
  "writes (machine_resource P rs) m a evs \<longleftrightarrow> (\<exists>e. EvPatchMachine m e \<in> set evs \<and> a = (e = None))"
  by (auto simp: writes_def machine_resource_def list_ex_iff machine_write_iff)

lemma machine_guarded:
  "guarded (machine_resource P rs) m \<longleftrightarrow> MachineFinalizer \<in> set (Finalizers (om_Meta m))"
  by (simp add: guarded_def machine_resource_def)

text \<open>A creation happens only in a reconcile of a live machine, and that one writes the finalizer.\<close>

lemma create_writes_finalizer:
  assumes "pkgs_ok P" and "machine_run P r req w res evs" and "list_ex is_create evs"
  shows "\<exists>m' a. EvPatchMachine m' a \<in> set evs \<and> MachineFinalizer \<in> set (Finalizers (om_Meta m'))"
proof -
  from assms(3) obtain p a where ev: "EvInstanceCreate p a \<in> set evs"
    by (auto simp: list_ex_iff elim!: is_create.elims)
  show ?thesis
  proof (rule machine_run_called [OF assms(2) ev])
    fix m machine body m' ox b
    assume body: "machine_body_log P m machine (body, m') ox" "EvInstanceCreate p a \<in> set ox"
      and evs: "evs = EvSnapshotMachine m True # ox @ [EvPatchMachine m' b]"
    have "IsZero (DeletionTimestamp (om_Meta m))"
      using machine_body_log_phases(3) [OF body] by fastforce
    moreover from body obtain oc where "machine_log P m machine oc (body, m') ox" by cases auto
    ultimately have "MachineFinalizer \<in> set (Finalizers (om_Meta m'))"
      using machine_log_live_finalizer [OF assms(1)] by simp
    with evs show ?thesis by auto
  qed simp
qed

lemma machine_unguarded_gone:
  assumes "pkgs_ok P" and "machine_run P r req w res evs" and "in_one_project project evs"
    and "EvSnapshotMachine m True \<in> set evs" and "EvPatchMachine m' a \<in> set evs"
    and "MachineFinalizer \<in> set (Finalizers (om_Meta m))"
    and "MachineFinalizer \<notin> set (Finalizers (om_Meta m'))"
  shows "machine_gone P project (om_Meta m) evs"
proof (rule machine_run_written [OF assms(2,4,5)])
  fix machine body ox
  assume body: "machine_body_log P m machine (body, m') ox"
    and evs: "evs = EvSnapshotMachine m True # ox @ [EvPatchMachine m' a]"
  let ?ip = "\<lambda>oc :: OxideCluster. in_project (Project (oc_Spec oc)) (getInstanceName P (om_Meta m))"
    and ?dp = "\<lambda>oc :: OxideCluster. in_project (Project (oc_Spec oc)) (getBootDiskName P (om_Meta m))"
  obtain oc where "handle_delete_log P m (?ip oc) (?dp oc) (Inr Result_empty, m') ox"
    by (rule machine_body_finalizer_dropped [OF assms(1) body assms(6,7)])
  then obtain xs ie ys de where ox: "ox = xs @ ie # ys @ [de]" "instance_gone ie"
    "event_resource ie = Some (?ip oc)" "disk_gone de" "event_resource de = Some (?dp oc)"
    by (rule handle_delete_gone)
  have ie: "event_project ie = Some (Project (oc_Spec oc))"
    using ox(2,3) by (cases ie rule: event_resource.cases) auto
  have "ie \<in> set evs" using ox(1) evs by simp
  with ie assms(3) have "Project (oc_Spec oc) = project"
    by (auto simp: in_one_project_def list_all_iff)
  with ox evs show ?thesis by (auto simp: machine_gone_def)
qed

lemma machine_patched_once:
  assumes "machine_run P r req w res evs" and "EvPatchMachine m a \<in> set evs" and "EvPatchMachine m' b \<in> set evs"
  shows "m = m' \<and> a = b"
proof (rule machine_run_patched [OF assms(1,2)])
  fix m0 machine body ox
  assume "machine_body_log P m0 machine (body, m) ox"
    and "evs = EvSnapshotMachine m0 True # ox @ [EvPatchMachine m a]"
  with assms(3) machine_body_log_phases(1) show ?thesis by fastforce
qed

lemma machine_res_meta [simp]: "res_meta (machine_resource P rs) = om_Meta"
  by (simp add: machine_resource_def)

lemma machine_res_run:
  "res_run (machine_resource P rs) evs \<longleftrightarrow> pkgs_ok P \<and> (\<exists>r \<in> rs. \<exists>req w res. machine_run P r req w res evs)"
  by (simp add: machine_resource_def)

interpretation owned_machine: finalized "machine_resource P rs" for P rs
proof
  let ?R = "machine_resource P rs"
  show "res_meta ?R (res_set_meta ?R om m) = om" for om m by (simp add: machine_resource_def)
  show "\<exists>m a. writes ?R m a evs \<and> guarded ?R m" if run: "res_run ?R evs" and create: "creates ?R evs" for evs
  proof -
    from run obtain r req w res where "r \<in> rs" "pkgs_ok P" "machine_run P r req w res evs"
      unfolding machine_res_run by blast
    note this(2,3)
    moreover have "list_ex is_create evs" using create by (simp add: creates_def machine_resource_def)
    ultimately have "\<exists>m e. EvPatchMachine m e \<in> set evs \<and> MachineFinalizer \<in> set (Finalizers (om_Meta m))"
      by (rule create_writes_finalizer)
    then show ?thesis unfolding machine_writes machine_guarded by blast
  qed
  show "m = m' \<and> a = b" if "res_run ?R evs" "writes ?R m a evs" "writes ?R m' b evs" for evs m m' a b
    using that unfolding machine_writes machine_res_run by (blast dest: machine_patched_once)
  show "same_object (res_meta ?R m) (res_meta ?R m')"
    if "res_run ?R evs" "reads ?R m evs" "writes ?R m' a evs" for evs m m' a
    using that unfolding machine_reads machine_writes machine_res_run
    by (auto simp: machine_resource_def same_object_def machine_frame_def
        elim!: machine_run_written dest!: machine_body_log_frame)
  show "res_gone ?R project (res_meta ?R m) evs"
    if "res_run ?R evs" "in_one_project project evs" "reads ?R m evs" "writes ?R m' a evs"
      "guarded ?R m" "\<not> guarded ?R m'" for evs project m m' a
    using that unfolding machine_reads machine_writes machine_guarded machine_res_run
    by (auto simp: machine_resource_def dest: machine_unguarded_gone)
  show "res_gone ?R project om evs = res_gone ?R project om' evs" if "same_object om om'" for om om' project evs
    by (simp add: machine_resource_def machine_gone_def names_same_object [OF that])
qed

section \<open>OxideCluster\<close>

fun cluster_read :: "event \<Rightarrow> OxideCluster option" where
  "cluster_read (EvSnapshotCluster oc True) = Some oc"
| "cluster_read _ = None"

fun cluster_write :: "event \<Rightarrow> (OxideCluster \<times> bool) option" where
  "cluster_write (EvPatchCluster oc a) = Some (oc, a = None)"
| "cluster_write _ = None"

fun ip_create :: "event \<Rightarrow> bool" where
  "ip_create (EvFloatingIpCreate _ _) = True"
| "ip_create _ = False"

text \<open>The deletion of a floating IP was accepted, or there was none.\<close>

fun ip_gone :: "ProjectResource \<Rightarrow> event \<Rightarrow> bool" where
  "ip_gone q (EvFloatingIpDelete p a) =
     (p = q \<and> (case a of None \<Rightarrow> True | Some e \<Rightarrow> errors_Is e ErrObjectNotFound))"
| "ip_gone _ _ = False"

definition cluster_gone :: "pkgs \<Rightarrow> string \<Rightarrow> ObjectMeta \<Rightarrow> event list \<Rightarrow> bool" where
  "cluster_gone P project om evs \<longleftrightarrow>
     list_ex (ip_gone \<lparr>ParamProject = project, ParamResource = getFloatingIPName P om\<rparr>) evs"

definition cluster_resource ::
    "pkgs \<Rightarrow> ('w, 'h, 's) OxideClusterReconciler set \<Rightarrow> OxideCluster resource" where
  "cluster_resource P rs =
     \<lparr>res_meta = oc_Meta, res_set_meta = (\<lambda>om oc. oc\<lparr>oc_Meta := om\<rparr>), res_finalizer = ClusterFinalizer,
      res_run = (\<lambda>evs. pkgs_ok P \<and> (\<exists>r \<in> rs. \<exists>req w res. cluster_run P r req w res evs)),
      res_read = cluster_read, res_write = cluster_write, res_creates = ip_create,
      res_gone = cluster_gone P\<rparr>"

lemma cluster_read_iff: "cluster_read ev = Some oc \<longleftrightarrow> ev = EvSnapshotCluster oc True"
  by (cases ev rule: cluster_read.cases) auto

lemma cluster_write_iff:
  "cluster_write ev = Some (oc, a) \<longleftrightarrow> (\<exists>e. ev = EvPatchCluster oc e \<and> a = (e = None))"
  by (cases ev rule: cluster_write.cases) auto

lemma cluster_reads: "reads (cluster_resource P rs) oc evs \<longleftrightarrow> EvSnapshotCluster oc True \<in> set evs"
  by (auto simp: reads_def cluster_resource_def list_ex_iff cluster_read_iff)

lemma cluster_writes:
  "writes (cluster_resource P rs) oc a evs \<longleftrightarrow> (\<exists>e. EvPatchCluster oc e \<in> set evs \<and> a = (e = None))"
  by (auto simp: writes_def cluster_resource_def list_ex_iff cluster_write_iff)

lemma cluster_guarded:
  "guarded (cluster_resource P rs) oc \<longleftrightarrow> ClusterFinalizer \<in> set (Finalizers (oc_Meta oc))"
  by (simp add: guarded_def cluster_resource_def)

lemma cluster_res_meta [simp]: "res_meta (cluster_resource P rs) = oc_Meta"
  by (simp add: cluster_resource_def)

lemma cluster_res_run:
  "res_run (cluster_resource P rs) evs \<longleftrightarrow> pkgs_ok P \<and> (\<exists>r \<in> rs. \<exists>req w res. cluster_run P r req w res evs)"
  by (simp add: cluster_resource_def)

lemma attached_cluster_finalizer:
  assumes "pkgs_ok P"
    and "listed_attachment_log P (provisioned_cluster P ip (oc_AddFinalizer P ClusterFinalizer oc)) ip (e, oc') evs"
  shows "ClusterFinalizer \<in> set (Finalizers (oc_Meta oc'))"
  using listed_attachment_log_writes [OF assms(2)]
  by (auto simp: provisioned_cluster_fields pkgs_okD(2) [OF assms(1)])

lemma ip_create_writes_finalizer:
  assumes "pkgs_ok P" and "cluster_run P r req w res evs" and "list_ex ip_create evs"
  shows "\<exists>oc' a. EvPatchCluster oc' a \<in> set evs \<and> ClusterFinalizer \<in> set (Finalizers (oc_Meta oc'))"
proof -
  from assms(3) obtain p a where ev: "EvFloatingIpCreate p a \<in> set evs"
    by (auto simp: list_ex_iff elim!: ip_create.elims)
  from cluster_run_log [OF assms(2)] show ?thesis
  proof cases
    case (reconciled cluster oc retErr oc' ox b)
    with ev have ev: "EvFloatingIpCreate p a \<in> set ox" by simp
    with reconciled(3) have "cluster_log P cluster oc (retErr, oc') ox" by cases auto
    then have "ClusterFinalizer \<in> set (Finalizers (oc_Meta oc'))"
      by cases (use ev assms(1) in \<open>auto simp: pkgs_okD(2) intro: attached_cluster_finalizer\<close>)
    then show ?thesis using reconciled by auto
  qed (use ev in auto)
qed

lemma cluster_unguarded_gone:
  assumes "pkgs_ok P" and "cluster_run P r req w res evs" and "in_one_project project evs"
    and "EvSnapshotCluster oc True \<in> set evs" and "EvPatchCluster oc' a \<in> set evs"
    and "ClusterFinalizer \<in> set (Finalizers (oc_Meta oc))"
    and "ClusterFinalizer \<notin> set (Finalizers (oc_Meta oc'))"
  shows "cluster_gone P project (oc_Meta oc) evs"
proof (rule cluster_run_written [OF assms(2,4,5)])
  fix cluster retErr ox
  assume body: "cluster_body_log P cluster oc (retErr, oc') ox"
    and evs: "evs = EvSnapshotCluster oc True # ox @ [EvPatchCluster oc' a]"
  from body obtain "cluster_log P cluster oc (retErr, oc') ox"
    using assms(6,7) by cases auto
  then show ?thesis
    by cases (use assms(1,3,6,7) in \<open>auto simp: evs pkgs_okD(2) in_one_project_def cluster_gone_def
        split: option.splits dest: attached_cluster_finalizer\<close>)
qed

lemma cluster_patched_once:
  assumes "cluster_run P r req w res evs" and "EvPatchCluster oc a \<in> set evs" and "EvPatchCluster oc' b \<in> set evs"
  shows "oc = oc' \<and> a = b"
  using cluster_run_log [OF assms(1)]
proof cases
  case (reconciled cluster oc0 retErr oc'' ox c)
  with assms(2,3) cluster_body_log_events [OF reconciled(3)] show ?thesis by fastforce
qed (use assms(2) in auto)

interpretation owned_cluster: finalized "cluster_resource P rs" for P rs
proof
  let ?R = "cluster_resource P rs"
  show "res_meta ?R (res_set_meta ?R om m) = om" for om m by (simp add: cluster_resource_def)
  show "\<exists>m a. writes ?R m a evs \<and> guarded ?R m" if run: "res_run ?R evs" and create: "creates ?R evs" for evs
  proof -
    from run obtain r req w res where "r \<in> rs" "pkgs_ok P" "cluster_run P r req w res evs"
      unfolding cluster_res_run by blast
    note this(2,3)
    moreover have "list_ex ip_create evs" using create by (simp add: creates_def cluster_resource_def)
    ultimately have "\<exists>m e. EvPatchCluster m e \<in> set evs \<and> ClusterFinalizer \<in> set (Finalizers (oc_Meta m))"
      by (rule ip_create_writes_finalizer)
    then show ?thesis unfolding cluster_writes cluster_guarded by blast
  qed
  show "m = m' \<and> a = b" if "res_run ?R evs" "writes ?R m a evs" "writes ?R m' b evs" for evs m m' a b
    using that unfolding cluster_writes cluster_res_run by (blast dest: cluster_patched_once)
  show "same_object (res_meta ?R m) (res_meta ?R m')"
    if "res_run ?R evs" "reads ?R m evs" "writes ?R m' a evs" for evs m m' a
    using that unfolding cluster_reads cluster_writes cluster_res_run
    by (auto simp: cluster_resource_def same_object_def cluster_frame_def
        elim!: cluster_run_written dest!: cluster_body_log_frame)
  show "res_gone ?R project (res_meta ?R m) evs"
    if "res_run ?R evs" "in_one_project project evs" "reads ?R m evs" "writes ?R m' a evs"
      "guarded ?R m" "\<not> guarded ?R m'" for evs project m m' a
    using that unfolding cluster_reads cluster_writes cluster_guarded cluster_res_run
    by (auto simp: cluster_resource_def dest: cluster_unguarded_gone)
  show "res_gone ?R project om evs = res_gone ?R project om' evs" if "same_object om om'" for om om' project evs
    by (simp add: cluster_resource_def cluster_gone_def names_same_object [OF that])
qed

end
