(* ===== verification/LifecycleClaims.thy ===== *)
theory LifecycleClaims
  imports Ownership MachineClaims ClusterClaims
begin

text \<open>
  For both kinds: when nothing is left behind, and the ways it can be: a failed write after a creation,
  and a change of the project.
\<close>

subsection \<open>Concrete histories\<close>

lemma stored_iff:
  "stored (machine_resource P rs) m = (if \<not> IsZero (DeletionTimestamp (om_Meta m)) \<and>
     Finalizers (om_Meta m) = [] then None else Some m)"
  "stored (cluster_resource P cs) oc = (if \<not> IsZero (DeletionTimestamp (oc_Meta oc)) \<and>
     Finalizers (oc_Meta oc) = [] then None else Some oc)"
  by (simp_all add: stored_def machine_resource_def cluster_resource_def)

lemma request_deletion_iff:
  "request_deletion (machine_resource P rs) t m = m\<lparr>om_Meta := (om_Meta m)\<lparr>DeletionTimestamp := Some t\<rparr>\<rparr>"
  "request_deletion (cluster_resource P cs) t oc = oc\<lparr>oc_Meta := (oc_Meta oc)\<lparr>DeletionTimestamp := Some t\<rparr>\<rparr>"
  by (simp_all add: request_deletion_def machine_resource_def cluster_resource_def)

lemma stored_samples:
  "stored (machine_resource P rs) bootstrapped = Some bootstrapped"
  "stored (machine_resource P rs) doomed = Some doomed"
  "stored (machine_resource P rs) released = None"
  "stored (machine_resource P rs) (request_deletion (machine_resource P rs) 5 bootstrapping) = None"
  "stored (machine_resource P rs) (request_deletion (machine_resource P rs) 5 bootstrapped) =
     Some (request_deletion (machine_resource P rs) 5 bootstrapped)"
  by (auto simp: stored_iff released_def request_deletion_iff doomed_def bootstrapping_def bootstrapped_def)
    (simp_all add: sample_pkgs_def)

lemma edit_doomed:
  "edit (machine_resource P rs) (request_deletion (machine_resource P rs) 5 bootstrapped) doomed"
  by (simp add: edit_def request_deletion_iff same_object_def machine_guarded bootstrapped_def bootstrapping_def
      doomed_def)

lemma sample_runs:
  "sample_omr False e bootstrapping (Inl not_found) \<in> rs \<Longrightarrow>
     res_run (machine_resource sample_pkgs rs) (bootstrap_log e)"
  "sample_omr False None doomed (Inl not_found) \<in> rs \<Longrightarrow> res_run (machine_resource sample_pkgs rs) release_log"
  unfolding machine_res_run using sample_pkgs_ok bootstrap_machine_run release_machine_run by blast+

text \<open>Brought up, asked to be deleted, edited and being deleted.\<close>

lemma sample_deleting:
  assumes "sample_omr False None bootstrapping (Inl not_found) \<in> rs"
  shows "lifecycle (machine_resource sample_pkgs rs) bootstrapping (Some doomed) [bootstrap_log None]"
proof -
  let ?R = "machine_resource sample_pkgs rs"
  have "lifecycle ?R bootstrapping (Some bootstrapped) [bootstrap_log None]"
    using lifecycle.written [OF lifecycle.created sample_runs(1) [OF assms], where y = bootstrapped]
    by (simp add: machine_reads machine_writes bootstrap_log_def stored_samples)
  from lifecycle.deletion_requested [OF this, of 5]
  have "lifecycle ?R bootstrapping (Some (request_deletion ?R 5 bootstrapped)) [bootstrap_log None]"
    by (simp add: stored_samples)
  from lifecycle.edited [OF this edit_doomed] show ?thesis by (simp add: stored_samples)
qed

lemma attached_cluster_meta:
  "oc_Meta attached_cluster = (oc_Meta new_cluster)\<lparr>Finalizers := [ClusterFinalizer]\<rparr>"
  by (simp add: attached_cluster_def new_endpoint_def provisioned_cluster_fields oc_AddFinalizer_def)
    (simp add: sample_pkgs_def new_cluster_def sample_cluster_def sample_meta_def)

lemma stored_sample_clusters:
  "stored (cluster_resource P rs) attached_cluster = Some attached_cluster"
  "stored (cluster_resource P rs) closing_cluster = Some closing_cluster"
  "stored (cluster_resource sample_pkgs rs) (oc_RemoveFinalizer sample_pkgs ClusterFinalizer closing_cluster) = None"
  "stored (cluster_resource P rs) (request_deletion (cluster_resource P rs) 5 attached_cluster) =
     Some (request_deletion (cluster_resource P rs) 5 attached_cluster)"
  "edit (cluster_resource P rs) (request_deletion (cluster_resource P rs) 5 attached_cluster) closing_cluster"
  by (simp_all add: stored_iff request_deletion_iff edit_def cluster_guarded attached_cluster_meta
      same_object_def)
    (simp_all add: closing_cluster_def sample_pkgs_def oc_RemoveFinalizer_def new_cluster_def sample_cluster_def sample_meta_def)

lemma sample_closing:
  assumes "sample_ocr False None new_cluster [node] (Inl not_found) \<in> rs"
    and "sample_ocr False None closing_cluster [] (Inl not_found) \<in> rs"
  shows "lifecycle (cluster_resource sample_pkgs rs) new_cluster None [close_log, attach_log None]"
proof -
  let ?R = "cluster_resource sample_pkgs rs"
  have runs: "res_run ?R (attach_log None)" "res_run ?R close_log"
    using attach_cluster_run [of None] close_cluster_run assms by (auto simp: cluster_res_run sample_pkgs_ok)
  have "lifecycle ?R new_cluster (Some attached_cluster) [attach_log None]"
    using lifecycle.written [OF lifecycle.created runs(1), where y = attached_cluster] sample_cluster_logs(1,3) [of None]
    by (auto simp: cluster_reads cluster_writes stored_sample_clusters)
  from lifecycle.deletion_requested [OF this, of 5]
  have "lifecycle ?R new_cluster (Some (request_deletion ?R 5 attached_cluster)) [attach_log None]"
    by (simp add: stored_sample_clusters)
  from lifecycle.edited [OF this stored_sample_clusters(5)]
  have "lifecycle ?R new_cluster (Some closing_cluster) [attach_log None]" by (simp add: stored_sample_clusters)
  from lifecycle.written [OF this runs(2)] sample_cluster_logs(5,6) show ?thesis
    by (force simp: cluster_reads cluster_writes stored_sample_clusters)
qed

subsection \<open>Properties\<close>

text \<open>C1: No orphaned instances: when an \<open>OxideMachine\<close> is gone from the API server, then after the last creation
  of an instance that was ever asked for on its behalf a reconcile saw the instance and the boot disk gone, over
  any history of reconciles of the stored version, some cut off before their write, of edits and of deletions, provided
  that every Oxide call of the history works in one project and that every reconcile that asked for a creation had
  its write accepted. Without the first proviso it fails (\<open>project_change_orphans\<close>), and without the second
  (\<open>lost_write_orphans\<close>).\<close>

theorem gone_means_cleaned:
  assumes "lifecycle (machine_resource P rs) m0 None runs"
    and "list_all (in_one_project project) runs"
    and "list_all (\<lambda>evs. \<not> lost_creation (machine_resource P rs) evs) runs"
  shows "\<not> exposed (machine_resource P rs) project (om_Meta m0) runs"
  using owned_machine.gone_not_exposed [OF assms] by (simp add: machine_resource_def)

theorem gone_means_cleaned_witness:
  "\<not> exposed (machine_resource sample_pkgs {sample_omr False None bootstrapping (Inl not_found),
       sample_omr False None doomed (Inl not_found)})
     ''proj'' (om_Meta bootstrapping) [release_log, bootstrap_log None]"
proof -
  let ?rs = "{sample_omr False None bootstrapping (Inl not_found), sample_omr False None doomed (Inl not_found)}"
  let ?R = "machine_resource sample_pkgs ?rs"
  have "lifecycle ?R bootstrapping None [release_log, bootstrap_log None]"
    using lifecycle.written [OF sample_deleting sample_runs(2), of ?rs released]
    by (simp add: machine_reads machine_writes release_log_def stored_samples)
  then show ?thesis
    by (rule gone_means_cleaned)
      (simp_all add: in_one_project_def release_log_def bootstrap_log_def bootstrap_params_def
        instanceCreateParams_def lost_creation_def creates_def accepted_def machine_resource_def Let_def)
qed

text \<open>C2: No orphaned addresses: when an \<open>OxideCluster\<close> is gone from the API server, then after the last
  creation of a floating IP that was ever asked for on its behalf a reconcile saw the cluster's floating IP gone,
  over the same histories and with the same two provisos: every Oxide call of the history works in one project, and
  every reconcile that asked for a creation had its write accepted.\<close>

theorem cluster_gone_means_cleaned:
  assumes "lifecycle (cluster_resource P rs) oc0 None runs"
    and "list_all (in_one_project project) runs"
    and "list_all (\<lambda>evs. \<not> lost_creation (cluster_resource P rs) evs) runs"
  shows "\<not> exposed (cluster_resource P rs) project (oc_Meta oc0) runs"
  using owned_cluster.gone_not_exposed [OF assms] by (simp add: cluster_resource_def)

theorem cluster_gone_means_cleaned_witness:
  "\<not> exposed (cluster_resource sample_pkgs {sample_ocr False None new_cluster [node] (Inl not_found),
       sample_ocr False None closing_cluster [] (Inl not_found)})
     ''proj'' (oc_Meta new_cluster) [close_log, attach_log None]"
  by (rule cluster_gone_means_cleaned [OF sample_closing])
    (simp_all add: in_one_project_def close_log_def attach_log_def lost_creation_def creates_def accepted_def
      cluster_resource_def)

text \<open>C33: A write that fails after a creation can leave an orphan: the machine, still without finalizer, is then
  deleted at once, and nobody ever asks about its instance, which Oxide reported as created.\<close>

theorem lost_write_orphans:
  "\<exists>rs runs p inst. lifecycle (machine_resource sample_pkgs (rs :: (unit, unit, unit) OxideMachineReconciler set))
       bootstrapping None runs \<and>
     EvInstanceCreate p (Inr inst) \<in> set (concat runs) \<and>
     list_all (\<lambda>ev. \<not> take_down ev \<and> \<not> instance_gone ev) (concat runs)"
proof -
  let ?e = "Some (K8sErr False ''conflict'')"
  let ?rs = "{sample_omr False ?e bootstrapping (Inl not_found)}"
  let ?R = "machine_resource sample_pkgs ?rs"
  have "lifecycle ?R bootstrapping (Some bootstrapping) [bootstrap_log ?e]"
    using lifecycle.write_failed [OF lifecycle.created sample_runs(1) [of ?e ?rs], where y = bootstrapped]
    by (simp add: machine_reads machine_writes bootstrap_log_def)
  from lifecycle.deletion_requested [OF this, of 5]
  have "lifecycle ?R bootstrapping None [bootstrap_log ?e]" by (simp add: stored_samples)
  moreover have "EvInstanceCreate bootstrap_params (Inr (sample_instance InstanceStateRunning)) \<in>
      set (concat [bootstrap_log ?e])"
    by (simp add: bootstrap_log_def)
  moreover have "list_all (\<lambda>ev. \<not> take_down ev \<and> \<not> instance_gone ev) (concat [bootstrap_log ?e])"
    by (simp add: bootstrap_log_def)
  ultimately show ?thesis by blast
qed

text \<open>So can a change of the cluster's project: the deletion then looks in the new project, where the
  instance was never created, finds nothing and takes the finalizer off, although no write failed.\<close>

definition moved_cluster :: OxideCluster where
  "moved_cluster = (new_cluster)\<lparr>oc_Spec := (oc_Spec new_cluster)\<lparr>Project := ''elsewhere''\<rparr>\<rparr>"

definition moved_omr :: "(unit, unit, unit) OxideMachineReconciler" where
  "moved_omr =
     \<lparr>omr_Client = sample_k8s False None doomed moved_cluster [doomed], omr_Scheme = (),
      omr_OxideClientFactory = (\<lambda>_. return (Inr (sample_client (Inl not_found) (Inr (sample_ip [])))))\<rparr>"

definition moved_log :: "event list" where
  "moved_log =
     [EvSnapshotMachine doomed True,
      EvInstanceView (in_project ''elsewhere'' (getInstanceName sample_pkgs (om_Meta doomed))) (Inl not_found),
      EvDiskView (in_project ''elsewhere'' (getBootDiskName sample_pkgs (om_Meta doomed))) (Inr detached_disk),
      EvDiskDelete (in_project ''elsewhere'' (getBootDiskName sample_pkgs (om_Meta doomed))) None,
      EvPatchMachine released None]"

lemma moved_machine_run:
  "machine_run sample_pkgs moved_omr sample_key () (Result_empty, None) moved_log"
proof -
  have "run_state (machine_Reconcile sample_pkgs (log_machine_reconciler moved_omr) sample_key) ((), []) =
      ((Result_empty, None), ((), moved_log))"
    by (simp add: machine_Reconcile_def machine_reconcile_body_def machine_with_client_def handleDelete_def
        ensureInstanceDeleted_def ensureDiskDeleted_def sample_run_simps moved_log_def released_def
        moved_omr_def moved_cluster_def doomed_def detached_disk_def machine_deferred_def)
  then show ?thesis by (auto simp: machine_run_def)
qed

lemma project_change_orphans:
  "\<exists>rs runs. lifecycle (machine_resource sample_pkgs (rs :: (unit, unit, unit) OxideMachineReconciler set))
       bootstrapping None runs \<and>
     list_all (\<lambda>evs. \<not> lost_creation (machine_resource sample_pkgs rs) evs) runs \<and>
     exposed (machine_resource sample_pkgs rs) ''proj'' (om_Meta bootstrapping) runs"
proof -
  let ?rs = "{sample_omr False None bootstrapping (Inl not_found), moved_omr}"
  let ?R = "machine_resource sample_pkgs ?rs"
  have "res_run ?R moved_log" using moved_machine_run by (auto simp: machine_res_run sample_pkgs_ok)
  with lifecycle.written [OF sample_deleting this, of released]
  have "lifecycle ?R bootstrapping None [moved_log, bootstrap_log None]"
    by (simp add: machine_reads machine_writes moved_log_def stored_samples)
  moreover have "exposed ?R ''proj'' (om_Meta bootstrapping) [moved_log, bootstrap_log None]"
    by (simp add: moved_log_def bootstrap_log_def machine_resource_def machine_gone_def creates_def)
  moreover have "list_all (\<lambda>evs. \<not> lost_creation ?R evs) [moved_log, bootstrap_log None]"
    by (simp add: moved_log_def bootstrap_log_def lost_creation_def creates_def accepted_def machine_resource_def)
  ultimately show ?thesis by blast
qed

end
