(* ===== verification/System.thy ===== *)
theory System
  imports ClusterProps MachineProps
begin

text \<open>
  The two controllers together, over any interleaving of their reconciles. They work on caches that lag behind the API
  server, each by its own delay, so the state is every version of every \<open>OxideMachine\<close> there has ever been,
  and a reconcile may read any of them. With it goes the log of all Oxide calls, in order.
\<close>

text \<open>
  Users and other controllers may change a machine at will, except for the two fields that are the machine
  controller's to write: the provider ID and the initialization status.
\<close>

definition own_fields :: "OxideMachine \<Rightarrow> string \<times> OxideMachineInitializationStatus" where
  "own_fields m = (ProviderID (om_Spec m), MachineInitialization (om_Status m))"

definition unclaimed :: "OxideMachine \<Rightarrow> bool" where
  "unclaimed m \<longleftrightarrow> ProviderID (om_Spec m) = [] \<and>
     MachineProvisioned (MachineInitialization (om_Status m)) \<noteq> Some True"

text \<open>What a reconcile read, and the versions it wrote, whether or not the write is reported to have failed.\<close>

fun reads_from :: "OxideMachine set \<Rightarrow> event \<Rightarrow> bool" where
  "reads_from V (EvSnapshotMachine m _) = (m \<in> V)"
| "reads_from V (EvListMachines (Inr ms)) = (set ms \<subseteq> V)"
| "reads_from V _ = True"

definition versions :: "event list \<Rightarrow> OxideMachine set" where
  "versions evs = {m. \<exists>a. EvPatchMachine m a \<in> set evs}"

inductive system ::
    "pkgs \<Rightarrow> ('w, 'h, 's) OxideMachineReconciler set \<Rightarrow> ('w, 'h, 's) OxideClusterReconciler set \<Rightarrow>
     OxideMachine set \<Rightarrow> event list \<Rightarrow> bool"
  for P :: pkgs and rms :: "('w, 'h, 's) OxideMachineReconciler set"
    and rcs :: "('w, 'h, 's) OxideClusterReconciler set"
where
  start: "system P rms rcs {} []"
| created: "system P rms rcs V log \<Longrightarrow> unclaimed m \<Longrightarrow> system P rms rcs (insert m V) log"
| edited:
    "system P rms rcs V log \<Longrightarrow> m \<in> V \<Longrightarrow> own_fields m' = own_fields m \<Longrightarrow>
     system P rms rcs (insert m' V) log"
| machine_reconciled:
    "system P rms rcs V log \<Longrightarrow> r \<in> rms \<Longrightarrow> machine_run P r req w res evs \<Longrightarrow>
     list_all (reads_from V) evs \<Longrightarrow> system P rms rcs (V \<union> versions evs) (log @ evs)"
| cluster_reconciled:
    "system P rms rcs V log \<Longrightarrow> r \<in> rcs \<Longrightarrow> cluster_run P r req w res evs \<Longrightarrow>
     list_all (reads_from V) evs \<Longrightarrow> system P rms rcs V (log @ evs)"

subsection \<open>The invariant\<close>

text \<open>An instance with this identifier, or a running one, was answered.\<close>

definition answered :: "event list \<Rightarrow> string \<Rightarrow> bool" where
  "answered log i \<longleftrightarrow> (\<exists>ev \<in> set log. \<exists>inst. instance_answer ev = Some inst \<and> InstanceId inst = i)"

definition answered_running :: "event list \<Rightarrow> bool" where
  "answered_running log \<longleftrightarrow> (\<exists>inst. running_answer log inst)"

definition backed :: "event list \<Rightarrow> OxideMachine \<Rightarrow> bool" where
  "backed log m \<longleftrightarrow>
     (ProviderID (om_Spec m) \<noteq> [] \<longrightarrow> (\<exists>i. answered log i \<and> ProviderID (om_Spec m) = NewProviderID i)) \<and>
     (MachineProvisioned (MachineInitialization (om_Status m)) = Some True \<longrightarrow> answered_running log)"

lemma answered_mono: "answered log i \<Longrightarrow> set log \<subseteq> set log' \<Longrightarrow> answered log' i"
  by (auto simp: answered_def)

lemma answered_running_mono: "answered_running log \<Longrightarrow> set log \<subseteq> set log' \<Longrightarrow> answered_running log'"
  by (auto simp: answered_running_def running_answer_def)

lemma backed_mono: "backed log m \<Longrightarrow> set log \<subseteq> set log' \<Longrightarrow> backed log' m"
  by (auto simp: backed_def intro: answered_mono answered_running_mono)

text \<open>An attachment in the log that has no answer for its instance before it.\<close>

definition attached_backed :: "event list \<Rightarrow> bool" where
  "attached_backed log \<longleftrightarrow>
     (\<forall>xs p a ys. log = xs @ EvFloatingIpAttach p a # ys \<longrightarrow>
        answered xs (AttachParent p) \<and> answered_running xs)"

lemma machine_run_no_attach:
  assumes "machine_run P r req w res evs"
  shows "EvFloatingIpAttach p a \<notin> set evs"
proof
  assume ev: "EvFloatingIpAttach p a \<in> set evs"
  show False
  proof (rule machine_run_called [OF assms ev])
    fix m machine body m' ox b
    assume body: "machine_body_log P m machine (body, m') ox" "EvFloatingIpAttach p a \<in> set ox"
    have "successively machine_call_ok (EvSnapshotMachine m True # ox)"
      by (rule machine_body_log_protocol [OF body(1)])
    moreover from split_list [OF body(2)] obtain ys zs where ox: "ox = ys @ EvFloatingIpAttach p a # zs" by blast
    ultimately have "successively machine_call_ok ((EvSnapshotMachine m True # ys) @ EvFloatingIpAttach p a # zs)"
      by simp
    then show False unfolding successively_append_iff by simp
  qed simp
qed

lemma machine_run_versions_backed:
  assumes "pkgs_ok P" and "machine_run P r req w res evs" and "list_all (reads_from V) evs"
    and "\<And>m. m \<in> V \<Longrightarrow> backed log m" and "m' \<in> versions evs"
  shows "backed (log @ evs) m'"
proof -
  from assms(5) obtain a where "EvPatchMachine m' a \<in> set evs" by (auto simp: versions_def)
  then show ?thesis
  proof (rule machine_run_patched [OF assms(2)])
    fix m machine body ox
    assume body: "machine_body_log P m machine (body, m') ox"
      and evs: "evs = EvSnapshotMachine m True # ox @ [EvPatchMachine m' a]"
    have m: "backed (log @ evs) m"
      by (rule backed_mono [OF assms(4)]) (use assms(3) in \<open>auto simp: evs\<close>)
    from body show ?thesis
    proof cases
      case no_client
      with m show ?thesis by simp
    next
      case (with_client oc)
      have "\<exists>i. answered (log @ evs) i \<and> ProviderID (om_Spec m') = NewProviderID i"
        if "ProviderID (om_Spec m') \<noteq> []"
        using machine_log_provider [OF with_client]
      proof (elim disjE exE conjE)
        assume "ProviderID (om_Spec m') = ProviderID (om_Spec m)"
        with m that show ?thesis by (simp add: backed_def)
      next
        fix ev inst
        assume "ev \<in> set ox" "instance_answer ev = Some inst"
          and id: "ProviderID (om_Spec m') = NewProviderID (InstanceId inst)"
        then have "answered (log @ evs) (InstanceId inst)" by (auto simp: answered_def evs)
        with id show ?thesis by blast
      qed
      moreover have "answered_running (log @ evs)"
        if p: "MachineProvisioned (MachineInitialization (om_Status m')) = Some True"
      proof (cases "MachineInitialization (om_Status m') = MachineInitialization (om_Status m)")
        case True
        with m p show ?thesis by (simp add: backed_def)
      next
        case False
        show ?thesis
          by (rule machine_log_provisioned [OF assms(1) with_client False])
            (auto simp: answered_running_def running_answer_def evs)
      qed
      ultimately show ?thesis by (simp add: backed_def)
    qed
  qed
qed

lemma cluster_run_attach_backed:
  assumes "cluster_run P r req w res evs" and "list_all (reads_from V) evs"
    and "\<And>m. m \<in> V \<Longrightarrow> backed log m" and "EvFloatingIpAttach p a \<in> set evs"
  shows "answered log (AttachParent p) \<and> answered_running log"
proof -
  obtain oc ok where snap: "EvSnapshotCluster oc ok \<in> set evs"
    using cluster_run_log [OF assms(1)] assms(4) by cases auto
  obtain ms where ms: "EvListMachines (Inr ms) \<in> set evs"
    using cluster_run_moves_listed [OF assms(1) snap assms(4)] by auto
  show ?thesis
  proof (rule cluster_run_listed [OF assms(1) snap ms])
    fix ip es fs retErr oc' b
    assume run: "attachment_run P oc ip ms es fs retErr oc' b evs"
    have "EvFloatingIpAttach p a \<in> set fs"
      using attachment_run_facts(3) [OF run assms(4)] by simp
    then obtain m where m: "List.find eligible ms = Some m"
      "ProviderID (om_Spec m) = NewProviderID (AttachParent p)"
      by (rule attachment_log_target [OF attachment_run_log [OF run]])
    then have "m \<in> set ms" "eligible m" by (auto simp: find_Some_iff)
    moreover have "reads_from V (EvListMachines (Inr ms))"
      using assms(2) ms unfolding list_all_iff by (rule bspec)
    moreover have "set ms \<subseteq> V \<longleftrightarrow> reads_from V (EvListMachines (Inr ms))" by simp
    ultimately have "backed log m" using assms(3) by blast
    with m(2) \<open>eligible m\<close> show ?thesis by (auto simp: backed_def eligible_def)
  qed
qed

text \<open>A log grows by calls whose attachments, if any, are backed by what was there before.\<close>

lemma attached_backed_append:
  assumes "attached_backed log"
    and "\<And>p a. EvFloatingIpAttach p a \<in> set evs \<Longrightarrow> answered log (AttachParent p) \<and> answered_running log"
  shows "attached_backed (log @ evs)"
  unfolding attached_backed_def
proof (intro allI impI)
  fix xs p a ys
  assume eq: "log @ evs = xs @ EvFloatingIpAttach p a # ys"
  show "answered xs (AttachParent p) \<and> answered_running xs"
  proof (cases "length xs < length log")
    case True
    with eq obtain zs where "log = xs @ EvFloatingIpAttach p a # zs"
      by (auto simp: append_eq_append_conv2 append_eq_Cons_conv)
    with assms(1) show ?thesis by (simp add: attached_backed_def)
  next
    case False
    with eq obtain zs where xs: "xs = log @ zs" and evs: "evs = zs @ EvFloatingIpAttach p a # ys"
      by (auto simp: append_eq_append_conv2)
    have "answered log (AttachParent p) \<and> answered_running log" by (rule assms(2) [of p a]) (simp add: evs)
    then show ?thesis using answered_mono answered_running_mono by (auto simp: xs)
  qed
qed

lemma system_backed:
  assumes "pkgs_ok P" and "system P rms rcs V log"
  shows "(\<forall>m \<in> V. backed log m) \<and> attached_backed log"
  using assms(2)
proof (induction rule: system.induct)
  case start
  show ?case by (simp add: attached_backed_def)
next
  case (created V log m)
  then show ?case by (simp add: backed_def unclaimed_def)
next
  case (edited V log m m')
  then show ?case by (simp add: backed_def own_fields_def)
next
  case (machine_reconciled V log r req w res evs)
  have "backed (log @ evs) m" if "m \<in> V \<union> versions evs" for m
    using that machine_reconciled.IH backed_mono [of log m "log @ evs"]
      machine_run_versions_backed [OF assms(1) machine_reconciled.hyps(3,4)] by auto
  moreover have "attached_backed (log @ evs)"
    using machine_reconciled.IH machine_run_no_attach [OF machine_reconciled.hyps(3)]
    by (intro attached_backed_append) auto
  ultimately show ?case by blast
next
  case (cluster_reconciled V log r req w res evs)
  have "backed (log @ evs) m" if "m \<in> V" for m
    using that cluster_reconciled.IH backed_mono [of log m "log @ evs"] by auto
  moreover have "attached_backed (log @ evs)"
    using cluster_reconciled.IH
      cluster_run_attach_backed [OF cluster_reconciled.hyps(3,4)] by (intro attached_backed_append) auto
  ultimately show ?case by blast
qed

end
