(* ===== verification/GoHeap.thy ===== *)
theory GoHeap
  imports Prelude
begin

text \<open>
  Go's memory, as far as copying is concerned. The heap is a list of blocks, a block is an array of
  values of one type (a variable made by \<open>new\<close> is an array of one) and allocation appends a block,
  so an address is the position at which a block was allocated and never moves. A \<open>kind\<close> tells the type of
  a block's elements: how they are stored, how they are read back and the zero value. A pointer is a block
  and an index in it, a slice a block with an offset and a length, and \<open>nil\<close> is \<^term>\<open>None\<close>.

  A \<open>view\<close> says what a Go value means: when it is well-formed in a heap, the mathematical value it
  stands for, and the blocks reached from it. The locale \<open>copyable\<close> is the contract of a deep copy
  over a view; it is closed under pointers, slices, pairs and structs.
\<close>

subsection \<open>Blocks, pointers and slices\<close>

record ('c, 'e) kind =
  put :: "'e list \<Rightarrow> 'c"
  got :: "'c \<Rightarrow> 'e list option"
  zero_value :: 'e

type_synonym ptr = "nat \<times> nat"

record slice =
  sl_block :: nat
  sl_off :: nat
  sl_len :: nat

definition block :: "('c, 'e) kind \<Rightarrow> 'c list \<Rightarrow> nat \<Rightarrow> 'e list" where
  "block k h b = (if b < length h then case got k (h ! b) of Some es \<Rightarrow> es | None \<Rightarrow> [] else [])"

definition elem_at :: "('c, 'e) kind \<Rightarrow> 'c list \<Rightarrow> ptr \<Rightarrow> 'e" where
  "elem_at k h p =
     (if snd p < length (block k h (fst p)) then block k h (fst p) ! snd p else zero_value k)"

definition elems :: "('c, 'e) kind \<Rightarrow> 'c list \<Rightarrow> slice \<Rightarrow> 'e list" where
  "elems k h s = take (sl_len s) (drop (sl_off s) (block k h (sl_block s)))"

text \<open>The address \<open>&s[i]\<close>.\<close>

definition slot :: "slice \<Rightarrow> nat \<Rightarrow> ptr" where
  "slot s i = (sl_block s, sl_off s + i)"

definition alloc :: "('c, 'e) kind \<Rightarrow> 'e list \<Rightarrow> ('c list, nat) io" where
  "alloc k es = State (\<lambda>h. (length h, h @ [put k es]))"

text \<open>\<open>new(T)\<close>, \<open>make([]T, n)\<close>, \<open>*p\<close>, \<open>*p = v\<close> and \<open>copy(dst, src)\<close>.\<close>

definition new :: "('c, 'e) kind \<Rightarrow> ('c list, ptr) io" where
  "new k = do { b \<leftarrow> alloc k [zero_value k]; return (b, 0) }"

definition make_slice :: "('c, 'e) kind \<Rightarrow> nat \<Rightarrow> ('c list, slice) io" where
  "make_slice k n = do {
     b \<leftarrow> alloc k (replicate n (zero_value k));
     return \<lparr>sl_block = b, sl_off = 0, sl_len = n\<rparr>
   }"

definition deref :: "('c, 'e) kind \<Rightarrow> ptr \<Rightarrow> ('c list, 'e) io" where
  "deref k p = State (\<lambda>h. (elem_at k h p, h))"

definition write_block :: "('c, 'e) kind \<Rightarrow> nat \<Rightarrow> 'e list \<Rightarrow> 'c list \<Rightarrow> 'c list" where
  "write_block k b es h = h[b := put k es]"

definition assign :: "('c, 'e) kind \<Rightarrow> ptr \<Rightarrow> 'e \<Rightarrow> ('c list, unit) io" where
  "assign k p v =
     State (\<lambda>h. ((), write_block k (fst p) ((block k h (fst p))[snd p := v]) h))"

definition copy_elems :: "('c, 'e) kind \<Rightarrow> slice \<Rightarrow> slice \<Rightarrow> ('c list, unit) io" where
  "copy_elems k dst src =
     State (\<lambda>h.
       let n = min (sl_len dst) (sl_len src); old = block k h (sl_block dst)
       in ((), write_block k (sl_block dst)
                 (take (sl_off dst) old @ take n (elems k h src) @ drop (sl_off dst + n) old) h))"

primrec for_range :: "nat \<Rightarrow> (nat \<Rightarrow> ('w, unit) io) \<Rightarrow> ('w, unit) io" where
  "for_range 0 body = return ()"
| "for_range (Suc n) body = do { for_range n body; body n }"

subsection \<open>The copying idioms\<close>

text \<open>\<open>if in != nil { out = new(T); into(in, out) }\<close>, the body of every \<open>DeepCopy\<close>.\<close>

definition deep_copy :: "('c, 'e) kind \<Rightarrow> ('e \<Rightarrow> ('c list, 'e) io) \<Rightarrow> ptr option \<Rightarrow> ('c list, ptr option) io" where
  "deep_copy k into inp = (case inp of
     None \<Rightarrow> return None
   | Some p \<Rightarrow> do {
       out \<leftarrow> new k;
       v \<leftarrow> deref k p;
       v' \<leftarrow> into v;
       assign k out v';
       return (Some out)
     })"

text \<open>\<open>make\<close> followed by \<open>copy\<close>, for elements without pointers.\<close>

definition copy_flat :: "('c, 'e) kind \<Rightarrow> slice option \<Rightarrow> ('c list, slice option) io" where
  "copy_flat k inp = (case inp of
     None \<Rightarrow> return None
   | Some s \<Rightarrow> do {
       out \<leftarrow> make_slice k (sl_len s);
       copy_elems k out s;
       return (Some out)
     })"

text \<open>\<open>make\<close> followed by a loop over the indices.\<close>

definition copy_each :: "('c, 'e) kind \<Rightarrow> ('e \<Rightarrow> ('c list, 'e) io) \<Rightarrow> slice option \<Rightarrow> ('c list, slice option) io" where
  "copy_each k into inp = (case inp of
     None \<Rightarrow> return None
   | Some s \<Rightarrow> do {
       out \<leftarrow> make_slice k (sl_len s);
       for_range (sl_len s) (\<lambda>i. do {
         v \<leftarrow> deref k (slot s i);
         v' \<leftarrow> into v;
         assign k (slot out i) v'
       });
       return (Some out)
     })"

subsection \<open>Views\<close>

record ('c, 'x, 'a) view =
  wf_in :: "'c list \<Rightarrow> 'x \<Rightarrow> bool"
  val :: "'c list \<Rightarrow> 'x \<Rightarrow> 'a"
  reach :: "'c list \<Rightarrow> 'x \<Rightarrow> nat set"

definition inline :: "('x \<Rightarrow> 'a) \<Rightarrow> ('c, 'x, 'a) view" where
  "inline f = \<lparr>wf_in = (\<lambda>_ _. True), val = (\<lambda>_. f), reach = (\<lambda>_ _. {})\<rparr>"

definition ptr_view :: "('c, 'e) kind \<Rightarrow> ('c, 'e, 'a) view \<Rightarrow> ('c, ptr option, 'a option) view" where
  "ptr_view k V =
     \<lparr>wf_in = (\<lambda>h x. case x of None \<Rightarrow> True | Some p \<Rightarrow>
        snd p < length (block k h (fst p)) \<and> wf_in V h (elem_at k h p)),
      val = (\<lambda>h x. case x of None \<Rightarrow> None | Some p \<Rightarrow> Some (val V h (elem_at k h p))),
      reach = (\<lambda>h x. case x of None \<Rightarrow> {} | Some p \<Rightarrow>
        insert (fst p) (reach V h (elem_at k h p)))\<rparr>"

definition slice_view :: "('c, 'e) kind \<Rightarrow> ('c, 'e, 'a) view \<Rightarrow> ('c, slice option, 'a list option) view" where
  "slice_view k V =
     \<lparr>wf_in = (\<lambda>h x. case x of None \<Rightarrow> True | Some s \<Rightarrow>
        sl_block s < length h \<and> sl_off s + sl_len s \<le> length (block k h (sl_block s)) \<and>
        list_all (wf_in V h) (elems k h s)),
      val = (\<lambda>h x. case x of None \<Rightarrow> None | Some s \<Rightarrow> Some (map (val V h) (elems k h s))),
      reach = (\<lambda>h x. case x of None \<Rightarrow> {} | Some s \<Rightarrow>
        insert (sl_block s) (\<Union> (set (map (reach V h) (elems k h s)))))\<rparr>"

definition pair_view :: "('c, 'x, 'a) view \<Rightarrow> ('c, 'y, 'b) view \<Rightarrow> ('c, 'x \<times> 'y, 'a \<times> 'b) view" where
  "pair_view V W =
     \<lparr>wf_in = (\<lambda>h z. wf_in V h (fst z) \<and> wf_in W h (snd z)),
      val = (\<lambda>h z. (val V h (fst z), val W h (snd z))),
      reach = (\<lambda>h z. reach V h (fst z) \<union> reach W h (snd z))\<rparr>"

text \<open>A struct with the fields \<open>get\<close> that need copying; \<open>build\<close> takes the others as they are.\<close>

definition struct_view ::
    "('s \<Rightarrow> 'x) \<Rightarrow> ('s \<Rightarrow> 'a \<Rightarrow> 't) \<Rightarrow> ('c, 'x, 'a) view \<Rightarrow> ('c, 's, 't) view" where
  "struct_view get build V =
     \<lparr>wf_in = (\<lambda>h s. wf_in V h (get s)),
      val = (\<lambda>h s. build s (val V h (get s))),
      reach = (\<lambda>h s. reach V h (get s))\<rparr>"

lemma view_simps [simp]:
  "wf_in (inline f) h x" "val (inline f) h x = f x" "reach (inline f) h x = {}"
  "wf_in (pair_view V W) h z \<longleftrightarrow> wf_in V h (fst z) \<and> wf_in W h (snd z)"
  "val (pair_view V W) h z = (val V h (fst z), val W h (snd z))"
  "reach (pair_view V W) h z = reach V h (fst z) \<union> reach W h (snd z)"
  "wf_in (struct_view get build U) h s = wf_in U h (get s)"
  "val (struct_view get build U) h s = build s (val U h (get s))"
  "reach (struct_view get build U) h s = reach U h (get s)"
  by (simp_all add: inline_def pair_view_def struct_view_def)

lemma wf_inline [simp]: "list_all (wf_in (inline f) h) xs"
  by (simp add: list_all_iff)

lemma ptr_view_simps [simp]:
  "wf_in (ptr_view k V) h None" "val (ptr_view k V) h None = None" "reach (ptr_view k V) h None = {}"
  "wf_in (ptr_view k V) h (Some p) \<longleftrightarrow>
     snd p < length (block k h (fst p)) \<and> wf_in V h (elem_at k h p)"
  "val (ptr_view k V) h (Some p) = Some (val V h (elem_at k h p))"
  "reach (ptr_view k V) h (Some p) = insert (fst p) (reach V h (elem_at k h p))"
  by (simp_all add: ptr_view_def)

lemma slice_view_simps [simp]:
  "wf_in (slice_view k V) h None" "val (slice_view k V) h None = None" "reach (slice_view k V) h None = {}"
  "wf_in (slice_view k V) h (Some s) \<longleftrightarrow>
     sl_block s < length h \<and> sl_off s + sl_len s \<le> length (block k h (sl_block s)) \<and>
     list_all (wf_in V h) (elems k h s)"
  "val (slice_view k V) h (Some s) = Some (map (val V h) (elems k h s))"
  "reach (slice_view k V) h (Some s) = insert (sl_block s) (\<Union> (set (map (reach V h) (elems k h s))))"
  by (simp_all add: slice_view_def)

subsection \<open>The contract of a deep copy\<close>

text \<open>No block of \<open>B\<close> changes between \<open>h\<close> and \<open>h'\<close>, and none is lost.\<close>

definition agree :: "nat set \<Rightarrow> 'c list \<Rightarrow> 'c list \<Rightarrow> bool" where
  "agree B h h' \<longleftrightarrow> length h \<le> length h' \<and> (\<forall>b \<in> B. b < length h \<longrightarrow> h' ! b = h ! b)"

text \<open>\<open>y\<close> in \<open>h'\<close> is a copy of \<open>x\<close> in \<open>h\<close>: the old blocks are all there, the
  meaning is the same, and what is reached from the copy is new.\<close>

definition copied :: "('c, 'x, 'a) view \<Rightarrow> 'c list \<Rightarrow> 'x \<Rightarrow> 'c list \<Rightarrow> 'x \<Rightarrow> bool" where
  "copied V h x h' y \<longleftrightarrow>
     prefix h h' \<and> wf_in V h' y \<and> val V h' y = val V h x \<and> reach V h' y \<subseteq> {length h..<length h'}"

locale go_kind =
  fixes k :: "('c, 'e) kind"
  assumes got_put: "got k (put k es) = Some es"

locale copyable =
  fixes V :: "('c, 'x, 'a) view" and cp :: "'x \<Rightarrow> ('c list, 'x) io"
  assumes reach_allocated: "wf_in V h x \<Longrightarrow> reach V h x \<subseteq> {..<length h}"
    and frame: "wf_in V h x \<Longrightarrow> agree (reach V h x) h h' \<Longrightarrow>
      wf_in V h' x \<and> val V h' x = val V h x \<and> reach V h' x = reach V h x"
    and copy_copied: "wf_in V h x \<Longrightarrow> run_state (cp x) h = (y, h') \<Longrightarrow> copied V h x h' y"

lemma agree_refl [simp]: "agree B h h"
  by (simp add: agree_def)

lemma agree_trans: "agree B h h1 \<Longrightarrow> agree B h1 h2 \<Longrightarrow> agree B h h2"
  by (auto simp: agree_def)

lemma agree_mono: "agree B h h' \<Longrightarrow> A \<subseteq> B \<Longrightarrow> agree A h h'"
  by (auto simp: agree_def)

lemma agree_prefix: "prefix h h' \<Longrightarrow> B \<subseteq> {..<length h} \<Longrightarrow> agree B h h'"
  by (force simp: agree_def prefix_def nth_append)

lemma agree_update: "b \<in> B \<Longrightarrow> agree (- B) h (h[b := c] @ t)"
proof -
  assume "b \<in> B"
  then have "h[b := c] ! a = h ! a" if "a \<notin> B" for a using that by (metis nth_list_update_neq)
  then show ?thesis by (simp add: agree_def nth_append)
qed

context copyable begin

lemma frame_prefix:
  assumes "wf_in V h x" and "prefix h h'"
  shows "wf_in V h' x \<and> val V h' x = val V h x \<and> reach V h' x = reach V h x"
  using assms by (intro frame agree_prefix reach_allocated)

text \<open>A copy stays one when more is allocated after it, and when its source was allocated before.\<close>

lemma copied_later:
  assumes "copied V h x h1 y" and "prefix h1 h2"
  shows "copied V h x h2 y"
proof -
  from assms(1) have c: "prefix h h1" "wf_in V h1 y" "val V h1 y = val V h x"
    "reach V h1 y \<subseteq> {length h..<length h1}"
    by (simp_all add: copied_def)
  with frame_prefix [OF c(2) assms(2)] prefix_length_le [OF assms(2)]
    prefix_order.trans [OF c(1) assms(2)] show ?thesis
    by (auto simp: copied_def)
qed

lemma copied_earlier:
  assumes "copied V h x h1 y" and "prefix h0 h" and "wf_in V h0 x"
  shows "copied V h0 x h1 y"
proof -
  from assms(1) have c: "prefix h h1" "wf_in V h1 y" "val V h1 y = val V h x"
    "reach V h1 y \<subseteq> {length h..<length h1}"
    by (simp_all add: copied_def)
  with frame_prefix [OF assms(3,2)] prefix_length_le [OF assms(2)]
    prefix_order.trans [OF assms(2) c(1)] show ?thesis
    by (auto simp: copied_def)
qed

lemma copies:
  assumes "wf_in V h x"
  shows "copied V h x (snd (run_state (cp x) h)) (fst (run_state (cp x) h))"
  using copy_copied [OF assms] by (cases "run_state (cp x) h") simp

lemma copied_disjoint:
  assumes "wf_in V h x" and "copied V h x h' y"
  shows "reach V h x \<inter> reach V h' y = {}"
proof -
  have "reach V h' y \<subseteq> {length h..<length h'}" using assms(2) by (simp add: copied_def)
  with reach_allocated [OF assms(1)] show ?thesis by fastforce
qed

text \<open>Writes to blocks the original reaches do not show in the copy, and the other way round.\<close>

lemma isolated:
  assumes "wf_in V h x" and "run_state (cp x) h = (y, h')" and "agree (- reach V h x) h' h''"
  shows "val V h'' y = val V h x"
proof -
  have c: "copied V h x h' y" by (rule copy_copied [OF assms(1,2)])
  have "reach V h' y \<subseteq> - reach V h x" using copied_disjoint [OF assms(1) c] by blast
  with assms(3) have "agree (reach V h' y) h' h''" by (rule agree_mono)
  with c show ?thesis using frame [of h' y h''] by (simp add: copied_def)
qed

lemma original_kept:
  assumes "wf_in V h x" and "run_state (cp x) h = (y, h')" and "agree (- reach V h' y) h' h''"
  shows "val V h'' x = val V h x"
proof -
  have c: "copied V h x h' y" by (rule copy_copied [OF assms(1,2)])
  have x: "wf_in V h' x" "val V h' x = val V h x" "reach V h' x = reach V h x"
    using frame_prefix [of h x h'] assms(1) c by (simp_all add: copied_def)
  have "reach V h x \<subseteq> - reach V h' y" using copied_disjoint [OF assms(1) c] by blast
  with assms(3) have "agree (reach V h' x) h' h''" unfolding x(3) by (rule agree_mono)
  with x frame [of h' x h''] show ?thesis by simp
qed

end

subsection \<open>Closure of the contract\<close>

lemma run_heap [simp]:
  "run_state (alloc k es) h = (length h, h @ [put k es])"
  "run_state (new k) h = ((length h, 0), h @ [put k [zero_value k]])"
  "run_state (make_slice k n) h =
     (\<lparr>sl_block = length h, sl_off = 0, sl_len = n\<rparr>, h @ [put k (replicate n (zero_value k))])"
  "run_state (deref k p) h = (elem_at k h p, h)"
  "run_state (assign k p v) h =
     ((), write_block k (fst p) ((block k h (fst p))[snd p := v]) h)"
  by (simp_all add: alloc_def new_def make_slice_def deref_def assign_def)

lemma copyable_inline: "copyable (inline f) return"
  by unfold_locales (simp_all add: copied_def)

lemma copyable_pair:
  assumes "copyable V cv" and "copyable W cw"
  shows "copyable (pair_view V W) (\<lambda>z. do { x \<leftarrow> cv (fst z); y \<leftarrow> cw (snd z); return (x, y) })"
proof
  fix h :: "'a list" and z h' y
  note V = copyable.reach_allocated [OF assms(1)] copyable.frame [OF assms(1)]
  note W = copyable.reach_allocated [OF assms(2)] copyable.frame [OF assms(2)]
  assume wf: "wf_in (pair_view V W) h z"
  then show "reach (pair_view V W) h z \<subseteq> {..<length h}"
    using V(1) [of h "fst z"] W(1) [of h "snd z"] by simp
  show "wf_in (pair_view V W) h' z \<and> val (pair_view V W) h' z = val (pair_view V W) h z \<and>
      reach (pair_view V W) h' z = reach (pair_view V W) h z"
    if "agree (reach (pair_view V W) h z) h h'"
    using wf V(2) [of h "fst z" h'] W(2) [of h "snd z" h'] agree_mono [OF that] by simp
  show "copied (pair_view V W) h z h' y"
    if run: "run_state (do { x \<leftarrow> cv (fst z); y \<leftarrow> cw (snd z); return (x, y) }) h = (y, h')"
  proof -
    obtain a h1 where 1: "run_state (cv (fst z)) h = (a, h1)" by fastforce
    obtain b h2 where 2: "run_state (cw (snd z)) h1 = (b, h2)" by fastforce
    from run 1 2 have y: "y = (a, b)" "h' = h2" by simp_all
    have a: "copied V h (fst z) h1 a"
      by (rule copyable.copy_copied [OF assms(1) _ 1]) (use wf in simp)
    then have p: "prefix h h1" by (simp add: copied_def)
    have "wf_in W h1 (snd z)" using copyable.frame_prefix [OF assms(2) _ p] wf by simp
    from copyable.copy_copied [OF assms(2) this 2] have b: "copied W h1 (snd z) h2 b" .
    then have "prefix h1 h2" by (simp add: copied_def)
    with a have "copied V h (fst z) h2 a" by (rule copyable.copied_later [OF assms(1)])
    moreover from b p have "copied W h (snd z) h2 b"
      by (rule copyable.copied_earlier [OF assms(2)]) (use wf in simp)
    ultimately show ?thesis unfolding y by (simp add: copied_def)
  qed
qed

lemma copyable_struct:
  assumes "copyable V cp"
    and "\<And>s t. get (upd s t) = t" and "\<And>s t. build (upd s t) = build s"
    and "\<And>s. into s = do { t \<leftarrow> cp (get s); return (upd s t) }"
  shows "copyable (struct_view get build V) into"
proof
  fix h :: "'a list" and s h' y
  note V = copyable.reach_allocated [OF assms(1)] copyable.frame [OF assms(1)]
  assume wf: "wf_in (struct_view get build V) h s"
  then show "reach (struct_view get build V) h s \<subseteq> {..<length h}"
    using V(1) [of h "get s"] by simp
  show "wf_in (struct_view get build V) h' s \<and>
      val (struct_view get build V) h' s = val (struct_view get build V) h s \<and>
      reach (struct_view get build V) h' s = reach (struct_view get build V) h s"
    if "agree (reach (struct_view get build V) h s) h h'"
    using wf V(2) [of h "get s" h'] that by simp
  show "copied (struct_view get build V) h s h' y" if run: "run_state (into s) h = (y, h')"
  proof -
    obtain t h1 where 1: "run_state (cp (get s)) h = (t, h1)" by fastforce
    from run 1 have y: "y = upd s t" "h' = h1" by (simp_all add: assms(4))
    have "copied V h (get s) h1 t"
      by (rule copyable.copy_copied [OF assms(1) _ 1]) (use wf in simp)
    then show ?thesis unfolding y by (simp add: copied_def assms(2,3))
  qed
qed

text \<open>What is read depends on the block only.\<close>

lemma block_cong: "length h \<le> length h' \<Longrightarrow> b < length h \<Longrightarrow> h' ! b = h ! b \<Longrightarrow> block k h' b = block k h b"
  by (simp add: block_def)

lemma elem_at_cong: "block k h' (fst p) = block k h (fst p) \<Longrightarrow> elem_at k h' p = elem_at k h p"
  by (simp add: elem_at_def)

lemma elems_cong: "block k h' (sl_block s) = block k h (sl_block s) \<Longrightarrow> elems k h' s = elems k h s"
  by (simp add: elems_def)

lemma block_agree: "agree B h h' \<Longrightarrow> b \<in> B \<Longrightarrow> b < length h \<Longrightarrow> block k h' b = block k h b"
  by (rule block_cong) (auto simp: agree_def)

lemma block_prefix: "prefix h h' \<Longrightarrow> b < length h \<Longrightarrow> block k h' b = block k h b"
  by (auto simp: prefix_def block_def nth_append)

lemma block_used: "i < length (block k h b) \<Longrightarrow> b < length h"
  by (simp add: block_def split: if_splits)

lemma write_fresh [simp]: "write_block k (length h) es (h @ c # t) = h @ put k es # t"
  by (simp add: write_block_def)

context go_kind begin

lemma block_fresh [simp]: "block k (h @ put k es # t) (length h) = es"
  by (simp add: block_def got_put)

end

text \<open>
  The element \<open>y\<close> stands for \<open>v\<close> of the old heap \<open>h\<close> and reaches neither an old block nor
  the one allocated first. It goes on to do so when that block is written and others are allocated.
\<close>

definition stored :: "('c, 'x, 'a) view \<Rightarrow> 'c list \<Rightarrow> 'x \<Rightarrow> 'c list \<Rightarrow> 'x \<Rightarrow> bool" where
  "stored V h v h' y \<longleftrightarrow>
     wf_in V h' y \<and> val V h' y = val V h v \<and> reach V h' y \<subseteq> {Suc (length h)..<length h'}"

lemma stored_later:
  assumes "copyable V into" and "stored V h v (h @ c # t) y"
  shows "stored V h v (h @ d # t @ u) y"
proof -
  have r: "reach V (h @ c # t) y \<subseteq> {Suc (length h)..<length (h @ c # t)}"
    using assms(2) by (simp add: stored_def)
  then have "agree (reach V (h @ c # t) y) (h @ c # t) (h @ d # t @ u)"
    by (fastforce simp: agree_def nth_append nth_Cons')
  with copyable.frame [OF assms(1) _ this] r assms(2) show ?thesis
    by (fastforce simp: stored_def)
qed

lemma copied_stored:
  assumes "copyable V into" and "wf_in V h v" and "run_state (into v) (h @ c # t) = (y, h1)"
  obtains u where "h1 = h @ c # t @ u" and "stored V h v (h @ d # t @ u) y"
proof -
  have v: "wf_in V (h @ c # t) v" "val V (h @ c # t) v = val V h v"
    using copyable.frame_prefix [OF assms(1,2), of "h @ c # t"] by simp_all
  have copied: "copied V (h @ c # t) v h1 y"
    by (rule copyable.copy_copied [OF assms(1) v(1) assms(3)])
  then obtain u where u: "h1 = h @ c # t @ u" by (auto simp: copied_def prefix_def)
  have "stored V h v (h @ c # t @ u) y"
    using copied v(2) by (auto simp: stored_def copied_def u)
  from stored_later [where u = "[]", OF assms(1) this] have "stored V h v (h @ d # t @ u) y" by simp
  with u show thesis by (rule that)
qed

lemma copyable_ptr:
  assumes "go_kind k" and "copyable V into"
  shows "copyable (ptr_view k V) (deep_copy k into)"
proof
  fix h :: "'a list" and x h' y
  note V = copyable.reach_allocated [OF assms(2)] copyable.frame [OF assms(2)]
  assume wf: "wf_in (ptr_view k V) h x"
  show "reach (ptr_view k V) h x \<subseteq> {..<length h}"
    using wf V(1) by (cases x) (auto dest: block_used)
  show "wf_in (ptr_view k V) h' x \<and> val (ptr_view k V) h' x = val (ptr_view k V) h x \<and>
      reach (ptr_view k V) h' x = reach (ptr_view k V) h x"
    if a: "agree (reach (ptr_view k V) h x) h h'"
  proof (cases x)
    case (Some p)
    have b: "block k h' (fst p) = block k h (fst p)"
      using wf a by (intro block_agree [OF a]) (auto simp: Some dest: block_used)
    have "agree (reach V h (elem_at k h p)) h h'"
      using a by (rule agree_mono) (auto simp: Some)
    with V(2) [of h "elem_at k h p" h'] wf show ?thesis
      by (simp add: Some b elem_at_cong [OF b])
  qed simp
  show "copied (ptr_view k V) h x h' y" if run: "run_state (deep_copy k into x) h = (y, h')"
  proof (cases x)
    case None
    with run show ?thesis by (simp add: deep_copy_def copied_def)
  next
    case (Some p)
    let ?z = "put k [zero_value k]" and ?v = "elem_at k h p"
    have b: "fst p < length h" using wf by (auto simp: Some dest: block_used)
    have v: "elem_at k (h @ [?z]) p = ?v" by (rule elem_at_cong [OF block_prefix]) (simp_all add: b)
    obtain v' h1 where 1: "run_state (into ?v) (h @ [?z]) = (v', h1)" by fastforce
    have "wf_in V h ?v" using wf by (simp add: Some)
    from copied_stored [where t = "[]" and d = "put k [v']", OF assms(2) this 1]
    obtain u where u: "h1 = h @ ?z # u" "stored V h ?v (h @ put k [v'] # u) v'" by auto
    have y: "y = Some (length h, 0)" "h' = h @ put k [v'] # u"
      using run 1 by (simp_all add: Some deep_copy_def v u(1) go_kind.block_fresh [OF assms(1)])
    have e: "elem_at k h' (length h, 0) = v'"
      by (simp add: y elem_at_def go_kind.block_fresh [OF assms(1)])
    from u(2) show ?thesis
      by (auto simp: stored_def copied_def Some y e [unfolded y] go_kind.block_fresh [OF assms(1)])
  qed
qed

lemma slice_view_laws:
  assumes "copyable V into" and "wf_in (slice_view k V) h x"
  shows slice_reach_allocated: "reach (slice_view k V) h x \<subseteq> {..<length h}"
    and slice_frame: "agree (reach (slice_view k V) h x) h h' \<Longrightarrow>
      wf_in (slice_view k V) h' x \<and> val (slice_view k V) h' x = val (slice_view k V) h x \<and>
      reach (slice_view k V) h' x = reach (slice_view k V) h x"
proof -
  note V = copyable.reach_allocated [OF assms(1)] copyable.frame [OF assms(1)]
  show "reach (slice_view k V) h x \<subseteq> {..<length h}"
    using assms(2) V(1) by (cases x) (auto simp: list_all_iff)
  assume a: "agree (reach (slice_view k V) h x) h h'"
  show "wf_in (slice_view k V) h' x \<and> val (slice_view k V) h' x = val (slice_view k V) h x \<and>
      reach (slice_view k V) h' x = reach (slice_view k V) h x"
  proof (cases x)
    case (Some s)
    have b: "block k h' (sl_block s) = block k h (sl_block s)"
      using assms(2) by (intro block_agree [OF a]) (auto simp: Some)
    have e: "wf_in V h' v \<and> val V h' v = val V h v \<and> reach V h' v = reach V h v"
      if "v \<in> set (elems k h s)" for v
      using that assms(2) by (intro V(2) agree_mono [OF a]) (auto simp: Some list_all_iff)
    show ?thesis using assms(2) a e
      by (auto simp: Some b elems_cong [OF b] list_all_iff agree_def)
  qed simp
qed

lemma length_elems: "sl_off s + sl_len s \<le> length (block k h (sl_block s)) \<Longrightarrow> length (elems k h s) = sl_len s"
  by (simp add: elems_def)

lemma elem_at_slot:
  "sl_off s + sl_len s \<le> length (block k h (sl_block s)) \<Longrightarrow> i < sl_len s \<Longrightarrow>
   elem_at k h (slot s i) = elems k h s ! i"
  by (simp add: elem_at_def slot_def elems_def)

text \<open>A fresh slice full of stored elements is a copy.\<close>

lemma stored_slice_copied:
  assumes "go_kind k" and "copyable V into" and "wf_in (slice_view k V) h (Some s)"
    and "list_all2 (\<lambda>v y. stored V h v (h @ put k ys # t) y) (elems k h s) ys"
  shows "copied (slice_view k V) h (Some s) (h @ put k ys # t)
     (Some \<lparr>sl_block = length h, sl_off = 0, sl_len = sl_len s\<rparr>)"
proof -
  let ?h = "h @ put k ys # t" and ?s = "\<lparr>sl_block = length h, sl_off = 0, sl_len = sl_len s\<rparr>"
  have len: "length (elems k h s) = sl_len s" using assms(3) by (simp add: length_elems)
  then have ys: "length ys = sl_len s" using list_all2_lengthD [OF assms(4)] by simp
  have e: "elems k ?h ?s = ys"
    by (simp add: elems_def go_kind.block_fresh [OF assms(1)] ys)
  have st: "stored V h (elems k h s ! i) ?h (ys ! i)" if "i < sl_len s" for i
    using list_all2_nthD [OF assms(4)] that len by simp
  then have "list_all (wf_in V ?h) ys" and "map (val V ?h) ys = map (val V h) (elems k h s)"
    by (auto simp: list_all_length ys len stored_def intro!: nth_equalityI)
  moreover have "reach V ?h y \<subseteq> {Suc (length h)..<length ?h}" if "y \<in> set ys" for y
    using that st by (auto simp: in_set_conv_nth ys stored_def)
  ultimately show ?thesis
    by (fastforce simp: copied_def e [simplified] go_kind.block_fresh [OF assms(1)] ys)
qed

lemma copyable_slice:
  assumes "go_kind k" and "copyable V into"
  shows "copyable (slice_view k V) (copy_each k into)"
proof
  fix h :: "'a list" and x h' y
  assume wf: "wf_in (slice_view k V) h x"
  show "reach (slice_view k V) h x \<subseteq> {..<length h}"
    by (rule slice_reach_allocated [OF assms(2) wf])
  show "wf_in (slice_view k V) h' x \<and> val (slice_view k V) h' x = val (slice_view k V) h x \<and>
      reach (slice_view k V) h' x = reach (slice_view k V) h x"
    if "agree (reach (slice_view k V) h x) h h'"
    by (rule slice_frame [OF assms(2) wf that])
  show "copied (slice_view k V) h x h' y" if run: "run_state (copy_each k into x) h = (y, h')"
  proof (cases x)
    case None
    with run show ?thesis by (simp add: copy_each_def copied_def)
  next
    case (Some s)
    let ?out = "\<lparr>sl_block = length h, sl_off = 0, sl_len = sl_len s\<rparr>"
    define body where "body = (\<lambda>i. do { v \<leftarrow> deref k (slot s i); v' \<leftarrow> into v; assign k (slot ?out i) v' })"
    have s: "sl_block s < length h" "sl_off s + sl_len s \<le> length (block k h (sl_block s))"
      "\<And>i. i < sl_len s \<Longrightarrow> wf_in V h (elems k h s ! i)"
      using wf by (auto simp: Some list_all_length length_elems)
    have "\<exists>ys t. run_state (for_range j body) (h @ [put k (replicate (sl_len s) (zero_value k))]) =
          ((), h @ put k (ys @ replicate (sl_len s - j) (zero_value k)) # t) \<and>
        list_all2 (\<lambda>v. stored V h v (h @ put k (ys @ replicate (sl_len s - j) (zero_value k)) # t))
          (take j (elems k h s)) ys" if "j \<le> sl_len s" for j
      using that
    proof (induction j)
      case 0
      show ?case by simp
    next
      case (Suc j)
      let ?c = "\<lambda>ys. put k (ys @ replicate (sl_len s - j) (zero_value k))"
      let ?d = "\<lambda>ys v. put k (ys @ v # replicate (sl_len s - Suc j) (zero_value k))"
      let ?v = "elems k h s ! j"
      from Suc obtain ys t where run: "run_state (for_range j body)
          (h @ [put k (replicate (sl_len s) (zero_value k))]) = ((), h @ ?c ys # t)"
        and all: "list_all2 (\<lambda>v. stored V h v (h @ ?c ys # t)) (take j (elems k h s)) ys" by auto
      have ys: "length ys = j" using list_all2_lengthD [OF all] Suc.prems s(2) by (simp add: length_elems)
      have v: "elem_at k (h @ ?c ys # t) (slot s j) = ?v"
        using Suc.prems s
        by (simp add: elem_at_slot [symmetric] slot_def elem_at_cong [OF block_prefix])
      obtain v' h1 where 1: "run_state (into ?v) (h @ ?c ys # t) = (v', h1)" by fastforce
      from copied_stored [where d = "?d ys v'", OF assms(2) s(3) 1] Suc.prems
      obtain u where u: "h1 = h @ ?c ys # t @ u" "stored V h ?v (h @ ?d ys v' # t @ u) v'" by auto
      have upd: "(ys @ replicate (sl_len s - j) (zero_value k))[j := v'] =
          ys @ v' # replicate (sl_len s - Suc j) (zero_value k)"
        using Suc.prems ys by (simp add: list_update_append Suc_diff_Suc [symmetric])
      have "run_state (body j) (h @ ?c ys # t) = ((), h @ ?d ys v' # t @ u)"
        by (simp add: body_def v 1 u(1) go_kind.block_fresh [OF assms(1)])
          (simp add: slot_def go_kind.block_fresh [OF assms(1)] upd)
      with run have "run_state (for_range (Suc j) body)
          (h @ [put k (replicate (sl_len s) (zero_value k))]) = ((), h @ ?d ys v' # t @ u)" by simp
      moreover have "list_all2 (\<lambda>v. stored V h v (h @ ?d ys v' # t @ u)) (take (Suc j) (elems k h s)) (ys @ [v'])"
        using Suc.prems s(2) u(2) list_all2_mono [OF all stored_later [OF assms(2)]]
        by (simp add: take_Suc_conv_app_nth length_elems list_all2_appendI)
      ultimately show ?case by (intro exI [of _ "ys @ [v']"] exI [of _ "t @ u"]) simp
    qed
    from this [of "sl_len s"] obtain ys t where r: "run_state (for_range (sl_len s) body)
        (h @ [put k (replicate (sl_len s) (zero_value k))]) = ((), h @ put k ys # t)"
      and all: "list_all2 (\<lambda>v. stored V h v (h @ put k ys # t)) (elems k h s) ys"
      using s(2) by (auto simp: length_elems)
    from run have y: "y = Some ?out" "h' = h @ put k ys # t" by (simp_all add: Some copy_each_def r [unfolded body_def])
    show ?thesis
      using stored_slice_copied [OF assms wf [unfolded Some] all] by (simp add: Some y)
  qed
qed

lemma copyable_flat:
  assumes "go_kind k"
  shows "copyable (slice_view k (inline f)) (copy_flat k)"
proof
  fix h :: "'a list" and x h' y
  assume wf: "wf_in (slice_view k (inline f)) h x"
  show "reach (slice_view k (inline f)) h x \<subseteq> {..<length h}"
    by (rule slice_reach_allocated [OF copyable_inline wf])
  show "wf_in (slice_view k (inline f)) h' x \<and>
      val (slice_view k (inline f)) h' x = val (slice_view k (inline f)) h x \<and>
      reach (slice_view k (inline f)) h' x = reach (slice_view k (inline f)) h x"
    if "agree (reach (slice_view k (inline f)) h x) h h'"
    by (rule slice_frame [OF copyable_inline wf that])
  show "copied (slice_view k (inline f)) h x h' y" if run: "run_state (copy_flat k x) h = (y, h')"
  proof (cases x)
    case None
    with run show ?thesis by (simp add: copy_flat_def copied_def)
  next
    case (Some s)
    let ?h = "h @ [put k (replicate (sl_len s) (zero_value k))]"
    have e: "elems k ?h s = elems k h s"
      using wf by (intro elems_cong block_prefix) (simp_all add: Some)
    have len: "length (elems k h s) = sl_len s" using wf by (simp add: Some length_elems)
    have y: "y = Some \<lparr>sl_block = length h, sl_off = 0, sl_len = sl_len s\<rparr>"
      "h' = h @ put k (elems k h s) # []"
      using run len by (auto simp: Some copy_flat_def copy_elems_def e Let_def
          go_kind.block_fresh [OF assms])
    show ?thesis
      unfolding Some y
      by (rule stored_slice_copied [OF assms copyable_inline wf [unfolded Some]])
        (simp add: stored_def list_all2_same)
  qed
qed

end
