(* ===== verification/DeepCopy.thy ===== *)
theory DeepCopy
  imports ApiTypes GoHeap
begin

text \<open>
  \<open>api/v1alpha1/zz_generated.deepcopy.go\<close>: the deep copies every cache read and every
  patch helper of the controllers relies on. Here the API types are laid out as Go stores them: a
  pointer or a slice is an address, so two objects can share what they point to, and the theory
  \<open>DeepCopyProps\<close> relates this layout to the records of \<open>ApiTypes\<close>. \<open>DeepCopyInto\<close> takes the struct its
  receiver points to and returns the struct it leaves in \<open>*out\<close>: it begins with
  \<open>*out = *in\<close>, so every field it does not assign is the receiver's. The structs of other packages (object and list
  metadata, quantities, conditions) are values of the type \<open>'x\<close>, and their own copying
  methods a parameter.
\<close>

subsection \<open>The types as stored\<close>

record TypeMeta =
  TypeKind :: string
  TypeAPIVersion :: string

record 'x go_DataDisk =
  gd_Size :: 'x
  gd_BlockSize :: int64

record go_OxideClusterInitializationStatus =
  gci_Provisioned :: "ptr option"

record go_OxideClusterStatus =
  gcs_Conditions :: "slice option"
  gcs_Initialization :: go_OxideClusterInitializationStatus

record 'x go_OxideCluster =
  gc_TypeMeta :: TypeMeta
  gc_ObjectMeta :: 'x
  gc_Spec :: OxideClusterSpec
  gc_Status :: go_OxideClusterStatus

record 'x go_OxideClusterList =
  gcl_TypeMeta :: TypeMeta
  gcl_ListMeta :: 'x
  gcl_Items :: "slice option"

record go_OxideMachineInitializationStatus =
  gmi_Provisioned :: "ptr option"

record 'x go_OxideMachineSpec =
  gms_ProviderID :: string
  gms_NCpus :: int64
  gms_Memory :: 'x
  gms_DiskSize :: 'x
  gms_ImageID :: string
  gms_AntiAffinityGroups :: "slice option"
  gms_SSHPublicKeys :: "slice option"
  gms_IPPool :: string
  gms_DataDisks :: "slice option"

record go_OxideMachineStatus =
  gmt_Initialization :: go_OxideMachineInitializationStatus
  gmt_Conditions :: "slice option"
  gmt_Addresses :: "slice option"

record 'x go_OxideMachine =
  gm_TypeMeta :: TypeMeta
  gm_ObjectMeta :: 'x
  gm_Spec :: "'x go_OxideMachineSpec"
  gm_Status :: go_OxideMachineStatus

record 'x go_OxideMachineList =
  gml_TypeMeta :: TypeMeta
  gml_ListMeta :: 'x
  gml_Items :: "slice option"

record 'x go_OxideMachineTemplateResource =
  gtr_ObjectMeta :: 'x
  gtr_Spec :: "'x go_OxideMachineSpec"

record 'x go_OxideMachineTemplateSpec =
  gts_Template :: "'x go_OxideMachineTemplateResource"

record 'x go_OxideMachineTemplate =
  gt_TypeMeta :: TypeMeta
  gt_ObjectMeta :: 'x
  gt_Spec :: "'x go_OxideMachineTemplateSpec"

record 'x go_OxideMachineTemplateList =
  gtl_TypeMeta :: TypeMeta
  gtl_ListMeta :: 'x
  gtl_Items :: "slice option"

text \<open>A block of memory holds values of one of the types.\<close>

datatype 'x block =
    BoolBlock "bool list"
  | StringBlock "string list"
  | MachineAddressBlock "MachineAddress list"
  | ConditionBlock "'x list"
  | DataDiskBlock "'x go_DataDisk list"
  | OxideClusterBlock "'x go_OxideCluster list"
  | OxideClusterInitializationStatusBlock "go_OxideClusterInitializationStatus list"
  | OxideClusterListBlock "'x go_OxideClusterList list"
  | OxideClusterSpecBlock "OxideClusterSpec list"
  | OxideClusterStatusBlock "go_OxideClusterStatus list"
  | OxideMachineBlock "'x go_OxideMachine list"
  | OxideMachineInitializationStatusBlock "go_OxideMachineInitializationStatus list"
  | OxideMachineListBlock "'x go_OxideMachineList list"
  | OxideMachineSpecBlock "'x go_OxideMachineSpec list"
  | OxideMachineStatusBlock "go_OxideMachineStatus list"
  | OxideMachineTemplateBlock "'x go_OxideMachineTemplate list"
  | OxideMachineTemplateListBlock "'x go_OxideMachineTemplateList list"
  | OxideMachineTemplateResourceBlock "'x go_OxideMachineTemplateResource list"
  | OxideMachineTemplateSpecBlock "'x go_OxideMachineTemplateSpec list"
  | SecretReferenceBlock "SecretReference list"

type_synonym 'x heap = "'x block list"

text \<open>What the generated code calls of other packages, and the zero values of their structs.\<close>

record 'x ForeignCopies =
  ObjectMeta_DeepCopyInto :: "'x \<Rightarrow> ('x heap, 'x) io"
  ListMeta_DeepCopyInto :: "'x \<Rightarrow> ('x heap, 'x) io"
  TemplateMeta_DeepCopyInto :: "'x \<Rightarrow> ('x heap, 'x) io"
  Condition_DeepCopyInto :: "'x \<Rightarrow> ('x heap, 'x) io"
  Quantity_DeepCopy :: "'x \<Rightarrow> ('x heap, 'x) io"
  ObjectMeta_zero :: 'x
  ListMeta_zero :: 'x
  TemplateMeta_zero :: 'x
  Condition_zero :: 'x
  Quantity_zero :: 'x

text \<open>Go's zero values, which \<open>new\<close> and \<open>make\<close> fill memory with.\<close>

definition TypeMeta_zero :: TypeMeta where
  "TypeMeta_zero = \<lparr>TypeKind = [], TypeAPIVersion = []\<rparr>"

text \<open>The zero address type is the empty string, which is no address type; no zero address is ever read.\<close>

definition MachineAddress_zero :: MachineAddress where
  "MachineAddress_zero = \<lparr>AddressType = MachineInternalIP, Address = []\<rparr>"

definition SecretReference_zero :: SecretReference where
  "SecretReference_zero = \<lparr>RefName = [], RefNamespace = []\<rparr>"

definition OxideClusterSpec_zero :: OxideClusterSpec where
  "OxideClusterSpec_zero =
     \<lparr>Project = [], VPC = [], Subnet = [], CredentialsRef = SecretReference_zero,
      ControlPlaneEndpoint = \<lparr>Host = [], Port = 0\<rparr>, ClusterIPPool = [], IPType = []\<rparr>"

definition OxideClusterInitializationStatus_zero :: go_OxideClusterInitializationStatus where
  "OxideClusterInitializationStatus_zero = \<lparr>gci_Provisioned = None\<rparr>"

definition OxideClusterStatus_zero :: go_OxideClusterStatus where
  "OxideClusterStatus_zero =
     \<lparr>gcs_Conditions = None, gcs_Initialization = OxideClusterInitializationStatus_zero\<rparr>"

definition OxideCluster_zero :: "'x ForeignCopies \<Rightarrow> 'x go_OxideCluster" where
  "OxideCluster_zero X =
     \<lparr>gc_TypeMeta = TypeMeta_zero, gc_ObjectMeta = ObjectMeta_zero X,
      gc_Spec = OxideClusterSpec_zero, gc_Status = OxideClusterStatus_zero\<rparr>"

definition OxideClusterList_zero :: "'x ForeignCopies \<Rightarrow> 'x go_OxideClusterList" where
  "OxideClusterList_zero X =
     \<lparr>gcl_TypeMeta = TypeMeta_zero, gcl_ListMeta = ListMeta_zero X, gcl_Items = None\<rparr>"

definition DataDisk_zero :: "'x ForeignCopies \<Rightarrow> 'x go_DataDisk" where
  "DataDisk_zero X = \<lparr>gd_Size = Quantity_zero X, gd_BlockSize = 0\<rparr>"

definition OxideMachineInitializationStatus_zero :: go_OxideMachineInitializationStatus where
  "OxideMachineInitializationStatus_zero = \<lparr>gmi_Provisioned = None\<rparr>"

definition OxideMachineSpec_zero :: "'x ForeignCopies \<Rightarrow> 'x go_OxideMachineSpec" where
  "OxideMachineSpec_zero X =
     \<lparr>gms_ProviderID = [], gms_NCpus = 0, gms_Memory = Quantity_zero X, gms_DiskSize = Quantity_zero X,
      gms_ImageID = [], gms_AntiAffinityGroups = None, gms_SSHPublicKeys = None, gms_IPPool = [],
      gms_DataDisks = None\<rparr>"

definition OxideMachineStatus_zero :: go_OxideMachineStatus where
  "OxideMachineStatus_zero =
     \<lparr>gmt_Initialization = OxideMachineInitializationStatus_zero, gmt_Conditions = None,
      gmt_Addresses = None\<rparr>"

definition OxideMachine_zero :: "'x ForeignCopies \<Rightarrow> 'x go_OxideMachine" where
  "OxideMachine_zero X =
     \<lparr>gm_TypeMeta = TypeMeta_zero, gm_ObjectMeta = ObjectMeta_zero X,
      gm_Spec = OxideMachineSpec_zero X, gm_Status = OxideMachineStatus_zero\<rparr>"

definition OxideMachineList_zero :: "'x ForeignCopies \<Rightarrow> 'x go_OxideMachineList" where
  "OxideMachineList_zero X =
     \<lparr>gml_TypeMeta = TypeMeta_zero, gml_ListMeta = ListMeta_zero X, gml_Items = None\<rparr>"

definition OxideMachineTemplateResource_zero :: "'x ForeignCopies \<Rightarrow> 'x go_OxideMachineTemplateResource" where
  "OxideMachineTemplateResource_zero X =
     \<lparr>gtr_ObjectMeta = TemplateMeta_zero X, gtr_Spec = OxideMachineSpec_zero X\<rparr>"

definition OxideMachineTemplateSpec_zero :: "'x ForeignCopies \<Rightarrow> 'x go_OxideMachineTemplateSpec" where
  "OxideMachineTemplateSpec_zero X = \<lparr>gts_Template = OxideMachineTemplateResource_zero X\<rparr>"

definition OxideMachineTemplate_zero :: "'x ForeignCopies \<Rightarrow> 'x go_OxideMachineTemplate" where
  "OxideMachineTemplate_zero X =
     \<lparr>gt_TypeMeta = TypeMeta_zero, gt_ObjectMeta = ObjectMeta_zero X,
      gt_Spec = OxideMachineTemplateSpec_zero X\<rparr>"

definition OxideMachineTemplateList_zero :: "'x ForeignCopies \<Rightarrow> 'x go_OxideMachineTemplateList" where
  "OxideMachineTemplateList_zero X =
     \<lparr>gtl_TypeMeta = TypeMeta_zero, gtl_ListMeta = ListMeta_zero X, gtl_Items = None\<rparr>"

subsection \<open>How blocks of each type are read and written\<close>

definition bool_kind :: "('x block, bool) kind" where
  "bool_kind =
     \<lparr>put = BoolBlock, got = (\<lambda>c. case c of BoolBlock es \<Rightarrow> Some es | _ \<Rightarrow> None),
      zero_value = False\<rparr>"

definition string_kind :: "('x block, string) kind" where
  "string_kind =
     \<lparr>put = StringBlock, got = (\<lambda>c. case c of StringBlock es \<Rightarrow> Some es | _ \<Rightarrow> None),
      zero_value = []\<rparr>"

definition MachineAddress_kind :: "('x block, MachineAddress) kind" where
  "MachineAddress_kind =
     \<lparr>put = MachineAddressBlock, got = (\<lambda>c. case c of MachineAddressBlock es \<Rightarrow> Some es | _ \<Rightarrow> None),
      zero_value = MachineAddress_zero\<rparr>"

definition Condition_kind :: "'x ForeignCopies \<Rightarrow> ('x block, 'x) kind" where
  "Condition_kind X =
     \<lparr>put = ConditionBlock, got = (\<lambda>c. case c of ConditionBlock es \<Rightarrow> Some es | _ \<Rightarrow> None),
      zero_value = Condition_zero X\<rparr>"

definition DataDisk_kind :: "'x ForeignCopies \<Rightarrow> ('x block, 'x go_DataDisk) kind" where
  "DataDisk_kind X =
     \<lparr>put = DataDiskBlock, got = (\<lambda>c. case c of DataDiskBlock es \<Rightarrow> Some es | _ \<Rightarrow> None),
      zero_value = DataDisk_zero X\<rparr>"

definition OxideCluster_kind :: "'x ForeignCopies \<Rightarrow> ('x block, 'x go_OxideCluster) kind" where
  "OxideCluster_kind X =
     \<lparr>put = OxideClusterBlock, got = (\<lambda>c. case c of OxideClusterBlock es \<Rightarrow> Some es | _ \<Rightarrow> None),
      zero_value = OxideCluster_zero X\<rparr>"

definition OxideClusterInitializationStatus_kind :: "('x block, go_OxideClusterInitializationStatus) kind" where
  "OxideClusterInitializationStatus_kind =
     \<lparr>put = OxideClusterInitializationStatusBlock, got = (\<lambda>c. case c of OxideClusterInitializationStatusBlock es \<Rightarrow> Some es | _ \<Rightarrow> None),
      zero_value = OxideClusterInitializationStatus_zero\<rparr>"

definition OxideClusterList_kind :: "'x ForeignCopies \<Rightarrow> ('x block, 'x go_OxideClusterList) kind" where
  "OxideClusterList_kind X =
     \<lparr>put = OxideClusterListBlock, got = (\<lambda>c. case c of OxideClusterListBlock es \<Rightarrow> Some es | _ \<Rightarrow> None),
      zero_value = OxideClusterList_zero X\<rparr>"

definition OxideClusterSpec_kind :: "('x block, OxideClusterSpec) kind" where
  "OxideClusterSpec_kind =
     \<lparr>put = OxideClusterSpecBlock, got = (\<lambda>c. case c of OxideClusterSpecBlock es \<Rightarrow> Some es | _ \<Rightarrow> None),
      zero_value = OxideClusterSpec_zero\<rparr>"

definition OxideClusterStatus_kind :: "('x block, go_OxideClusterStatus) kind" where
  "OxideClusterStatus_kind =
     \<lparr>put = OxideClusterStatusBlock, got = (\<lambda>c. case c of OxideClusterStatusBlock es \<Rightarrow> Some es | _ \<Rightarrow> None),
      zero_value = OxideClusterStatus_zero\<rparr>"

definition OxideMachine_kind :: "'x ForeignCopies \<Rightarrow> ('x block, 'x go_OxideMachine) kind" where
  "OxideMachine_kind X =
     \<lparr>put = OxideMachineBlock, got = (\<lambda>c. case c of OxideMachineBlock es \<Rightarrow> Some es | _ \<Rightarrow> None),
      zero_value = OxideMachine_zero X\<rparr>"

definition OxideMachineInitializationStatus_kind :: "('x block, go_OxideMachineInitializationStatus) kind" where
  "OxideMachineInitializationStatus_kind =
     \<lparr>put = OxideMachineInitializationStatusBlock, got = (\<lambda>c. case c of OxideMachineInitializationStatusBlock es \<Rightarrow> Some es | _ \<Rightarrow> None),
      zero_value = OxideMachineInitializationStatus_zero\<rparr>"

definition OxideMachineList_kind :: "'x ForeignCopies \<Rightarrow> ('x block, 'x go_OxideMachineList) kind" where
  "OxideMachineList_kind X =
     \<lparr>put = OxideMachineListBlock, got = (\<lambda>c. case c of OxideMachineListBlock es \<Rightarrow> Some es | _ \<Rightarrow> None),
      zero_value = OxideMachineList_zero X\<rparr>"

definition OxideMachineSpec_kind :: "'x ForeignCopies \<Rightarrow> ('x block, 'x go_OxideMachineSpec) kind" where
  "OxideMachineSpec_kind X =
     \<lparr>put = OxideMachineSpecBlock, got = (\<lambda>c. case c of OxideMachineSpecBlock es \<Rightarrow> Some es | _ \<Rightarrow> None),
      zero_value = OxideMachineSpec_zero X\<rparr>"

definition OxideMachineStatus_kind :: "('x block, go_OxideMachineStatus) kind" where
  "OxideMachineStatus_kind =
     \<lparr>put = OxideMachineStatusBlock, got = (\<lambda>c. case c of OxideMachineStatusBlock es \<Rightarrow> Some es | _ \<Rightarrow> None),
      zero_value = OxideMachineStatus_zero\<rparr>"

definition OxideMachineTemplate_kind :: "'x ForeignCopies \<Rightarrow> ('x block, 'x go_OxideMachineTemplate) kind" where
  "OxideMachineTemplate_kind X =
     \<lparr>put = OxideMachineTemplateBlock, got = (\<lambda>c. case c of OxideMachineTemplateBlock es \<Rightarrow> Some es | _ \<Rightarrow> None),
      zero_value = OxideMachineTemplate_zero X\<rparr>"

definition OxideMachineTemplateList_kind :: "'x ForeignCopies \<Rightarrow> ('x block, 'x go_OxideMachineTemplateList) kind" where
  "OxideMachineTemplateList_kind X =
     \<lparr>put = OxideMachineTemplateListBlock, got = (\<lambda>c. case c of OxideMachineTemplateListBlock es \<Rightarrow> Some es | _ \<Rightarrow> None),
      zero_value = OxideMachineTemplateList_zero X\<rparr>"

definition OxideMachineTemplateResource_kind :: "'x ForeignCopies \<Rightarrow> ('x block, 'x go_OxideMachineTemplateResource) kind" where
  "OxideMachineTemplateResource_kind X =
     \<lparr>put = OxideMachineTemplateResourceBlock, got = (\<lambda>c. case c of OxideMachineTemplateResourceBlock es \<Rightarrow> Some es | _ \<Rightarrow> None),
      zero_value = OxideMachineTemplateResource_zero X\<rparr>"

definition OxideMachineTemplateSpec_kind :: "'x ForeignCopies \<Rightarrow> ('x block, 'x go_OxideMachineTemplateSpec) kind" where
  "OxideMachineTemplateSpec_kind X =
     \<lparr>put = OxideMachineTemplateSpecBlock, got = (\<lambda>c. case c of OxideMachineTemplateSpecBlock es \<Rightarrow> Some es | _ \<Rightarrow> None),
      zero_value = OxideMachineTemplateSpec_zero X\<rparr>"

definition SecretReference_kind :: "('x block, SecretReference) kind" where
  "SecretReference_kind =
     \<lparr>put = SecretReferenceBlock, got = (\<lambda>c. case c of SecretReferenceBlock es \<Rightarrow> Some es | _ \<Rightarrow> None),
      zero_value = SecretReference_zero\<rparr>"

interpretation bool_blocks: go_kind bool_kind
  by unfold_locales (simp add: bool_kind_def)

interpretation string_blocks: go_kind string_kind
  by unfold_locales (simp add: string_kind_def)

interpretation MachineAddress_blocks: go_kind MachineAddress_kind
  by unfold_locales (simp add: MachineAddress_kind_def)

interpretation Condition_blocks: go_kind "Condition_kind X" for X
  by unfold_locales (simp add: Condition_kind_def)

interpretation DataDisk_blocks: go_kind "DataDisk_kind X" for X
  by unfold_locales (simp add: DataDisk_kind_def)

interpretation OxideCluster_blocks: go_kind "OxideCluster_kind X" for X
  by unfold_locales (simp add: OxideCluster_kind_def)

interpretation OxideClusterInitializationStatus_blocks: go_kind OxideClusterInitializationStatus_kind
  by unfold_locales (simp add: OxideClusterInitializationStatus_kind_def)

interpretation OxideClusterList_blocks: go_kind "OxideClusterList_kind X" for X
  by unfold_locales (simp add: OxideClusterList_kind_def)

interpretation OxideClusterSpec_blocks: go_kind OxideClusterSpec_kind
  by unfold_locales (simp add: OxideClusterSpec_kind_def)

interpretation OxideClusterStatus_blocks: go_kind OxideClusterStatus_kind
  by unfold_locales (simp add: OxideClusterStatus_kind_def)

interpretation OxideMachine_blocks: go_kind "OxideMachine_kind X" for X
  by unfold_locales (simp add: OxideMachine_kind_def)

interpretation OxideMachineInitializationStatus_blocks: go_kind OxideMachineInitializationStatus_kind
  by unfold_locales (simp add: OxideMachineInitializationStatus_kind_def)

interpretation OxideMachineList_blocks: go_kind "OxideMachineList_kind X" for X
  by unfold_locales (simp add: OxideMachineList_kind_def)

interpretation OxideMachineSpec_blocks: go_kind "OxideMachineSpec_kind X" for X
  by unfold_locales (simp add: OxideMachineSpec_kind_def)

interpretation OxideMachineStatus_blocks: go_kind OxideMachineStatus_kind
  by unfold_locales (simp add: OxideMachineStatus_kind_def)

interpretation OxideMachineTemplate_blocks: go_kind "OxideMachineTemplate_kind X" for X
  by unfold_locales (simp add: OxideMachineTemplate_kind_def)

interpretation OxideMachineTemplateList_blocks: go_kind "OxideMachineTemplateList_kind X" for X
  by unfold_locales (simp add: OxideMachineTemplateList_kind_def)

interpretation OxideMachineTemplateResource_blocks: go_kind "OxideMachineTemplateResource_kind X" for X
  by unfold_locales (simp add: OxideMachineTemplateResource_kind_def)

interpretation OxideMachineTemplateSpec_blocks: go_kind "OxideMachineTemplateSpec_kind X" for X
  by unfold_locales (simp add: OxideMachineTemplateSpec_kind_def)

interpretation SecretReference_blocks: go_kind SecretReference_kind
  by unfold_locales (simp add: SecretReference_kind_def)

subsection \<open>DataDisk and SecretReference\<close>

definition DataDisk_DeepCopyInto ::
    "'x ForeignCopies \<Rightarrow> 'x go_DataDisk \<Rightarrow> ('x heap, 'x go_DataDisk) io" where
  "DataDisk_DeepCopyInto X inp = do {
     size \<leftarrow> Quantity_DeepCopy X (gd_Size inp);
     return (inp\<lparr>gd_Size := size\<rparr>)
   }"

definition DataDisk_DeepCopy ::
    "'x ForeignCopies \<Rightarrow> ptr option \<Rightarrow> ('x heap, ptr option) io" where
  "DataDisk_DeepCopy X = deep_copy (DataDisk_kind X) (DataDisk_DeepCopyInto X)"

definition SecretReference_DeepCopyInto :: "SecretReference \<Rightarrow> ('x heap, SecretReference) io" where
  "SecretReference_DeepCopyInto inp = return inp"

definition SecretReference_DeepCopy :: "ptr option \<Rightarrow> ('x heap, ptr option) io" where
  "SecretReference_DeepCopy = deep_copy SecretReference_kind SecretReference_DeepCopyInto"

subsection \<open>OxideCluster\<close>

definition OxideClusterSpec_DeepCopyInto :: "OxideClusterSpec \<Rightarrow> ('x heap, OxideClusterSpec) io" where
  "OxideClusterSpec_DeepCopyInto inp =
     return (inp\<lparr>CredentialsRef := CredentialsRef inp, ControlPlaneEndpoint := ControlPlaneEndpoint inp\<rparr>)"

definition OxideClusterSpec_DeepCopy :: "ptr option \<Rightarrow> ('x heap, ptr option) io" where
  "OxideClusterSpec_DeepCopy = deep_copy OxideClusterSpec_kind OxideClusterSpec_DeepCopyInto"

text \<open>The statements inside \<open>if in.Provisioned != nil\<close> copy one value behind a pointer.\<close>

definition OxideClusterInitializationStatus_DeepCopyInto ::
    "go_OxideClusterInitializationStatus \<Rightarrow> ('x heap, go_OxideClusterInitializationStatus) io" where
  "OxideClusterInitializationStatus_DeepCopyInto inp = do {
     provisioned \<leftarrow> deep_copy bool_kind return (gci_Provisioned inp);
     return (inp\<lparr>gci_Provisioned := provisioned\<rparr>)
   }"

definition OxideClusterInitializationStatus_DeepCopy :: "ptr option \<Rightarrow> ('x heap, ptr option) io" where
  "OxideClusterInitializationStatus_DeepCopy =
     deep_copy OxideClusterInitializationStatus_kind OxideClusterInitializationStatus_DeepCopyInto"

definition OxideClusterStatus_DeepCopyInto ::
    "'x ForeignCopies \<Rightarrow> go_OxideClusterStatus \<Rightarrow> ('x heap, go_OxideClusterStatus) io" where
  "OxideClusterStatus_DeepCopyInto X inp = do {
     conditions \<leftarrow> copy_each (Condition_kind X) (Condition_DeepCopyInto X) (gcs_Conditions inp);
     initialization \<leftarrow> OxideClusterInitializationStatus_DeepCopyInto (gcs_Initialization inp);
     return (inp\<lparr>gcs_Conditions := conditions, gcs_Initialization := initialization\<rparr>)
   }"

definition OxideClusterStatus_DeepCopy ::
    "'x ForeignCopies \<Rightarrow> ptr option \<Rightarrow> ('x heap, ptr option) io" where
  "OxideClusterStatus_DeepCopy X = deep_copy OxideClusterStatus_kind (OxideClusterStatus_DeepCopyInto X)"

definition OxideCluster_DeepCopyInto ::
    "'x ForeignCopies \<Rightarrow> 'x go_OxideCluster \<Rightarrow> ('x heap, 'x go_OxideCluster) io" where
  "OxideCluster_DeepCopyInto X inp = do {
     let out = inp\<lparr>gc_TypeMeta := gc_TypeMeta inp\<rparr>;
     meta \<leftarrow> ObjectMeta_DeepCopyInto X (gc_ObjectMeta inp);
     let out = out\<lparr>gc_ObjectMeta := meta, gc_Spec := gc_Spec inp\<rparr>;
     status \<leftarrow> OxideClusterStatus_DeepCopyInto X (gc_Status inp);
     return (out\<lparr>gc_Status := status\<rparr>)
   }"

definition OxideCluster_DeepCopy ::
    "'x ForeignCopies \<Rightarrow> ptr option \<Rightarrow> ('x heap, ptr option) io" where
  "OxideCluster_DeepCopy X = deep_copy (OxideCluster_kind X) (OxideCluster_DeepCopyInto X)"

definition OxideClusterList_DeepCopyInto ::
    "'x ForeignCopies \<Rightarrow> 'x go_OxideClusterList \<Rightarrow> ('x heap, 'x go_OxideClusterList) io" where
  "OxideClusterList_DeepCopyInto X inp = do {
     let out = inp\<lparr>gcl_TypeMeta := gcl_TypeMeta inp\<rparr>;
     meta \<leftarrow> ListMeta_DeepCopyInto X (gcl_ListMeta inp);
     items \<leftarrow> copy_each (OxideCluster_kind X) (OxideCluster_DeepCopyInto X) (gcl_Items inp);
     return (out\<lparr>gcl_ListMeta := meta, gcl_Items := items\<rparr>)
   }"

definition OxideClusterList_DeepCopy ::
    "'x ForeignCopies \<Rightarrow> ptr option \<Rightarrow> ('x heap, ptr option) io" where
  "OxideClusterList_DeepCopy X = deep_copy (OxideClusterList_kind X) (OxideClusterList_DeepCopyInto X)"

subsection \<open>OxideMachine\<close>

definition OxideMachineInitializationStatus_DeepCopyInto ::
    "go_OxideMachineInitializationStatus \<Rightarrow> ('x heap, go_OxideMachineInitializationStatus) io" where
  "OxideMachineInitializationStatus_DeepCopyInto inp = do {
     provisioned \<leftarrow> deep_copy bool_kind return (gmi_Provisioned inp);
     return (inp\<lparr>gmi_Provisioned := provisioned\<rparr>)
   }"

definition OxideMachineInitializationStatus_DeepCopy :: "ptr option \<Rightarrow> ('x heap, ptr option) io" where
  "OxideMachineInitializationStatus_DeepCopy =
     deep_copy OxideMachineInitializationStatus_kind OxideMachineInitializationStatus_DeepCopyInto"

definition OxideMachineSpec_DeepCopyInto ::
    "'x ForeignCopies \<Rightarrow> 'x go_OxideMachineSpec \<Rightarrow> ('x heap, 'x go_OxideMachineSpec) io" where
  "OxideMachineSpec_DeepCopyInto X inp = do {
     memory \<leftarrow> Quantity_DeepCopy X (gms_Memory inp);
     disk_size \<leftarrow> Quantity_DeepCopy X (gms_DiskSize inp);
     groups \<leftarrow> copy_flat string_kind (gms_AntiAffinityGroups inp);
     keys \<leftarrow> copy_flat string_kind (gms_SSHPublicKeys inp);
     disks \<leftarrow> copy_each (DataDisk_kind X) (DataDisk_DeepCopyInto X) (gms_DataDisks inp);
     return (inp\<lparr>gms_Memory := memory, gms_DiskSize := disk_size, gms_AntiAffinityGroups := groups,
       gms_SSHPublicKeys := keys, gms_DataDisks := disks\<rparr>)
   }"

definition OxideMachineSpec_DeepCopy ::
    "'x ForeignCopies \<Rightarrow> ptr option \<Rightarrow> ('x heap, ptr option) io" where
  "OxideMachineSpec_DeepCopy X = deep_copy (OxideMachineSpec_kind X) (OxideMachineSpec_DeepCopyInto X)"

definition OxideMachineStatus_DeepCopyInto ::
    "'x ForeignCopies \<Rightarrow> go_OxideMachineStatus \<Rightarrow> ('x heap, go_OxideMachineStatus) io" where
  "OxideMachineStatus_DeepCopyInto X inp = do {
     initialization \<leftarrow> OxideMachineInitializationStatus_DeepCopyInto (gmt_Initialization inp);
     conditions \<leftarrow> copy_each (Condition_kind X) (Condition_DeepCopyInto X) (gmt_Conditions inp);
     addresses \<leftarrow> copy_flat MachineAddress_kind (gmt_Addresses inp);
     return (inp\<lparr>gmt_Initialization := initialization, gmt_Conditions := conditions,
       gmt_Addresses := addresses\<rparr>)
   }"

definition OxideMachineStatus_DeepCopy ::
    "'x ForeignCopies \<Rightarrow> ptr option \<Rightarrow> ('x heap, ptr option) io" where
  "OxideMachineStatus_DeepCopy X = deep_copy OxideMachineStatus_kind (OxideMachineStatus_DeepCopyInto X)"

definition OxideMachine_DeepCopyInto ::
    "'x ForeignCopies \<Rightarrow> 'x go_OxideMachine \<Rightarrow> ('x heap, 'x go_OxideMachine) io" where
  "OxideMachine_DeepCopyInto X inp = do {
     let out = inp\<lparr>gm_TypeMeta := gm_TypeMeta inp\<rparr>;
     meta \<leftarrow> ObjectMeta_DeepCopyInto X (gm_ObjectMeta inp);
     spec \<leftarrow> OxideMachineSpec_DeepCopyInto X (gm_Spec inp);
     status \<leftarrow> OxideMachineStatus_DeepCopyInto X (gm_Status inp);
     return (out\<lparr>gm_ObjectMeta := meta, gm_Spec := spec, gm_Status := status\<rparr>)
   }"

definition OxideMachine_DeepCopy ::
    "'x ForeignCopies \<Rightarrow> ptr option \<Rightarrow> ('x heap, ptr option) io" where
  "OxideMachine_DeepCopy X = deep_copy (OxideMachine_kind X) (OxideMachine_DeepCopyInto X)"

definition OxideMachineList_DeepCopyInto ::
    "'x ForeignCopies \<Rightarrow> 'x go_OxideMachineList \<Rightarrow> ('x heap, 'x go_OxideMachineList) io" where
  "OxideMachineList_DeepCopyInto X inp = do {
     let out = inp\<lparr>gml_TypeMeta := gml_TypeMeta inp\<rparr>;
     meta \<leftarrow> ListMeta_DeepCopyInto X (gml_ListMeta inp);
     items \<leftarrow> copy_each (OxideMachine_kind X) (OxideMachine_DeepCopyInto X) (gml_Items inp);
     return (out\<lparr>gml_ListMeta := meta, gml_Items := items\<rparr>)
   }"

definition OxideMachineList_DeepCopy ::
    "'x ForeignCopies \<Rightarrow> ptr option \<Rightarrow> ('x heap, ptr option) io" where
  "OxideMachineList_DeepCopy X = deep_copy (OxideMachineList_kind X) (OxideMachineList_DeepCopyInto X)"

subsection \<open>OxideMachineTemplate\<close>

definition OxideMachineTemplateResource_DeepCopyInto ::
    "'x ForeignCopies \<Rightarrow> 'x go_OxideMachineTemplateResource \<Rightarrow>
     ('x heap, 'x go_OxideMachineTemplateResource) io" where
  "OxideMachineTemplateResource_DeepCopyInto X inp = do {
     meta \<leftarrow> TemplateMeta_DeepCopyInto X (gtr_ObjectMeta inp);
     spec \<leftarrow> OxideMachineSpec_DeepCopyInto X (gtr_Spec inp);
     return (inp\<lparr>gtr_ObjectMeta := meta, gtr_Spec := spec\<rparr>)
   }"

definition OxideMachineTemplateResource_DeepCopy ::
    "'x ForeignCopies \<Rightarrow> ptr option \<Rightarrow> ('x heap, ptr option) io" where
  "OxideMachineTemplateResource_DeepCopy X =
     deep_copy (OxideMachineTemplateResource_kind X) (OxideMachineTemplateResource_DeepCopyInto X)"

definition OxideMachineTemplateSpec_DeepCopyInto ::
    "'x ForeignCopies \<Rightarrow> 'x go_OxideMachineTemplateSpec \<Rightarrow>
     ('x heap, 'x go_OxideMachineTemplateSpec) io" where
  "OxideMachineTemplateSpec_DeepCopyInto X inp = do {
     template \<leftarrow> OxideMachineTemplateResource_DeepCopyInto X (gts_Template inp);
     return (inp\<lparr>gts_Template := template\<rparr>)
   }"

definition OxideMachineTemplateSpec_DeepCopy ::
    "'x ForeignCopies \<Rightarrow> ptr option \<Rightarrow> ('x heap, ptr option) io" where
  "OxideMachineTemplateSpec_DeepCopy X =
     deep_copy (OxideMachineTemplateSpec_kind X) (OxideMachineTemplateSpec_DeepCopyInto X)"

definition OxideMachineTemplate_DeepCopyInto ::
    "'x ForeignCopies \<Rightarrow> 'x go_OxideMachineTemplate \<Rightarrow> ('x heap, 'x go_OxideMachineTemplate) io" where
  "OxideMachineTemplate_DeepCopyInto X inp = do {
     let out = inp\<lparr>gt_TypeMeta := gt_TypeMeta inp\<rparr>;
     meta \<leftarrow> ObjectMeta_DeepCopyInto X (gt_ObjectMeta inp);
     spec \<leftarrow> OxideMachineTemplateSpec_DeepCopyInto X (gt_Spec inp);
     return (out\<lparr>gt_ObjectMeta := meta, gt_Spec := spec\<rparr>)
   }"

definition OxideMachineTemplate_DeepCopy ::
    "'x ForeignCopies \<Rightarrow> ptr option \<Rightarrow> ('x heap, ptr option) io" where
  "OxideMachineTemplate_DeepCopy X =
     deep_copy (OxideMachineTemplate_kind X) (OxideMachineTemplate_DeepCopyInto X)"

definition OxideMachineTemplateList_DeepCopyInto ::
    "'x ForeignCopies \<Rightarrow> 'x go_OxideMachineTemplateList \<Rightarrow>
     ('x heap, 'x go_OxideMachineTemplateList) io" where
  "OxideMachineTemplateList_DeepCopyInto X inp = do {
     let out = inp\<lparr>gtl_TypeMeta := gtl_TypeMeta inp\<rparr>;
     meta \<leftarrow> ListMeta_DeepCopyInto X (gtl_ListMeta inp);
     items \<leftarrow> copy_each (OxideMachineTemplate_kind X) (OxideMachineTemplate_DeepCopyInto X) (gtl_Items inp);
     return (out\<lparr>gtl_ListMeta := meta, gtl_Items := items\<rparr>)
   }"

definition OxideMachineTemplateList_DeepCopy ::
    "'x ForeignCopies \<Rightarrow> ptr option \<Rightarrow> ('x heap, ptr option) io" where
  "OxideMachineTemplateList_DeepCopy X =
     deep_copy (OxideMachineTemplateList_kind X) (OxideMachineTemplateList_DeepCopyInto X)"

subsection \<open>DeepCopyObject\<close>

text \<open>
  A non-nil value of the interface \<open>runtime.Object\<close>: its dynamic type and the pointer, which may itself be
  nil. The nil interface is \<^term>\<open>None\<close> and is not the same as an interface holding a nil pointer.
\<close>

datatype runtime_Object =
    ObjOxideCluster "ptr option"
  | ObjOxideClusterList "ptr option"
  | ObjOxideMachine "ptr option"
  | ObjOxideMachineList "ptr option"
  | ObjOxideMachineTemplate "ptr option"
  | ObjOxideMachineTemplateList "ptr option"

definition OxideCluster_DeepCopyObject ::
    "'x ForeignCopies \<Rightarrow> ptr option \<Rightarrow> ('x heap, runtime_Object option) io" where
  "OxideCluster_DeepCopyObject X inp = do {
     c \<leftarrow> OxideCluster_DeepCopy X inp;
     return (if c \<noteq> None then Some (ObjOxideCluster c) else None)
   }"

definition OxideClusterList_DeepCopyObject ::
    "'x ForeignCopies \<Rightarrow> ptr option \<Rightarrow> ('x heap, runtime_Object option) io" where
  "OxideClusterList_DeepCopyObject X inp = do {
     c \<leftarrow> OxideClusterList_DeepCopy X inp;
     return (if c \<noteq> None then Some (ObjOxideClusterList c) else None)
   }"

definition OxideMachine_DeepCopyObject ::
    "'x ForeignCopies \<Rightarrow> ptr option \<Rightarrow> ('x heap, runtime_Object option) io" where
  "OxideMachine_DeepCopyObject X inp = do {
     c \<leftarrow> OxideMachine_DeepCopy X inp;
     return (if c \<noteq> None then Some (ObjOxideMachine c) else None)
   }"

definition OxideMachineList_DeepCopyObject ::
    "'x ForeignCopies \<Rightarrow> ptr option \<Rightarrow> ('x heap, runtime_Object option) io" where
  "OxideMachineList_DeepCopyObject X inp = do {
     c \<leftarrow> OxideMachineList_DeepCopy X inp;
     return (if c \<noteq> None then Some (ObjOxideMachineList c) else None)
   }"

definition OxideMachineTemplate_DeepCopyObject ::
    "'x ForeignCopies \<Rightarrow> ptr option \<Rightarrow> ('x heap, runtime_Object option) io" where
  "OxideMachineTemplate_DeepCopyObject X inp = do {
     c \<leftarrow> OxideMachineTemplate_DeepCopy X inp;
     return (if c \<noteq> None then Some (ObjOxideMachineTemplate c) else None)
   }"

definition OxideMachineTemplateList_DeepCopyObject ::
    "'x ForeignCopies \<Rightarrow> ptr option \<Rightarrow> ('x heap, runtime_Object option) io" where
  "OxideMachineTemplateList_DeepCopyObject X inp = do {
     c \<leftarrow> OxideMachineTemplateList_DeepCopy X inp;
     return (if c \<noteq> None then Some (ObjOxideMachineTemplateList c) else None)
   }"

text \<open>A call of the method through the interface.\<close>

definition DeepCopyObject ::
    "'x ForeignCopies \<Rightarrow> runtime_Object \<Rightarrow> ('x heap, runtime_Object option) io" where
  "DeepCopyObject X ob = (case ob of
     ObjOxideCluster p \<Rightarrow> OxideCluster_DeepCopyObject X p
   | ObjOxideClusterList p \<Rightarrow> OxideClusterList_DeepCopyObject X p
   | ObjOxideMachine p \<Rightarrow> OxideMachine_DeepCopyObject X p
   | ObjOxideMachineList p \<Rightarrow> OxideMachineList_DeepCopyObject X p
   | ObjOxideMachineTemplate p \<Rightarrow> OxideMachineTemplate_DeepCopyObject X p
   | ObjOxideMachineTemplateList p \<Rightarrow> OxideMachineTemplateList_DeepCopyObject X p)"

end
