(* ===== verification/DeepCopyProps.thy ===== *)
theory DeepCopyProps
  imports DeepCopy
begin

text \<open>
  What the generated copies mean. A view for every type relates its layout in memory to the record of
  \<open>ApiTypes\<close> the controllers' model works on, and every \<open>DeepCopyInto\<close> and \<open>DeepCopy\<close>
  meets the contract \<open>copyable\<close> over its view, given that the copies of other packages do. It follows
  that a copy stands for the same object and shares no memory with the original: what the model
  assumes when it passes objects as values.
\<close>

subsection \<open>Views of the types\<close>

record 'x ForeignViews =
  ObjectMeta_view :: "('x block, 'x, ObjectMeta) view"
  ListMeta_view :: "('x block, 'x, string) view"
  TemplateMeta_view :: "('x block, 'x, (string \<rightharpoonup> string) \<times> (string \<rightharpoonup> string)) view"
  Condition_view :: "('x block, 'x, Condition) view"
  Quantity_view :: "('x block, 'x, Quantity) view"

definition foreign_ok :: "'x ForeignCopies \<Rightarrow> 'x ForeignViews \<Rightarrow> bool" where
  "foreign_ok X F \<longleftrightarrow>
     copyable (ObjectMeta_view F) (ObjectMeta_DeepCopyInto X) \<and>
     copyable (ListMeta_view F) (ListMeta_DeepCopyInto X) \<and>
     copyable (TemplateMeta_view F) (TemplateMeta_DeepCopyInto X) \<and>
     copyable (Condition_view F) (Condition_DeepCopyInto X) \<and>
     copyable (Quantity_view F) (Quantity_DeepCopy X)"

text \<open>The model does not tell a nil slice from an empty one.\<close>

definition listed :: "'a list option \<Rightarrow> 'a list" where
  "listed xs = (case xs of None \<Rightarrow> [] | Some ys \<Rightarrow> ys)"

definition DataDisk_view where
  "DataDisk_view F = struct_view gd_Size
     (\<lambda>d size. \<lparr>DataDiskSize = size, DataDiskBlockSize = gd_BlockSize d\<rparr>) (Quantity_view F)"

definition OxideClusterInitializationStatus_view where
  "OxideClusterInitializationStatus_view = struct_view gci_Provisioned
     (\<lambda>_ p. \<lparr>ClusterProvisioned = p\<rparr>) (ptr_view bool_kind (inline id))"

definition OxideMachineInitializationStatus_view where
  "OxideMachineInitializationStatus_view = struct_view gmi_Provisioned
     (\<lambda>_ p. \<lparr>MachineProvisioned = p\<rparr>) (ptr_view bool_kind (inline id))"

definition OxideClusterStatus_view where
  "OxideClusterStatus_view X F = struct_view (\<lambda>s. (gcs_Conditions s, gcs_Initialization s))
     (\<lambda>_ v. \<lparr>ClusterConditions = listed (fst v), ClusterInitialization = snd v\<rparr>)
     (pair_view (slice_view (Condition_kind X) (Condition_view F)) OxideClusterInitializationStatus_view)"

definition OxideMachineStatus_view where
  "OxideMachineStatus_view X F =
     struct_view (\<lambda>s. (gmt_Initialization s, gmt_Conditions s, gmt_Addresses s))
     (\<lambda>_ v. \<lparr>MachineInitialization = fst v, MachineConditions = listed (fst (snd v)),
             Addresses = listed (snd (snd v))\<rparr>)
     (pair_view OxideMachineInitializationStatus_view
       (pair_view (slice_view (Condition_kind X) (Condition_view F))
         (slice_view MachineAddress_kind (inline id))))"

definition OxideMachineSpec_view where
  "OxideMachineSpec_view X F =
     struct_view (\<lambda>s. (gms_Memory s, gms_DiskSize s, gms_AntiAffinityGroups s, gms_SSHPublicKeys s,
       gms_DataDisks s))
     (\<lambda>s v. \<lparr>ProviderID = gms_ProviderID s, NCpus = gms_NCpus s, Memory = fst v, DiskSize = fst (snd v),
       ImageID = gms_ImageID s, AntiAffinityGroups = listed (fst (snd (snd v))),
       SSHPublicKeys = listed (fst (snd (snd (snd v)))), MachineIPPool = gms_IPPool s,
       DataDisks = listed (snd (snd (snd (snd v))))\<rparr>)
     (pair_view (Quantity_view F) (pair_view (Quantity_view F)
       (pair_view (slice_view string_kind (inline id)) (pair_view (slice_view string_kind (inline id))
         (slice_view (DataDisk_kind X) (DataDisk_view F))))))"

text \<open>The kinds also keep the type of the object, which the records of \<open>ApiTypes\<close> leave out.\<close>

definition OxideCluster_view where
  "OxideCluster_view X F = struct_view (\<lambda>c. (gc_ObjectMeta c, gc_Status c))
     (\<lambda>c v. (gc_TypeMeta c, \<lparr>oc_Meta = fst v, oc_Spec = gc_Spec c, oc_Status = snd v\<rparr>))
     (pair_view (ObjectMeta_view F) (OxideClusterStatus_view X F))"

definition OxideMachine_view where
  "OxideMachine_view X F = struct_view (\<lambda>m. (gm_ObjectMeta m, gm_Spec m, gm_Status m))
     (\<lambda>m v. (gm_TypeMeta m, \<lparr>om_Meta = fst v, om_Spec = fst (snd v), om_Status = snd (snd v)\<rparr>))
     (pair_view (ObjectMeta_view F) (pair_view (OxideMachineSpec_view X F) (OxideMachineStatus_view X F)))"

definition OxideMachineTemplateResource_view where
  "OxideMachineTemplateResource_view X F = struct_view (\<lambda>r. (gtr_ObjectMeta r, gtr_Spec r))
     (\<lambda>_ v. \<lparr>TemplateLabels = fst (fst v), TemplateAnnotations = snd (fst v), TemplateMachineSpec = snd v\<rparr>)
     (pair_view (TemplateMeta_view F) (OxideMachineSpec_view X F))"

definition OxideMachineTemplateSpec_view where
  "OxideMachineTemplateSpec_view X F = struct_view gts_Template
     (\<lambda>_ v. \<lparr>TemplateResource = v\<rparr>) (OxideMachineTemplateResource_view X F)"

definition OxideMachineTemplate_view where
  "OxideMachineTemplate_view X F = struct_view (\<lambda>t. (gt_ObjectMeta t, gt_Spec t))
     (\<lambda>t v. (gt_TypeMeta t, \<lparr>omt_Meta = fst v, omt_Spec = snd v\<rparr>))
     (pair_view (ObjectMeta_view F) (OxideMachineTemplateSpec_view X F))"

record 'o ObjectList =
  ListTypeMeta :: TypeMeta
  ListMeta :: string
  Items :: "'o list option"

definition OxideClusterList_view where
  "OxideClusterList_view X F = struct_view (\<lambda>l. (gcl_ListMeta l, gcl_Items l))
     (\<lambda>l v. \<lparr>ListTypeMeta = gcl_TypeMeta l, ListMeta = fst v, Items = snd v\<rparr>)
     (pair_view (ListMeta_view F) (slice_view (OxideCluster_kind X) (OxideCluster_view X F)))"

definition OxideMachineList_view where
  "OxideMachineList_view X F = struct_view (\<lambda>l. (gml_ListMeta l, gml_Items l))
     (\<lambda>l v. \<lparr>ListTypeMeta = gml_TypeMeta l, ListMeta = fst v, Items = snd v\<rparr>)
     (pair_view (ListMeta_view F) (slice_view (OxideMachine_kind X) (OxideMachine_view X F)))"

definition OxideMachineTemplateList_view where
  "OxideMachineTemplateList_view X F = struct_view (\<lambda>l. (gtl_ListMeta l, gtl_Items l))
     (\<lambda>l v. \<lparr>ListTypeMeta = gtl_TypeMeta l, ListMeta = fst v, Items = snd v\<rparr>)
     (pair_view (ListMeta_view F) (slice_view (OxideMachineTemplate_kind X) (OxideMachineTemplate_view X F)))"

subsection \<open>Every copy meets the contract\<close>

named_theorems copies "copies that meet the contract, with the views they meet it for"

lemmas [copies] = copyable_inline copyable_pair copyable_ptr copyable_slice copyable_flat

lemmas kinds = bool_blocks.go_kind_axioms string_blocks.go_kind_axioms
  MachineAddress_blocks.go_kind_axioms Condition_blocks.go_kind_axioms DataDisk_blocks.go_kind_axioms
  OxideCluster_blocks.go_kind_axioms OxideClusterList_blocks.go_kind_axioms
  OxideMachine_blocks.go_kind_axioms OxideMachineList_blocks.go_kind_axioms
  OxideMachineTemplate_blocks.go_kind_axioms OxideMachineTemplateList_blocks.go_kind_axioms

declare kinds [copies]

lemma foreign_copies:
  assumes "foreign_ok X F"
  shows "copyable (ObjectMeta_view F) (ObjectMeta_DeepCopyInto X)"
    and "copyable (ListMeta_view F) (ListMeta_DeepCopyInto X)"
    and "copyable (TemplateMeta_view F) (TemplateMeta_DeepCopyInto X)"
    and "copyable (Condition_view F) (Condition_DeepCopyInto X)"
    and "copyable (Quantity_view F) (Quantity_DeepCopy X)"
  using assms by (simp_all add: foreign_ok_def)

text \<open>The types without parts of other packages meet the contract as they are.\<close>

interpretation SecretReference_copy: copyable "inline id" SecretReference_DeepCopyInto
  using copyable_inline by (simp add: SecretReference_DeepCopyInto_def [abs_def])

interpretation OxideClusterSpec_copy: copyable "inline id" OxideClusterSpec_DeepCopyInto
  using copyable_inline by (simp add: OxideClusterSpec_DeepCopyInto_def [abs_def])

interpretation OxideClusterInitializationStatus_copy: copyable OxideClusterInitializationStatus_view OxideClusterInitializationStatus_DeepCopyInto
  unfolding OxideClusterInitializationStatus_view_def
  by (rule copyable_struct [where upd = "\<lambda>s t. s\<lparr>gci_Provisioned := t\<rparr>"])
    (rule copies | simp add: OxideClusterInitializationStatus_DeepCopyInto_def)+

declare OxideClusterInitializationStatus_copy.copyable_axioms [copies]

interpretation OxideMachineInitializationStatus_copy: copyable OxideMachineInitializationStatus_view OxideMachineInitializationStatus_DeepCopyInto
  unfolding OxideMachineInitializationStatus_view_def
  by (rule copyable_struct [where upd = "\<lambda>s t. s\<lparr>gmi_Provisioned := t\<rparr>"])
    (rule copies | simp add: OxideMachineInitializationStatus_DeepCopyInto_def)+

declare OxideMachineInitializationStatus_copy.copyable_axioms [copies]

text \<open>The others meet it when the parts of other packages do.\<close>

lemma DataDisk_copyable:
  assumes "foreign_ok X F"
  shows "copyable (DataDisk_view F) (DataDisk_DeepCopyInto X)"
proof -
  note [copies] = foreign_copies [OF assms]
  show ?thesis
    unfolding DataDisk_view_def
    by (rule copyable_struct [where upd = "\<lambda>s t. s\<lparr>gd_Size := t\<rparr>"])
      (rule copies | simp add: DataDisk_DeepCopyInto_def Let_def)+
qed

lemma OxideClusterStatus_copyable:
  assumes "foreign_ok X F"
  shows "copyable (OxideClusterStatus_view X F) (OxideClusterStatus_DeepCopyInto X)"
proof -
  note [copies] = foreign_copies [OF assms]
  show ?thesis
    unfolding OxideClusterStatus_view_def
    by (rule copyable_struct [where upd = "\<lambda>s t. s\<lparr>gcs_Conditions := fst t, gcs_Initialization := snd t\<rparr>"])
      (rule copies | simp add: OxideClusterStatus_DeepCopyInto_def Let_def)+
qed

lemma OxideMachineStatus_copyable:
  assumes "foreign_ok X F"
  shows "copyable (OxideMachineStatus_view X F) (OxideMachineStatus_DeepCopyInto X)"
proof -
  note [copies] = foreign_copies [OF assms]
  show ?thesis
    unfolding OxideMachineStatus_view_def
    by (rule copyable_struct [where upd = "\<lambda>s t. s\<lparr>gmt_Initialization := fst t, gmt_Conditions := fst (snd t), gmt_Addresses := snd (snd t)\<rparr>"])
      (rule copies | simp add: OxideMachineStatus_DeepCopyInto_def Let_def)+
qed

lemma OxideMachineSpec_copyable:
  assumes "foreign_ok X F"
  shows "copyable (OxideMachineSpec_view X F) (OxideMachineSpec_DeepCopyInto X)"
proof -
  note [copies] = foreign_copies [OF assms] DataDisk_copyable [OF assms]
  show ?thesis
    unfolding OxideMachineSpec_view_def
    by (rule copyable_struct [where upd = "\<lambda>s t. s\<lparr>gms_Memory := fst t, gms_DiskSize := fst (snd t),
        gms_AntiAffinityGroups := fst (snd (snd t)), gms_SSHPublicKeys := fst (snd (snd (snd t))),
        gms_DataDisks := snd (snd (snd (snd t)))\<rparr>"])
      (rule copies | simp add: OxideMachineSpec_DeepCopyInto_def Let_def)+
qed

lemma OxideCluster_copyable:
  assumes "foreign_ok X F"
  shows "copyable (OxideCluster_view X F) (OxideCluster_DeepCopyInto X)"
proof -
  note [copies] = foreign_copies [OF assms] OxideClusterStatus_copyable [OF assms]
  show ?thesis
    unfolding OxideCluster_view_def
    by (rule copyable_struct [where upd = "\<lambda>s t. s\<lparr>gc_ObjectMeta := fst t, gc_Status := snd t\<rparr>"])
      (rule copies | simp add: OxideCluster_DeepCopyInto_def Let_def)+
qed

lemma OxideMachine_copyable:
  assumes "foreign_ok X F"
  shows "copyable (OxideMachine_view X F) (OxideMachine_DeepCopyInto X)"
proof -
  note [copies] = foreign_copies [OF assms] OxideMachineSpec_copyable [OF assms] OxideMachineStatus_copyable [OF assms]
  show ?thesis
    unfolding OxideMachine_view_def
    by (rule copyable_struct [where upd = "\<lambda>s t. s\<lparr>gm_ObjectMeta := fst t, gm_Spec := fst (snd t), gm_Status := snd (snd t)\<rparr>"])
      (rule copies | simp add: OxideMachine_DeepCopyInto_def Let_def)+
qed

lemma OxideMachineTemplateResource_copyable:
  assumes "foreign_ok X F"
  shows "copyable (OxideMachineTemplateResource_view X F) (OxideMachineTemplateResource_DeepCopyInto X)"
proof -
  note [copies] = foreign_copies [OF assms] OxideMachineSpec_copyable [OF assms]
  show ?thesis
    unfolding OxideMachineTemplateResource_view_def
    by (rule copyable_struct [where upd = "\<lambda>s t. s\<lparr>gtr_ObjectMeta := fst t, gtr_Spec := snd t\<rparr>"])
      (rule copies | simp add: OxideMachineTemplateResource_DeepCopyInto_def Let_def)+
qed

lemma OxideMachineTemplateSpec_copyable:
  assumes "foreign_ok X F"
  shows "copyable (OxideMachineTemplateSpec_view X F) (OxideMachineTemplateSpec_DeepCopyInto X)"
proof -
  note [copies] = foreign_copies [OF assms] OxideMachineTemplateResource_copyable [OF assms]
  show ?thesis
    unfolding OxideMachineTemplateSpec_view_def
    by (rule copyable_struct [where upd = "\<lambda>s t. s\<lparr>gts_Template := t\<rparr>"])
      (rule copies | simp add: OxideMachineTemplateSpec_DeepCopyInto_def Let_def)+
qed

lemma OxideMachineTemplate_copyable:
  assumes "foreign_ok X F"
  shows "copyable (OxideMachineTemplate_view X F) (OxideMachineTemplate_DeepCopyInto X)"
proof -
  note [copies] = foreign_copies [OF assms] OxideMachineTemplateSpec_copyable [OF assms]
  show ?thesis
    unfolding OxideMachineTemplate_view_def
    by (rule copyable_struct [where upd = "\<lambda>s t. s\<lparr>gt_ObjectMeta := fst t, gt_Spec := snd t\<rparr>"])
      (rule copies | simp add: OxideMachineTemplate_DeepCopyInto_def Let_def)+
qed

lemma OxideClusterList_copyable:
  assumes "foreign_ok X F"
  shows "copyable (OxideClusterList_view X F) (OxideClusterList_DeepCopyInto X)"
proof -
  note [copies] = foreign_copies [OF assms] OxideCluster_copyable [OF assms]
  show ?thesis
    unfolding OxideClusterList_view_def
    by (rule copyable_struct [where upd = "\<lambda>s t. s\<lparr>gcl_ListMeta := fst t, gcl_Items := snd t\<rparr>"])
      (rule copies | simp add: OxideClusterList_DeepCopyInto_def Let_def)+
qed

lemma OxideMachineList_copyable:
  assumes "foreign_ok X F"
  shows "copyable (OxideMachineList_view X F) (OxideMachineList_DeepCopyInto X)"
proof -
  note [copies] = foreign_copies [OF assms] OxideMachine_copyable [OF assms]
  show ?thesis
    unfolding OxideMachineList_view_def
    by (rule copyable_struct [where upd = "\<lambda>s t. s\<lparr>gml_ListMeta := fst t, gml_Items := snd t\<rparr>"])
      (rule copies | simp add: OxideMachineList_DeepCopyInto_def Let_def)+
qed

lemma OxideMachineTemplateList_copyable:
  assumes "foreign_ok X F"
  shows "copyable (OxideMachineTemplateList_view X F) (OxideMachineTemplateList_DeepCopyInto X)"
proof -
  note [copies] = foreign_copies [OF assms] OxideMachineTemplate_copyable [OF assms]
  show ?thesis
    unfolding OxideMachineTemplateList_view_def
    by (rule copyable_struct [where upd = "\<lambda>s t. s\<lparr>gtl_ListMeta := fst t, gtl_Items := snd t\<rparr>"])
      (rule copies | simp add: OxideMachineTemplateList_DeepCopyInto_def Let_def)+
qed

subsection \<open>DeepCopy and DeepCopyObject\<close>

lemmas go_kinds = kinds OxideClusterStatus_blocks.go_kind_axioms OxideMachineStatus_blocks.go_kind_axioms
  OxideMachineSpec_blocks.go_kind_axioms OxideMachineTemplateResource_blocks.go_kind_axioms
  OxideMachineTemplateSpec_blocks.go_kind_axioms

lemmas copyables = DataDisk_copyable
  OxideClusterStatus_copyable
  OxideMachineStatus_copyable
  OxideMachineSpec_copyable
  OxideCluster_copyable
  OxideMachine_copyable
  OxideMachineTemplateResource_copyable
  OxideMachineTemplateSpec_copyable
  OxideMachineTemplate_copyable
  OxideClusterList_copyable
  OxideMachineList_copyable
  OxideMachineTemplateList_copyable

interpretation SecretReference_ptr_copy: copyable "ptr_view SecretReference_kind (inline id)" SecretReference_DeepCopy
  unfolding SecretReference_DeepCopy_def
  by (rule copyable_ptr [OF SecretReference_blocks.go_kind_axioms SecretReference_copy.copyable_axioms])

interpretation OxideClusterSpec_ptr_copy: copyable "ptr_view OxideClusterSpec_kind (inline id)" OxideClusterSpec_DeepCopy
  unfolding OxideClusterSpec_DeepCopy_def
  by (rule copyable_ptr [OF OxideClusterSpec_blocks.go_kind_axioms OxideClusterSpec_copy.copyable_axioms])

interpretation OxideClusterInitializationStatus_ptr_copy: copyable "ptr_view OxideClusterInitializationStatus_kind OxideClusterInitializationStatus_view" OxideClusterInitializationStatus_DeepCopy
  unfolding OxideClusterInitializationStatus_DeepCopy_def
  by (rule copyable_ptr [OF OxideClusterInitializationStatus_blocks.go_kind_axioms OxideClusterInitializationStatus_copy.copyable_axioms])

interpretation OxideMachineInitializationStatus_ptr_copy: copyable "ptr_view OxideMachineInitializationStatus_kind OxideMachineInitializationStatus_view" OxideMachineInitializationStatus_DeepCopy
  unfolding OxideMachineInitializationStatus_DeepCopy_def
  by (rule copyable_ptr [OF OxideMachineInitializationStatus_blocks.go_kind_axioms OxideMachineInitializationStatus_copy.copyable_axioms])

lemma DeepCopy_copyable:
  assumes "foreign_ok X F"
  shows "copyable (ptr_view (DataDisk_kind X) (DataDisk_view F)) (DataDisk_DeepCopy X)"
    and "copyable (ptr_view OxideClusterStatus_kind (OxideClusterStatus_view X F)) (OxideClusterStatus_DeepCopy X)"
    and "copyable (ptr_view OxideMachineStatus_kind (OxideMachineStatus_view X F)) (OxideMachineStatus_DeepCopy X)"
    and "copyable (ptr_view (OxideMachineSpec_kind X) (OxideMachineSpec_view X F)) (OxideMachineSpec_DeepCopy X)"
    and "copyable (ptr_view (OxideCluster_kind X) (OxideCluster_view X F)) (OxideCluster_DeepCopy X)"
    and "copyable (ptr_view (OxideMachine_kind X) (OxideMachine_view X F)) (OxideMachine_DeepCopy X)"
    and "copyable (ptr_view (OxideMachineTemplateResource_kind X) (OxideMachineTemplateResource_view X F)) (OxideMachineTemplateResource_DeepCopy X)"
    and "copyable (ptr_view (OxideMachineTemplateSpec_kind X) (OxideMachineTemplateSpec_view X F)) (OxideMachineTemplateSpec_DeepCopy X)"
    and "copyable (ptr_view (OxideMachineTemplate_kind X) (OxideMachineTemplate_view X F)) (OxideMachineTemplate_DeepCopy X)"
    and "copyable (ptr_view (OxideClusterList_kind X) (OxideClusterList_view X F)) (OxideClusterList_DeepCopy X)"
    and "copyable (ptr_view (OxideMachineList_kind X) (OxideMachineList_view X F)) (OxideMachineList_DeepCopy X)"
    and "copyable (ptr_view (OxideMachineTemplateList_kind X) (OxideMachineTemplateList_view X F)) (OxideMachineTemplateList_DeepCopy X)"
  unfolding DataDisk_DeepCopy_def
    OxideClusterStatus_DeepCopy_def
    OxideMachineStatus_DeepCopy_def
    OxideMachineSpec_DeepCopy_def
    OxideCluster_DeepCopy_def
    OxideMachine_DeepCopy_def
    OxideMachineTemplateResource_DeepCopy_def
    OxideMachineTemplateSpec_DeepCopy_def
    OxideMachineTemplate_DeepCopy_def
    OxideClusterList_DeepCopy_def
    OxideMachineList_DeepCopy_def
    OxideMachineTemplateList_DeepCopy_def
  by (rule copyable_ptr, rule go_kinds, rule copyables [OF assms])+

text \<open>The object an interface value stands for, of the kind that is its dynamic type.\<close>

datatype api_object =
    ApiOxideCluster "(TypeMeta \<times> OxideCluster) option"
  | ApiOxideClusterList "((TypeMeta \<times> OxideCluster) ObjectList) option"
  | ApiOxideMachine "(TypeMeta \<times> OxideMachine) option"
  | ApiOxideMachineList "((TypeMeta \<times> OxideMachine) ObjectList) option"
  | ApiOxideMachineTemplate "(TypeMeta \<times> OxideMachineTemplate) option"
  | ApiOxideMachineTemplateList "((TypeMeta \<times> OxideMachineTemplate) ObjectList) option"

definition object_view :: "'x ForeignCopies \<Rightarrow> 'x ForeignViews \<Rightarrow> ('x block, runtime_Object, api_object) view" where
  "object_view X F =
     \<lparr>wf_in = (\<lambda>h ob. case ob of
        ObjOxideCluster p \<Rightarrow> wf_in (ptr_view (OxideCluster_kind X) (OxideCluster_view X F)) h p
      | ObjOxideClusterList p \<Rightarrow> wf_in (ptr_view (OxideClusterList_kind X) (OxideClusterList_view X F)) h p
      | ObjOxideMachine p \<Rightarrow> wf_in (ptr_view (OxideMachine_kind X) (OxideMachine_view X F)) h p
      | ObjOxideMachineList p \<Rightarrow> wf_in (ptr_view (OxideMachineList_kind X) (OxideMachineList_view X F)) h p
      | ObjOxideMachineTemplate p \<Rightarrow> wf_in (ptr_view (OxideMachineTemplate_kind X) (OxideMachineTemplate_view X F)) h p
      | ObjOxideMachineTemplateList p \<Rightarrow> wf_in (ptr_view (OxideMachineTemplateList_kind X) (OxideMachineTemplateList_view X F)) h p),
      val = (\<lambda>h ob. case ob of
        ObjOxideCluster p \<Rightarrow> ApiOxideCluster (val (ptr_view (OxideCluster_kind X) (OxideCluster_view X F)) h p)
      | ObjOxideClusterList p \<Rightarrow> ApiOxideClusterList (val (ptr_view (OxideClusterList_kind X) (OxideClusterList_view X F)) h p)
      | ObjOxideMachine p \<Rightarrow> ApiOxideMachine (val (ptr_view (OxideMachine_kind X) (OxideMachine_view X F)) h p)
      | ObjOxideMachineList p \<Rightarrow> ApiOxideMachineList (val (ptr_view (OxideMachineList_kind X) (OxideMachineList_view X F)) h p)
      | ObjOxideMachineTemplate p \<Rightarrow> ApiOxideMachineTemplate (val (ptr_view (OxideMachineTemplate_kind X) (OxideMachineTemplate_view X F)) h p)
      | ObjOxideMachineTemplateList p \<Rightarrow> ApiOxideMachineTemplateList (val (ptr_view (OxideMachineTemplateList_kind X) (OxideMachineTemplateList_view X F)) h p)),
      reach = (\<lambda>h ob. case ob of
        ObjOxideCluster p \<Rightarrow> reach (ptr_view (OxideCluster_kind X) (OxideCluster_view X F)) h p
      | ObjOxideClusterList p \<Rightarrow> reach (ptr_view (OxideClusterList_kind X) (OxideClusterList_view X F)) h p
      | ObjOxideMachine p \<Rightarrow> reach (ptr_view (OxideMachine_kind X) (OxideMachine_view X F)) h p
      | ObjOxideMachineList p \<Rightarrow> reach (ptr_view (OxideMachineList_kind X) (OxideMachineList_view X F)) h p
      | ObjOxideMachineTemplate p \<Rightarrow> reach (ptr_view (OxideMachineTemplate_kind X) (OxideMachineTemplate_view X F)) h p
      | ObjOxideMachineTemplateList p \<Rightarrow> reach (ptr_view (OxideMachineTemplateList_kind X) (OxideMachineTemplateList_view X F)) h p)\<rparr>"

definition points_to :: "runtime_Object \<Rightarrow> ptr option" where
  "points_to ob = (case ob of
     ObjOxideCluster p \<Rightarrow> p
   | ObjOxideClusterList p \<Rightarrow> p
   | ObjOxideMachine p \<Rightarrow> p
   | ObjOxideMachineList p \<Rightarrow> p
   | ObjOxideMachineTemplate p \<Rightarrow> p
   | ObjOxideMachineTemplateList p \<Rightarrow> p)"

text \<open>A call through the interface, where a nil pointer is left alone.\<close>

definition copy_object :: "'x ForeignCopies \<Rightarrow> runtime_Object \<Rightarrow> ('x heap, runtime_Object) io" where
  "copy_object X ob = do {
     r \<leftarrow> DeepCopyObject X ob;
     return (case r of None \<Rightarrow> ob | Some c \<Rightarrow> c)
   }"

lemma deep_copy_None [simp]: "run_state (deep_copy k into None) h = (None, h)"
  by (simp add: deep_copy_def)

lemma deep_copy_Some:
  assumes "run_state (deep_copy k into (Some p)) h = (q, h')"
  shows "q \<noteq> None"
  using assms by (auto simp: deep_copy_def split: prod.splits)

lemmas DeepCopyObject_defs = OxideCluster_DeepCopyObject_def OxideClusterList_DeepCopyObject_def
  OxideMachine_DeepCopyObject_def OxideMachineList_DeepCopyObject_def
  OxideMachineTemplate_DeepCopyObject_def OxideMachineTemplateList_DeepCopyObject_def

lemmas DeepCopy_defs = OxideCluster_DeepCopy_def OxideClusterList_DeepCopy_def
  OxideMachine_DeepCopy_def OxideMachineList_DeepCopy_def
  OxideMachineTemplate_DeepCopy_def OxideMachineTemplateList_DeepCopy_def

lemma DeepCopyObject_nil:
  assumes "run_state (DeepCopyObject X ob) h = (r, h')"
  shows "r = None \<longleftrightarrow> points_to ob = None"
  using assms
  by (cases ob; cases "points_to ob")
    (auto simp: DeepCopyObject_def DeepCopyObject_defs DeepCopy_defs points_to_def
      split: prod.splits dest: deep_copy_Some)

lemma run_copy_object:
  assumes "run_state (copy_object X ob) h = (c, h')"
  shows "case ob of
      ObjOxideCluster p \<Rightarrow> (\<exists>q. run_state (OxideCluster_DeepCopy X p) h = (q, h') \<and> c = ObjOxideCluster q)
    | ObjOxideClusterList p \<Rightarrow> (\<exists>q. run_state (OxideClusterList_DeepCopy X p) h = (q, h') \<and> c = ObjOxideClusterList q)
    | ObjOxideMachine p \<Rightarrow> (\<exists>q. run_state (OxideMachine_DeepCopy X p) h = (q, h') \<and> c = ObjOxideMachine q)
    | ObjOxideMachineList p \<Rightarrow> (\<exists>q. run_state (OxideMachineList_DeepCopy X p) h = (q, h') \<and> c = ObjOxideMachineList q)
    | ObjOxideMachineTemplate p \<Rightarrow> (\<exists>q. run_state (OxideMachineTemplate_DeepCopy X p) h = (q, h') \<and> c = ObjOxideMachineTemplate q)
    | ObjOxideMachineTemplateList p \<Rightarrow> (\<exists>q. run_state (OxideMachineTemplateList_DeepCopy X p) h = (q, h') \<and> c = ObjOxideMachineTemplateList q)"
  using assms
  by (cases ob; cases "points_to ob")
    (auto simp: copy_object_def DeepCopyObject_def DeepCopyObject_defs DeepCopy_defs points_to_def
      split: prod.splits dest: deep_copy_Some)

lemma copied_object [simp]:
  "copied (object_view X F) h (ObjOxideCluster p) h' (ObjOxideCluster q) =
     copied (ptr_view (OxideCluster_kind X) (OxideCluster_view X F)) h p h' q"
  "copied (object_view X F) h (ObjOxideClusterList p) h' (ObjOxideClusterList q) =
     copied (ptr_view (OxideClusterList_kind X) (OxideClusterList_view X F)) h p h' q"
  "copied (object_view X F) h (ObjOxideMachine p) h' (ObjOxideMachine q) =
     copied (ptr_view (OxideMachine_kind X) (OxideMachine_view X F)) h p h' q"
  "copied (object_view X F) h (ObjOxideMachineList p) h' (ObjOxideMachineList q) =
     copied (ptr_view (OxideMachineList_kind X) (OxideMachineList_view X F)) h p h' q"
  "copied (object_view X F) h (ObjOxideMachineTemplate p) h' (ObjOxideMachineTemplate q) =
     copied (ptr_view (OxideMachineTemplate_kind X) (OxideMachineTemplate_view X F)) h p h' q"
  "copied (object_view X F) h (ObjOxideMachineTemplateList p) h' (ObjOxideMachineTemplateList q) =
     copied (ptr_view (OxideMachineTemplateList_kind X) (OxideMachineTemplateList_view X F)) h p h' q"
  by (simp_all add: copied_def object_view_def)

lemma wf_object [simp]:
  "wf_in (object_view X F) h (ObjOxideCluster p) = wf_in (ptr_view (OxideCluster_kind X) (OxideCluster_view X F)) h p"
  "wf_in (object_view X F) h (ObjOxideClusterList p) = wf_in (ptr_view (OxideClusterList_kind X) (OxideClusterList_view X F)) h p"
  "wf_in (object_view X F) h (ObjOxideMachine p) = wf_in (ptr_view (OxideMachine_kind X) (OxideMachine_view X F)) h p"
  "wf_in (object_view X F) h (ObjOxideMachineList p) = wf_in (ptr_view (OxideMachineList_kind X) (OxideMachineList_view X F)) h p"
  "wf_in (object_view X F) h (ObjOxideMachineTemplate p) = wf_in (ptr_view (OxideMachineTemplate_kind X) (OxideMachineTemplate_view X F)) h p"
  "wf_in (object_view X F) h (ObjOxideMachineTemplateList p) = wf_in (ptr_view (OxideMachineTemplateList_kind X) (OxideMachineTemplateList_view X F)) h p"
  by (simp_all add: object_view_def)

lemma object_copyable:
  assumes "foreign_ok X F"
  shows "copyable (object_view X F) (copy_object X)"
proof
  fix h :: "'a heap" and ob h' c
  note cs = DeepCopy_copyable [OF assms]
  assume wf: "wf_in (object_view X F) h ob"
  show "reach (object_view X F) h ob \<subseteq> {..<length h}"
    using wf cs [THEN copyable.reach_allocated] by (cases ob) (simp_all add: object_view_def)
  show "wf_in (object_view X F) h' ob \<and> val (object_view X F) h' ob = val (object_view X F) h ob \<and>
      reach (object_view X F) h' ob = reach (object_view X F) h ob"
    if "agree (reach (object_view X F) h ob) h h'"
    using wf that cs [THEN copyable.frame, of h _ h'] by (cases ob) (simp_all add: object_view_def)
  show "copied (object_view X F) h ob h' c" if "run_state (copy_object X ob) h = (c, h')"
    using wf run_copy_object [OF that]
    by (cases ob) (auto intro: cs [THEN copyable.copy_copied])
qed

lemma DeepCopyObject_nil_heap:
  assumes "run_state (DeepCopyObject X ob) h = (None, h')"
  shows "h' = h"
  using assms DeepCopyObject_nil [OF assms]
  by (cases ob) (auto simp: DeepCopyObject_def DeepCopyObject_defs DeepCopy_defs points_to_def)

lemma DeepCopyObject_typed:
  assumes "run_state (DeepCopyObject X ob) h = (Some c, h')"
  shows "points_to c \<noteq> None"
  using assms
  by (cases ob) (auto simp: DeepCopyObject_def DeepCopyObject_defs points_to_def split: prod.splits if_splits)

lemma points_to_reached: "points_to ob = Some p \<Longrightarrow> fst p \<in> reach (object_view X F) h ob"
  by (cases ob) (simp_all add: points_to_def object_view_def)

end
