(* ===== verification/DeepCopyClaims.thy ===== *)
theory DeepCopyClaims
  imports DeepCopyProps
begin

text \<open>
  The properties of the generated deep copies, with a concrete memory in which they are applied: a machine
  whose anti-affinity groups are the tail of an array, whose initialization status is behind a pointer and whose
  metadata, of another package, keeps its finalizers in a slice.
\<close>

subsection \<open>A concrete memory\<close>

record part =
  part_Meta :: ObjectMeta
  part_Finalizers :: "slice option"
  part_Text :: string
  part_Condition :: Condition

definition mem_meta :: ObjectMeta where
  "mem_meta =
     \<lparr>ObjName = ''m-0'', ObjNamespace = ''default'', Labels = Map.empty, DeletionTimestamp = None,
      Finalizers = [], OwnerReferences = []\<rparr>"

definition mem_part :: part where
  "mem_part =
     \<lparr>part_Meta = mem_meta, part_Finalizers = None, part_Text = ''8Gi'',
      part_Condition = \<lparr>CondType = [], CondStatus = ConditionUnknown, CondReason = []\<rparr>\<rparr>"

definition mem_meta_copy :: "part \<Rightarrow> (part heap, part) io" where
  "mem_meta_copy x = do {
     fs \<leftarrow> copy_flat string_kind (part_Finalizers x);
     return (x\<lparr>part_Finalizers := fs\<rparr>)
   }"

definition mem_copies :: "part ForeignCopies" where
  "mem_copies =
     \<lparr>ObjectMeta_DeepCopyInto = mem_meta_copy, ListMeta_DeepCopyInto = return,
      TemplateMeta_DeepCopyInto = return, Condition_DeepCopyInto = return, Quantity_DeepCopy = return,
      ObjectMeta_zero = mem_part, ListMeta_zero = mem_part, TemplateMeta_zero = mem_part,
      Condition_zero = mem_part, Quantity_zero = mem_part\<rparr>"

definition mem_views :: "part ForeignViews" where
  "mem_views =
     \<lparr>ObjectMeta_view = struct_view part_Finalizers (\<lambda>x fs. (part_Meta x)\<lparr>Finalizers := listed fs\<rparr>)
        (slice_view string_kind (inline id)),
      ListMeta_view = inline part_Text,
      TemplateMeta_view = inline (\<lambda>x. (Labels (part_Meta x), Map.empty)),
      Condition_view = inline part_Condition,
      Quantity_view = inline part_Text\<rparr>"

lemma mem_foreign_ok: "foreign_ok mem_copies mem_views"
proof -
  have "copyable (struct_view part_Finalizers (\<lambda>x fs. (part_Meta x)\<lparr>Finalizers := listed fs\<rparr>)
      (slice_view string_kind (inline id))) mem_meta_copy"
    by (rule copyable_struct [where upd = "\<lambda>s t. s\<lparr>part_Finalizers := t\<rparr>"])
      (rule copies | simp add: mem_meta_copy_def)+
  then show ?thesis
    by (simp add: foreign_ok_def mem_copies_def mem_views_def copyable_inline)
qed

definition mem_machine :: "part go_OxideMachine" where
  "mem_machine =
     \<lparr>gm_TypeMeta = \<lparr>TypeKind = ''OxideMachine'', TypeAPIVersion = ''v1alpha1''\<rparr>,
      gm_ObjectMeta = mem_part\<lparr>part_Finalizers := Some \<lparr>sl_block = 0, sl_off = 0, sl_len = 2\<rparr>\<rparr>,
      gm_Spec = (OxideMachineSpec_zero mem_copies)\<lparr>gms_AntiAffinityGroups :=
        Some \<lparr>sl_block = 1, sl_off = 1, sl_len = 1\<rparr>\<rparr>,
      gm_Status = OxideMachineStatus_zero\<lparr>gmt_Initialization :=
        \<lparr>gmi_Provisioned = Some (2, 0)\<rparr>\<rparr>\<rparr>"

definition mem_heap :: "part heap" where
  "mem_heap =
     [StringBlock [MachineFinalizer, ''other''], StringBlock [''a'', ''b''], BoolBlock [True],
      OxideMachineBlock [mem_machine]]"

definition mem_object :: runtime_Object where
  "mem_object = ObjOxideMachine (Some (3, 0))"

lemma mem_block [simp]:
  "length mem_heap = 4"
  "block string_kind mem_heap 0 = [MachineFinalizer, ''other'']"
  "block string_kind mem_heap (Suc 0) = [''a'', ''b'']"
  "block bool_kind mem_heap 2 = [True]"
  "block (OxideMachine_kind X) mem_heap 3 = [mem_machine]"
  by (simp_all add: block_def mem_heap_def string_kind_def bool_kind_def OxideMachine_kind_def)

lemmas machine_views = OxideMachine_view_def OxideMachineSpec_view_def OxideMachineStatus_view_def
  OxideMachineInitializationStatus_view_def

lemma mem_wf: "wf_in (object_view mem_copies mem_views) mem_heap mem_object"
  by (simp add: mem_object_def machine_views elem_at_def elems_def mem_machine_def
      OxideMachineSpec_zero_def OxideMachineStatus_zero_def)
    (simp add: mem_views_def elems_def)

lemma mem_copy:
  obtains c h' where "run_state (DeepCopyObject mem_copies mem_object) mem_heap = (Some c, h')"
proof -
  obtain r h' where r: "run_state (DeepCopyObject mem_copies mem_object) mem_heap = (r, h')"
    by fastforce
  then have "r \<noteq> None" by (simp add: DeepCopyObject_nil [OF r] points_to_def mem_object_def)
  with r that show thesis by auto
qed

subsection \<open>Properties\<close>

text \<open>C12: Copying an object through the interface \<open>runtime.Object\<close> gives the nil interface for a nil
  pointer, never an interface holding a nil pointer, and otherwise an object of the same kind that stands for the same
  value, lies wholly in new memory and leaves every old block as it was.\<close>

theorem deep_copy_refines:
  assumes "foreign_ok X F" and "wf_in (object_view X F) h ob"
    and "run_state (DeepCopyObject X ob) h = (r, h')"
  shows "case r of
      None \<Rightarrow> points_to ob = None \<and> h' = h
    | Some c \<Rightarrow> points_to ob \<noteq> None \<and> points_to c \<noteq> None \<and> prefix h h' \<and>
        wf_in (object_view X F) h' c \<and> val (object_view X F) h' c = val (object_view X F) h ob \<and>
        reach (object_view X F) h' c \<subseteq> {length h..<length h'}"
proof (cases r)
  case None
  then show ?thesis using DeepCopyObject_nil [OF assms(3)] DeepCopyObject_nil_heap [OF assms(3) [unfolded None]] by simp
next
  case (Some c)
  have "run_state (copy_object X ob) h = (c, h')"
    using assms(3) by (simp add: copy_object_def Some)
  from copyable.copy_copied [OF object_copyable [OF assms(1)] assms(2) this]
  show ?thesis using DeepCopyObject_nil [OF assms(3)] DeepCopyObject_typed [OF assms(3) [unfolded Some]]
    by (auto simp: Some copied_def)
qed

theorem deep_copy_refines_witness:
  "\<exists>c h'. run_state (DeepCopyObject mem_copies mem_object) mem_heap = (Some c, h') \<and>
     val (object_view mem_copies mem_views) h' c =
       val (object_view mem_copies mem_views) mem_heap mem_object \<and>
     reach (object_view mem_copies mem_views) h' c \<subseteq> {4..<length h'}"
proof (rule mem_copy)
  fix c h'
  assume r: "run_state (DeepCopyObject mem_copies mem_object) mem_heap = (Some c, h')"
  with deep_copy_refines [OF mem_foreign_ok mem_wf r] show ?thesis by auto
qed

text \<open>C13: A copy and its original are isolated: when afterwards anything the original reaches is written and new
  memory is allocated, the copy still stands for the object that was copied, and the other way round. A
  patch helper's snapshot is therefore not disturbed by the assignments of a reconcile.\<close>

theorem deep_copy_isolated:
  assumes "foreign_ok X F" and "wf_in (object_view X F) h ob"
    and "run_state (DeepCopyObject X ob) h = (Some c, h')"
    and "agree (- reach (object_view X F) h ob) h' h1"
    and "agree (- reach (object_view X F) h' c) h' h2"
  shows "val (object_view X F) h1 c = val (object_view X F) h ob \<and>
    val (object_view X F) h2 ob = val (object_view X F) h ob"
proof -
  note copy = object_copyable [OF assms(1)]
  have run: "run_state (copy_object X ob) h = (c, h')"
    using assms(3) by (simp add: copy_object_def)
  show ?thesis
    using copyable.isolated [OF copy assms(2) run assms(4)]
      copyable.original_kept [OF copy assms(2) run assms(5)] by simp
qed

theorem deep_copy_isolated_witness:
  "\<exists>c h' b i. run_state (DeepCopyObject mem_copies mem_object) mem_heap = (Some c, h') \<and>
     points_to c = Some (b, i) \<and>
     val (object_view mem_copies mem_views) (h'[1 := StringBlock [''x'', ''y'']] @ [BoolBlock []]) c =
       val (object_view mem_copies mem_views) mem_heap mem_object \<and>
     val (object_view mem_copies mem_views) (h'[b := BoolBlock []]) mem_object =
       val (object_view mem_copies mem_views) mem_heap mem_object"
proof (rule mem_copy)
  fix c h'
  let ?V = "object_view mem_copies mem_views"
  assume r: "run_state (DeepCopyObject mem_copies mem_object) mem_heap = (Some c, h')"
  obtain b i where b: "points_to c = Some (b, i)" using DeepCopyObject_typed [OF r] by auto
  have "1 \<in> reach ?V mem_heap mem_object"
    by (simp add: object_view_def mem_object_def machine_views elem_at_def mem_machine_def)
  then have 1: "agree (- reach ?V mem_heap mem_object) h' (h'[1 := StringBlock [''x'', ''y'']] @ [BoolBlock []])"
    by (rule agree_update)
  have 2: "agree (- reach ?V h' c) h' (h'[b := BoolBlock []])"
    using agree_update [where t = "[]" and b = b and h = h', OF points_to_reached [OF b, unfolded fst_conv]]
    by simp
  from deep_copy_isolated [OF mem_foreign_ok mem_wf r 1 2] r b show ?thesis by blast
qed

end
