(* ===== verification/GoFlag.thy ===== *)
theory GoFlag
  imports GoStd
begin

text \<open>
  Command lines as Go's package \<open>flag\<close> reads them. A flag has a name, tells whether it is boolean and sets a
  variable of the program's state \<open>'c\<close> from a text, which can fail. \<open>parse\<close> takes the arguments from the
  left: \<open>-name\<close> and \<open>--name\<close> are the same, a value follows after \<open>=\<close> or, unless the flag is boolean, as
  the next argument, and the first argument that is no flag ends it. The command line of a program stops on an
  error: exit code 0 after \<open>-help\<close>, 2 otherwise.
\<close>

record 'c flag =
  IsBoolFlag :: bool
  Set :: "string \<Rightarrow> 'c \<Rightarrow> 'c option"

definition ParseBool :: "string \<Rightarrow> bool option" where
  "ParseBool s =
     (if s \<in> {''1'', ''t'', ''T'', ''true'', ''TRUE'', ''True''} then Some True
      else if s \<in> {''0'', ''f'', ''F'', ''false'', ''FALSE'', ''False''} then Some False
      else None)"

text \<open>\<open>StringVar\<close> and \<open>BoolVar\<close>, for a variable given by its update.\<close>

definition StringVar :: "((string \<Rightarrow> string) \<Rightarrow> 'c \<Rightarrow> 'c) \<Rightarrow> 'c flag" where
  "StringVar upd = \<lparr>IsBoolFlag = False, Set = (\<lambda>v c. Some (upd (\<lambda>_. v) c))\<rparr>"

definition BoolVar :: "((bool \<Rightarrow> bool) \<Rightarrow> 'c \<Rightarrow> 'c) \<Rightarrow> 'c flag" where
  "BoolVar upd =
     \<lparr>IsBoolFlag = True, Set = (\<lambda>v c. map_option (\<lambda>b. upd (\<lambda>_. b) c) (ParseBool v))\<rparr>"

datatype 'c parsed = Parsed 'c "string list" | ErrHelp | ParseError

text \<open>The text after the dashes, cut at the first equals sign.\<close>

definition undashed :: "string \<Rightarrow> string" where
  "undashed s = (if s ! 1 = CHR ''-'' then drop 2 s else drop 1 s)"

definition cut :: "string \<Rightarrow> string \<times> string option" where
  "cut name =
     (case dropWhile (\<lambda>c. c \<noteq> CHR ''='') name of
        [] \<Rightarrow> (name, None)
      | _ # value \<Rightarrow> (takeWhile (\<lambda>c. c \<noteq> CHR ''='') name, Some value))"

definition is_flag :: "string \<Rightarrow> bool" where
  "is_flag s \<longleftrightarrow> 2 \<le> length s \<and> s ! 0 = CHR ''-''"

definition bad_syntax :: "string \<Rightarrow> bool" where
  "bad_syntax name \<longleftrightarrow> name = [] \<or> name ! 0 = CHR ''-'' \<or> name ! 0 = CHR ''=''"

datatype 'c step = More 'c "string list" | Stop "'c parsed"

definition set_flag :: "'c flag \<Rightarrow> string \<Rightarrow> 'c \<Rightarrow> string list \<Rightarrow> 'c step" where
  "set_flag f v c args = (case Set f v c of None \<Rightarrow> Stop ParseError | Some c \<Rightarrow> More c args)"

fun parseOne :: "(string \<rightharpoonup> 'c flag) \<Rightarrow> 'c \<Rightarrow> string list \<Rightarrow> 'c step" where
  "parseOne formal c [] = Stop (Parsed c [])"
| "parseOne formal c (s # args) =
     (if \<not> is_flag s then Stop (Parsed c (s # args))
      else if s = ''--'' then Stop (Parsed c args)
      else if bad_syntax (undashed s) then Stop ParseError
      else case formal (fst (cut (undashed s))) of
        None \<Rightarrow> Stop (if fst (cut (undashed s)) \<in> {''help'', ''h''} then ErrHelp else ParseError)
      | Some f \<Rightarrow> (case snd (cut (undashed s)) of
          Some v \<Rightarrow> set_flag f v c args
        | None \<Rightarrow>
            if IsBoolFlag f then set_flag f ''true'' c args
            else (case args of [] \<Rightarrow> Stop ParseError | v # args \<Rightarrow> set_flag f v c args)))"

text \<open>A flag is named by an argument.\<close>

definition named :: "string \<Rightarrow> string \<Rightarrow> bool" where
  "named n s \<longleftrightarrow> is_flag s \<and> fst (cut (undashed s)) = n"

lemma parseOne_More:
  assumes "parseOne formal c args = More c' args'"
  shows "length args' < length args \<and> set args' \<subseteq> set args \<and>
    (\<exists>s n f v. s \<in> set args \<and> named n s \<and> formal n = Some f \<and> Set f v c = Some c')"
proof (cases args)
  case (Cons s rest)
  with assms show ?thesis
    by (auto simp: set_flag_def named_def split: if_splits option.splits list.splits)
qed (use assms in simp)

function parse :: "(string \<rightharpoonup> 'c flag) \<Rightarrow> 'c \<Rightarrow> string list \<Rightarrow> 'c parsed" where
  "parse formal c args =
     (case parseOne formal c args of Stop r \<Rightarrow> r | More c' args' \<Rightarrow> parse formal c' args')"
  by pat_completeness auto
termination
  by (relation "measure (\<lambda>(_, _, args). length args)") (auto dest: parseOne_More)

declare parse.simps [simp del]

subsection \<open>Facts\<close>

text \<open>A name a flag can be given by.\<close>

definition proper_name :: "string \<Rightarrow> bool" where
  "proper_name n \<longleftrightarrow> \<not> bad_syntax n \<and> CHR ''='' \<notin> set n"

lemma cut_name:
  assumes "CHR ''='' \<notin> set n"
  shows "cut n = (n, None)"
proof -
  from assms have "dropWhile (\<lambda>c. c \<noteq> CHR ''='') n = []" by (auto simp: dropWhile_eq_Nil_conv)
  then show ?thesis unfolding cut_def by (metis list.simps(4))
qed

lemma cut_value:
  assumes "CHR ''='' \<notin> set n"
  shows "cut (n @ CHR ''='' # v) = (n, Some v)"
proof -
  from assms have "dropWhile (\<lambda>c. c \<noteq> CHR ''='') (n @ CHR ''='' # v) = CHR ''='' # v"
    and "takeWhile (\<lambda>c. c \<noteq> CHR ''='') (n @ CHR ''='' # v) = n"
    by (induction n) auto
  then show ?thesis by (simp add: cut_def)
qed

definition dashes :: "string \<Rightarrow> bool" where
  "dashes d \<longleftrightarrow> d = ''-'' \<or> d = ''--''"

lemma dashed:
  assumes "dashes d" and "\<not> bad_syntax n"
  shows "is_flag (d @ n @ v)" and "d @ n @ v \<noteq> ''--''" and "undashed (d @ n @ v) = n @ v"
  using assms by (cases n; auto simp: dashes_def bad_syntax_def is_flag_def undashed_def)+

lemma not_bad_append: "\<not> bad_syntax n \<Longrightarrow> \<not> bad_syntax (n @ v)"
  by (cases n) (auto simp: bad_syntax_def)

lemma parse_value:
  assumes "dashes d" and "proper_name n" and "formal n = Some f"
  shows "parse formal c ((d @ n @ CHR ''='' # v) # args) =
     (case Set f v c of None \<Rightarrow> ParseError | Some c \<Rightarrow> parse formal c args)"
  using assms dashed [OF assms(1), of n "CHR ''='' # v"] not_bad_append [of n]
  by (simp add: proper_name_def cut_value parse.simps [of formal c] set_flag_def split: option.split)

lemma parse_switch:
  assumes "dashes d" and "proper_name n" and "formal n = Some f" and "IsBoolFlag f"
  shows "parse formal c ((d @ n) # args) =
     (case Set f ''true'' c of None \<Rightarrow> ParseError | Some c \<Rightarrow> parse formal c args)"
  using assms dashed [OF assms(1), of n "[]"] by (simp add: proper_name_def cut_name parse.simps [of formal c] set_flag_def split: option.split)

lemma parse_next:
  assumes "dashes d" and "proper_name n" and "formal n = Some f" and "\<not> IsBoolFlag f"
  shows "parse formal c ((d @ n) # v # args) =
     (case Set f v c of None \<Rightarrow> ParseError | Some c \<Rightarrow> parse formal c args)"
  using assms dashed [OF assms(1), of n "[]"] by (simp add: proper_name_def cut_name parse.simps [of formal c] set_flag_def split: option.split)

text \<open>What the flags named in a command line keep, parsing keeps.\<close>

lemma parseOne_Stop: "parseOne formal c args = Stop (Parsed c' rest) \<Longrightarrow> c' = c"
  by (cases args) (auto simp: set_flag_def split: if_splits option.splits list.splits)

lemma parse_keeps:
  assumes "parse formal c args = Parsed c' rest" and "Q c"
    and "\<And>n s f v d d'. s \<in> set args \<Longrightarrow> named n s \<Longrightarrow> formal n = Some f \<Longrightarrow> Set f v d = Some d' \<Longrightarrow> Q d \<Longrightarrow> Q d'"
  shows "Q c'"
  using assms
proof (induction formal c args rule: parse.induct)
  case (1 formal c args)
  show ?case
  proof (cases "parseOne formal c args")
    case (More d args')
    from parseOne_More [OF More] obtain s n f v where sub: "set args' \<subseteq> set args"
      and s: "s \<in> set args" "named n s" "formal n = Some f" "Set f v c = Some d" by blast
    have "Q d" by (rule "1.prems"(3) [OF s "1.prems"(2)])
    with "1.IH" [OF More] "1.prems" sub show ?thesis
      by (simp add: parse.simps [of formal c] More) blast
  next
    case (Stop r)
    with "1.prems" show ?thesis by (auto simp: parse.simps [of formal c] dest: parseOne_Stop)
  qed
qed

end
