(* ===== verification/Scheme.thy ===== *)
theory Scheme
  imports GoError
begin

text \<open>
  The registration of the API group: \<open>api/v1alpha1/groupversion_info.go\<close>, the \<open>init\<close> functions of the
  type files and \<open>init\<close> of \<open>cmd/main.go\<close>. A scheme of apimachinery is a value of the type
  \<open>'s\<close>, its operations are parameters, and \<open>scheme_ok\<close> is what they document: which types a scheme
  recognizes after each of them.
\<close>

text \<open>The Go types the repository registers, watches and reads.\<close>

datatype go_type =
    T_OxideCluster | T_OxideClusterList
  | T_OxideMachine | T_OxideMachineList
  | T_OxideMachineTemplate | T_OxideMachineTemplateList
  | T_Machine | T_Cluster | T_Secret

record GroupVersion =
  Group :: string
  Version :: string

record GroupVersionKind =
  gvk_GroupVersion :: GroupVersion
  gvk_Kind :: string

definition SchemeGroupVersion :: GroupVersion where
  "SchemeGroupVersion = \<lparr>Group = ''infrastructure.cluster.x-k8s.io'', Version = ''v1alpha1''\<rparr>"

definition WithKind :: "GroupVersion \<Rightarrow> string \<Rightarrow> GroupVersionKind" where
  "WithKind gv kind = \<lparr>gvk_GroupVersion = gv, gvk_Kind = kind\<rparr>"

text \<open>
  Each types file appends to \<open>objectTypes\<close> in its \<open>init\<close>; Go runs them in the order of the file names,
  after the package's variables are initialized.
\<close>

definition objectTypes_initial :: "go_type list" where
  "objectTypes_initial = []"

definition init_oxidecluster :: "go_type list \<Rightarrow> go_type list" where
  "init_oxidecluster objectTypes = objectTypes @ [T_OxideCluster, T_OxideClusterList]"

definition init_oxidemachine :: "go_type list \<Rightarrow> go_type list" where
  "init_oxidemachine objectTypes = objectTypes @ [T_OxideMachine, T_OxideMachineList]"

definition init_oxidemachinetemplate :: "go_type list \<Rightarrow> go_type list" where
  "init_oxidemachinetemplate objectTypes =
     objectTypes @ [T_OxideMachineTemplate, T_OxideMachineTemplateList]"

definition objectTypes :: "go_type list" where
  "objectTypes =
     init_oxidemachinetemplate (init_oxidemachine (init_oxidecluster objectTypes_initial))"

text \<open>
  The operations on schemes. Registering a type twice under one name panics, which is \<^term>\<open>None\<close>; so
  does \<open>utilruntime.Must\<close> on an error.
\<close>

record 's scheme_api =
  NewScheme :: 's
  AddKnownTypes :: "GroupVersion \<Rightarrow> go_type list \<Rightarrow> 's \<Rightarrow> 's option"
  AddToGroupVersion :: "GroupVersion \<Rightarrow> 's \<Rightarrow> 's option"
  builder_AddToScheme :: "('s \<Rightarrow> (go_error + 's) option) list \<Rightarrow> 's \<Rightarrow> (go_error + 's) option"
  clientgoscheme_AddToScheme :: "'s \<Rightarrow> (go_error + 's) option"
  clusterv1_AddToScheme :: "'s \<Rightarrow> (go_error + 's) option"

definition addKnownTypes :: "'s scheme_api \<Rightarrow> 's \<Rightarrow> (go_error + 's) option" where
  "addKnownTypes A scheme =
     (case AddKnownTypes A SchemeGroupVersion objectTypes scheme of
        None \<Rightarrow> None
      | Some scheme \<Rightarrow> (case AddToGroupVersion A SchemeGroupVersion scheme of
          None \<Rightarrow> None
        | Some scheme \<Rightarrow> Some (Inr scheme)))"

definition SchemeBuilder :: "'s scheme_api \<Rightarrow> ('s \<Rightarrow> (go_error + 's) option) list" where
  "SchemeBuilder A = [addKnownTypes A]"

definition AddToScheme :: "'s scheme_api \<Rightarrow> 's \<Rightarrow> (go_error + 's) option" where
  "AddToScheme A = builder_AddToScheme A (SchemeBuilder A)"

definition Must :: "(go_error + 's) option \<Rightarrow> 's option" where
  "Must r = (case r of Some (Inr s) \<Rightarrow> Some s | _ \<Rightarrow> None)"

definition main_init :: "'s scheme_api \<Rightarrow> 's option" where
  "main_init A =
     (case Must (clientgoscheme_AddToScheme A (NewScheme A)) of
        None \<Rightarrow> None
      | Some scheme \<Rightarrow> (case Must (clusterv1_AddToScheme A scheme) of
          None \<Rightarrow> None
        | Some scheme \<Rightarrow> Must (AddToScheme A scheme)))"

subsection \<open>What a scheme recognizes\<close>

text \<open>The documented effect of each operation that succeeds. A builder of one function is that function.\<close>

definition adds :: "('s \<Rightarrow> go_type \<Rightarrow> bool) \<Rightarrow> go_type list \<Rightarrow> 's \<Rightarrow> 's \<Rightarrow> bool" where
  "adds recognizes ts s s' \<longleftrightarrow> (\<forall>t. recognizes s t \<or> t \<in> set ts \<longrightarrow> recognizes s' t)"

definition scheme_ok :: "'s scheme_api \<Rightarrow> ('s \<Rightarrow> go_type \<Rightarrow> bool) \<Rightarrow> bool" where
  "scheme_ok A recognizes \<longleftrightarrow>
     (\<forall>gv ts s s'. AddKnownTypes A gv ts s = Some s' \<longrightarrow> adds recognizes ts s s') \<and>
     (\<forall>gv s s'. AddToGroupVersion A gv s = Some s' \<longrightarrow> adds recognizes [] s s') \<and>
     (\<forall>f s. builder_AddToScheme A [f] s = f s) \<and>
     (\<forall>s s'. clientgoscheme_AddToScheme A s = Some (Inr s') \<longrightarrow> adds recognizes [T_Secret] s s') \<and>
     (\<forall>s s'. clusterv1_AddToScheme A s = Some (Inr s') \<longrightarrow> adds recognizes [T_Machine, T_Cluster] s s')"

lemma Must_Some: "Must r = Some s \<longleftrightarrow> r = Some (Inr s)"
  by (simp add: Must_def split: option.split sum.split)

lemma adds_trans: "adds R ts s s' \<Longrightarrow> adds R us s' s'' \<Longrightarrow> adds R (ts @ us) s s''"
  by (auto simp: adds_def)

lemma objectTypes_eq:
  "objectTypes = [T_OxideCluster, T_OxideClusterList, T_OxideMachine, T_OxideMachineList,
     T_OxideMachineTemplate, T_OxideMachineTemplateList]"
  by (simp add: objectTypes_def init_oxidemachinetemplate_def init_oxidemachine_def
      init_oxidecluster_def objectTypes_initial_def)

lemma addKnownTypes_adds:
  assumes "scheme_ok A R" and "addKnownTypes A s = Some (Inr s')"
  shows "adds R objectTypes s s'"
proof -
  obtain s1 where s1: "AddKnownTypes A SchemeGroupVersion objectTypes s = Some s1"
    and s': "AddToGroupVersion A SchemeGroupVersion s1 = Some s'"
    using assms(2) by (auto simp: addKnownTypes_def split: option.splits)
  have "adds R objectTypes s s1" using assms(1) s1 unfolding scheme_ok_def by blast
  moreover have "adds R [] s1 s'" using assms(1) s' unfolding scheme_ok_def by blast
  ultimately show ?thesis using adds_trans by fastforce
qed

lemma main_init_adds:
  assumes "scheme_ok A R" and "main_init A = Some s"
  shows "adds R (T_Secret # T_Machine # T_Cluster # objectTypes) (NewScheme A) s"
proof -
  obtain s1 s2 where s1: "clientgoscheme_AddToScheme A (NewScheme A) = Some (Inr s1)"
    and s2: "clusterv1_AddToScheme A s1 = Some (Inr s2)" and s: "AddToScheme A s2 = Some (Inr s)"
    using assms(2) by (auto simp: main_init_def Must_Some split: option.splits)
  have a: "adds R [T_Secret] (NewScheme A) s1" using assms(1) s1 unfolding scheme_ok_def by blast
  have b: "adds R [T_Machine, T_Cluster] s1 s2" using assms(1) s2 unfolding scheme_ok_def by blast
  have c: "adds R objectTypes s2 s"
    using assms(1) s by (intro addKnownTypes_adds) (auto simp: scheme_ok_def AddToScheme_def SchemeBuilder_def)
  from adds_trans [OF adds_trans [OF a b] c] show ?thesis by simp
qed

end
