(* ===== verification/Wiring.thy ===== *)
theory Wiring
  imports MachineController ClusterController ClientFactory Scheme
begin

text \<open>
  \<open>SetupWithManager\<close> of the two reconcilers: what each controller reconciles, what it watches and which
  requests a watched object leads to. controller-runtime's builder is the parameter
  \<open>Complete\<close>, which is handed the finished table; the map functions of Cluster API are parameters,
  the one of the repository, \<open>oxideMachineToOxideCluster\<close>, is the model's. Loggers are left out.
\<close>

text \<open>The objects that reach a map function.\<close>

datatype watched =
    WatchedMachine Machine
  | WatchedCluster Cluster
  | WatchedOxideMachine OxideMachine

fun watched_meta :: "watched \<Rightarrow> ObjectMeta" where
  "watched_meta (WatchedMachine m) = MachineMeta m"
| "watched_meta (WatchedCluster c) = ClusterMeta c"
| "watched_meta (WatchedOxideMachine m) = om_Meta m"

type_synonym 'w map_func = "watched \<Rightarrow> ('w, ObjectKey list) io"

record ('w, 'p) Watch =
  watch_type :: go_type
  watch_EnqueueRequestsFromMapFunc :: "'w map_func"
  watch_WithPredicates :: "'p list"

record ('w, 'p) ControllerTable =
  ct_For :: go_type
  ct_Watches :: "('w, 'p) Watch list"
  ct_Named :: string
  ct_Reconcile :: "ObjectKey \<Rightarrow> ('w, Result \<times> go_error option) io"

record ('w, 's, 'p) controller_lib =
  ClusterToTypedObjectsMapper :: "go_type \<Rightarrow> 's \<Rightarrow> ('w, go_error + 'w map_func) io"
  MachineToInfrastructureMapFunc :: "GroupVersionKind \<Rightarrow> 'w map_func"
  ClusterToInfrastructureMapFunc :: "GroupVersionKind \<Rightarrow> go_type \<Rightarrow> 'w map_func"
  ClusterPausedTransitions :: "'s \<Rightarrow> 'p"
  Complete :: "('w, 'p) ControllerTable \<Rightarrow> ('w, go_error option) io"

definition machine_table ::
    "pkgs \<Rightarrow> ('w, 's, 'p) controller_lib \<Rightarrow> 's \<Rightarrow> 'w map_func \<Rightarrow> ('w, 'h, 't) OxideMachineReconciler \<Rightarrow>
     ('w, 'p) ControllerTable" where
  "machine_table P L scheme clusterToOxideMachines r =
     \<lparr>ct_For = T_OxideMachine,
      ct_Watches =
        [\<lparr>watch_type = T_Machine,
          watch_EnqueueRequestsFromMapFunc =
            MachineToInfrastructureMapFunc L (WithKind SchemeGroupVersion ''OxideMachine''),
          watch_WithPredicates = []\<rparr>,
         \<lparr>watch_type = T_Cluster,
          watch_EnqueueRequestsFromMapFunc = clusterToOxideMachines,
          watch_WithPredicates = [ClusterPausedTransitions L scheme]\<rparr>],
      ct_Named = ''oxidemachine'',
      ct_Reconcile = machine_Reconcile P r\<rparr>"

definition machine_SetupWithManager ::
    "pkgs \<Rightarrow> ('w, 's, 'p) controller_lib \<Rightarrow> 's \<Rightarrow> ('w, 'h, 't) OxideMachineReconciler \<Rightarrow>
     ('w, go_error option) io" where
  "machine_SetupWithManager P L scheme r = do {
     f \<leftarrow> ClusterToTypedObjectsMapper L T_OxideMachineList scheme;
     case f of
       Inl err \<Rightarrow> return (Some (Wrapf ''creating cluster to oxidemachines mapper'' err))
     | Inr clusterToOxideMachines \<Rightarrow>
         Complete L (machine_table P L scheme clusterToOxideMachines r)
   }"

definition cluster_table ::
    "pkgs \<Rightarrow> ('w, 's, 'p) controller_lib \<Rightarrow> 's \<Rightarrow> ('w, 'h, 't) OxideClusterReconciler \<Rightarrow>
     ('w, 'p) ControllerTable" where
  "cluster_table P L scheme r =
     \<lparr>ct_For = T_OxideCluster,
      ct_Watches =
        [\<lparr>watch_type = T_OxideMachine,
          watch_EnqueueRequestsFromMapFunc =
            (\<lambda>obj. return (oxideMachineToOxideCluster (watched_meta obj))),
          watch_WithPredicates = []\<rparr>,
         \<lparr>watch_type = T_Cluster,
          watch_EnqueueRequestsFromMapFunc =
            ClusterToInfrastructureMapFunc L (WithKind SchemeGroupVersion ''OxideCluster'') T_OxideCluster,
          watch_WithPredicates = [ClusterPausedTransitions L scheme]\<rparr>],
      ct_Named = ''oxidecluster'',
      ct_Reconcile = cluster_Reconcile P r\<rparr>"

definition cluster_SetupWithManager ::
    "pkgs \<Rightarrow> ('w, 's, 'p) controller_lib \<Rightarrow> 's \<Rightarrow> ('w, 'h, 't) OxideClusterReconciler \<Rightarrow>
     ('w, go_error option) io" where
  "cluster_SetupWithManager P L scheme r = Complete L (cluster_table P L scheme r)"

subsection \<open>The types a controller depends on\<close>

text \<open>
  What the informers of a controller are started for, and what the calls of a reconcile read: the records
  of \<open>K8sClient\<close>, kind by kind.
\<close>

definition table_types :: "('w, 'p) ControllerTable \<Rightarrow> go_type list" where
  "table_types t = ct_For t # map watch_type (ct_Watches t)"

definition machine_reads :: "go_type list" where
  "machine_reads = [T_OxideMachine, T_Machine, T_Cluster, T_OxideCluster, T_Secret, T_OxideMachineList]"

definition cluster_reads :: "go_type list" where
  "cluster_reads = [T_OxideCluster, T_Cluster, T_Secret, T_OxideMachineList]"

lemma controller_types:
  "set (table_types (machine_table P L scheme f r) @ table_types (cluster_table P L scheme q) @
      machine_reads @ cluster_reads) \<subseteq> set (T_Secret # T_Machine # T_Cluster # objectTypes)"
  by (auto simp: table_types_def machine_table_def cluster_table_def machine_reads_def
      cluster_reads_def objectTypes_eq)

end
