(* ===== verification/ManagerMain.thy ===== *)
theory ManagerMain
  imports GoFlag Wiring
begin

text \<open>
  \<open>cmd/main.go\<close>: from the command line to the options of the metrics server and the manager, then the
  start of the manager in fixed order, every failure ending the process with exit code 1. The
  flags that zap and controller-runtime register are the parameter \<open>extra\<close>, acting on
  state of their own; the manager's operations are parameters. Logging is left out.
\<close>

subsection \<open>Flags\<close>

record 'z main_flags =
  metricsAddr :: string
  metricsCertPath :: string
  metricsCertName :: string
  metricsCertKey :: string
  enableLeaderElection :: bool
  probeAddr :: string
  secureMetrics :: bool
  enableHTTP2 :: bool
  extraFlags :: 'z

definition flag_defaults :: "'z \<Rightarrow> 'z main_flags" where
  "flag_defaults z =
     \<lparr>metricsAddr = ''0'', metricsCertPath = [], metricsCertName = ''tls.crt'',
      metricsCertKey = ''tls.key'', enableLeaderElection = False, probeAddr = '':8081'',
      secureMetrics = True, enableHTTP2 = False, extraFlags = z\<rparr>"

definition main_flag_table :: "(string \<times> 'z main_flags flag) list" where
  "main_flag_table =
     [(''metrics-bind-address'', StringVar metricsAddr_update),
      (''health-probe-bind-address'', StringVar probeAddr_update),
      (''leader-elect'', BoolVar enableLeaderElection_update),
      (''metrics-secure'', BoolVar secureMetrics_update),
      (''metrics-cert-path'', StringVar metricsCertPath_update),
      (''metrics-cert-name'', StringVar metricsCertName_update),
      (''metrics-cert-key'', StringVar metricsCertKey_update),
      (''enable-http2'', BoolVar enableHTTP2_update)]"

definition lift_flag :: "'z flag \<Rightarrow> 'z main_flags flag" where
  "lift_flag f =
     \<lparr>IsBoolFlag = IsBoolFlag f,
      Set = (\<lambda>v c. map_option (\<lambda>z. c\<lparr>extraFlags := z\<rparr>) (Set f v (extraFlags c)))\<rparr>"

definition CommandLine :: "(string \<rightharpoonup> 'z flag) \<Rightarrow> string \<rightharpoonup> 'z main_flags flag" where
  "CommandLine extra n =
     (case map_of main_flag_table n of
        Some f \<Rightarrow> Some f
      | None \<Rightarrow> map_option lift_flag (extra n))"

subsection \<open>Options\<close>

text \<open>The part of \<open>tls.Config\<close> the code sets.\<close>

record tls_config =
  NextProtos :: "string list"

definition disableHTTP2 :: "tls_config \<Rightarrow> tls_config" where
  "disableHTTP2 c = c\<lparr>NextProtos := [''http/1.1'']\<rparr>"

definition main_tlsOpts :: "'z main_flags \<Rightarrow> (tls_config \<Rightarrow> tls_config) list" where
  "main_tlsOpts v = (if \<not> enableHTTP2 v then [] @ [disableHTTP2] else [])"

datatype filter_provider = WithAuthenticationAndAuthorization

record metrics_options =
  BindAddress :: string
  SecureServing :: bool
  TLSOpts :: "(tls_config \<Rightarrow> tls_config) list"
  FilterProvider :: "filter_provider option"
  CertDir :: string
  CertName :: string
  KeyName :: string

definition metricsServerOptions :: "'z main_flags \<Rightarrow> metrics_options" where
  "metricsServerOptions v =
     (let opts = \<lparr>BindAddress = metricsAddr v, SecureServing = secureMetrics v,
            TLSOpts = main_tlsOpts v, FilterProvider = None, CertDir = [], CertName = [], KeyName = []\<rparr>;
          opts = (if secureMetrics v
            then opts\<lparr>FilterProvider := Some WithAuthenticationAndAuthorization\<rparr> else opts)
      in if length (metricsCertPath v) > 0
         then opts\<lparr>CertDir := metricsCertPath v, CertName := metricsCertName v,
                   KeyName := metricsCertKey v\<rparr>
         else opts)"

record 's manager_options =
  mo_Scheme :: 's
  mo_Metrics :: metrics_options
  mo_HealthProbeBindAddress :: string
  mo_LeaderElection :: bool
  mo_LeaderElectionID :: string

definition managerOptions :: "'s \<Rightarrow> 'z main_flags \<Rightarrow> 's manager_options" where
  "managerOptions scheme v =
     \<lparr>mo_Scheme = scheme, mo_Metrics = metricsServerOptions v,
      mo_HealthProbeBindAddress = probeAddr v, mo_LeaderElection = enableLeaderElection v,
      mo_LeaderElectionID = ''4c4262a8.cluster.x-k8s.io''\<rparr>"

text \<open>\<open>fmt.Sprintf("cluster-api-provider-oxide/%s-%s", version, commit)\<close>.\<close>

definition main_userAgent :: "string \<Rightarrow> string \<Rightarrow> string" where
  "main_userAgent version commit = ''cluster-api-provider-oxide/'' @ version @ ''-'' @ commit"

subsection \<open>The start of the manager\<close>

text \<open>The calls in their order; a missing cluster configuration ends the process inside \<open>GetConfigOrDie\<close>.\<close>

record ('w, 'c, 'm) startup =
  su_GetConfigOrDie :: "('w, 'c option) io"
  su_NewManager :: "'c \<Rightarrow> ('w, go_error + 'm) io"
  su_SetupMachine :: "'m \<Rightarrow> ('w, go_error option) io"
  su_SetupCluster :: "'m \<Rightarrow> ('w, go_error option) io"
  su_AddHealthzCheck :: "'m \<Rightarrow> ('w, go_error option) io"
  su_AddReadyzCheck :: "'m \<Rightarrow> ('w, go_error option) io"
  su_Start :: "'m \<Rightarrow> ('w, go_error option) io"

definition start_manager :: "('w, 'c, 'm) startup \<Rightarrow> ('w, nat) io" where
  "start_manager S = do {
     cfg \<leftarrow> su_GetConfigOrDie S;
     case cfg of
       None \<Rightarrow> return 1
     | Some cfg \<Rightarrow> do {
         r \<leftarrow> su_NewManager S cfg;
         case r of
           Inl err \<Rightarrow> return 1
         | Inr mgr \<Rightarrow> do {
             err \<leftarrow> su_SetupMachine S mgr;
             if err \<noteq> None then return 1 else do {
             err \<leftarrow> su_SetupCluster S mgr;
             if err \<noteq> None then return 1 else do {
             err \<leftarrow> su_AddHealthzCheck S mgr;
             if err \<noteq> None then return 1 else do {
             err \<leftarrow> su_AddReadyzCheck S mgr;
             if err \<noteq> None then return 1 else do {
             err \<leftarrow> su_Start S mgr;
             if err \<noteq> None then return 1 else return 0 } } } }
           }
       }
   }"

text \<open>What \<open>main\<close> calls of controller-runtime, of Cluster API and of the Oxide SDK.\<close>

record ('w, 'h, 's, 'p, 'c, 'm) main_lib =
  GetConfig :: "('w, 'c option) io"
  NewManager :: "'c \<Rightarrow> 's manager_options \<Rightarrow> ('w, go_error + 'm) io"
  mgr_GetClient :: "'m \<Rightarrow> ('w, 'h) K8sClient"
  mgr_GetScheme :: "'m \<Rightarrow> 's"
  mgr_lib :: "'m \<Rightarrow> ('w, 's, 'p) controller_lib"
  mgr_AddHealthzCheck :: "'m \<Rightarrow> string \<Rightarrow> ('w, go_error option) io"
  mgr_AddReadyzCheck :: "'m \<Rightarrow> string \<Rightarrow> ('w, go_error option) io"
  mgr_Start :: "'m \<Rightarrow> ('w, go_error option) io"
  oxide_NewClient :: "OxideClientOptions \<Rightarrow> go_error + 'w OxideClient"

definition main_machine_reconciler ::
    "('w, 'h, 's, 'p, 'c, 'm) main_lib \<Rightarrow> string \<Rightarrow> 'm \<Rightarrow> ('w, 'h, 's) OxideMachineReconciler" where
  "main_machine_reconciler L userAgent mgr =
     \<lparr>omr_Client = mgr_GetClient L mgr, omr_Scheme = mgr_GetScheme L mgr,
      omr_OxideClientFactory =
        NewOxideClientFactory (oxide_NewClient L) userAgent (mgr_GetClient L mgr)\<rparr>"

definition main_cluster_reconciler ::
    "('w, 'h, 's, 'p, 'c, 'm) main_lib \<Rightarrow> string \<Rightarrow> 'm \<Rightarrow> ('w, 'h, 's) OxideClusterReconciler" where
  "main_cluster_reconciler L userAgent mgr =
     \<lparr>ocr_Client = mgr_GetClient L mgr, ocr_Scheme = mgr_GetScheme L mgr,
      ocr_OxideClientFactory =
        NewOxideClientFactory (oxide_NewClient L) userAgent (mgr_GetClient L mgr)\<rparr>"

definition main_startup ::
    "pkgs \<Rightarrow> ('w, 'h, 's, 'p, 'c, 'm) main_lib \<Rightarrow> string \<Rightarrow> 's manager_options \<Rightarrow> ('w, 'c, 'm) startup" where
  "main_startup P L userAgent opts =
     \<lparr>su_GetConfigOrDie = GetConfig L,
      su_NewManager = (\<lambda>cfg. NewManager L cfg opts),
      su_SetupMachine = (\<lambda>mgr.
        machine_SetupWithManager P (mgr_lib L mgr) (mgr_GetScheme L mgr)
          (main_machine_reconciler L userAgent mgr)),
      su_SetupCluster = (\<lambda>mgr.
        cluster_SetupWithManager P (mgr_lib L mgr) (mgr_GetScheme L mgr)
          (main_cluster_reconciler L userAgent mgr)),
      su_AddHealthzCheck = (\<lambda>mgr. mgr_AddHealthzCheck L mgr ''healthz''),
      su_AddReadyzCheck = (\<lambda>mgr. mgr_AddReadyzCheck L mgr ''readyz''),
      su_Start = mgr_Start L\<rparr>"

text \<open>
  The whole program: its result is the exit code. A panic of the package initialization is exit code 2, as
  in every Go program.
\<close>

definition main ::
    "pkgs \<Rightarrow> 's scheme_api \<Rightarrow> ('w, 'h, 's, 'p, 'c, 'm) main_lib \<Rightarrow> (string \<rightharpoonup> 'z flag) \<Rightarrow> 'z \<Rightarrow>
     string \<Rightarrow> string \<Rightarrow> string list \<Rightarrow> ('w, nat) io" where
  "main P A L extra z version commit args =
     (case main_init A of
        None \<Rightarrow> return 2
      | Some scheme \<Rightarrow> (case parse (CommandLine extra) (flag_defaults z) args of
          ErrHelp \<Rightarrow> return 0
        | ParseError \<Rightarrow> return 2
        | Parsed v _ \<Rightarrow>
            start_manager (main_startup P L (main_userAgent version commit) (managerOptions scheme v))))"

end
