(* ===== verification/ManagerClaims.thy ===== *)
theory ManagerClaims
  imports ManagerMain Sample
begin

text \<open>
  The properties of the program's start: the command line, the options that follow from it, the order and the
  outcome of the start, and the registration of every type the controllers touch.
\<close>

subsection \<open>The command line\<close>

text \<open>A command line that spells out every flag.\<close>

definition bool_text :: "bool \<Rightarrow> string" where
  "bool_text b = (if b then ''true'' else ''false'')"

definition render_flags :: "'z main_flags \<Rightarrow> string list" where
  "render_flags v =
     [''--metrics-bind-address='' @ metricsAddr v,
      ''--health-probe-bind-address='' @ probeAddr v,
      ''--leader-elect='' @ bool_text (enableLeaderElection v),
      ''--metrics-secure='' @ bool_text (secureMetrics v),
      ''--metrics-cert-path='' @ metricsCertPath v,
      ''--metrics-cert-name='' @ metricsCertName v,
      ''--metrics-cert-key='' @ metricsCertKey v,
      ''--enable-http2='' @ bool_text (enableHTTP2 v)]"

lemma ParseBool_text [simp]: "ParseBool (bool_text b) = Some b"
  by (simp add: ParseBool_def bool_text_def)

lemma set_StringVar [simp]: "Set (StringVar upd) s c = Some (upd (\<lambda>_. s) c)"
  by (simp add: StringVar_def)

lemma set_BoolVar [simp]: "Set (BoolVar upd) (bool_text b) c = Some (upd (\<lambda>_. b) c)"
  by (simp add: BoolVar_def)

lemma parse_own:
  assumes "map_of main_flag_table n = Some f"
  shows "parse (CommandLine extra) c ((''--'' @ n @ CHR ''='' # s) # args) =
     (case Set f s c of None \<Rightarrow> ParseError | Some c \<Rightarrow> parse (CommandLine extra) c args)"
proof (rule parse_value)
  show "proper_name n"
    using map_of_SomeD [OF assms] by (auto simp: main_flag_table_def proper_name_def bad_syntax_def)
qed (simp_all add: dashes_def CommandLine_def assms)

lemmas parse_own_flags =
  parse_own [where n = "''metrics-bind-address''"] parse_own [where n = "''health-probe-bind-address''"]
  parse_own [where n = "''leader-elect''"] parse_own [where n = "''metrics-secure''"]
  parse_own [where n = "''metrics-cert-path''"] parse_own [where n = "''metrics-cert-name''"]
  parse_own [where n = "''metrics-cert-key''"] parse_own [where n = "''enable-http2''"]

text \<open>C39: Reading back a command line that spells out every flag gives exactly the flags it was made from,
  whatever flags other packages register.\<close>

theorem flags_roundtrip:
  "parse (CommandLine extra) (flag_defaults (extraFlags v)) (render_flags v) = Parsed v []"
  by (simp add: render_flags_def parse_own_flags [simplified] main_flag_table_def flag_defaults_def
      parse.simps [of _ _ "[]"])

subsection \<open>The options\<close>

text \<open>C22: A command line that mentions neither HTTP/2 nor the security of the metrics leads to a metrics server that
  speaks HTTP/1.1 only, serves HTTPS and checks every request for authentication and authorization, whatever
  other flags it sets.\<close>

theorem metrics_hardened:
  assumes "parse (CommandLine extra) (flag_defaults z) args = Parsed v rest"
    and "list_all (\<lambda>s. \<not> named ''enable-http2'' s \<and> \<not> named ''metrics-secure'' s) args"
  shows "NextProtos (fold id (TLSOpts (mo_Metrics (managerOptions scheme v))) cfg) = [''http/1.1''] \<and>
    SecureServing (mo_Metrics (managerOptions scheme v)) \<and>
    FilterProvider (mo_Metrics (managerOptions scheme v)) = Some WithAuthenticationAndAuthorization"
proof -
  have "\<not> enableHTTP2 v \<and> secureMetrics v"
  proof (rule parse_keeps [OF assms(1), where Q = "\<lambda>v. \<not> enableHTTP2 v \<and> secureMetrics v"])
    show "\<not> enableHTTP2 (flag_defaults z) \<and> secureMetrics (flag_defaults z)"
      by (simp add: flag_defaults_def)
    show "\<not> enableHTTP2 d' \<and> secureMetrics d'"
      if "s \<in> set args" "named n s" and f: "CommandLine extra n = Some f" "Set f x d = Some d'"
        and "\<not> enableHTTP2 d \<and> secureMetrics d" for n s f x d d'
    proof -
      have "n \<noteq> ''enable-http2''" "n \<noteq> ''metrics-secure''"
        using that(1,2) assms(2) by (auto simp: list_all_iff)
      with f that(5) show ?thesis
        by (auto simp: CommandLine_def main_flag_table_def lift_flag_def StringVar_def BoolVar_def
            split: if_splits option.splits)
    qed
  qed
  then show ?thesis
    by (simp add: managerOptions_def metricsServerOptions_def main_tlsOpts_def disableHTTP2_def Let_def)
qed

theorem metrics_hardened_witness:
  "\<exists>v. parse (CommandLine Map.empty) (flag_defaults ()) [''--metrics-bind-address=:8443'', ''-leader-elect''] =
       Parsed v [] \<and>
     metricsAddr v = '':8443'' \<and> enableLeaderElection v \<and>
     NextProtos (fold id (TLSOpts (mo_Metrics (managerOptions () v))) \<lparr>NextProtos = [''h2'']\<rparr>) = [''http/1.1'']"
proof -
  let ?args = "[''--metrics-bind-address=:8443'', ''-leader-elect'']"
  let ?v = "(flag_defaults ())\<lparr>metricsAddr := '':8443'', enableLeaderElection := True\<rparr>"
  have p: "parse (CommandLine Map.empty) (flag_defaults ()) ?args = Parsed ?v []"
    by (simp add: parse.simps CommandLine_def main_flag_table_def is_flag_def undashed_def cut_def
        bad_syntax_def set_flag_def StringVar_def BoolVar_def ParseBool_def)
  have "list_all (\<lambda>s. \<not> named ''enable-http2'' s \<and> \<not> named ''metrics-secure'' s) ?args"
    by (simp add: named_def undashed_def cut_def)
  from metrics_hardened [where scheme = "()" and cfg = "\<lparr>NextProtos = [''h2'']\<rparr>", OF p this] p
  show ?thesis by auto
qed

subsection \<open>The order of the start\<close>

text \<open>The start with every call recorded, together with whether it succeeded.\<close>

datatype start_step =
  Config | Create | SetupMachine | SetupCluster | Healthz | Readyz | Run

definition start_steps :: "start_step list" where
  "start_steps = [Config, Create, SetupMachine, SetupCluster, Healthz, Readyz, Run]"

definition recorded ::
    "start_step \<Rightarrow> ('a \<Rightarrow> bool) \<Rightarrow> ('w, 'a) io \<Rightarrow> ('w \<times> (start_step \<times> bool) list, 'a) io" where
  "recorded s ok m = State (\<lambda>(w, tr).
     (fst (run_state m w), (snd (run_state m w), tr @ [(s, ok (fst (run_state m w)))])))"

definition record_startup ::
    "('w, 'c, 'm) startup \<Rightarrow> ('w \<times> (start_step \<times> bool) list, 'c, 'm) startup" where
  "record_startup S =
     \<lparr>su_GetConfigOrDie = recorded Config (\<lambda>r. r \<noteq> None) (su_GetConfigOrDie S),
      su_NewManager = (\<lambda>c. recorded Create (\<lambda>r. \<not> isl r) (su_NewManager S c)),
      su_SetupMachine = (\<lambda>m. recorded SetupMachine (\<lambda>r. r = None) (su_SetupMachine S m)),
      su_SetupCluster = (\<lambda>m. recorded SetupCluster (\<lambda>r. r = None) (su_SetupCluster S m)),
      su_AddHealthzCheck = (\<lambda>m. recorded Healthz (\<lambda>r. r = None) (su_AddHealthzCheck S m)),
      su_AddReadyzCheck = (\<lambda>m. recorded Readyz (\<lambda>r. r = None) (su_AddReadyzCheck S m)),
      su_Start = (\<lambda>m. recorded Run (\<lambda>r. r = None) (su_Start S m))\<rparr>"

text \<open>A start that went as far as the step \<open>n\<close>, which failed.\<close>

definition failed_at :: "nat \<Rightarrow> (start_step \<times> bool) list" where
  "failed_at n = map (\<lambda>s. (s, True)) (take n start_steps) @ [(start_steps ! n, False)]"

lemma wp_recorded [wp_eqs]:
  "wp (recorded s ok m) Q wt =
     wp m (\<lambda>a w'. Q a (w', snd wt @ [(s, ok a)])) (fst wt)"
  by (simp add: wp_def recorded_def split: prod.split)

lemma wp_True: "(\<And>a w'. Q a w') \<Longrightarrow> wp m Q w"
  by (simp add: wp_def)

definition start_outcome :: "nat \<Rightarrow> (start_step \<times> bool) list \<Rightarrow> bool" where
  "start_outcome code tr \<longleftrightarrow>
     (if code = 0 then tr = map (\<lambda>s. (s, True)) start_steps
      else code = 1 \<and> list_ex (\<lambda>n. tr = failed_at n) [0..<length start_steps])"

text \<open>C17: The start is a fixed sequence of steps that ends at the first one that fails: the exit code is 0 exactly
  when the manager was created, both controllers and both health checks were set up and the manager then ran to
  its end without error, and otherwise 1, with no step after the failed one.\<close>

theorem start_in_order:
  assumes "run_state (start_manager (record_startup S)) (w, []) = (code, (w', tr))"
  shows "start_outcome code tr"
proof -
  have "wp (start_manager (record_startup S)) (\<lambda>code wt. start_outcome code (snd wt)) (w, [])"
    unfolding start_manager_def record_startup_def
    by (auto simp: wp_eqs start_outcome_def start_steps_def failed_at_def upt_rec
        intro!: wp_True split: option.split sum.split)
  from wp_run [OF this assms] show ?thesis by simp
qed

definition sample_startup :: "(unit, unit, unit) startup" where
  "sample_startup =
     \<lparr>su_GetConfigOrDie = return (Some ()), su_NewManager = (\<lambda>_. return (Inr ())),
      su_SetupMachine = (\<lambda>_. return None), su_SetupCluster = (\<lambda>_. return (Some (New ''no kind''))),
      su_AddHealthzCheck = (\<lambda>_. return None), su_AddReadyzCheck = (\<lambda>_. return None),
      su_Start = (\<lambda>_. return None)\<rparr>"

theorem start_in_order_witness:
  "start_outcome 1 [(Config, True), (Create, True), (SetupMachine, True), (SetupCluster, False)]"
proof (rule start_in_order [of sample_startup "()" _ "()"])
  show "run_state (start_manager (record_startup sample_startup)) ((), []) =
      (1, ((), [(Config, True), (Create, True), (SetupMachine, True), (SetupCluster, False)]))"
    by (simp add: start_manager_def record_startup_def sample_startup_def recorded_def)
qed

subsection \<open>The registered types\<close>

text \<open>C18: When the package initialization ends without a panic, the scheme the manager is created with recognizes every type
  that one of the two controllers reconciles, watches or reads, so no informer and no read fails for an
  unknown kind.\<close>

theorem types_registered:
  assumes "scheme_ok A recognizes" and "main_init A = Some scheme"
  shows "list_all (recognizes (mo_Scheme (managerOptions scheme v)))
    (table_types (machine_table P L s f r) @ table_types (cluster_table P L s q) @
     machine_reads @ cluster_reads)"
  using main_init_adds [OF assms] controller_types [of P L s f r q]
  by (auto simp: adds_def list_all_iff managerOptions_def)

definition sample_scheme_api :: "go_type list scheme_api" where
  "sample_scheme_api =
     \<lparr>NewScheme = [], AddKnownTypes = (\<lambda>gv ts s. if list_ex (\<lambda>t. t \<in> set s) ts then None else Some (s @ ts)),
      AddToGroupVersion = (\<lambda>gv s. Some s),
      builder_AddToScheme = (\<lambda>fs s. case fs of [f] \<Rightarrow> f s | _ \<Rightarrow> Some (Inr s)),
      clientgoscheme_AddToScheme = (\<lambda>s. Some (Inr (s @ [T_Secret]))),
      clusterv1_AddToScheme = (\<lambda>s. Some (Inr (s @ [T_Machine, T_Cluster])))\<rparr>"

definition sample_lib :: "(unit, go_type list, unit) controller_lib" where
  "sample_lib =
     \<lparr>ClusterToTypedObjectsMapper = (\<lambda>t s. return (Inr (\<lambda>_. return []))),
      MachineToInfrastructureMapFunc = (\<lambda>gvk _. return []),
      ClusterToInfrastructureMapFunc = (\<lambda>gvk t _. return []),
      ClusterPausedTransitions = (\<lambda>s. ()), Complete = (\<lambda>t. return None)\<rparr>"

abbreviation (input) sample_types :: "go_type list" where
  "sample_types \<equiv> T_Secret # T_Machine # T_Cluster # objectTypes"

theorem types_registered_witness:
  "list_all (\<lambda>t. t \<in> set sample_types)
    (table_types (machine_table sample_pkgs sample_lib sample_types (\<lambda>_. return [])
       (sample_omr False None bootstrapping (Inl not_found))) @
     table_types (cluster_table sample_pkgs sample_lib sample_types (sample_ocr False None new_cluster [] (Inl not_found))) @
     machine_reads @ cluster_reads)"
proof -
  have ok: "scheme_ok sample_scheme_api (\<lambda>s t. t \<in> set s)"
    by (simp add: scheme_ok_def sample_scheme_api_def adds_def)
  have "main_init sample_scheme_api = Some sample_types"
    by (simp add: main_init_def sample_scheme_api_def AddToScheme_def SchemeBuilder_def addKnownTypes_def
        Must_def objectTypes_eq)
  from types_registered [OF ok this, of "flag_defaults ()"] show ?thesis
    by (simp add: managerOptions_def)
qed

end
