(* ===== verification/Conditions.thy ===== *)
theory Conditions
  imports MachineClaims ClusterProps
begin

text \<open>
  The API server validates every condition it stores. Of the fields the code sets, type and status are constants; the
  reason has between 1 and 1024 characters, starts with a letter, goes on with letters, digits, underscores, commas
  and colons and does not end in one of the last two. A machine's reasons are built from the names of Oxide's instance
  states, so a write with an unexpected name would be refused whole, finalizer included. A cluster's reasons are
  constants.
\<close>

definition letter :: "char \<Rightarrow> bool" where
  "letter c \<longleftrightarrow> (let n = (of_char c :: nat) in 65 \<le> n \<and> n \<le> 90 \<or> 97 \<le> n \<and> n \<le> 122)"

definition word_char :: "char \<Rightarrow> bool" where
  "word_char c \<longleftrightarrow> letter c \<or> (let n = (of_char c :: nat) in 48 \<le> n \<and> n \<le> 57) \<or> c = CHR ''_''"

definition valid_reason :: "string \<Rightarrow> bool" where
  "valid_reason s \<longleftrightarrow> s \<noteq> [] \<and> length s \<le> 1024 \<and> letter (hd s) \<and> word_char (last s) \<and>
     list_all (\<lambda>c. word_char c \<or> c = CHR '','' \<or> c = CHR '':'') s"

text \<open>A word, such as \<open>running\<close>, short enough for a reason.\<close>

definition state_word :: "string \<Rightarrow> bool" where
  "state_word s \<longleftrightarrow> length s \<le> 1016 \<and> list_all word_char s"

text \<open>The states a call of a machine reconcile answered.\<close>

fun answered_state :: "event \<Rightarrow> InstanceState option" where
  "answered_state (EvInstanceCreate _ (Inr i)) = Some (RunState i)"
| "answered_state (EvInstanceView _ (Inr i)) = Some (RunState i)"
| "answered_state (EvInstanceStart _ (Inr i)) = Some (RunState i)"
| "answered_state (EvInstanceStop _ (Inr i)) = Some (RunState i)"
| "answered_state _ = None"

definition answers_words :: "pkgs \<Rightarrow> event list \<Rightarrow> bool" where
  "answers_words P evs \<longleftrightarrow>
     list_all (\<lambda>s. state_word (InstanceState_string P s)) (List.map_filter answered_state evs)"

lemma answers_wordsD:
  "answers_words P evs \<Longrightarrow> ev \<in> set evs \<Longrightarrow> answered_state ev = Some s \<Longrightarrow> state_word (InstanceState_string P s)"
  by (induction evs) (auto simp: answers_words_def List.map_filter_simps split: option.splits)

lemma answers_words_append [simp]:
  "answers_words P (xs @ ys) \<longleftrightarrow> answers_words P xs \<and> answers_words P ys"
  by (simp add: answers_words_def List.map_filter_def)

lemma answers_words_Cons [simp]:
  "answers_words P (ev # evs) \<longleftrightarrow>
     (case answered_state ev of None \<Rightarrow> True | Some s \<Rightarrow> state_word (InstanceState_string P s)) \<and> answers_words P evs"
  by (simp add: answers_words_def List.map_filter_simps split: option.split)

lemma answers_words_Nil [simp]: "answers_words P []"
  by (simp add: answers_words_def)

definition reasons_valid :: "Condition list \<Rightarrow> bool" where
  "reasons_valid cs \<longleftrightarrow> (\<forall>t c. find_cond cs t = Some c \<longrightarrow> valid_reason (CondReason c))"

lemma constant_reasons [simp]:
  "valid_reason ReasonInstanceDeleted" "valid_reason ReasonInstanceUnknown"
  "valid_reason WaitingForBootstrapDataReason" "valid_reason ReasonFloatingIPProvisioned"
  "valid_reason ReasonFloatingIPAttached" "valid_reason ReasonWaitingForControlPlaneMachine"
  by (simp_all add: ReasonInstanceDeleted_def ReasonInstanceUnknown_def WaitingForBootstrapDataReason_def
      ReasonFloatingIPProvisioned_def ReasonFloatingIPAttached_def ReasonWaitingForControlPlaneMachine_def
      valid_reason_def word_char_def letter_def)

lemma word_char_upper:
  assumes "word_char c"
  shows "ToUpper1 c = [upper_char c] \<and> word_char (upper_char c)"
  using assms
  by (auto simp: word_char_def letter_def ToUpper1_def is_ascii_def upper_char_def Let_def)

lemma getReadyReason_valid:
  assumes "\<And>i. inst = Some i \<Longrightarrow> state_word (InstanceState_string P (RunState i))"
  shows "valid_reason (getReadyReason P inst)"
proof (cases inst)
  case (Some i)
  let ?s = "InstanceState_string P (RunState i)"
  have s: "length ?s \<le> 1016" "list_all word_char ?s"
    using assms [OF Some] by (simp_all add: state_word_def)
  show ?thesis
  proof (cases ?s)
    case (Cons c cs)
    then have up: "ToUpper1 c = [upper_char c]" "word_char (upper_char c)" and cs: "list_all word_char cs"
      using s word_char_upper [of c] by simp_all
    have "word_char (last (upper_char c # cs))" using up cs by (cases cs) (auto simp: list_all_iff)
    moreover have "getReadyReason P inst = ''Instance'' @ upper_char c # cs"
      by (simp add: getReadyReason_def Some Cons up)
    ultimately show ?thesis using up cs s(1) Cons
      by (auto simp: valid_reason_def list_all_iff word_char_def letter_def)
  qed (simp add: getReadyReason_def Some)
qed simp

subsection \<open>What the reconcilers write\<close>

lemma reasons_valid_Set:
  assumes "pkgs_ok P"
  shows "reasons_valid (om_GetConditions m) \<Longrightarrow> valid_reason (CondReason c) \<Longrightarrow>
      reasons_valid (om_GetConditions (om_conditions_Set P c m))"
    and "reasons_valid (oc_GetConditions oc) \<Longrightarrow> valid_reason (CondReason c) \<Longrightarrow>
      reasons_valid (oc_GetConditions (oc_conditions_Set P c oc))"
  by (simp_all add: reasons_valid_def find_om_conditions_Set [OF assms] find_oc_conditions_Set [OF assms])

lemma handle_delete_valid:
  assumes "pkgs_ok P" and "handle_delete_log P m ip dp (r, m') evs" and "answers_words P evs"
    and "reasons_valid (om_GetConditions m)"
  shows "reasons_valid (om_GetConditions m')"
proof -
  have word: "state_word (InstanceState_string P (RunState i))"
    if "instance_deletion_log ip (Inr (False, Some i)) es" "answers_words P es" for i es
    using that answers_wordsD [OF that(2)] by (fastforce simp: instance_deletion_log_def)
  have "valid_reason (getReadyReason P inst)"
    if "instance_deletion_log ip (Inr (False, inst)) es" "answers_words P es" for inst es
    by (rule getReadyReason_valid) (use that word in blast)
  with assms(2) show ?thesis
    by cases (use assms(3,4) in \<open>auto intro!: reasons_valid_Set(1) [OF assms(1)]\<close>)
qed

lemma ensure_instance_valid:
  assumes "pkgs_ok P" and "ensure_instance_log P m machine oc (r, m') evs"
    and "reasons_valid (om_GetConditions m)"
  shows "reasons_valid (om_GetConditions m')"
  using assms(2,3) by cases (auto intro!: reasons_valid_Set(1) [OF assms(1)])

lemma ensure_instance_word:
  assumes "ensure_instance_log P m machine oc (Inr (Some inst), m') evs" and "answers_words P evs"
  shows "valid_reason (getReadyReason P (Some inst))"
  by (rule getReadyReason_valid) (use assms in \<open>auto elim!: ensure_instance_log.cases\<close>)

lemma machine_log_valid:
  assumes "pkgs_ok P" and "machine_log P m machine oc (r, m') evs" and "answers_words P evs"
    and "reasons_valid (om_GetConditions m)"
  shows "reasons_valid (om_GetConditions m')"
  using assms(2)
proof cases
  case deleting
  then show ?thesis using handle_delete_valid [OF assms(1)] assms(3,4) by blast
next
  case (running inst m1 evs' es)
  have "reasons_valid (om_GetConditions m1)"
    using ensure_instance_valid [OF assms(1) running(3)] assms(4) by simp
  moreover have "valid_reason (getReadyReason P (Some inst))"
    using ensure_instance_word [OF running(3)] running(1) assms(3) by simp
  ultimately show ?thesis
    unfolding addresses_keeps(1) [OF running(5)] by (auto intro!: reasons_valid_Set(1) [OF assms(1)])
next
  case (starting inst m1 evs' inst')
  have "reasons_valid (om_GetConditions m1)"
    using ensure_instance_valid [OF assms(1) starting(5)] assms(4) by simp
  moreover have "valid_reason (getReadyReason P (Some inst'))"
    by (rule getReadyReason_valid) (use assms(3) starting in simp)
  ultimately show ?thesis using starting by (auto intro!: reasons_valid_Set(1) [OF assms(1)])
next
  case (pending inst m1)
  have "reasons_valid (om_GetConditions m1)"
    using ensure_instance_valid [OF assms(1) pending(4)] assms(4) by simp
  with ensure_instance_word [OF pending(4) assms(3)] pending show ?thesis
    by (auto intro!: reasons_valid_Set(1) [OF assms(1)])
qed (use assms(4) in \<open>auto dest!: ensure_instance_valid [OF assms(1)]\<close>)

text \<open>A cluster's reasons need nothing of the answers.\<close>

lemma provisioned_reasons_valid:
  assumes "pkgs_ok P" and "reasons_valid (oc_GetConditions oc)"
  shows "reasons_valid (oc_GetConditions (provisioned_cluster P ip oc))"
  using assms by (auto simp: reasons_valid_def provisioned_cluster_conditions split: if_splits)

lemma cluster_reasons_valid:
  assumes "pkgs_ok P" and "cluster_run P r req w res evs"
    and "EvSnapshotCluster oc ok \<in> set evs" and "EvPatchCluster oc' a \<in> set evs"
    and "reasons_valid (oc_GetConditions oc)"
  shows "reasons_valid (oc_GetConditions oc')"
proof (rule cluster_run_written [OF assms(2-4)])
  fix cluster retErr ox
  assume body: "cluster_body_log P cluster oc (retErr, oc') ox"
  have attached: "reasons_valid (oc_GetConditions oc2)"
    if "attachment_log P ms oc1 ip (e, oc2) es" "reasons_valid (oc_GetConditions oc1)" for ms oc1 ip e oc2 es
    using attachment_log_writes [OF that(1)] that(2)
    by (auto simp: attached_condition_def intro!: reasons_valid_Set(2) [OF assms(1)])
  have "reasons_valid (oc_GetConditions oc2)"
    if "listed_attachment_log P oc1 ip (e, oc2) es" "reasons_valid (oc_GetConditions oc1)" for oc1 ip e oc2 es
    using that(1) by cases (use that(2) attached in blast)+
  with body show ?thesis
    by (auto elim!: cluster_body_log.cases cluster_log.cases simp: assms(5) provisioned_reasons_valid [OF assms(1)])
qed

text \<open>C19: Reasons stay well-formed: when a reconcile read a machine whose conditions have reasons the API server
  accepts, and every instance state Oxide answered in it is a word of at most 1016 letters, digits and underscores,
  then so do the conditions it writes, on every way through the reconcile, those that end in an error included.\<close>

theorem machine_reasons_valid:
  assumes "pkgs_ok P" and "machine_run P r req w res evs"
    and "EvSnapshotMachine m ok \<in> set evs" and "EvPatchMachine m' a \<in> set evs"
    and "answers_words P evs" and "reasons_valid (om_GetConditions m)"
  shows "reasons_valid (om_GetConditions m')"
proof (rule machine_run_written [OF assms(2-4)])
  fix machine body ox
  assume "machine_body_log P m machine (body, m') ox"
    and "evs = EvSnapshotMachine m True # ox @ [EvPatchMachine m' a]"
  then show ?thesis
    by cases (use assms(5,6) in \<open>auto intro: machine_log_valid [OF assms(1)]\<close>)
qed

text \<open>The stop of a running instance: the reason is built from a state that has no constant in the SDK.\<close>

theorem machine_reasons_valid_witness:
  "reasons_valid (om_GetConditions (deleting_ready sample_pkgs (Some stopping_instance) doomed))"
proof (rule machine_reasons_valid [OF sample_pkgs_ok stop_machine_run sample_logs_snapshot(2) sample_logs_patch(2)])
  have "om_GetConditions doomed = []" by (simp add: doomed_def)
  then show "reasons_valid (om_GetConditions doomed)" by (simp add: reasons_valid_def find_cond_def)
  show "answers_words sample_pkgs stop_log"
    by (simp add: stop_log_def stopping_instance_def sample_pkgs_def state_word_def word_char_def letter_def)
qed

end
