(* ===== verification/Spec2Isabelle.thy ===== *)
theory Spec2Isabelle
  imports MachineClaims ClusterClaims HelperClaims Progress ClusterProgress LifecycleClaims System DeepCopyClaims ManagerClaims Conditions
begin

text \<open>
  The Cluster API provider for Oxide: two Kubernetes controllers that keep Oxide resources in step with
  \<open>OxideMachine\<close> and \<open>OxideCluster\<close> objects. The machine controller creates, starts and deletes one
  instance with its disks per machine; the cluster controller keeps one floating IP per cluster, as
  the endpoint of the control plane, attached to one of the cluster's machines. They meet in the
  machine object: the provider ID that the first writes is what the second parses to find the
  instance to attach to. One program runs both: it reads its flags, registers its types and starts them.

  Theories, in the order of their imports. \<open>Prelude\<close>: effectful computations (a state monad over the
  world outside the controllers) and weakest preconditions. \<open>GoError\<close>: Go's errors, wrapping,
  joining and \<open>errors.Is\<close>. \<open>GoStd\<close>: the functions of Go's standard library the code uses
  (strings, FNV-1a on 32-bit words, number printing, base64). \<open>ApiTypes\<close>: the objects
  (\<open>api/v1alpha1\<close>) as records, with the assignments the code makes as named setters. \<open>OxideApi\<close>:
  the interface \<open>OxideClient\<close> of \<open>internal/cloud/oxide.go\<close>, logging of calls, and \<open>emits\<close>, the calculus
  that relates a computation's result to the calls it made. \<open>Packages\<close>: third-party pure functions, as
  parameters. \<open>ProviderId\<close>: \<open>internal/cloud/provider.go\<close>. \<open>Naming\<close>: \<open>internal/controller/naming.go\<close>.
  \<open>K8s\<close>: the Kubernetes calls, as parameters, and the reconcilers' structs. \<open>ClientFactory\<close>: the
  construction of Oxide clients. \<open>MachineBuilders\<close> and \<open>MachineController\<close>:
  \<open>oxidemachine_controller.go\<close>. \<open>ClusterController\<close>: \<open>oxidecluster_controller.go\<close>.
  \<open>Sample\<close>: a concrete environment in which whole reconciles evaluate.
  \<open>MachineProps\<close> and \<open>ClusterProps\<close>: what a run of a reconcile can read, call and write. \<open>Creation\<close>: where the
  parameters of a creation come from.
  \<open>MachineClaims\<close>, \<open>ClusterClaims\<close>, \<open>HelperClaims\<close>, \<open>Conditions\<close>: the properties of single reconciles and of the
  helpers, with their instances. \<open>Progress\<close>: termination of deletion and bring-up over repeated reconciles. \<open>ClusterProgress\<close>: the
  floating IP settles and stays.
  \<open>Lifecycle\<close>, \<open>Ownership\<close> and \<open>LifecycleClaims\<close>: one machine or cluster over any history. \<open>System\<close>: both controllers,
  interleaved. \<open>GoHeap\<close>: Go's memory and the contract of a deep copy. \<open>DeepCopy\<close>, \<open>DeepCopyProps\<close>
  and \<open>DeepCopyClaims\<close>: \<open>api/v1alpha1/zz_generated.deepcopy.go\<close>. \<open>Scheme\<close>:
  \<open>api/v1alpha1/groupversion_info.go\<close> and the \<open>init\<close> functions. \<open>Wiring\<close>: \<open>SetupWithManager\<close> of both
  controllers. \<open>GoFlag\<close>: Go's package \<open>flag\<close>. \<open>ManagerMain\<close> and \<open>ManagerClaims\<close>: \<open>cmd/main.go\<close>.

  How the code is modelled. A method that writes to the object behind its pointer returns the
  object, on error paths too, since the deferred patch persists what was written before the error.
  Errors are values with the causes they wrap. The clients are records of arbitrary operations
  over an arbitrary world, so a statement about every run is one about every behaviour of
  the APIs, failures and interference of others included. A Go slice expression that would panic is
  \<^term>\<open>None\<close>. A call that returns a nil error is taken to return a non-nil result, as the SDK
  documents. \<open>Reconcile\<close> is cut where it acquires the patch helper and the client. The reconcilers' model passes objects as
  values; that this is right is what the deep copies are for: they are modelled on a heap of typed blocks, with pointers and
  slices, and proved to give the same value in new memory; nil and empty slices have the same value. The program's start is a function from the command line to an
  exit code.

  What the properties say. Safety of a single reconcile: when finalizers go, which calls are made
  after which answers, which machine gets the floating IP, what is written. The methods have
  inductive relations between their results and their calls, one rule for each way through the
  method, and the properties follow by cases. Progress: with the promises of the Oxide API as
  explicit hypotheses, a rank on the state of the cloud bounds the number of rounds: from a rank below n, n rounds are
  enough. Time ends the transitional states only, which are a parameter; that a run meets no failed instance, and no
  disk that only an operator can free, is a hypothesis about the run. A concrete cloud shows that the promises can
  be kept.
  Histories: inductive relations of an object's life and of the two controllers' interleaving, with invariants by
  rule induction; an object's history reads the stored object, with edits by others and reconciles that are cut off
  between two calls as steps of their own, and one locale carries its invariant for both kinds; the interleaving lets
  every reconcile read any version there has been. Functions: names, provider IDs, requests, addresses, flags. Copies: same value, no
  sharing. Some properties state behaviour the authors may not have meant: data
  disks outlive their machine, names collide across namespaces and keep dots that Oxide does not take, a failed write hides the
  reconcile's error in the machine controller, a failed attachment leaves the condition stale, and an instance is left behind when
  the write after its creation fails or the cluster's project is changed.

  Not modelled: logging, metrics and the mock of the Oxide client, which is generated for the tests. The Oxide SDK, apimachinery,
  controller-runtime and Cluster API are parameters.

  To come: the progress of both controllers together, with machines that come and go between reconciles.
\<close>

text \<open>C23: The hand-over between the two controllers: when a reconcile has brought up a new machine without
  error and the instance IDs the API answered are UUIDs, the machine as written is eligible for the floating IP,
  and a cluster that lists it after machines that are not takes its instance as the target.\<close>

theorem provisioned_machine_becomes_target:
  assumes "pkgs_ok P" and "machine_run P r req w (Result_empty, None) evs"
    and "EvSnapshotMachine m ok \<in> set evs" and "EvPatchMachine m' a \<in> set evs"
    and "IsZero (DeletionTimestamp (om_Meta m))" and "ProviderID (om_Spec m) = []"
    and "ProviderID (om_Spec m') \<noteq> []"
    and "\<forall>ev \<in> set evs. \<forall>inst. instance_answer ev = Some inst \<longrightarrow> valid_id P (InstanceId inst)"
    and "list_all (\<lambda>x. \<not> eligible x) before"
  shows "eligible m' \<and>
    (\<exists>ev inst. ev \<in> set evs \<and> instance_answer ev = Some inst \<and>
       target_loop P [] (before @ m' # after) = Inr (InstanceId inst, map skip_reason before))"
proof (rule machine_run_written [OF assms(2-4)])
  fix machine body ox
  assume body: "machine_body_log P m machine (body, m') ox"
    and evs: "evs = EvSnapshotMachine m True # ox @ [EvPatchMachine m' a]"
    and "(Result_empty, None) = machine_deferred body a"
  then have r: "body = Inr Result_empty"
    by (auto simp: machine_deferred_def split: sum.splits option.splits)
  from body obtain oc where log: "machine_log P m machine oc (Inr Result_empty, m') ox"
    unfolding r by cases auto
  from machine_log_settled [OF assms(1) log] have "MachineProvisioned (MachineInitialization (om_Status m')) = Some True"
    by cases (use assms(5,7) in auto)
  moreover have "DeletionTimestamp (om_Meta m') = DeletionTimestamp (om_Meta m)"
    using machine_body_log_frame [OF body] by (auto simp: machine_frame_def)
  ultimately have eligible: "eligible m'" using assms(5,7) by (simp add: eligible_def)
  from machine_log_provider [OF log] obtain ev inst where ev: "ev \<in> set ox" "instance_answer ev = Some inst"
    "ProviderID (om_Spec m') = NewProviderID (InstanceId inst)"
    using assms(6,7) by auto
  have "valid_id P (InstanceId inst)" using assms(8) ev(1,2) by (simp add: evs)
  then have "InstanceIDFromProviderID P (ProviderID (om_Spec m')) = Inr (InstanceId inst)"
    unfolding ev(3) by (rule provider_ids.dec_enc)
  moreover have "List.find eligible (before @ m' # after) = Some m'"
    using assms(9) eligible by (induction "before") auto
  moreover have "takeWhile (\<lambda>x. \<not> eligible x) (before @ m' # after) = before"
    using assms(9) eligible by (induction "before") auto
  ultimately have "target_loop P [] (before @ m' # after) = Inr (InstanceId inst, map skip_reason before)"
    by (simp add: target_loop_eq)
  with eligible ev evs show ?thesis by auto
qed

theorem provisioned_machine_becomes_target_witness:
  "eligible bootstrapped \<and>
     (\<exists>ev inst. ev \<in> set (bootstrap_log None) \<and> instance_answer ev = Some inst \<and>
       target_loop sample_pkgs [] (leaving_node # [bootstrapped]) =
         Inr (InstanceId inst, [''cp-9: being deleted'']))"
proof -
  have run: "machine_run sample_pkgs (sample_omr False None bootstrapping (Inl not_found)) sample_key ()
      (Result_empty, None) (bootstrap_log None)"
    using bootstrap_machine_run [of None] by (simp add: machine_deferred_def)
  have ids: "\<forall>ev \<in> set (bootstrap_log None). \<forall>inst. instance_answer ev = Some inst \<longrightarrow>
      valid_id sample_pkgs (InstanceId inst)"
    by (auto simp: bootstrap_log_def valid_id_def)
  have skip: "map skip_reason [leaving_node] = [''cp-9: being deleted'']"
    by (simp add: skip_reason_def) (simp add: leaving_node_def)
  show ?thesis
    using provisioned_machine_becomes_target [where before = "[leaving_node]" and after = "[]",
        OF sample_pkgs_ok run sample_logs_snapshot(3) sample_logs_patch(3) _ _ _ ids] skip
    by (simp add: eligible_def del: target_loop.simps)
qed

text \<open>C3: The floating IP is only ever attached to an instance whose identifier Oxide answered to the machine
  controller earlier, and after an instance answered as running, over every interleaving of the two
  controllers' reconciles with edits of the machines and however stale the objects they read are.\<close>

theorem attached_was_answered:
  assumes "pkgs_ok P" and "system P rms rcs V log" and "log = xs @ EvFloatingIpAttach p a # ys"
  shows "answered xs (AttachParent p) \<and> answered_running xs"
  using system_backed [OF assms(1,2)] assms(3) by (simp add: attached_backed_def)

text \<open>A machine is created, brought up and listed by the cluster controller in a later version.\<close>

theorem attached_was_answered_witness:
  "answered (bootstrap_log None @ take 4 (attach_log None)) ''i-1'' \<and>
     answered_running (bootstrap_log None @ take 4 (attach_log None))"
proof -
  let ?rms = "{sample_omr False None bootstrapping (Inl not_found)}"
    and ?rcs = "{sample_ocr False None new_cluster [node] (Inl not_found)}"
  have "system sample_pkgs ?rms ?rcs {bootstrapping} []"
    by (rule system.created [OF system.start]) (simp add: unclaimed_def)
  then have "system sample_pkgs ?rms ?rcs ({bootstrapping} \<union> versions (bootstrap_log None)) ([] @ bootstrap_log None)"
    by (rule system.machine_reconciled [OF _ singletonI bootstrap_machine_run [of None]])
      (simp add: bootstrap_log_def)
  moreover have "bootstrapped \<in> versions (bootstrap_log None)"
    using sample_logs_patch(3) by (auto simp: versions_def)
  moreover have "own_fields node = own_fields bootstrapped"
    by (simp add: own_fields_def node_def bootstrapped_def sample_machine_def)
  ultimately have "system sample_pkgs ?rms ?rcs
      (insert node ({bootstrapping} \<union> versions (bootstrap_log None))) ([] @ bootstrap_log None)"
    by (intro system.edited) auto
  then have "system sample_pkgs ?rms ?rcs
      (insert node ({bootstrapping} \<union> versions (bootstrap_log None))) (([] @ bootstrap_log None) @ attach_log None)"
    by (rule system.cluster_reconciled [OF _ singletonI attach_cluster_run [of None]])
      (simp add: attach_log_def)
  moreover have "([] @ bootstrap_log None) @ attach_log None =
      (bootstrap_log None @ take 4 (attach_log None)) @
        EvFloatingIpAttach (attach_params ''f-1'' ''i-1'') (Inr (sample_ip ''i-1'')) # drop 5 (attach_log None)"
    by (simp add: attach_log_def)
  ultimately show ?thesis
    using attached_was_answered [OF sample_pkgs_ok] by fastforce
qed

end
